(* ===== verification/Prelude.thy ===== *)
theory Prelude
  imports Main
begin

text \<open>
  Shared ground of the development: the ways a C++ statement can end other than normally, the sum type of
  results and its sequencing, typed heap cells and the three things the code does to them (read a
  field, write a field, free), and the simulation interface through which a component's operations
  are compared with an abstract machine.  The collection \<open>cstmt\<close> holds the rewrite
  rules that execute one statement on a heap whose relevant cells are known.
\<close>

named_theorems cstmt "rewriting rules that execute one C statement"

section \<open>Results and faults\<close>

text \<open>
  \<open>Assertion\<close> is a failed \<open>assert\<close> (the build never defines NDEBUG, so an assertion
  aborts the process); the others are undefined behaviour: access through a null pointer, access
  to memory that is not (or no longer) allocated, \<open>free\<close> of such memory, and access beyond
  the bounds of a buffer.  Three more ways a statement may never reach the next one: \<open>Aborted\<close> is a
  call of \<open>abort()\<close>, \<open>Replaced\<close> an \<open>exec\<close> that succeeded, \<open>NoReturn\<close> a loop that does not end.
\<close>

datatype fault = Assertion | NullDeref | Dangling | BadFree | OutOfBounds | Aborted | Replaced | NoReturn

type_synonym addr = nat

type_synonym 'a res = "fault + 'a"

definition bnd :: "'a res \<Rightarrow> ('a \<Rightarrow> 'b res) \<Rightarrow> 'b res" where
  "bnd m f = (case m of Inl e \<Rightarrow> Inl e | Inr x \<Rightarrow> f x)"

definition asserting :: "bool \<Rightarrow> 'a res \<Rightarrow> 'a res" where
  "asserting b m = (if b then m else Inl Assertion)"

lemma bnd_Inr [simp]: "bnd (Inr x) f = f x"
  by (simp add: bnd_def)

lemma bnd_Inl [simp]: "bnd (Inl e) f = Inl e"
  by (simp add: bnd_def)

lemma bnd_eq_Inr: "bnd m f = Inr y \<longleftrightarrow> (\<exists>x. m = Inr x \<and> f x = Inr y)"
  by (cases m) auto

lemma bnd_eq_Inl: "bnd m f = Inl e \<longleftrightarrow> m = Inl e \<or> (\<exists>x. m = Inr x \<and> f x = Inl e)"
  by (cases m) auto

lemma asserting_True [simp]: "asserting True m = m"
  by (simp add: asserting_def)

lemma asserting_False [simp]: "asserting False m = Inl Assertion"
  by (simp add: asserting_def)

lemma asserting_eq_Inr: "asserting b m = Inr y \<longleftrightarrow> b \<and> m = Inr y"
  by (simp add: asserting_def)

definition is_fault :: "'a res \<Rightarrow> bool" where
  "is_fault m = (case m of Inl _ \<Rightarrow> True | Inr _ \<Rightarrow> False)"

lemma is_fault_simps [simp]: "is_fault (Inl e)" "\<not> is_fault (Inr x)"
  by (simp_all add: is_fault_def)

lemma is_fault_iff: "is_fault m \<longleftrightarrow> (\<exists>e. m = Inl e)"
  by (cases m) auto

lemma is_fault_bnd: "is_fault (bnd m f) \<longleftrightarrow> is_fault m \<or> (\<exists>x. m = Inr x \<and> is_fault (f x))"
  by (cases m) auto

text \<open>\<open>yields m Q\<close>: the statement ends normally, with a result that satisfies \<open>Q\<close>.\<close>

definition yields :: "'a res \<Rightarrow> ('a \<Rightarrow> bool) \<Rightarrow> bool" where
  "yields m Q \<longleftrightarrow> (\<exists>x. m = Inr x \<and> Q x)"

lemma yields_Inr [simp]: "yields (Inr x) Q \<longleftrightarrow> Q x"
  by (simp add: yields_def)

lemma yields_Inl [simp]: "\<not> yields (Inl e) Q"
  by (simp add: yields_def)

lemma yields_bnd: "yields (bnd m f) Q \<longleftrightarrow> yields m (\<lambda>x. yields (f x) Q)"
  by (auto simp: yields_def bnd_eq_Inr)

lemma yields_mono: "yields m P \<Longrightarrow> (\<And>x. P x \<Longrightarrow> Q x) \<Longrightarrow> yields m Q"
  by (auto simp: yields_def)

section \<open>Typed heap cells\<close>

text \<open>
  Each struct type has its own partial map from addresses to values; address 0 is NULL.  A read or
  a write through NULL or through an address that holds no live object is a fault.
\<close>

definition deref :: "(addr \<Rightarrow> 'o option) \<Rightarrow> addr \<Rightarrow> 'o res" where
  "deref m p = (if p = 0 then Inl NullDeref else case m p of None \<Rightarrow> Inl Dangling | Some x \<Rightarrow> Inr x)"

definition modify :: "('o \<Rightarrow> 'o) \<Rightarrow> addr \<Rightarrow> (addr \<Rightarrow> 'o option) \<Rightarrow> (addr \<Rightarrow> 'o option) res" where
  "modify f p m = bnd (deref m p) (\<lambda>x. Inr (m(p \<mapsto> f x)))"

text \<open>\<open>free(p)\<close>: nothing for NULL, a fault for memory that is not allocated.\<close>

definition release :: "addr \<Rightarrow> (addr \<Rightarrow> 'o option) \<Rightarrow> (addr \<Rightarrow> 'o option) res" where
  "release p m =
     (if p = 0 then Inr m else case m p of None \<Rightarrow> Inl BadFree | Some _ \<Rightarrow> Inr (m(p := None)))"

lemma deref_Some [cstmt]: "p \<noteq> 0 \<Longrightarrow> m p = Some x \<Longrightarrow> deref m p = Inr x"
  by (simp add: deref_def)

lemma deref_None [cstmt]: "p \<noteq> 0 \<Longrightarrow> m p = None \<Longrightarrow> deref m p = Inl Dangling"
  by (simp add: deref_def)

lemma deref_NULL [simp]: "deref m 0 = Inl NullDeref"
  by (simp add: deref_def)

lemma deref_eq_Inr: "deref m p = Inr x \<longleftrightarrow> p \<noteq> 0 \<and> m p = Some x"
  by (simp add: deref_def split: option.splits)

lemma deref_unallocated: "m p = None \<Longrightarrow> is_fault (deref m p)"
  by (simp add: deref_def)

lemma modify_Some [cstmt]: "p \<noteq> 0 \<Longrightarrow> m p = Some x \<Longrightarrow> modify f p m = Inr (m(p \<mapsto> f x))"
  by (simp add: modify_def deref_Some)

lemma modify_NULL [simp]: "modify f 0 m = Inl NullDeref"
  by (simp add: modify_def)

lemma modify_eq_Inr: "modify f p m = Inr m' \<longleftrightarrow> (\<exists>x. p \<noteq> 0 \<and> m p = Some x \<and> m' = m(p \<mapsto> f x))"
  by (auto simp: modify_def bnd_eq_Inr deref_eq_Inr)

lemma release_Some [cstmt]: "p \<noteq> 0 \<Longrightarrow> m p = Some x \<Longrightarrow> release p m = Inr (m(p := None))"
  by (simp add: release_def)

lemma release_NULL [simp]: "release 0 m = Inr m"
  by (simp add: release_def)

lemma release_eq_Inr:
  "release p m = Inr m' \<longleftrightarrow> (p = 0 \<and> m' = m) \<or> (\<exists>x. p \<noteq> 0 \<and> m p = Some x \<and> m' = m(p := None))"
  by (auto simp: release_def split: option.splits)

section \<open>Simulation of an abstract machine\<close>

text \<open>
  A component is a function that performs one operation on the concrete state; its abstract
  specification is a partial function on the abstract state, undefined where the operation may not
  be called.  \<open>run_ops\<close> and \<open>run_spec\<close> perform a script of operations and collect what
  each of them returns.
\<close>

fun run_ops :: "('op \<Rightarrow> 'w \<Rightarrow> ('r \<times> 'w) res) \<Rightarrow> 'op list \<Rightarrow> 'w \<Rightarrow> ('r list \<times> 'w) res" where
  "run_ops f [] w = Inr ([], w)"
| "run_ops f (x # xs) w =
     bnd (f x w) (\<lambda>(r, w). bnd (run_ops f xs w) (\<lambda>(rs, w). Inr (r # rs, w)))"

fun run_spec :: "('op \<Rightarrow> 'a \<Rightarrow> ('r \<times> 'a) option) \<Rightarrow> 'op list \<Rightarrow> 'a \<Rightarrow> ('r list \<times> 'a) option" where
  "run_spec g [] a = Some ([], a)"
| "run_spec g (x # xs) a =
     (case g x a of None \<Rightarrow> None
      | Some (r, a) \<Rightarrow> (case run_spec g xs a of None \<Rightarrow> None | Some (rs, a) \<Rightarrow> Some (r # rs, a)))"

locale simulation =
  fixes step :: "'op \<Rightarrow> 'w \<Rightarrow> ('r \<times> 'w) res"
    and spec :: "'op \<Rightarrow> 'a \<Rightarrow> ('r \<times> 'a) option"
    and rel :: "'w \<Rightarrow> 'a \<Rightarrow> bool"
  assumes step_sim:
    "rel w a \<Longrightarrow> spec x a = Some (r, a') \<Longrightarrow> \<exists>w'. step x w = Inr (r, w') \<and> rel w' a'"
begin

lemma run_sim:
  "rel w a \<Longrightarrow> run_spec spec xs a = Some (rs, a') \<Longrightarrow>
     \<exists>w'. run_ops step xs w = Inr (rs, w') \<and> rel w' a'"
proof (induction xs arbitrary: w a rs)
  case Nil
  then show ?case by simp
next
  case (Cons x xs)
  from Cons.prems(2) obtain r b rs' where one: "spec x a = Some (r, b)"
    and rest: "run_spec spec xs b = Some (rs', a')" and rs: "rs = r # rs'"
    by (auto split: option.splits)
  from step_sim [OF Cons.prems(1) one] obtain v where "step x w = Inr (r, v)" "rel v b" by blast
  with Cons.IH [OF _ rest, of v] rs show ?case by auto
qed

lemma run_no_fault:
  "rel w a \<Longrightarrow> run_spec spec xs a \<noteq> None \<Longrightarrow> \<not> is_fault (run_ops step xs w)"
  using run_sim by fastforce

end

end
