(* ===== verification/Machine.thy ===== *)
theory Machine
  imports Prelude Complex_Main "HOL-Library.Word"
begin

text \<open>
  The machine the program runs on: the calls that leave the code under src/ (libc, the kernel,
  libev, function pointers handed in by a user), the environment that answers them, and the part
  of the process state every component shares.

  None of these callees is defined here.  A call is recorded in the history of the process together
  with its integer result, and what it returns is a parameter \<open>env\<close> of the model: a function
  of the whole history, so that the same call may return something else each time.  Theorems
  quantify over the environment; what a theorem needs to know of a callee is a hypothesis of its
  own.  Components extend the record \<open>world\<close> by one heap per struct they allocate.
\<close>

type_synonym byte = "8 word"
type_synonym size_t = "64 word"

section \<open>Calls, history, environment\<close>

text \<open>Calls to the kernel.\<close>

datatype syscall =
    SysSocket
  | SysGetFl int
  | SysSetFl int "32 word"
  | SysReuseAddr int
  | SysBind int string "16 word"
  | SysConnect int string "16 word"
  | SysErrno
  | SysListen int int
  | SysAccept int
  | SysSoErrorRet int
  | SysSoErrorVal int
  | SysRead int size_t
  | SysWrite int "byte list"
  | SysClose int

text \<open>Calls that create, replace or restrict a process, and those about its files.\<close>

datatype proccall =
    SysFork
  | SysExecvp string
  | SysReadlink string nat
  | SysSetrlimit int "64 word" "64 word"
  | SysSetuid "32 word"
  | SysSetgid "32 word"
  | SysGetpid
  | SysNSGetExecutablePath nat
  | SysRealpath string
  | SysFreopen string string addr
  | SysFflush addr

text \<open>
  Calls to libev: initialisation, start and stop of watchers, queries, and the life of the loop; \<open>EvExpire\<close> is not a
  call of the program but the expiry of a timer watcher, which libev performs by itself; the repeat
  value of the watcher at that moment, which decides whether it stays active, is recorded with it.
\<close>

datatype evcall =
    EvInit addr
  | EvIoStart addr addr
  | EvIoStop addr addr
  | EvTimerStart addr addr real real
  | EvTimerStop addr addr
  | EvTimerAgain addr addr real
  | EvChildStart addr addr int
  | EvChildStop addr addr
  | EvIsActive addr
  | EvIsPending addr
  | EvExpire addr real
  | EvDefaultLoop
  | EvLoopDestroy addr
  | EvLoopFork addr
  | EvRun addr
  | EvBreak addr

text \<open>
  Calls to LuaBridge's \<open>RefCountedPtr\<close>: making one more counted pointer to an object, and
  destroying one; the result of the latter says whether it was the last, whose destruction deletes
  the object.
\<close>

datatype rccall =
    RcAcquire addr
  | RcRelease addr

text \<open>
  \<open>Invoke\<close> is a call through a function pointer, with its arguments, and \<open>LuaCall\<close> one
  of a Lua function.
\<close>

datatype call =
    Malloc
  | Printf string
  | Invoke nat "nat list"
  | LuaCall nat "int list"
  | Sys syscall
  | Proc proccall
  | Ev evcall
  | Rc rccall

type_synonym event = "call \<times> int"

text \<open>
  \<open>answer\<close> is the integer a call returns, \<open>input\<close> the bytes the kernel stores for a
  read, \<open>clock\<close> what \<open>ev_now\<close> reads, and \<open>junk\<close> the indeterminate content of the
  n-th word of memory fresh from malloc; \<open>default_loop\<close> is libev's default loop.  The newest event of a history comes first.
\<close>

record env =
  answer :: "event list \<Rightarrow> call \<Rightarrow> int"
  input :: "event list \<Rightarrow> call \<Rightarrow> byte list"
  clock :: "event list \<Rightarrow> real"
  junk :: "event list \<Rightarrow> nat \<Rightarrow> nat"
  default_loop :: addr

section \<open>The shared state\<close>

text \<open>The struct of context.hxx: the Lua state and the event loop.\<close>

record ixc_context =
  state :: addr
  evl :: addr

text \<open>
  \<open>brk\<close> is the highest address handed out so far; addresses are never reused, so an access to
  freed memory is always seen as one.
\<close>

record world =
  brk :: addr
  hist :: "event list"
  contexts :: "addr \<Rightarrow> ixc_context option"

definition ask :: "env \<Rightarrow> call \<Rightarrow> 'a world_scheme \<Rightarrow> int" where
  "ask E c w = answer E (hist w) c"

definition emit :: "call \<Rightarrow> 'a world_scheme \<Rightarrow> 'a world_scheme" where
  "emit c w = w\<lparr>hist := (c, 0) # hist w\<rparr>"

definition ext :: "env \<Rightarrow> call \<Rightarrow> 'a world_scheme \<Rightarrow> int \<times> 'a world_scheme" where
  "ext E c w = (let r = ask E c w in (r, w\<lparr>hist := (c, r) # hist w\<rparr>))"

text \<open>malloc returns NULL when the environment refuses, and a new address otherwise.\<close>

definition malloc :: "env \<Rightarrow> 'a world_scheme \<Rightarrow> addr \<times> 'a world_scheme" where
  "malloc E w =
     (let (r, w) = ext E Malloc w
      in if r = 0 then (0, w) else (Suc (brk w), w\<lparr>brk := Suc (brk w)\<rparr>))"

definition alloc_ok :: "env \<Rightarrow> 'a world_scheme \<Rightarrow> bool" where
  "alloc_ok E w = (ask E Malloc w \<noteq> 0)"

text \<open>\<open>context->evl\<close>, the loop every component passes to libev.\<close>

definition loop_of :: "addr \<Rightarrow> 'a world_scheme \<Rightarrow> addr res" where
  "loop_of c w = bnd (deref (contexts w) c) (\<lambda>x. Inr (evl x))"

text \<open>
  A function pointer is a number, NULL being 0; the functions a user may install are the parameter
  \<open>U\<close>.  Calling one is recorded, then whatever it does to the process happens; calling NULL
  is a fault.
\<close>

type_synonym 'w user = "nat \<Rightarrow> nat list \<Rightarrow> 'w \<Rightarrow> 'w res"

definition invoke :: "'a world_scheme user \<Rightarrow> nat \<Rightarrow> nat list \<Rightarrow> 'a world_scheme \<Rightarrow> 'a world_scheme res" where
  "invoke U f xs w = (if f = 0 then Inl NullDeref else U f xs (emit (Invoke f xs) w))"

text \<open>
  A Lua function is a number too, nil being 0; the functions of the script are another parameter,
  as calls of them may do anything to the process, an error that unwinds the caller included.
\<close>

type_synonym 'w script = "nat \<Rightarrow> int list \<Rightarrow> 'w \<Rightarrow> 'w res"

definition lua_call :: "'a world_scheme script \<Rightarrow> nat \<Rightarrow> int list \<Rightarrow> 'a world_scheme \<Rightarrow> 'a world_scheme res" where
  "lua_call V f xs w = V f xs (emit (LuaCall f xs) w)"

text \<open>The calls of users' functions and of Lua functions in a history, newest first.\<close>

fun user_calls :: "event list \<Rightarrow> call list" where
  "user_calls [] = []"
| "user_calls ((Invoke f xs, _) # h) = Invoke f xs # user_calls h"
| "user_calls ((LuaCall f xs, _) # h) = LuaCall f xs # user_calls h"
| "user_calls (_ # h) = user_calls h"

section \<open>Lemmas\<close>

lemma emit_simps [simp]:
  "brk (emit c w) = brk w" "hist (emit c w) = (c, 0) # hist w"
  "contexts (emit c w) = contexts w" "world.more (emit c w) = world.more w"
  by (simp_all add: emit_def)

lemma ext_simps [simp]:
  "fst (ext E c w) = ask E c w" "brk (snd (ext E c w)) = brk w"
  "hist (snd (ext E c w)) = (c, ask E c w) # hist w"
  "contexts (snd (ext E c w)) = contexts w" "world.more (snd (ext E c w)) = world.more w"
  by (simp_all add: ext_def Let_def)

lemma malloc_ok [cstmt]:
  "alloc_ok E w \<Longrightarrow>
     malloc E w = (Suc (brk w), w\<lparr>brk := Suc (brk w), hist := (Malloc, ask E Malloc w) # hist w\<rparr>)"
  by (simp add: malloc_def ext_def alloc_ok_def Let_def)

lemma malloc_refused [cstmt]:
  "\<not> alloc_ok E w \<Longrightarrow> malloc E w = (0, w\<lparr>hist := (Malloc, 0) # hist w\<rparr>)"
  by (simp add: malloc_def ext_def alloc_ok_def Let_def)

lemma loop_of_Some [cstmt]: "c \<noteq> 0 \<Longrightarrow> contexts w c = Some x \<Longrightarrow> loop_of c w = Inr (evl x)"
  by (simp add: loop_of_def cstmt)

lemma loop_of_cong: "contexts w = contexts v \<Longrightarrow> loop_of c w = loop_of c v"
  by (simp add: loop_of_def)

lemma invoke_user [cstmt]: "f \<noteq> 0 \<Longrightarrow> invoke U f xs w = U f xs (emit (Invoke f xs) w)"
  by (simp add: invoke_def)

section \<open>Environments\<close>

text \<open>Memory never runs out.\<close>

definition plentiful :: "env \<Rightarrow> bool" where
  "plentiful E \<longleftrightarrow> (\<forall>h. answer E h Malloc \<noteq> 0)"

text \<open>A concrete environment for witnesses: every call, malloc among them, returns 1.\<close>

definition calm :: env where
  "calm = \<lparr>answer = (\<lambda>h c. 1), input = (\<lambda>h c. []), clock = (\<lambda>h. 0), junk = (\<lambda>h i. 7),
            default_loop = 9\<rparr>"

lemma plentiful_alloc [simp]: "plentiful E \<Longrightarrow> alloc_ok E w"
  by (simp add: plentiful_def alloc_ok_def ask_def)

lemma calm_plentiful [simp]: "plentiful calm"
  by (simp add: plentiful_def calm_def)

end
