(* ===== verification/Cycqueue.thy ===== *)
theory Cycqueue
  imports Machine
begin

text \<open>
  The circular queue of util.cxx.  A queue is an entry cell whose \<open>next\<close> is the newest node
  of a ring; the ring always holds a place holder, whose successor is the oldest node.  The
  operations below are translated statement by statement and work on the heap of nodes; then come
  the ring that a list of values is stored as, and what every operation does to it.
\<close>

section \<open>Data and operations\<close>

record ixut_cycqueue =
  q_data :: nat
  q_next :: addr

record qworld = world +
  nodes :: "addr \<Rightarrow> ixut_cycqueue option"

definition malloc_node :: "env \<Rightarrow> 'a qworld_scheme \<Rightarrow> addr \<times> 'a qworld_scheme" where
  "malloc_node E w =
     (let (p, w) = malloc E w
      in (p, if p = 0 then w
             else w\<lparr>nodes := (nodes w)(p \<mapsto> \<lparr>q_data = junk E (hist w) 0, q_next = junk E (hist w) 1\<rparr>)\<rparr>))"

definition set_node ::
  "(ixut_cycqueue \<Rightarrow> ixut_cycqueue) \<Rightarrow> addr \<Rightarrow> 'a qworld_scheme \<Rightarrow> 'a qworld_scheme res" where
  "set_node f p w = bnd (modify f p (nodes w)) (\<lambda>m. Inr (w\<lparr>nodes := m\<rparr>))"

definition get_next :: "addr \<Rightarrow> 'a qworld_scheme \<Rightarrow> addr res" where
  "get_next p w = bnd (deref (nodes w) p) (\<lambda>n. Inr (q_next n))"

definition get_data :: "addr \<Rightarrow> 'a qworld_scheme \<Rightarrow> nat res" where
  "get_data p w = bnd (deref (nodes w) p) (\<lambda>n. Inr (q_data n))"

definition free_node :: "addr \<Rightarrow> 'a qworld_scheme \<Rightarrow> 'a qworld_scheme res" where
  "free_node p w = bnd (release p (nodes w)) (\<lambda>m. Inr (w\<lparr>nodes := m\<rparr>))"

text \<open>\<open>memset(&x->data, 0xF, sizeof(x->data))\<close>: eight bytes 0x0F.\<close>

definition memset_0F :: nat where
  "memset_0F = 0x0F0F0F0F0F0F0F0F"

definition ixut_cycqueue_create :: "env \<Rightarrow> 'a qworld_scheme \<Rightarrow> (addr \<times> 'a qworld_scheme) res" where
  "ixut_cycqueue_create E w =
     (let (entry, w) = malloc_node E w; (place_holder, w) = malloc_node E w
      in bnd (set_node (\<lambda>n. n\<lparr>q_data := memset_0F\<rparr>) entry w) (\<lambda>w.
         bnd (set_node (\<lambda>n. n\<lparr>q_data := memset_0F\<rparr>) place_holder w) (\<lambda>w.
         bnd (set_node (\<lambda>n. n\<lparr>q_next := place_holder\<rparr>) entry w) (\<lambda>w.
         bnd (set_node (\<lambda>n. n\<lparr>q_next := place_holder\<rparr>) place_holder w) (\<lambda>w.
         Inr (entry, w))))))"

text \<open>The two assertions every operation begins with.\<close>

definition check_entry :: "addr \<Rightarrow> 'a qworld_scheme \<Rightarrow> (addr \<Rightarrow> 'b res) \<Rightarrow> 'b res" where
  "check_entry entry w k =
     asserting (entry \<noteq> 0) (bnd (get_next entry w) (\<lambda>n. asserting (n \<noteq> 0) (k n)))"

definition ixut_cycqueue_enqueue :: "env \<Rightarrow> addr \<Rightarrow> nat \<Rightarrow> 'a qworld_scheme \<Rightarrow> 'a qworld_scheme res" where
  "ixut_cycqueue_enqueue E entry data w =
     check_entry entry w (\<lambda>last_node.
       let (new_node, w) = malloc_node E w
       in bnd (set_node (\<lambda>n. n\<lparr>q_data := data\<rparr>) new_node w) (\<lambda>w.
          bnd (get_next last_node w) (\<lambda>place_holder.
          bnd (set_node (\<lambda>n. n\<lparr>q_next := place_holder\<rparr>) new_node w) (\<lambda>w.
          bnd (set_node (\<lambda>n. n\<lparr>q_next := new_node\<rparr>) last_node w) (\<lambda>w.
          set_node (\<lambda>n. n\<lparr>q_next := new_node\<rparr>) entry w)))))"

definition ixut_cycqueue_dequeue :: "addr \<Rightarrow> 'a qworld_scheme \<Rightarrow> (nat \<times> 'a qworld_scheme) res" where
  "ixut_cycqueue_dequeue entry w =
     check_entry entry w (\<lambda>last_node.
       bnd (get_next last_node w) (\<lambda>place_holder.
       bnd (get_next place_holder w) (\<lambda>ret_node.
       bnd (get_next ret_node w) (\<lambda>after.
       bnd (set_node (\<lambda>n. n\<lparr>q_next := after\<rparr>) place_holder w) (\<lambda>w.
       bnd (get_next entry w) (\<lambda>last_node.
       bnd (if ret_node = last_node
            then bnd (get_next ret_node w) (\<lambda>after. set_node (\<lambda>n. n\<lparr>q_next := after\<rparr>) entry w)
            else Inr w) (\<lambda>w.
       bnd (get_data ret_node w) (\<lambda>ret.
       bnd (free_node ret_node w) (\<lambda>w.
       Inr (ret, w))))))))))"

definition ixut_cycqueue_front :: "addr \<Rightarrow> 'a qworld_scheme \<Rightarrow> nat res" where
  "ixut_cycqueue_front entry w =
     check_entry entry w (\<lambda>last_node.
       bnd (get_next last_node w) (\<lambda>place_holder.
       asserting (place_holder \<noteq> last_node) (
       bnd (get_next place_holder w) (\<lambda>first_node.
       get_data first_node w))))"

definition ixut_cycqueue_empty :: "addr \<Rightarrow> 'a qworld_scheme \<Rightarrow> bool res" where
  "ixut_cycqueue_empty entry w =
     check_entry entry w (\<lambda>last_node.
       bnd (get_next last_node w) (\<lambda>place_holder. Inr (last_node = place_holder)))"

text \<open>
  The loop of \<open>ixut_cycqueue_free\<close>; on a heap that is not a queue it may run forever, which is
  the value None.
\<close>

partial_function (option) cycqueue_drain :: "addr \<Rightarrow> 'a qworld_scheme \<Rightarrow> 'a qworld_scheme res option" where
  "cycqueue_drain entry w =
     (case ixut_cycqueue_empty entry w of
        Inl e \<Rightarrow> Some (Inl e)
      | Inr b \<Rightarrow>
          if b then Some (Inr w)
          else (case ixut_cycqueue_dequeue entry w of
                  Inl e \<Rightarrow> Some (Inl e)
                | Inr (_, w) \<Rightarrow> cycqueue_drain entry w))"

definition ixut_cycqueue_free :: "addr \<Rightarrow> 'a qworld_scheme \<Rightarrow> 'a qworld_scheme res option" where
  "ixut_cycqueue_free entry w =
     (case check_entry entry w (\<lambda>_. Inr ()) of
        Inl e \<Rightarrow> Some (Inl e)
      | Inr _ \<Rightarrow> map_option (\<lambda>r. bnd r (\<lambda>w.
          bnd (get_next entry w) (\<lambda>n.
          bnd (free_node n w) (\<lambda>w.
          free_node entry w)))) (cycqueue_drain entry w))"

declare cycqueue_drain.simps [code]

section \<open>The ring a queue is stored as\<close>

text \<open>
  \<open>chain m a ys z\<close>: from node \<open>a\<close> the \<open>next\<close> fields lead through the nodes of
  \<open>ys\<close>, each with its value, and then to \<open>z\<close>.
\<close>

definition next_is :: "(addr \<Rightarrow> ixut_cycqueue option) \<Rightarrow> addr \<Rightarrow> addr \<Rightarrow> bool" where
  "next_is m a z = (case m a of None \<Rightarrow> False | Some n \<Rightarrow> q_next n = z)"

definition data_is :: "(addr \<Rightarrow> ixut_cycqueue option) \<Rightarrow> addr \<Rightarrow> nat \<Rightarrow> bool" where
  "data_is m a x = (case m a of None \<Rightarrow> False | Some n \<Rightarrow> q_data n = x)"

fun chain :: "(addr \<Rightarrow> ixut_cycqueue option) \<Rightarrow> addr \<Rightarrow> (addr \<times> nat) list \<Rightarrow> addr \<Rightarrow> bool" where
  "chain m a [] z = next_is m a z"
| "chain m a ((b, x) # ys) z = (next_is m a b \<and> data_is m b x \<and> chain m b ys z)"

text \<open>
  \<open>ring m e p ys\<close>: the cells of the queue \<open>e\<close> with place holder \<open>p\<close> and nodes
  \<open>ys\<close>, oldest first; the entry points to the newest node.
\<close>

definition cells :: "addr \<Rightarrow> addr \<Rightarrow> (addr \<times> nat) list \<Rightarrow> addr list" where
  "cells e p ys = e # p # map fst ys"

definition newest :: "addr \<Rightarrow> (addr \<times> nat) list \<Rightarrow> addr" where
  "newest p ys = last (p # map fst ys)"

definition ring :: "(addr \<Rightarrow> ixut_cycqueue option) \<Rightarrow> addr \<Rightarrow> addr \<Rightarrow> (addr \<times> nat) list \<Rightarrow> bool" where
  "ring m e p ys \<longleftrightarrow>
     distinct (cells e p ys) \<and> 0 \<notin> set (cells e p ys) \<and>
     next_is m e (newest p ys) \<and> chain m p ys p"

text \<open>
  The abstraction: the queue at \<open>e\<close> occupies the cells \<open>F\<close> and holds the values
  \<open>xs\<close>, oldest first.  \<open>nodes_ok\<close> says that malloc will not hand out a live cell.
\<close>

definition queue_at :: "'a qworld_scheme \<Rightarrow> addr \<Rightarrow> addr set \<Rightarrow> nat list \<Rightarrow> bool" where
  "queue_at w e F xs \<longleftrightarrow>
     (\<exists>p ys. ring (nodes w) e p ys \<and> F = set (cells e p ys) \<and> xs = map snd ys)"

definition nodes_ok :: "'a qworld_scheme \<Rightarrow> bool" where
  "nodes_ok w \<longleftrightarrow> (\<forall>a. nodes w a \<noteq> None \<longrightarrow> a \<le> brk w)"

subsection \<open>Chains under updates\<close>

lemma next_is_Some: "next_is m a z \<longleftrightarrow> (\<exists>n. m a = Some n \<and> q_next n = z)"
  by (simp add: next_is_def split: option.splits)

lemma data_is_Some: "data_is m a x \<longleftrightarrow> (\<exists>n. m a = Some n \<and> q_data n = x)"
  by (simp add: data_is_def split: option.splits)

lemma newest_Nil [simp]: "newest p [] = p"
  by (simp add: newest_def)

lemma newest_Cons [simp]: "newest p ((b, x) # ys) = newest b ys"
  by (simp add: newest_def)

lemma newest_snoc [simp]: "newest p (ys @ [(b, x)]) = b"
  by (simp add: newest_def)

lemma newest_in: "newest p ys = p \<or> newest p ys \<in> fst ` set ys"
  using last_in_set [of "p # map fst ys"] unfolding newest_def by auto

lemma next_is_upd_other [simp]: "a \<noteq> u \<Longrightarrow> next_is (m(u := v)) a z = next_is m a z"
  by (simp add: next_is_def)

lemma data_is_upd_other [simp]: "a \<noteq> u \<Longrightarrow> data_is (m(u := v)) a x = data_is m a x"
  by (simp add: data_is_def)

lemma next_is_upd_same [simp]: "next_is (m(a \<mapsto> n)) a z \<longleftrightarrow> q_next n = z"
  by (simp add: next_is_def)

lemma data_is_upd_same [simp]: "data_is (m(a \<mapsto> n)) a x \<longleftrightarrow> q_data n = x"
  by (simp add: data_is_def)

lemma chain_upd_other:
  "u \<noteq> a \<Longrightarrow> u \<notin> fst ` set ys \<Longrightarrow> chain (m(u := v)) a ys z = chain m a ys z"
  by (induction m a ys z rule: chain.induct) auto

lemma chain_cong:
  "(\<And>b. b \<in> insert a (fst ` set ys) \<Longrightarrow> m b = m' b) \<Longrightarrow> chain m a ys z = chain m' a ys z"
proof (induction m a ys z rule: chain.induct)
  case (1 m a z)
  then show ?case by (simp add: next_is_def)
next
  case (2 m a b x ys z)
  from "2.prems" have "m a = m' a" "m b = m' b" by auto
  moreover from "2.prems" have "chain m b ys z = chain m' b ys z" by (intro "2.IH") auto
  ultimately show ?case by (simp add: next_is_def data_is_def)
qed

lemma chain_snoc:
  "chain m a (ys @ [(b, x)]) z \<longleftrightarrow> chain m a ys b \<and> data_is m b x \<and> next_is m b z"
  by (induction m a ys b rule: chain.induct) auto

lemma chain_last: "chain m a ys z \<Longrightarrow> next_is m (newest a ys) z"
  by (induction m a ys z rule: chain.induct) auto

lemma chain_alloc: "chain m a ys z \<Longrightarrow> b \<in> insert a (fst ` set ys) \<Longrightarrow> m b \<noteq> None"
  by (induction m a ys z rule: chain.induct) (auto simp: next_is_Some)

text \<open>Redirecting the last \<open>next\<close> field of a chain.\<close>

lemma chain_redirect:
  assumes "chain m a ys z" "distinct (a # map fst ys)" "m (newest a ys) = Some n"
  shows "chain (m(newest a ys \<mapsto> n\<lparr>q_next := z'\<rparr>)) a ys z'"
  using assms
proof (induction m a ys z rule: chain.induct)
  case (1 m a z)
  then show ?case by (simp add: next_is_def)
next
  case (2 m a b x ys z)
  let ?l = "newest b ys"
  have "?l \<noteq> a" using "2.prems"(2) newest_in [of b ys] by auto
  moreover have "data_is (m(?l \<mapsto> n\<lparr>q_next := z'\<rparr>)) b x"
    using "2.prems" by (cases "?l = b") (auto simp: data_is_Some)
  ultimately show ?case using 2 by (auto simp del: fun_upd_apply)
qed

section \<open>What the operations do to a ring\<close>

lemma get_next_ring [cstmt]: "p \<noteq> 0 \<Longrightarrow> nodes w p = Some n \<Longrightarrow> get_next p w = Inr (q_next n)"
  by (simp add: get_next_def cstmt)

lemma get_data_ring [cstmt]: "p \<noteq> 0 \<Longrightarrow> nodes w p = Some n \<Longrightarrow> get_data p w = Inr (q_data n)"
  by (simp add: get_data_def cstmt)

lemma set_node_ring [cstmt]:
  "p \<noteq> 0 \<Longrightarrow> nodes w p = Some n \<Longrightarrow> set_node f p w = Inr (w\<lparr>nodes := (nodes w)(p \<mapsto> f n)\<rparr>)"
  by (simp add: set_node_def cstmt)

lemma free_node_ring [cstmt]:
  "p \<noteq> 0 \<Longrightarrow> nodes w p = Some n \<Longrightarrow> free_node p w = Inr (w\<lparr>nodes := (nodes w)(p := None)\<rparr>)"
  by (simp add: free_node_def cstmt)

text \<open>The three cells every operation looks at: entry, newest node, place holder.\<close>

lemma ring_heads:
  assumes "ring m e p ys"
  obtains ne nl np where
    "m e = Some ne" "q_next ne = newest p ys"
    "m (newest p ys) = Some nl" "q_next nl = p"
    "m p = Some np" "e \<noteq> 0" "p \<noteq> 0" "e \<noteq> p"
    "newest p ys \<noteq> 0" "newest p ys \<noteq> e"
proof -
  let ?l = "newest p ys"
  from assms have r: "distinct (cells e p ys)" "0 \<notin> set (cells e p ys)" "next_is m e ?l" "chain m p ys p"
    by (simp_all add: ring_def)
  from r(3) obtain ne where "m e = Some ne" "q_next ne = ?l" by (auto simp: next_is_Some)
  moreover from chain_last [OF r(4)] obtain nl where "m ?l = Some nl" "q_next nl = p"
    by (auto simp: next_is_Some)
  moreover from chain_alloc [OF r(4), of p] obtain np where "m p = Some np" by auto
  moreover have "?l \<in> set (p # map fst ys)" using newest_in [of p ys] by auto
  then have "?l \<noteq> 0" "?l \<noteq> e" using r(1,2) by (auto simp only: cells_def distinct.simps list.set insert_iff)
  moreover have "e \<noteq> 0" "p \<noteq> 0" "e \<noteq> p" using r(1,2) by (auto simp: cells_def)
  ultimately show ?thesis using that by blast
qed

lemma ring_heads_empty:
  assumes "ring m e p []"
  obtains ne np where "m e = Some ne" "q_next ne = p" "m p = Some np" "q_next np = p"
    "e \<noteq> 0" "p \<noteq> 0" "e \<noteq> p"
  using assms by (rule ring_heads) (use that in simp)

lemma ring_cells_alloc: "ring m e p ys \<Longrightarrow> a \<in> set (cells e p ys) \<Longrightarrow> m a \<noteq> None"
  using chain_alloc [of m p ys p a] by (auto simp: ring_def cells_def next_is_Some)

lemma ring_cong:
  assumes "\<And>a. a \<in> set (cells e p ys) \<Longrightarrow> m a = m' a"
  shows "ring m e p ys = ring m' e p ys"
proof -
  have "chain m p ys p = chain m' p ys p"
    using assms by (intro chain_cong) (auto simp: cells_def)
  moreover have "m e = m' e" using assms by (simp add: cells_def)
  ultimately show ?thesis by (simp add: ring_def next_is_def)
qed

subsection \<open>Enqueue\<close>

text \<open>Inserting a fresh node after the newest one, on the heap alone.\<close>

lemma ring_enqueue:
  assumes r: "ring m e p ys" and a: "m a = None" "a \<noteq> 0"
    and ne: "m e = Some ne" and nl: "m (newest p ys) = Some nl"
  shows "ring (m(a \<mapsto> \<lparr>q_data = x, q_next = p\<rparr>,
                 newest p ys \<mapsto> nl\<lparr>q_next := a\<rparr>,
                 e \<mapsto> ne\<lparr>q_next := a\<rparr>)) e p (ys @ [(a, x)])"
proof -
  let ?l = "newest p ys" and ?m1 = "m(a \<mapsto> \<lparr>q_data = x, q_next = p\<rparr>)"
  let ?m2 = "?m1(newest p ys \<mapsto> nl\<lparr>q_next := a\<rparr>)"
  have fresh: "a \<notin> set (cells e p ys)" using ring_cells_alloc [OF r] a by blast
  from r have c: "chain m p ys p" and d: "distinct (cells e p ys)" by (simp_all add: ring_def)
  have la: "?l \<noteq> a" using fresh newest_in [of p ys] by (auto simp: cells_def)
  have "chain ?m1 p ys p" using c fresh by (simp add: chain_upd_other cells_def)
  moreover have "distinct (p # map fst ys)" using d by (simp add: cells_def)
  moreover have "?m1 ?l = Some nl" using nl la by simp
  ultimately have "chain ?m2 p ys a" by (rule chain_redirect)
  moreover have "data_is ?m2 a x" "next_is ?m2 a p" using la by simp_all
  ultimately have "chain ?m2 p (ys @ [(a, x)]) p" by (simp add: chain_snoc)
  then have "chain (?m2(e \<mapsto> ne\<lparr>q_next := a\<rparr>)) p (ys @ [(a, x)]) p"
    using d fresh by (subst chain_upd_other) (auto simp: cells_def)
  moreover have "distinct (cells e p (ys @ [(a, x)]))" using d fresh by (auto simp: cells_def)
  moreover have "0 \<notin> set (cells e p (ys @ [(a, x)]))" using r a by (auto simp: cells_def ring_def)
  ultimately show ?thesis by (simp add: ring_def)
qed

text \<open>
  Enqueueing when malloc succeeds: the fresh node is the only new cell, every cell outside the
  queue keeps its content, and nothing else of the process changes but malloc's bookkeeping.
\<close>

lemma enqueue_exec:
  assumes q: "queue_at w e F xs" and ok: "nodes_ok w" and al: "alloc_ok E w"
  shows "\<exists>m. ixut_cycqueue_enqueue E e x w =
               Inr (w\<lparr>brk := Suc (brk w), hist := (Malloc, ask E Malloc w) # hist w, nodes := m\<rparr>)
           \<and> queue_at (w\<lparr>nodes := m\<rparr>) e (insert (Suc (brk w)) F) (xs @ [x])
           \<and> (\<forall>b. b \<notin> insert (Suc (brk w)) F \<longrightarrow> m b = nodes w b)"
proof -
  from q obtain p ys where r: "ring (nodes w) e p ys" and F: "F = set (cells e p ys)"
    and xs: "xs = map snd ys" by (auto simp: queue_at_def)
  from r obtain ne nl np where h: "nodes w e = Some ne" "q_next ne = newest p ys"
    "nodes w (newest p ys) = Some nl" "q_next nl = p" "nodes w p = Some np"
    "e \<noteq> 0" "p \<noteq> 0" "e \<noteq> p" "newest p ys \<noteq> 0" "newest p ys \<noteq> e"
    by (rule ring_heads)
  let ?a = "Suc (brk w)" and ?l = "newest p ys"
  have a: "nodes w ?a = None" using ok by (auto simp: nodes_ok_def)
  have ne: "?a \<noteq> e" "?a \<noteq> ?l" "?a \<noteq> p" using a h by auto
  let ?m = "(nodes w)(?a \<mapsto> \<lparr>q_data = x, q_next = p\<rparr>, ?l \<mapsto> nl\<lparr>q_next := ?a\<rparr>, e \<mapsto> ne\<lparr>q_next := ?a\<rparr>)"
  have "ixut_cycqueue_enqueue E e x w =
      Inr (w\<lparr>brk := Suc (brk w), hist := (Malloc, ask E Malloc w) # hist w, nodes := ?m\<rparr>)"
    using h ne a al
    by (simp add: ixut_cycqueue_enqueue_def check_entry_def malloc_node_def cstmt Let_def)
  moreover have "queue_at (w\<lparr>nodes := ?m\<rparr>) e (insert ?a F) (xs @ [x])"
    unfolding queue_at_def
    using ring_enqueue [OF r a _ h(1,3), of x] F xs
    by (intro exI [of _ p] exI [of _ "ys @ [(?a, x)]"]) (auto simp: cells_def)
  moreover have "?l \<in> F" "e \<in> F" using F newest_in [of p ys] by (auto simp: cells_def)
  then have "\<forall>b. b \<notin> insert ?a F \<longrightarrow> ?m b = nodes w b" by auto
  ultimately show ?thesis by blast
qed

subsection \<open>Dequeue, front, empty\<close>

text \<open>Unlinking the oldest node, on the heap alone; the entry moves only if it was the last one.\<close>

lemma chain_unlink:
  assumes c: "chain m p ((a, x) # ys) p" and d: "distinct (p # a # map fst ys)"
    and p: "m p = Some np" and a: "m a = Some na"
  shows "chain (m(p \<mapsto> np\<lparr>q_next := q_next na\<rparr>, a := None)) p ys p"
proof (cases ys)
  case Nil
  with assms show ?thesis by (simp add: next_is_Some)
next
  case (Cons z zs)
  obtain b y where z: "z = (b, y)" by (cases z)
  with c Cons a have n: "q_next na = b" "data_is m b y" "chain m b zs p" by (auto simp: next_is_Some)
  have "chain (m(p \<mapsto> np\<lparr>q_next := q_next na\<rparr>, a := None)) b zs p"
    using n(3) d z Cons by (subst chain_upd_other; simp del: fun_upd_apply; subst chain_upd_other) auto
  with n(1,2) d z Cons show ?thesis by (simp add: next_is_def data_is_def)
qed

lemma ring_dequeue:
  assumes r: "ring m e p ((a, x) # ys)" and p: "m p = Some np" and a: "m a = Some na" and e: "m e = Some ne"
  shows "ring (m(p \<mapsto> np\<lparr>q_next := q_next na\<rparr>,
                 e \<mapsto> (if ys = [] then ne\<lparr>q_next := q_next na\<rparr> else ne), a := None)) e p ys"
proof -
  let ?m = "m(p \<mapsto> np\<lparr>q_next := q_next na\<rparr>, a := None)"
  let ?e = "if ys = [] then ne\<lparr>q_next := q_next na\<rparr> else ne"
  from r have c: "chain m p ((a, x) # ys) p" and d: "distinct (cells e p ((a, x) # ys))"
    and n: "next_is m e (newest a ys)" and z: "0 \<notin> set (cells e p ((a, x) # ys))"
    by (simp_all add: ring_def)
  have "chain ?m p ys p" using c d p a by (intro chain_unlink) (auto simp: cells_def)
  then have ch: "chain (?m(e \<mapsto> ?e)) p ys p" using d by (subst chain_upd_other) (auto simp: cells_def)
  have "e \<noteq> a" using d by (auto simp: cells_def)
  then have upd: "?m(e \<mapsto> ?e) = m(p \<mapsto> np\<lparr>q_next := q_next na\<rparr>, e \<mapsto> ?e, a := None)"
    by (simp add: fun_upd_twist)
  have "q_next ?e = newest p ys"
  proof (cases ys)
    case Nil
    with c a show ?thesis by (simp add: next_is_Some)
  next
    case (Cons z zs)
    with n e show ?thesis by (cases z) (simp add: next_is_Some)
  qed
  then have "next_is (?m(e \<mapsto> ?e)) e (newest p ys)" by simp
  with ch d z show ?thesis unfolding upd [symmetric] by (auto simp: ring_def cells_def simp del: fun_upd_apply)
qed

text \<open>
  Dequeueing from a queue that holds something returns the oldest value, frees exactly its node,
  and leaves everything outside the queue alone.
\<close>

lemma dequeue_exec:
  assumes q: "queue_at w e F (x # xs)"
  shows "\<exists>m a. ixut_cycqueue_dequeue e w = Inr (x, w\<lparr>nodes := m\<rparr>) \<and> a \<in> F \<and> m a = None
           \<and> queue_at (w\<lparr>nodes := m\<rparr>) e (F - {a}) xs \<and> (\<forall>b. b \<notin> F \<longrightarrow> m b = nodes w b)"
proof -
  from q obtain p zs where r: "ring (nodes w) e p zs" and F: "F = set (cells e p zs)"
    and zs: "x # xs = map snd zs" by (auto simp: queue_at_def)
  from zs obtain a ys where ys: "zs = (a, x) # ys" "xs = map snd ys" by (cases zs) auto
  from r obtain ne nl np where h: "nodes w e = Some ne" "q_next ne = newest p zs"
    "nodes w (newest p zs) = Some nl" "q_next nl = p" "nodes w p = Some np"
    "e \<noteq> 0" "p \<noteq> 0" "e \<noteq> p" "newest p zs \<noteq> 0" "newest p zs \<noteq> e"
    by (rule ring_heads)
  from r ys have d: "distinct (cells e p ((a, x) # ys))" "0 \<notin> set (cells e p ((a, x) # ys))"
    and c: "next_is (nodes w) p a" "data_is (nodes w) a x" by (auto simp: ring_def)
  from c(2) obtain na where na: "nodes w a = Some na" "q_data na = x" by (auto simp: data_is_Some)
  from c(1) h(5) have np: "q_next np = a" by (simp add: next_is_Some)
  have ne: "a \<noteq> 0" "a \<noteq> e" "a \<noteq> p" using d by (auto simp: cells_def)
  have last: "a = newest p zs \<longleftrightarrow> ys = []"
  proof (cases ys)
    case Nil
    with ys(1) show ?thesis by simp
  next
    case (Cons y ys')
    obtain b v where y: "y = (b, v)" by (cases y)
    with Cons d have "a \<noteq> b" "a \<notin> fst ` set ys'" by (auto simp: cells_def)
    with newest_in [of b ys'] have "a \<noteq> newest b ys'" by metis
    with Cons y ys(1) show ?thesis by simp
  qed
  let ?m = "(nodes w)(p \<mapsto> np\<lparr>q_next := q_next na\<rparr>,
               e \<mapsto> (if ys = [] then ne\<lparr>q_next := q_next na\<rparr> else ne), a := None)"
  have "newest p zs \<noteq> p"
  proof
    assume "newest p zs = p"
    with ys newest_in [of a ys] d show False by (auto simp: cells_def)
  qed
  then have "ixut_cycqueue_dequeue e w = Inr (x, w\<lparr>nodes := ?m\<rparr>)"
    using h na np ne last
    by (auto simp add: ixut_cycqueue_dequeue_def check_entry_def cstmt fun_upd_idem fun_upd_twist)
  moreover have "ring ?m e p ys" using ring_dequeue [of "nodes w" e p a x ys np na ne] r ys(1) h na by simp
  then have "queue_at (w\<lparr>nodes := ?m\<rparr>) e (F - {a}) xs"
    unfolding queue_at_def using ys d F
    by (intro exI [of _ p] exI [of _ ys]) (auto simp: cells_def)
  moreover have "\<forall>b. b \<notin> F \<longrightarrow> ?m b = nodes w b" using F ys(1) by (auto simp: cells_def)
  moreover have "a \<in> F" "?m a = None" using F ys(1) by (auto simp: cells_def)
  ultimately show ?thesis by blast
qed

lemma front_exec:
  assumes q: "queue_at w e F (x # xs)"
  shows "ixut_cycqueue_front e w = Inr x"
proof -
  from q obtain p zs where r: "ring (nodes w) e p zs" and zs: "x # xs = map snd zs"
    by (auto simp: queue_at_def)
  from zs obtain a ys where ys: "zs = (a, x) # ys" by (cases zs) auto
  from r obtain ne nl np where h: "nodes w e = Some ne" "q_next ne = newest p zs"
    "nodes w (newest p zs) = Some nl" "q_next nl = p" "nodes w p = Some np"
    "e \<noteq> 0" "p \<noteq> 0" "newest p zs \<noteq> 0"
    by (rule ring_heads)
  from r ys have d: "distinct (cells e p ((a, x) # ys))" "0 \<notin> set (cells e p ((a, x) # ys))"
    and c: "next_is (nodes w) p a" "data_is (nodes w) a x" by (auto simp: ring_def)
  have "newest p zs \<noteq> p"
  proof
    assume "newest p zs = p"
    with ys newest_in [of a ys] d show False by (auto simp: cells_def)
  qed
  with h c d show ?thesis
    by (auto simp: ixut_cycqueue_front_def check_entry_def cstmt next_is_Some data_is_Some cells_def)
qed

lemma empty_exec:
  assumes q: "queue_at w e F xs"
  shows "ixut_cycqueue_empty e w = Inr (xs = [])"
proof -
  from q obtain p zs where r: "ring (nodes w) e p zs" and zs: "xs = map snd zs"
    by (auto simp: queue_at_def)
  from r obtain ne nl where h: "nodes w e = Some ne" "q_next ne = newest p zs"
    "nodes w (newest p zs) = Some nl" "q_next nl = p" "e \<noteq> 0" "newest p zs \<noteq> 0"
    by (rule ring_heads)
  have "newest p zs = p \<longleftrightarrow> zs = []"
  proof (cases zs)
    case (Cons z ys)
    obtain a v where z: "z = (a, v)" by (cases z)
    from r Cons z have "p \<noteq> a" "p \<notin> fst ` set ys" by (auto simp: ring_def cells_def)
    with newest_in [of a ys] have "newest a ys \<noteq> p" by metis
    with Cons z show ?thesis by simp
  qed simp
  with h zs show ?thesis by (auto simp: ixut_cycqueue_empty_def check_entry_def cstmt)
qed

end
