(* ===== verification/CycqueueSpec.thy ===== *)
theory CycqueueSpec
  imports Cycqueue
begin

text \<open>
  What the queue of util.cxx promises: a first-in first-out list, for as long as malloc delivers
  and nobody dequeues from an empty queue.  The contract is stated once as a locale
  (\<open>fifo\<close>), which the socket component uses through its interpretation here, and once as a
  simulation of an abstract list over whole scripts of operations.  The unit test of the
  repository, test/test_cycqueue.cxx, is run on the model.
\<close>

section \<open>Ownership of a queue\<close>

text \<open>
  Since the state \<open>w0\<close> the process has got the queue \<open>e\<close>, which now holds \<open>xs\<close>, and
  no other node has changed, appeared or gone.
\<close>

definition owns :: "'a qworld_scheme \<Rightarrow> addr \<Rightarrow> 'a qworld_scheme \<Rightarrow> nat list \<Rightarrow> bool" where
  "owns w0 e w xs \<longleftrightarrow>
     (\<exists>F. queue_at w e F xs \<and> nodes_ok w \<and> (\<forall>b \<in> F. nodes w0 b = None)
        \<and> (\<forall>b. b \<notin> F \<longrightarrow> nodes w b = nodes w0 b))"

lemma ownsI:
  assumes "queue_at w e F xs" "nodes_ok w" "\<And>b. b \<in> F \<Longrightarrow> nodes w0 b = None"
    "\<And>b. b \<notin> F \<Longrightarrow> nodes w b = nodes w0 b"
  shows "owns w0 e w xs"
  using assms unfolding owns_def by blast

lemma queue_at_cong:
  assumes "\<And>b. b \<in> F \<Longrightarrow> nodes w b = nodes w' b"
  shows "queue_at w e F xs \<longleftrightarrow> queue_at w' e F xs"
  unfolding queue_at_def using assms ring_cong [of e _ _ "nodes w" "nodes w'"] by blast

lemma queue_at_alloc: "queue_at w e F xs \<Longrightarrow> b \<in> F \<Longrightarrow> nodes w b \<noteq> None \<and> b \<noteq> 0"
  using ring_cells_alloc by (fastforce simp: queue_at_def ring_def)

lemma queue_at_le: "queue_at w e F xs \<Longrightarrow> nodes_ok w \<Longrightarrow> b \<in> F \<Longrightarrow> b \<le> brk w"
  using queue_at_alloc unfolding nodes_ok_def by blast

lemma nodes_ok_change:
  assumes "nodes_ok w" "\<And>b. b \<notin> F \<Longrightarrow> nodes v b = nodes w b" "\<And>b. b \<in> F \<Longrightarrow> b \<le> brk v" "brk w \<le> brk v"
  shows "nodes_ok v"
  unfolding nodes_ok_def
proof (intro allI impI)
  fix b assume b: "nodes v b \<noteq> None"
  show "b \<le> brk v"
  proof (cases "b \<in> F")
    case False
    with assms(1,2) b have "b \<le> brk w" by (simp add: nodes_ok_def)
    with assms(4) show ?thesis by simp
  qed (use assms(3) in blast)
qed

lemma queue_at_entry: "queue_at w e F xs \<Longrightarrow> e \<in> F \<and> e \<noteq> 0"
  by (auto simp: queue_at_def ring_def cells_def)

section \<open>Each operation on an owned queue\<close>

lemma create_owns:
  assumes "plentiful E" "nodes_ok w"
  shows "\<exists>w'. ixut_cycqueue_create E w = Inr (Suc (brk w), w') \<and> owns w (Suc (brk w)) w' []"
proof -
  let ?e = "Suc (brk w)" and ?p = "Suc (Suc (brk w))"
  let ?m = "(nodes w)(?e \<mapsto> \<lparr>q_data = memset_0F, q_next = ?p\<rparr>, ?p \<mapsto> \<lparr>q_data = memset_0F, q_next = ?p\<rparr>)"
  let ?w = "w\<lparr>brk := ?p, hist := (Malloc, ask E Malloc (snd (malloc E w))) # (Malloc, ask E Malloc w) # hist w,
             nodes := ?m\<rparr>"
  have free: "nodes w ?e = None" "nodes w ?p = None" using assms(2) by (auto simp: nodes_ok_def)
  have "ixut_cycqueue_create E w = Inr (?e, ?w)"
    using assms by (simp add: ixut_cycqueue_create_def malloc_node_def cstmt Let_def ask_def fun_upd_twist)
  moreover have "queue_at ?w ?e {?e, ?p} []"
    unfolding queue_at_def
    by (intro exI [of _ ?p] exI [of _ "[]"]) (auto simp: ring_def cells_def next_is_def)
  moreover have "nodes_ok ?w" using assms(2) by (auto simp: nodes_ok_def)
  moreover have "nodes w b = None" if "b \<in> {?e, ?p}" for b using that free by auto
  moreover have "nodes ?w b = nodes w b" if "b \<notin> {?e, ?p}" for b using that by simp
  ultimately have "owns w ?e ?w []" by (intro ownsI)
  with \<open>ixut_cycqueue_create E w = Inr (?e, ?w)\<close> show ?thesis by blast
qed

lemma enqueue_owns:
  assumes "alloc_ok E w" "owns w0 e w xs"
  shows "\<exists>w'. ixut_cycqueue_enqueue E e x w = Inr w' \<and> owns w0 e w' (xs @ [x])"
proof -
  from assms(2) obtain F where F: "queue_at w e F xs" "nodes_ok w" "\<forall>b \<in> F. nodes w0 b = None"
    "\<forall>b. b \<notin> F \<longrightarrow> nodes w b = nodes w0 b" by (auto simp: owns_def)
  let ?a = "Suc (brk w)"
  from enqueue_exec [OF F(1,2) assms(1), of x] obtain m where
    m: "ixut_cycqueue_enqueue E e x w =
          Inr (w\<lparr>brk := ?a, hist := (Malloc, ask E Malloc w) # hist w, nodes := m\<rparr>)"
       "queue_at (w\<lparr>nodes := m\<rparr>) e (insert ?a F) (xs @ [x])"
       "\<forall>b. b \<notin> insert ?a F \<longrightarrow> m b = nodes w b" by blast
  let ?w = "w\<lparr>brk := ?a, hist := (Malloc, ask E Malloc w) # hist w, nodes := m\<rparr>"
  have a: "nodes w ?a = None" using F(2) by (auto simp: nodes_ok_def)
  have "queue_at ?w e (insert ?a F) (xs @ [x])" using m(2) by (simp add: queue_at_def)
  moreover have "b \<le> brk ?w" if "b \<in> insert ?a F" for b
    using that queue_at_le [OF F(1,2), of b] by auto
  then have "nodes_ok ?w" using m(3) by (intro nodes_ok_change [OF F(2), where F = "insert ?a F"]) simp_all
  moreover have "nodes w0 b = None" if "b \<in> insert ?a F" for b
  proof (cases "b \<in> F")
    case False
    with F(4) that have "nodes w0 b = nodes w ?a" by simp
    with a show ?thesis by simp
  qed (use F(3) in blast)
  moreover have "nodes ?w b = nodes w0 b" if "b \<notin> insert ?a F" for b
    using that F(4) m(3) by simp
  ultimately have "owns w0 e ?w (xs @ [x])" by (rule ownsI)
  with m(1) show ?thesis by blast
qed

lemma dequeue_owns:
  assumes "owns w0 e w (x # xs)"
  shows "\<exists>w'. ixut_cycqueue_dequeue e w = Inr (x, w') \<and> owns w0 e w' xs"
proof -
  from assms obtain F where F: "queue_at w e F (x # xs)" "nodes_ok w" "\<forall>b \<in> F. nodes w0 b = None"
    "\<forall>b. b \<notin> F \<longrightarrow> nodes w b = nodes w0 b" by (auto simp: owns_def)
  from dequeue_exec [OF F(1)] obtain m a where
    m: "ixut_cycqueue_dequeue e w = Inr (x, w\<lparr>nodes := m\<rparr>)" "a \<in> F" "m a = None"
       "queue_at (w\<lparr>nodes := m\<rparr>) e (F - {a}) xs" "\<forall>b. b \<notin> F \<longrightarrow> m b = nodes w b" by blast
  have "nodes_ok (w\<lparr>nodes := m\<rparr>)"
    using m(5) queue_at_le [OF F(1,2)] by (intro nodes_ok_change [OF F(2), where F = F]) simp_all
  moreover have "nodes (w\<lparr>nodes := m\<rparr>) b = nodes w0 b" if "b \<notin> F - {a}" for b
    using that F(3,4) m(2,3,5) by (cases "b = a") auto
  moreover have "nodes w0 b = None" if "b \<in> F - {a}" for b using that F(3) by blast
  ultimately have "owns w0 e (w\<lparr>nodes := m\<rparr>) xs" using m(4) by (intro ownsI)
  with m(1) show ?thesis by blast
qed

lemma front_owns: "owns w0 e w (x # xs) \<Longrightarrow> ixut_cycqueue_front e w = Inr x"
  using front_exec by (auto simp: owns_def)

lemma empty_owns: "owns w0 e w xs \<Longrightarrow> ixut_cycqueue_empty e w = Inr (xs = [])"
  using empty_exec by (auto simp: owns_def)

text \<open>The draining loop ends, whatever the queue holds, and leaves it empty.\<close>

lemma drain_owns: "owns w0 e w xs \<Longrightarrow> \<exists>w'. cycqueue_drain e w = Some (Inr w') \<and> owns w0 e w' []"
proof (induction xs arbitrary: w)
  case Nil
  then show ?case by (subst cycqueue_drain.simps) (simp add: empty_owns)
next
  case (Cons x xs)
  from dequeue_owns [OF Cons.prems] obtain v where
    v: "ixut_cycqueue_dequeue e w = Inr (x, v)" "owns w0 e v xs" by blast
  with Cons.IH [OF v(2)] show ?case
    by (subst cycqueue_drain.simps) (simp add: empty_owns [OF Cons.prems])
qed

text \<open>Freeing gives back every cell of the queue and touches no other.\<close>

lemma free_owns:
  assumes "owns w0 e w xs"
  shows "\<exists>w'. ixut_cycqueue_free e w = Some (Inr w') \<and> nodes w' = nodes w0"
proof -
  from drain_owns [OF assms] obtain v where v: "cycqueue_drain e w = Some (Inr v)" "owns w0 e v []"
    by blast
  from v(2) obtain F p where F: "ring (nodes v) e p []" "F = {e, p}" "\<forall>b \<in> F. nodes w0 b = None"
    "\<forall>b. b \<notin> F \<longrightarrow> nodes v b = nodes w0 b" by (auto simp: owns_def queue_at_def cells_def)
  from F(1) obtain ne np where h: "nodes v e = Some ne" "q_next ne = p" "nodes v p = Some np"
    "e \<noteq> 0" "p \<noteq> 0" "e \<noteq> p" by (rule ring_heads_empty)
  have "check_entry e w (\<lambda>_. Inr ()) = Inr ()"
    using empty_owns [OF assms]
    by (auto simp: ixut_cycqueue_empty_def check_entry_def asserting_eq_Inr bnd_eq_Inr)
  with v(1) have "ixut_cycqueue_free e w = Some (Inr (v\<lparr>nodes := (nodes v)(p := None, e := None)\<rparr>))"
    using h by (simp add: ixut_cycqueue_free_def cstmt)
  moreover have "(nodes v)(p := None, e := None) = nodes w0" using F(2-4) by auto
  ultimately show ?thesis by auto
qed

text \<open>The same for a queue nobody claims to own: freeing removes its cells and does nothing else.\<close>

lemma drain_exec:
  "queue_at w e F xs \<Longrightarrow> \<exists>m G. cycqueue_drain e w = Some (Inr (w\<lparr>nodes := m\<rparr>)) \<and>
     queue_at (w\<lparr>nodes := m\<rparr>) e G [] \<and> G \<subseteq> F \<and> (\<forall>b. b \<notin> F \<longrightarrow> m b = nodes w b) \<and> (\<forall>b \<in> F - G. m b = None)"
proof (induction xs arbitrary: w F)
  case Nil
  then have "cycqueue_drain e w = Some (Inr w)" using empty_exec by (subst cycqueue_drain.simps) fastforce
  with Nil show ?case by (intro exI [of _ "nodes w"] exI [of _ F]) simp
next
  case (Cons x xs)
  from dequeue_exec [OF Cons.prems] obtain m a where
    m: "ixut_cycqueue_dequeue e w = Inr (x, w\<lparr>nodes := m\<rparr>)" "a \<in> F" "m a = None"
      "queue_at (w\<lparr>nodes := m\<rparr>) e (F - {a}) xs" "\<forall>b. b \<notin> F \<longrightarrow> m b = nodes w b" by blast
  from Cons.IH [OF m(4)] obtain n G where
    n: "cycqueue_drain e (w\<lparr>nodes := m\<rparr>) = Some (Inr (w\<lparr>nodes := n\<rparr>))" "queue_at (w\<lparr>nodes := n\<rparr>) e G []"
      "G \<subseteq> F - {a}" "\<forall>b. b \<notin> F - {a} \<longrightarrow> n b = m b" "\<forall>b \<in> F - {a} - G. n b = None" by auto
  have "cycqueue_drain e w = Some (Inr (w\<lparr>nodes := n\<rparr>))"
    using empty_exec [OF Cons.prems] m(1) n(1) by (subst cycqueue_drain.simps) simp
  moreover have "n b = None" if "b \<in> F - G" for b using that n(4,5) m(3) by (cases "b = a") auto
  ultimately show ?case using n(2-4) m(5) by (intro exI [of _ n] exI [of _ G]) auto
qed

lemma cycqueue_free_exec:
  assumes "queue_at w e F xs"
  shows "ixut_cycqueue_free e w = Some (Inr (w\<lparr>nodes := nodes w |` (- F)\<rparr>))"
proof -
  from drain_exec [OF assms] obtain m G where
    m: "cycqueue_drain e w = Some (Inr (w\<lparr>nodes := m\<rparr>))" "queue_at (w\<lparr>nodes := m\<rparr>) e G []" "G \<subseteq> F"
      "\<forall>b. b \<notin> F \<longrightarrow> m b = nodes w b" "\<forall>b \<in> F - G. m b = None" by blast
  from m(2) obtain p where p: "ring m e p []" "G = {e, p}" by (auto simp: queue_at_def cells_def)
  from p(1) obtain ne np where h: "m e = Some ne" "q_next ne = p" "m p = Some np" "e \<noteq> 0" "p \<noteq> 0" "e \<noteq> p"
    by (rule ring_heads_empty)
  have "check_entry e w (\<lambda>_. Inr ()) = Inr ()"
    using empty_exec [OF assms]
    by (auto simp: ixut_cycqueue_empty_def check_entry_def asserting_eq_Inr bnd_eq_Inr)
  then have "ixut_cycqueue_free e w = Some (Inr (w\<lparr>nodes := m(p := None, e := None)\<rparr>))"
    using h m(1) by (simp add: ixut_cycqueue_free_def cstmt)
  moreover have "m(p := None, e := None) = nodes w |` (- F)"
    using m(3-5) p(2) by (intro ext) (auto simp: restrict_map_def)
  ultimately show ?thesis by simp
qed

text \<open>The loop, unrolled: \<open>dequeues n\<close> takes \<open>n\<close> values.\<close>

fun dequeues :: "nat \<Rightarrow> addr \<Rightarrow> 'a qworld_scheme \<Rightarrow> (nat list \<times> 'a qworld_scheme) res" where
  "dequeues 0 e w = Inr ([], w)"
| "dequeues (Suc n) e w =
     bnd (ixut_cycqueue_dequeue e w) (\<lambda>(x, w). bnd (dequeues n e w) (\<lambda>(xs, w). Inr (x # xs, w)))"

lemma drain_rounds:
  "queue_at w e F xs \<Longrightarrow> \<exists>v. dequeues (length xs) e w = Inr (xs, v) \<and> cycqueue_drain e w = Some (Inr v)"
proof (induction xs arbitrary: w F)
  case Nil
  then show ?case using empty_exec by (subst cycqueue_drain.simps) fastforce
next
  case (Cons x xs)
  from dequeue_exec [OF Cons.prems] obtain m a where
    m: "ixut_cycqueue_dequeue e w = Inr (x, w\<lparr>nodes := m\<rparr>)" "queue_at (w\<lparr>nodes := m\<rparr>) e (F - {a}) xs" by blast
  from Cons.IH [OF m(2)] obtain v where
    v: "dequeues (length xs) e (w\<lparr>nodes := m\<rparr>) = Inr (xs, v)" "cycqueue_drain e (w\<lparr>nodes := m\<rparr>) = Some (Inr v)" by blast
  have "cycqueue_drain e w = Some (Inr v)"
    using empty_exec [OF Cons.prems] m(1) v(2) by (subst cycqueue_drain.simps) simp
  with m(1) v(1) show ?case by simp
qed

text \<open>
  C20: freeing a queue ends.  Whatever a queue holds, the loop of \<open>ixut_cycqueue_free\<close> makes exactly one
  round for each value, taking the values in order, and then stops; the whole of it
  returns, and removes precisely the cells of the queue.
\<close>

theorem cycqueue_free_terminates:
  assumes "queue_at w e F xs"
  shows "(\<exists>v. dequeues (length xs) e w = Inr (xs, v) \<and> cycqueue_drain e w = Some (Inr v)) \<and>
    ixut_cycqueue_free e w = Some (Inr (w\<lparr>nodes := nodes w |` (- F)\<rparr>))"
  using drain_rounds [OF assms] cycqueue_free_exec [OF assms] by blast

text \<open>The queue at 1 holds the value 42.\<close>

definition held_queue :: qworld where
  "held_queue = \<lparr>brk = 3, hist = [], contexts = (\<lambda>_. None), nodes =
     [1 \<mapsto> \<lparr>q_data = memset_0F, q_next = 3\<rparr>, 2 \<mapsto> \<lparr>q_data = memset_0F, q_next = 3\<rparr>, 3 \<mapsto> \<lparr>q_data = 42, q_next = 2\<rparr>]\<rparr>"

lemma held_queue_at: "queue_at held_queue 1 {1, 2, 3} [42]"
  unfolding queue_at_def held_queue_def
  by (intro exI [of _ 2] exI [of _ "[(3, 42)]"]) (auto simp: ring_def cells_def next_is_def data_is_def)

theorem cycqueue_free_terminates_witness:
  "\<exists>v. ixut_cycqueue_free 1 held_queue = Some (Inr v) \<and> nodes v = (\<lambda>_. None)"
  using cycqueue_free_terminates [OF held_queue_at] by (auto simp: held_queue_def restrict_map_def fun_eq_iff)

section \<open>The contract as an interface\<close>

text \<open>
  A provider of a first-in first-out queue of pointers.  \<open>holds q w xs\<close> is the provider's own
  notion of the queue \<open>q\<close> holding \<open>xs\<close> in the state \<open>w\<close>.
\<close>

datatype fifo_op = Enq nat | Deq | Front | Empty

datatype fifo_res = Done | Value nat | Flag bool

primrec fifo_step ::
  "(addr \<Rightarrow> nat \<Rightarrow> 'w \<Rightarrow> 'w res) \<Rightarrow> (addr \<Rightarrow> 'w \<Rightarrow> (nat \<times> 'w) res) \<Rightarrow> (addr \<Rightarrow> 'w \<Rightarrow> nat res) \<Rightarrow>
   (addr \<Rightarrow> 'w \<Rightarrow> bool res) \<Rightarrow> addr \<Rightarrow> fifo_op \<Rightarrow> 'w \<Rightarrow> (fifo_res \<times> 'w) res" where
  "fifo_step enq deq front emp q (Enq x) w = bnd (enq q x w) (\<lambda>w. Inr (Done, w))"
| "fifo_step enq deq front emp q Deq w = bnd (deq q w) (\<lambda>(x, w). Inr (Value x, w))"
| "fifo_step enq deq front emp q Front w = bnd (front q w) (\<lambda>x. Inr (Value x, w))"
| "fifo_step enq deq front emp q Empty w = bnd (emp q w) (\<lambda>b. Inr (Flag b, w))"

text \<open>The abstract queue: a list, with no answer for reading the oldest of no values.\<close>

fun fifo_spec :: "fifo_op \<Rightarrow> nat list \<Rightarrow> (fifo_res \<times> nat list) option" where
  "fifo_spec (Enq x) xs = Some (Done, xs @ [x])"
| "fifo_spec Deq [] = None"
| "fifo_spec Deq (x # xs) = Some (Value x, xs)"
| "fifo_spec Front [] = None"
| "fifo_spec Front (x # xs) = Some (Value x, x # xs)"
| "fifo_spec Empty xs = Some (Flag (xs = []), xs)"

locale fifo =
  fixes enq :: "addr \<Rightarrow> nat \<Rightarrow> 'w \<Rightarrow> 'w res"
    and deq :: "addr \<Rightarrow> 'w \<Rightarrow> (nat \<times> 'w) res"
    and front :: "addr \<Rightarrow> 'w \<Rightarrow> nat res"
    and emp :: "addr \<Rightarrow> 'w \<Rightarrow> bool res"
    and holds :: "addr \<Rightarrow> 'w \<Rightarrow> nat list \<Rightarrow> bool"
  assumes enq_law: "holds q w xs \<Longrightarrow> \<exists>w'. enq q x w = Inr w' \<and> holds q w' (xs @ [x])"
    and deq_law: "holds q w (x # xs) \<Longrightarrow> \<exists>w'. deq q w = Inr (x, w') \<and> holds q w' xs"
    and front_law: "holds q w (x # xs) \<Longrightarrow> front q w = Inr x"
    and emp_law: "holds q w xs \<Longrightarrow> emp q w = Inr (xs = [])"
begin

text \<open>What a client that asks before it takes can rely on.\<close>

lemma nonempty_front_deq:
  "holds q w xs \<Longrightarrow> emp q w = Inr False \<Longrightarrow>
     \<exists>x w'. xs = x # tl xs \<and> front q w = Inr x \<and> deq q w = Inr (x, w') \<and> holds q w' (tl xs)"
  using emp_law [of q w xs] deq_law [of q w "hd xs" "tl xs"] front_law [of q w "hd xs" "tl xs"]
  by (cases xs) auto

lemma enq_keeps_front: "holds q w (x # xs) \<Longrightarrow> enq q y w = Inr w' \<Longrightarrow> front q w' = Inr x"
  using enq_law [of q w "x # xs" y] front_law [of q w' x "xs @ [y]"] by auto

end

sublocale fifo \<subseteq> sim: simulation "fifo_step enq deq front emp q" fifo_spec "holds q" for q
proof
  fix w xs x r xs'
  assume h: "holds q w xs" and s: "fifo_spec x xs = Some (r, xs')"
  show "\<exists>w'. fifo_step enq deq front emp q x w = Inr (r, w') \<and> holds q w' xs'"
  proof (cases x)
    case (Enq y)
    with s enq_law [OF h, of y] show ?thesis by auto
  next
    case Deq
    with s h deq_law [of q w] show ?thesis by (cases xs) fastforce+
  next
    case Front
    with s h front_law [of q w] show ?thesis by (cases xs) auto
  next
    case Empty
    with s h emp_law [OF h] show ?thesis by auto
  qed
qed

text \<open>The queue of util.cxx provides it.\<close>

interpretation cq: fifo "ixut_cycqueue_enqueue E" ixut_cycqueue_dequeue ixut_cycqueue_front
  ixut_cycqueue_empty "\<lambda>e w xs. plentiful E \<and> owns w0 e w xs" for E w0
  by unfold_locales (auto simp: front_owns empty_owns dest: dequeue_owns intro!: enqueue_owns)

section \<open>Properties\<close>

text \<open>
  C1: a whole life of a queue.  Create it, perform any script of operations that never reads from
  an empty queue, then free it: every operation returns what a first-in first-out list returns,
  no operation faults, the freeing loop ends, and the heap of nodes is the one there was before,
  so no node is leaked and no foreign node is touched.
\<close>

theorem cycqueue_life:
  assumes "plentiful E" "nodes_ok w" "run_spec fifo_spec ops [] = Some (rs, xs)"
  shows "\<exists>e w1 w2 w3. ixut_cycqueue_create E w = Inr (e, w1) \<and>
    run_ops (fifo_step (ixut_cycqueue_enqueue E) ixut_cycqueue_dequeue ixut_cycqueue_front
               ixut_cycqueue_empty e) ops w1 = Inr (rs, w2) \<and>
    ixut_cycqueue_free e w2 = Some (Inr w3) \<and> nodes w3 = nodes w"
proof -
  from create_owns [OF assms(1,2)] obtain w1 where
    c: "ixut_cycqueue_create E w = Inr (Suc (brk w), w1)" "owns w (Suc (brk w)) w1 []" by blast
  with cq.sim.run_sim [OF _ assms(3), of E w "Suc (brk w)" w1] assms(1) obtain w2 where
    r: "run_ops (fifo_step (ixut_cycqueue_enqueue E) ixut_cycqueue_dequeue ixut_cycqueue_front
               ixut_cycqueue_empty (Suc (brk w))) ops w1 = Inr (rs, w2)" "owns w (Suc (brk w)) w2 xs"
    by blast
  from free_owns [OF r(2)] c(1) r(1) show ?thesis by blast
qed

text \<open>A concrete state for the witnesses.\<close>

definition no_nodes :: qworld where
  "no_nodes = \<lparr>brk = 0, hist = [], contexts = (\<lambda>_. None), nodes = (\<lambda>_. None)\<rparr>"

lemma no_nodes_ok [simp]: "nodes_ok no_nodes"
  by (simp add: nodes_ok_def no_nodes_def)

theorem cycqueue_life_witness:
  "plentiful calm \<and> nodes_ok no_nodes \<and>
   (\<exists>e w1 w2 w3. ixut_cycqueue_create calm no_nodes = Inr (e, w1) \<and>
     run_ops (fifo_step (ixut_cycqueue_enqueue calm) ixut_cycqueue_dequeue ixut_cycqueue_front
               ixut_cycqueue_empty e) [Enq 2, Enq 3, Front, Deq, Empty] w1
       = Inr ([Done, Done, Value 2, Value 2, Flag False], w2) \<and>
     ixut_cycqueue_free e w2 = Some (Inr w3) \<and> nodes w3 = nodes no_nodes)"
proof -
  have "run_spec fifo_spec [Enq 2, Enq 3, Front, Deq, Empty] []
          = Some ([Done, Done, Value 2, Value 2, Flag False], [3])" by simp
  from cycqueue_life [OF calm_plentiful no_nodes_ok this] show ?thesis by (blast intro: calm_plentiful no_nodes_ok)
qed

text \<open>
  Dequeueing from an empty queue is not caught by an assertion.  The operation returns
  normally, but it has freed the place holder: whatever is called next on the queue (every
  operation reads through the entry first) is an access to freed memory.
\<close>

theorem dequeue_empty_breaks:
  assumes "queue_at w e F []" "nodes_ok w"
  shows "\<exists>v w'. ixut_cycqueue_dequeue e w = Inr (v, w') \<and> ixut_cycqueue_empty e w' = Inl Dangling \<and>
    ixut_cycqueue_front e w' = Inl Dangling \<and> ixut_cycqueue_dequeue e w' = Inl Dangling \<and>
    ixut_cycqueue_free e w' = Some (Inl Dangling) \<and> is_fault (ixut_cycqueue_enqueue E e x w')"
proof -
  from assms(1) obtain p where r: "ring (nodes w) e p []" by (auto simp: queue_at_def)
  from r obtain ne np where h: "nodes w e = Some ne" "q_next ne = p" "nodes w p = Some np"
    "q_next np = p" "e \<noteq> 0" "p \<noteq> 0" "e \<noteq> p" by (rule ring_heads_empty)
  let ?w = "w\<lparr>nodes := (nodes w)(p := None)\<rparr>"
  have "(nodes w)(p \<mapsto> np\<lparr>q_next := p\<rparr>, e \<mapsto> ne\<lparr>q_next := p\<rparr>, p := None) = (nodes w)(p := None)"
    using h by auto
  then have "ixut_cycqueue_dequeue e w = Inr (q_data np, ?w)"
    using h by (simp add: ixut_cycqueue_dequeue_def check_entry_def cstmt)
  moreover have "ixut_cycqueue_empty e ?w = Inl Dangling" "ixut_cycqueue_front e ?w = Inl Dangling"
    "ixut_cycqueue_dequeue e ?w = Inl Dangling"
    using h by (simp_all add: ixut_cycqueue_empty_def ixut_cycqueue_front_def ixut_cycqueue_dequeue_def
        check_entry_def get_next_def deref_def)
  moreover from this have "ixut_cycqueue_free e ?w = Some (Inl Dangling)"
    using h by (subst ixut_cycqueue_free_def, subst cycqueue_drain.simps)
      (simp add: check_entry_def get_next_def deref_def)
  moreover have "is_fault (ixut_cycqueue_enqueue E e x ?w)"
    using h assms(2) by (cases "alloc_ok E ?w") (auto simp: nodes_ok_def ixut_cycqueue_enqueue_def check_entry_def cstmt
        malloc_node_def set_node_def get_next_def Let_def deref_def modify_def)
  ultimately show ?thesis by blast
qed

definition one_queue :: qworld where
  "one_queue = no_nodes\<lparr>brk := 2, nodes := [1 \<mapsto> \<lparr>q_data = memset_0F, q_next = 2\<rparr>,
                                               2 \<mapsto> \<lparr>q_data = memset_0F, q_next = 2\<rparr>]\<rparr>"

lemma one_queue_ok: "nodes_ok one_queue"
  by (simp add: nodes_ok_def one_queue_def)

lemma one_queue_at: "queue_at one_queue 1 {1, 2} []"
  unfolding queue_at_def
  by (intro exI [of _ 2] exI [of _ "[]"]) (auto simp: ring_def cells_def one_queue_def next_is_def)

theorem dequeue_empty_breaks_witness:
  "queue_at one_queue 1 {1, 2} [] \<and>
   (\<exists>v w'. ixut_cycqueue_dequeue 1 one_queue = Inr (v, w') \<and> ixut_cycqueue_empty 1 w' = Inl Dangling)"
  using one_queue_at dequeue_empty_breaks [OF one_queue_at one_queue_ok] by blast

text \<open>
  Front and dequeue of a queue that holds something agree and take the oldest value, the
  dequeue frees exactly one cell of the queue, and no cell outside the queue changes; in
  particular another queue whose cells are disjoint keeps its values.
\<close>

theorem dequeue_functional:
  assumes "queue_at w e F (x # xs)" "queue_at w e2 F2 zs" "F \<inter> F2 = {}"
  shows "ixut_cycqueue_front e w = Inr x \<and>
    (\<exists>w' a. ixut_cycqueue_dequeue e w = Inr (x, w') \<and> a \<in> F \<and> nodes w' a = None \<and>
       queue_at w' e (F - {a}) xs \<and> queue_at w' e2 F2 zs \<and> hist w' = hist w)"
proof -
  from dequeue_exec [OF assms(1)] obtain m a where
    m: "ixut_cycqueue_dequeue e w = Inr (x, w\<lparr>nodes := m\<rparr>)" "a \<in> F" "m a = None"
       "queue_at (w\<lparr>nodes := m\<rparr>) e (F - {a}) xs" "\<forall>b. b \<notin> F \<longrightarrow> m b = nodes w b" by blast
  have "nodes w b = nodes (w\<lparr>nodes := m\<rparr>) b" if "b \<in> F2" for b using that assms(3) m(5) by auto
  then have "queue_at (w\<lparr>nodes := m\<rparr>) e2 F2 zs" using queue_at_cong assms(2) by blast
  with m front_exec [OF assms(1)] show ?thesis by (intro conjI exI [of _ "w\<lparr>nodes := m\<rparr>"] exI [of _ a]) auto
qed

definition two_queues :: qworld where
  "two_queues = no_nodes\<lparr>brk := 5, nodes := [1 \<mapsto> \<lparr>q_data = 0, q_next = 3\<rparr>,
     2 \<mapsto> \<lparr>q_data = 0, q_next = 3\<rparr>, 3 \<mapsto> \<lparr>q_data = 42, q_next = 2\<rparr>,
     4 \<mapsto> \<lparr>q_data = 0, q_next = 5\<rparr>, 5 \<mapsto> \<lparr>q_data = 0, q_next = 5\<rparr>]\<rparr>"

lemma two_queues_at: "queue_at two_queues 1 {1, 2, 3} [42]" "queue_at two_queues 4 {4, 5} []"
  unfolding queue_at_def
   apply (intro exI [of _ 2] exI [of _ "[(3, 42)]"])
   apply (auto simp: ring_def cells_def two_queues_def next_is_def data_is_def newest_def)[1]
  apply (intro exI [of _ 5] exI [of _ "[]"])
  apply (auto simp: ring_def cells_def two_queues_def next_is_def)
  done

theorem dequeue_functional_witness:
  "ixut_cycqueue_front 1 two_queues = Inr 42 \<and>
   (\<exists>w' a. ixut_cycqueue_dequeue 1 two_queues = Inr (42, w') \<and> queue_at w' 4 {4, 5} [])"
  using dequeue_functional [OF two_queues_at] by auto

text \<open>
  Enqueue does not check malloc.  Refused memory is written through the null pointer; when
  malloc delivers, the value is behind all others and the oldest value stays in front.
\<close>

theorem enqueue_functional:
  assumes "queue_at w e F xs" "nodes_ok w"
  shows "if alloc_ok E w
         then \<exists>w'. ixut_cycqueue_enqueue E e x w = Inr w' \<and> nodes_ok w' \<and>
                queue_at w' e (insert (Suc (brk w)) F) (xs @ [x]) \<and>
                ixut_cycqueue_front e w' = Inr (hd (xs @ [x])) \<and> ixut_cycqueue_empty e w' = Inr False
         else ixut_cycqueue_enqueue E e x w = Inl NullDeref"
proof (cases "alloc_ok E w")
  case True
  from enqueue_exec [OF assms True, of x] obtain m where
    m: "ixut_cycqueue_enqueue E e x w =
          Inr (w\<lparr>brk := Suc (brk w), hist := (Malloc, ask E Malloc w) # hist w, nodes := m\<rparr>)"
       "queue_at (w\<lparr>nodes := m\<rparr>) e (insert (Suc (brk w)) F) (xs @ [x])"
       "\<forall>b. b \<notin> insert (Suc (brk w)) F \<longrightarrow> m b = nodes w b" by blast
  let ?w = "w\<lparr>brk := Suc (brk w), hist := (Malloc, ask E Malloc w) # hist w, nodes := m\<rparr>"
  have q: "queue_at ?w e (insert (Suc (brk w)) F) (xs @ [x])" using m(2) by (simp add: queue_at_def)
  have "b \<le> brk ?w" if "b \<in> insert (Suc (brk w)) F" for b
    using that queue_at_le [OF assms, of b] by auto
  then have "nodes_ok ?w"
    using m(3) by (intro nodes_ok_change [OF assms(2), where F = "insert (Suc (brk w)) F"]) simp_all
  moreover have "ixut_cycqueue_front e ?w = Inr (hd (xs @ [x]))"
    using front_exec [of ?w e _ "hd (xs @ [x])" "tl (xs @ [x])"] q by simp
  moreover have "ixut_cycqueue_empty e ?w = Inr False" using empty_exec [OF q] by simp
  ultimately show ?thesis using True m(1) q by auto
next
  case False
  from empty_exec [OF assms(1)] have "\<exists>n. get_next e w = Inr n \<and> n \<noteq> 0 \<and> e \<noteq> 0"
    by (auto simp: ixut_cycqueue_empty_def check_entry_def asserting_eq_Inr bnd_eq_Inr)
  with False show ?thesis
    by (auto simp: ixut_cycqueue_enqueue_def check_entry_def malloc_node_def cstmt set_node_def)
qed

theorem enqueue_functional_witness:
  "\<exists>w'. ixut_cycqueue_enqueue calm 1 9 two_queues = Inr w' \<and> ixut_cycqueue_front 1 w' = Inr 42"
proof -
  have "nodes_ok two_queues" by (simp add: nodes_ok_def two_queues_def)
  from enqueue_functional [OF two_queues_at(1) this, of calm 9] show ?thesis by auto
qed

end
