(* ===== verification/CycqueueTest.thy ===== *)
theory CycqueueTest
  imports CycqueueSpec
begin

text \<open>
  The unit test of the queue, test/test_cycqueue.cxx, as a program over the modelled operations:
  every \<open>assert\<close> of the test is one of the model.  The rules below execute one operation of the
  test on an owned queue.
\<close>

definition test_body :: "env \<Rightarrow> addr \<Rightarrow> 'a qworld_scheme \<Rightarrow> 'a qworld_scheme res" where
  "test_body E queue w =
     asserting (queue \<noteq> 0) (
     bnd (ixut_cycqueue_empty queue w) (\<lambda>b. asserting b (
     bnd (ixut_cycqueue_enqueue E queue 1 w) (\<lambda>w.
     bnd (ixut_cycqueue_empty queue w) (\<lambda>b. asserting (\<not> b) (
     bnd (ixut_cycqueue_front queue w) (\<lambda>x. asserting (x = 1) (
     bnd (ixut_cycqueue_dequeue queue w) (\<lambda>(x, w). asserting (x = 1) (
     bnd (ixut_cycqueue_empty queue w) (\<lambda>b. asserting b (
     bnd (ixut_cycqueue_enqueue E queue 2 w) (\<lambda>w.
     bnd (ixut_cycqueue_enqueue E queue 3 w) (\<lambda>w.
     bnd (ixut_cycqueue_enqueue E queue 4 w) (\<lambda>w.
     bnd (ixut_cycqueue_front queue w) (\<lambda>x. asserting (x = 2) (
     bnd (ixut_cycqueue_enqueue E queue 5 w) (\<lambda>w.
     bnd (ixut_cycqueue_dequeue queue w) (\<lambda>(x, w). asserting (x = 2) (
     bnd (ixut_cycqueue_dequeue queue w) (\<lambda>(x, w). asserting (x = 3) (
     bnd (ixut_cycqueue_dequeue queue w) (\<lambda>(x, w). asserting (x = 4) (
     bnd (ixut_cycqueue_enqueue E queue 6 w) (\<lambda>w.
     bnd (ixut_cycqueue_dequeue queue w) (\<lambda>(x, w). asserting (x = 5) (
     bnd (ixut_cycqueue_front queue w) (\<lambda>x. asserting (x = 6) (
     bnd (ixut_cycqueue_dequeue queue w) (\<lambda>(x, w). asserting (x = 6) (
     bnd (ixut_cycqueue_empty queue w) (\<lambda>b. asserting b (
     Inr w)))))))))))))))))))))))))))))))))"

definition test_cycqueue :: "env \<Rightarrow> 'a qworld_scheme \<Rightarrow> 'a qworld_scheme res option" where
  "test_cycqueue E w =
     (case bnd (ixut_cycqueue_create E w) (\<lambda>(queue, w).
             bnd (test_body E queue w) (\<lambda>w. Inr (queue, w))) of
        Inl e \<Rightarrow> Some (Inl e)
      | Inr (queue, w) \<Rightarrow> ixut_cycqueue_free queue w)"

lemma yields_enqueue:
  "plentiful E \<Longrightarrow> owns w0 e w xs \<Longrightarrow>
   (\<And>w'. owns w0 e w' (xs @ [x]) \<Longrightarrow> yields (f w') Q) \<Longrightarrow> yields (bnd (ixut_cycqueue_enqueue E e x w) f) Q"
  using enqueue_owns [of E w w0 e xs x] by auto

lemma yields_dequeue:
  "owns w0 e w ys \<Longrightarrow> ys = x # xs \<Longrightarrow> (\<And>w'. owns w0 e w' xs \<Longrightarrow> yields (f (x, w')) Q) \<Longrightarrow>
   yields (bnd (ixut_cycqueue_dequeue e w) f) Q"
  using dequeue_owns [of w0 e w x xs] by auto

lemma test_body_passes:
  assumes "plentiful E" "owns w0 e w []" "e \<noteq> 0"
  shows "yields (test_body E e w) (\<lambda>w'. owns w0 e w' [])"
  using assms unfolding test_body_def
  apply (simp add: empty_owns)
  apply ((rule yields_enqueue, assumption, assumption)
      | (rule yields_dequeue, assumption, simp, simp only: prod.case)
      | (simp only: empty_owns front_owns bnd_Inr asserting_True list.distinct simp_thms append.simps))+
  apply simp
  done

text \<open>
  The unit test of the repository passes on the model: no assertion of the test or of the
  queue fails, the test ends, and it leaves the heap of nodes as it found it.
\<close>

theorem test_cycqueue_passes:
  assumes "plentiful E" "nodes_ok w"
  shows "\<exists>w'. test_cycqueue E w = Some (Inr w') \<and> nodes w' = nodes w"
proof -
  from create_owns [OF assms] obtain v where
    v: "ixut_cycqueue_create E w = Inr (Suc (brk w), v)" "owns w (Suc (brk w)) v []" by blast
  from test_body_passes [OF assms(1) v(2)] obtain u where
    u: "test_body E (Suc (brk w)) v = Inr u" "owns w (Suc (brk w)) u []" by (auto simp: yields_def)
  from free_owns [OF u(2)] u(1) v(1) show ?thesis by (auto simp: test_cycqueue_def)
qed

theorem test_cycqueue_passes_witness:
  "\<exists>w'. test_cycqueue calm no_nodes = Some (Inr w') \<and> nodes w' = nodes no_nodes"
  by (rule test_cycqueue_passes [OF calm_plentiful no_nodes_ok])

end
