(* ===== verification/Sock.thy ===== *)
theory Sock
  imports Cycqueue
begin

unbundle bit_operations_syntax

text \<open>
  Sockets, sock.cxx: listening and connecting sockets, connection contexts with a read buffer and
  a queue of pending writes (the circular queue of util.cxx, whose values are the addresses of write
  contexts), and the four handlers libev calls.  Sizes are 64-bit words, as \<open>size_t\<close> is, and the
  result of \<open>read\<close> is cut to the 32 bits of the \<open>int\<close> it is assigned to.
\<close>

section \<open>Data\<close>

datatype io_handler =
    Ixfd_commonsock_accept_cb
  | Ixfd_commonsock_connect_cb
  | Ixfd_commonsock_read_cb
  | Ixfd_commonsock_write_cb

text \<open>The fields of libev's io watcher that the code sets or reads.\<close>

record ev_io =
  io_cb :: io_handler
  io_fd :: int
  io_events :: nat
  io_data :: addr

definition EV_READ :: nat where "EV_READ = 1"
definition EV_WRITE :: nat where "EV_WRITE = 2"

definition IXFD_SOCK_UNKNOWN :: int where "IXFD_SOCK_UNKNOWN = 0"
definition IXFD_SOCK_TCP :: int where "IXFD_SOCK_TCP = 1"

text \<open>Linux's values of two constants of the C library.\<close>

definition EINPROGRESS :: int where "EINPROGRESS = 115"
definition O_NONBLOCK :: "32 word" where "O_NONBLOCK = 0x800"

record ixfd_sock =
  s_fd :: int
  event_accept :: addr
  event_connect :: addr
  s_cb_read :: nat
  cb_accept :: nat
  cb_close :: nat
  s_type :: int
  s_active :: bool
  connected :: bool
  listening :: bool
  passive_read :: bool
  s_context :: addr
  default_ctx :: addr
  s_data :: nat

record ixfd_conn_ctx =
  c_sock :: addr
  c_fd :: int
  event_read :: addr
  event_write :: addr
  buf_write :: addr
  size_bufread :: size_t
  buf_read :: addr
  c_cb_read :: nat
  c_active :: bool
  write_launched :: bool
  c_data :: nat

text \<open>A pointer into a byte buffer is the buffer's address and an offset.\<close>

record ixfd_sock_write_ctx =
  w_data :: "addr \<times> nat"
  len_remain :: size_t
  w_cb :: nat
  data_org :: addr
  cb_args :: nat

record ixfd_connect_args =
  ca_sock :: addr
  cb_conn :: nat
  cb_failed :: nat
  ca_args :: nat

record sworld = qworld +
  socks :: "addr \<Rightarrow> ixfd_sock option"
  ctxs :: "addr \<Rightarrow> ixfd_conn_ctx option"
  wctxs :: "addr \<Rightarrow> ixfd_sock_write_ctx option"
  cargs :: "addr \<Rightarrow> ixfd_connect_args option"
  ios :: "addr \<Rightarrow> ev_io option"
  bufs :: "addr \<Rightarrow> byte list option"

section \<open>Memory\<close>

definition get_sock :: "addr \<Rightarrow> 'a sworld_scheme \<Rightarrow> ixfd_sock res" where
  "get_sock p w = deref (socks w) p"

definition set_sock :: "(ixfd_sock \<Rightarrow> ixfd_sock) \<Rightarrow> addr \<Rightarrow> 'a sworld_scheme \<Rightarrow> 'a sworld_scheme res" where
  "set_sock f p w = bnd (modify f p (socks w)) (\<lambda>m. Inr (w\<lparr>socks := m\<rparr>))"

definition free_sock :: "addr \<Rightarrow> 'a sworld_scheme \<Rightarrow> 'a sworld_scheme res" where
  "free_sock p w = bnd (release p (socks w)) (\<lambda>m. Inr (w\<lparr>socks := m\<rparr>))"

definition get_ctx :: "addr \<Rightarrow> 'a sworld_scheme \<Rightarrow> ixfd_conn_ctx res" where
  "get_ctx p w = deref (ctxs w) p"

definition set_ctx ::
  "(ixfd_conn_ctx \<Rightarrow> ixfd_conn_ctx) \<Rightarrow> addr \<Rightarrow> 'a sworld_scheme \<Rightarrow> 'a sworld_scheme res" where
  "set_ctx f p w = bnd (modify f p (ctxs w)) (\<lambda>m. Inr (w\<lparr>ctxs := m\<rparr>))"

definition free_ctx :: "addr \<Rightarrow> 'a sworld_scheme \<Rightarrow> 'a sworld_scheme res" where
  "free_ctx p w = bnd (release p (ctxs w)) (\<lambda>m. Inr (w\<lparr>ctxs := m\<rparr>))"

definition get_wctx :: "addr \<Rightarrow> 'a sworld_scheme \<Rightarrow> ixfd_sock_write_ctx res" where
  "get_wctx p w = deref (wctxs w) p"

definition set_wctx ::
  "(ixfd_sock_write_ctx \<Rightarrow> ixfd_sock_write_ctx) \<Rightarrow> addr \<Rightarrow> 'a sworld_scheme \<Rightarrow> 'a sworld_scheme res" where
  "set_wctx f p w = bnd (modify f p (wctxs w)) (\<lambda>m. Inr (w\<lparr>wctxs := m\<rparr>))"

definition get_cargs :: "addr \<Rightarrow> 'a sworld_scheme \<Rightarrow> ixfd_connect_args res" where
  "get_cargs p w = deref (cargs w) p"

definition set_cargs ::
  "(ixfd_connect_args \<Rightarrow> ixfd_connect_args) \<Rightarrow> addr \<Rightarrow> 'a sworld_scheme \<Rightarrow> 'a sworld_scheme res" where
  "set_cargs f p w = bnd (modify f p (cargs w)) (\<lambda>m. Inr (w\<lparr>cargs := m\<rparr>))"

definition free_cargs :: "addr \<Rightarrow> 'a sworld_scheme \<Rightarrow> 'a sworld_scheme res" where
  "free_cargs p w = bnd (release p (cargs w)) (\<lambda>m. Inr (w\<lparr>cargs := m\<rparr>))"

definition get_io :: "addr \<Rightarrow> 'a sworld_scheme \<Rightarrow> ev_io res" where
  "get_io p w = deref (ios w) p"

definition set_io :: "(ev_io \<Rightarrow> ev_io) \<Rightarrow> addr \<Rightarrow> 'a sworld_scheme \<Rightarrow> 'a sworld_scheme res" where
  "set_io f p w = bnd (modify f p (ios w)) (\<lambda>m. Inr (w\<lparr>ios := m\<rparr>))"

definition free_io :: "addr \<Rightarrow> 'a sworld_scheme \<Rightarrow> 'a sworld_scheme res" where
  "free_io p w = bnd (release p (ios w)) (\<lambda>m. Inr (w\<lparr>ios := m\<rparr>))"

definition free_buf :: "addr \<Rightarrow> 'a sworld_scheme \<Rightarrow> 'a sworld_scheme res" where
  "free_buf p w = bnd (release p (bufs w)) (\<lambda>m. Inr (w\<lparr>bufs := m\<rparr>))"

text \<open>
  malloc of each struct.  Where the code clears the struct with memset at once, the object is zero
  and a refused malloc is a write through NULL; otherwise its fields are indeterminate.
\<close>

definition zero_sock :: ixfd_sock where
  "zero_sock = \<lparr>s_fd = 0, event_accept = 0, event_connect = 0, s_cb_read = 0, cb_accept = 0, cb_close = 0,
     s_type = 0, s_active = False, connected = False, listening = False, passive_read = False,
     s_context = 0, default_ctx = 0, s_data = 0\<rparr>"

definition zero_ctx :: ixfd_conn_ctx where
  "zero_ctx = \<lparr>c_sock = 0, c_fd = 0, event_read = 0, event_write = 0, buf_write = 0, size_bufread = 0,
     buf_read = 0, c_cb_read = 0, c_active = False, write_launched = False, c_data = 0\<rparr>"

definition malloc_sock :: "env \<Rightarrow> 'a sworld_scheme \<Rightarrow> (addr \<times> 'a sworld_scheme) res" where
  "malloc_sock E w =
     (let (p, w) = malloc E w
      in if p = 0 then Inl NullDeref else Inr (p, w\<lparr>socks := (socks w)(p \<mapsto> zero_sock)\<rparr>))"

definition malloc_ctx :: "env \<Rightarrow> 'a sworld_scheme \<Rightarrow> (addr \<times> 'a sworld_scheme) res" where
  "malloc_ctx E w =
     (let (p, w) = malloc E w
      in if p = 0 then Inl NullDeref else Inr (p, w\<lparr>ctxs := (ctxs w)(p \<mapsto> zero_ctx)\<rparr>))"

definition malloc_cargs :: "env \<Rightarrow> 'a sworld_scheme \<Rightarrow> (addr \<times> 'a sworld_scheme) res" where
  "malloc_cargs E w =
     (let (p, w) = malloc E w
      in if p = 0 then Inl NullDeref
         else Inr (p, w\<lparr>cargs := (cargs w)(p \<mapsto> \<lparr>ca_sock = 0, cb_conn = 0, cb_failed = 0, ca_args = 0\<rparr>)\<rparr>))"

definition malloc_wctx :: "env \<Rightarrow> 'a sworld_scheme \<Rightarrow> addr \<times> 'a sworld_scheme" where
  "malloc_wctx E w =
     (let (p, w) = malloc E w
      in (p, if p = 0 then w
             else w\<lparr>wctxs := (wctxs w)(p \<mapsto>
                    \<lparr>w_data = (junk E (hist w) 0, 0), len_remain = of_nat (junk E (hist w) 1),
                     w_cb = junk E (hist w) 2, data_org = junk E (hist w) 3, cb_args = junk E (hist w) 4\<rparr>)\<rparr>))"

definition malloc_io :: "env \<Rightarrow> 'a sworld_scheme \<Rightarrow> addr \<times> 'a sworld_scheme" where
  "malloc_io E w =
     (let (p, w) = malloc E w
      in (p, if p = 0 then w
             else w\<lparr>ios := (ios w)(p \<mapsto>
                    \<lparr>io_cb = Ixfd_commonsock_read_cb, io_fd = int (junk E (hist w) 0),
                     io_events = junk E (hist w) 1, io_data = junk E (hist w) 2\<rparr>)\<rparr>))"

definition malloc_buf :: "env \<Rightarrow> size_t \<Rightarrow> 'a sworld_scheme \<Rightarrow> addr \<times> 'a sworld_scheme" where
  "malloc_buf E n w =
     (let (p, w) = malloc E w
      in (p, if p = 0 then w
             else w\<lparr>bufs := (bufs w)(p \<mapsto> map (\<lambda>i. of_nat (junk E (hist w) i)) [0..<unat n])\<rparr>))"

text \<open>memset and memcpy to the beginning of a buffer; beyond its end is a fault.\<close>

definition store :: "byte list \<Rightarrow> addr \<Rightarrow> 'a sworld_scheme \<Rightarrow> 'a sworld_scheme res" where
  "store bs p w =
     bnd (deref (bufs w) p) (\<lambda>b.
       if length b < length bs then Inl OutOfBounds
       else Inr (w\<lparr>bufs := (bufs w)(p \<mapsto> bs @ drop (length bs) b)\<rparr>))"

section \<open>libev and the kernel\<close>

definition ev_init_io :: "addr \<Rightarrow> io_handler \<Rightarrow> 'a sworld_scheme \<Rightarrow> 'a sworld_scheme res" where
  "ev_init_io p h w = bnd (set_io (\<lambda>e. e\<lparr>io_cb := h\<rparr>) p w) (\<lambda>w. Inr (emit (Ev (EvInit p)) w))"

definition ev_io_set :: "addr \<Rightarrow> int \<Rightarrow> nat \<Rightarrow> 'a sworld_scheme \<Rightarrow> 'a sworld_scheme res" where
  "ev_io_set p fd evs w = set_io (\<lambda>e. e\<lparr>io_fd := fd, io_events := evs\<rparr>) p w"

definition ev_io_start :: "addr \<Rightarrow> addr \<Rightarrow> 'a sworld_scheme \<Rightarrow> 'a sworld_scheme res" where
  "ev_io_start l p w = bnd (get_io p w) (\<lambda>_. Inr (emit (Ev (EvIoStart l p)) w))"

definition ev_io_stop :: "addr \<Rightarrow> addr \<Rightarrow> 'a sworld_scheme \<Rightarrow> 'a sworld_scheme res" where
  "ev_io_stop l p w = bnd (get_io p w) (\<lambda>_. Inr (emit (Ev (EvIoStop l p)) w))"

text \<open>A call to the kernel.\<close>

definition sys :: "env \<Rightarrow> syscall \<Rightarrow> 'a world_scheme \<Rightarrow> int \<times> 'a world_scheme" where
  "sys E c w = ext E (Sys c) w"

text \<open>\<open>write\<close> of \<open>len\<close> bytes from a pointer; the result as the \<open>size_t\<close> the code assigns it to.\<close>

definition sys_write ::
  "env \<Rightarrow> int \<Rightarrow> byte list \<Rightarrow> size_t \<Rightarrow> 'a world_scheme \<Rightarrow> (size_t \<times> 'a world_scheme) res" where
  "sys_write E fd bs len w =
     (if length bs < unat len then Inl OutOfBounds
      else let (r, w) = sys E (SysWrite fd (take (unat len) bs)) w in Inr (word_of_int r, w))"

text \<open>
  \<open>read\<close> into a buffer: the kernel stores what it has received, as many bytes as it returns; the
  result as the \<open>int\<close> the code assigns it to.
\<close>

definition sys_read ::
  "env \<Rightarrow> int \<Rightarrow> addr \<Rightarrow> size_t \<Rightarrow> 'a sworld_scheme \<Rightarrow> (int \<times> 'a sworld_scheme) res" where
  "sys_read E fd p len w =
     (let got = input E (hist w) (Sys (SysRead fd len)); (r, w) = sys E (SysRead fd len) w
      in bnd (store (take (nat r) got) p w) (\<lambda>w. Inr (sint (word_of_int r :: 32 word), w)))"

definition ixut_set_socket_nonblock :: "env \<Rightarrow> int \<Rightarrow> 'a world_scheme \<Rightarrow> 'a world_scheme" where
  "ixut_set_socket_nonblock E fd w =
     (let (flags, w) = sys E (SysGetFl fd) w; (_, w) = sys E (SysSetFl fd (word_of_int flags OR O_NONBLOCK)) w
      in w)"

section \<open>Sockets\<close>

definition ixfd_commonsock_create :: "env \<Rightarrow> addr \<Rightarrow> 'a sworld_scheme \<Rightarrow> (addr \<times> 'a sworld_scheme) res" where
  "ixfd_commonsock_create E ctx w =
     asserting (ctx \<noteq> 0) (
     bnd (loop_of ctx w) (\<lambda>l. asserting (l \<noteq> 0) (
     bnd (malloc_sock E w) (\<lambda>(sock, w).
     bnd (set_sock (\<lambda>s. s\<lparr>s_type := IXFD_SOCK_UNKNOWN, s_active := False, connected := False, listening := False,
            passive_read := False, s_cb_read := 0, cb_close := 0, cb_accept := 0, default_ctx := 0,
            event_connect := 0, event_accept := 0, s_fd := 0, s_context := ctx\<rparr>) sock w) (\<lambda>w.
     Inr (sock, w))))))"

definition ixfd_commonsock_tcp_createnbind ::
  "env \<Rightarrow> addr \<Rightarrow> string \<Rightarrow> 16 word \<Rightarrow> 'a sworld_scheme \<Rightarrow> 'a sworld_scheme res" where
  "ixfd_commonsock_tcp_createnbind E sock ip port w =
     asserting (sock \<noteq> 0) (
     bnd (get_sock sock w) (\<lambda>s. asserting (s_type s = IXFD_SOCK_UNKNOWN) (
     let (fd, w) = sys E SysSocket w in
     bnd (set_sock (\<lambda>s. s\<lparr>s_fd := fd\<rparr>) sock w) (\<lambda>w.
     let w = ixut_set_socket_nonblock E fd w; (ev, w) = malloc_io E w in
     bnd (set_sock (\<lambda>s. s\<lparr>event_accept := ev\<rparr>) sock w) (\<lambda>w.
     bnd (ev_init_io ev Ixfd_commonsock_accept_cb w) (\<lambda>w.
     bnd (set_io (\<lambda>e. e\<lparr>io_data := sock\<rparr>) ev w) (\<lambda>w.
     bnd (ev_io_set ev fd EV_READ w) (\<lambda>w.
     let (r, w) = sys E (SysReuseAddr fd) w; w = (if r = -1 then emit (Printf ''setsockopt failed'') w else w);
         (b, w) = sys E (SysBind fd ip port) w in
     if b < 0
     then Inr (emit (Printf ''ixfd_commonsocket_tcp_createnbind: failed when binding to %s:%u'') w)
     else set_sock (\<lambda>s. s\<lparr>s_type := IXFD_SOCK_TCP\<rparr>) sock w))))))))"

definition ixfd_commonsock_tcp_createnconnect ::
  "env \<Rightarrow> 'a sworld_scheme user \<Rightarrow> addr \<Rightarrow> string \<Rightarrow> 16 word \<Rightarrow> nat \<Rightarrow> nat \<Rightarrow> nat \<Rightarrow>
   'a sworld_scheme \<Rightarrow> 'a sworld_scheme res" where
  "ixfd_commonsock_tcp_createnconnect E U sock ip port cb_success failed a w =
     asserting (sock \<noteq> 0) (
     bnd (get_sock sock w) (\<lambda>s. asserting (s_type s = IXFD_SOCK_UNKNOWN) (
     let (fd, w) = sys E SysSocket w in
     bnd (set_sock (\<lambda>s. s\<lparr>s_fd := fd\<rparr>) sock w) (\<lambda>w.
     let w = ixut_set_socket_nonblock E fd w in
     bnd (malloc_cargs E w) (\<lambda>(ev_args, w).
     bnd (set_cargs (\<lambda>x. x\<lparr>ca_sock := sock, cb_conn := cb_success, cb_failed := failed, ca_args := a\<rparr>) ev_args w) (\<lambda>w.
     let (ev, w) = malloc_io E w in
     bnd (set_sock (\<lambda>s. s\<lparr>event_connect := ev\<rparr>) sock w) (\<lambda>w.
     bnd (ev_init_io ev Ixfd_commonsock_connect_cb w) (\<lambda>w.
     bnd (set_io (\<lambda>e. e\<lparr>io_data := ev_args\<rparr>) ev w) (\<lambda>w.
     bnd (ev_io_set ev fd EV_WRITE w) (\<lambda>w.
     let (e, w) = sys E (SysConnect fd ip port) w;
         (errno, w) = (if e = -1 then sys E SysErrno w else (0, w)) in
     if e = 0 \<or> e = -1 \<and> errno = EINPROGRESS
     then bnd (get_sock sock w) (\<lambda>s. bnd (loop_of (s_context s) w) (\<lambda>l. ev_io_start l ev w))
     else bnd (if failed \<noteq> 0 then invoke U failed [sock, a] w else Inr w) (\<lambda>w.
          Inr (emit (Printf ''ixfd_commonsocket_tcp_createnconnect: failed when connecting to %s:%u'') w))))))))))))"

definition ixfd_commonsock_tcp_listen :: "env \<Rightarrow> addr \<Rightarrow> 'a sworld_scheme \<Rightarrow> 'a sworld_scheme res" where
  "ixfd_commonsock_tcp_listen E sock w =
     asserting (sock \<noteq> 0) (
     bnd (get_sock sock w) (\<lambda>s. asserting (s_type s = IXFD_SOCK_TCP) (asserting (s_fd s \<noteq> 0) (
     let (_, w) = sys E (SysListen (s_fd s) 16) w in
     bnd (loop_of (s_context s) w) (\<lambda>l. ev_io_start l (event_accept s) w)))))"

section \<open>Connection contexts\<close>

definition ixfd_commonsock_set_bufread_len ::
  "env \<Rightarrow> addr \<Rightarrow> size_t \<Rightarrow> 'a sworld_scheme \<Rightarrow> 'a sworld_scheme res" where
  "ixfd_commonsock_set_bufread_len E conn len w =
     asserting (conn \<noteq> 0) (asserting (0 < len) (
     let (realloced, w) = malloc_buf E (len + 1) w in
     if realloced \<noteq> 0
     then bnd (get_ctx conn w) (\<lambda>c.
          bnd (if buf_read c \<noteq> 0 then free_buf (buf_read c) w else Inr w) (\<lambda>w.
          bnd (set_ctx (\<lambda>c. c\<lparr>buf_read := realloced\<rparr>) conn w) (\<lambda>w.
          set_ctx (\<lambda>c. c\<lparr>size_bufread := len\<rparr>) conn w)))
     else Inr w))"

definition ixfd_commonsock_create_ctx ::
  "env \<Rightarrow> addr \<Rightarrow> int \<Rightarrow> 'a sworld_scheme \<Rightarrow> (addr \<times> 'a sworld_scheme) res" where
  "ixfd_commonsock_create_ctx E sock fd w =
     bnd (malloc_ctx E w) (\<lambda>(ctx, w).
     bnd (set_ctx (\<lambda>c. c\<lparr>c_fd := fd, c_sock := sock, write_launched := False\<rparr>) ctx w) (\<lambda>w.
     bnd (get_sock sock w) (\<lambda>s.
     bnd (set_ctx (\<lambda>c. c\<lparr>c_cb_read := s_cb_read s\<rparr>) ctx w) (\<lambda>w.
     let (io_read, w) = malloc_io E w in
     bnd (ev_init_io io_read Ixfd_commonsock_read_cb w) (\<lambda>w.
     bnd (ev_io_set io_read fd EV_READ w) (\<lambda>w.
     let (io_write, w) = malloc_io E w in
     bnd (ev_init_io io_write Ixfd_commonsock_write_cb w) (\<lambda>w.
     bnd (ev_io_set io_write fd EV_WRITE w) (\<lambda>w.
     bnd (set_ctx (\<lambda>c. c\<lparr>event_read := io_read, event_write := io_write\<rparr>) ctx w) (\<lambda>w.
     bnd (set_io (\<lambda>e. e\<lparr>io_data := ctx\<rparr>) io_write w) (\<lambda>w.
     bnd (set_io (\<lambda>e. e\<lparr>io_data := ctx\<rparr>) io_read w) (\<lambda>w.
     bnd (set_ctx (\<lambda>c. c\<lparr>buf_read := 0\<rparr>) ctx w) (\<lambda>w.
     bnd (ixfd_commonsock_set_bufread_len E ctx 4096 w) (\<lambda>w.
     bnd (ixut_cycqueue_create E w) (\<lambda>(q, w).
     bnd (set_ctx (\<lambda>c. c\<lparr>buf_write := q\<rparr>) ctx w) (\<lambda>w.
     bnd (set_ctx (\<lambda>c. c\<lparr>c_active := False\<rparr>) ctx w) (\<lambda>w.
     Inr (ctx, w)))))))))))))))))"

definition ixfd_commonsock_close :: "env \<Rightarrow> addr \<Rightarrow> 'a sworld_scheme \<Rightarrow> 'a sworld_scheme res" where
  "ixfd_commonsock_close E ctx w =
     asserting (ctx \<noteq> 0) (
     bnd (set_ctx (\<lambda>c. c\<lparr>c_active := False\<rparr>) ctx w) (\<lambda>w.
     bnd (get_ctx ctx w) (\<lambda>c.
     bnd (get_sock (c_sock c) w) (\<lambda>s.
     bnd (loop_of (s_context s) w) (\<lambda>l.
     bnd (ev_io_stop l (event_read c) w) (\<lambda>w.
     Inr (snd (sys E (SysClose (c_fd c)) w))))))))"

text \<open>Sequencing after a part that may run forever (the freeing loop of the queue).\<close>

definition after :: "'a res option \<Rightarrow> ('a \<Rightarrow> 'b res option) \<Rightarrow> 'b res option" where
  "after m f = (case m of None \<Rightarrow> None | Some (Inl e) \<Rightarrow> Some (Inl e) | Some (Inr x) \<Rightarrow> f x)"

definition ixfd_commonsock_freectx :: "addr \<Rightarrow> 'a sworld_scheme \<Rightarrow> 'a sworld_scheme res option" where
  "ixfd_commonsock_freectx ctx w =
     after (Some (asserting (ctx \<noteq> 0) (
       bnd (get_ctx ctx w) (\<lambda>c.
       bnd (free_io (event_read c) w) (\<lambda>w.
       bnd (free_io (event_write c) w) (\<lambda>w.
       bnd (free_buf (buf_read c) w) (\<lambda>w. Inr (c, w)))))))) (\<lambda>(c, w).
     after (ixut_cycqueue_free (buf_write c) w) (\<lambda>w.
     Some (free_ctx ctx w)))"

definition ixfd_commonsock_unbind :: "env \<Rightarrow> addr \<Rightarrow> 'a sworld_scheme \<Rightarrow> 'a sworld_scheme res" where
  "ixfd_commonsock_unbind E sock w =
     asserting (sock \<noteq> 0) (
     bnd (get_sock sock w) (\<lambda>s.
     bnd (if event_accept s \<noteq> 0
          then bnd (loop_of (s_context s) w) (\<lambda>l. ev_io_stop l (event_accept s) w)
          else Inr w) (\<lambda>w.
     Inr (snd (sys E (SysClose (s_fd s)) w)))))"

definition ixfd_commonsock_disconnect :: "env \<Rightarrow> addr \<Rightarrow> 'a sworld_scheme \<Rightarrow> 'a sworld_scheme res" where
  "ixfd_commonsock_disconnect E sock w =
     asserting (sock \<noteq> 0) (
     bnd (get_sock sock w) (\<lambda>s.
     bnd (get_ctx (default_ctx s) w) (\<lambda>c.
     bnd (if c_active c then ixfd_commonsock_close E (default_ctx s) w else Inr w) (\<lambda>w.
     bnd (get_sock sock w) (\<lambda>s.
     Inr (snd (sys E (SysClose (s_fd s)) w)))))))"

definition ixfd_commonsock_free :: "addr \<Rightarrow> 'a sworld_scheme \<Rightarrow> 'a sworld_scheme res option" where
  "ixfd_commonsock_free sock w =
     after (Some (asserting (sock \<noteq> 0) (
       bnd (get_sock sock w) (\<lambda>s. asserting (event_accept s \<noteq> 0 \<or> event_connect s \<noteq> 0) (Inr s))))) (\<lambda>s.
     after (if default_ctx s \<noteq> 0 then ixfd_commonsock_freectx (default_ctx s) w else Some (Inr w)) (\<lambda>w.
     Some (
       bnd (get_sock sock w) (\<lambda>s.
       bnd (free_io (event_accept s) w) (\<lambda>w.
       bnd (free_io (event_connect s) w) (\<lambda>w.
       free_sock sock w))))))"

section \<open>Writing and reading\<close>

text \<open>A buffer of \<open>len\<close> bytes from malloc, cleared, then filled with a copy.\<close>

definition copy_bytes :: "env \<Rightarrow> byte list \<Rightarrow> size_t \<Rightarrow> 'a sworld_scheme \<Rightarrow> (addr \<times> 'a sworld_scheme) res" where
  "copy_bytes E data len w =
     (let (cp, w) = malloc_buf E len w
      in bnd (store (replicate (unat len) 0) cp w) (\<lambda>w.
         bnd (store (take (unat len) data) cp w) (\<lambda>w.
         Inr (cp, w))))"

definition ixfd_commonsock_write ::
  "env \<Rightarrow> 'a sworld_scheme user \<Rightarrow> addr \<Rightarrow> byte list \<Rightarrow> size_t \<Rightarrow> nat \<Rightarrow> nat \<Rightarrow> 'a sworld_scheme \<Rightarrow>
   (bool \<times> 'a sworld_scheme) res" where
  "ixfd_commonsock_write E U ctx data len f a w =
     bnd (get_ctx ctx w) (\<lambda>c.
     bnd (sys_write E (c_fd c) data len w) (\<lambda>(n, w).
     if len \<le> n
     then bnd (if f \<noteq> 0 then invoke U f [ctx, a] w else Inr w) (\<lambda>w. Inr (True, w))
     else
       let (ctx_write, w) = malloc_wctx E w;
           (data, len) = (if 0 < n then (drop (unat n) data, len - n) else (data, len)) in
       bnd (copy_bytes E data len w) (\<lambda>(cp, w).
       bnd (set_wctx (\<lambda>x. x\<lparr>len_remain := len\<rparr>) ctx_write w) (\<lambda>w.
       bnd (set_wctx (\<lambda>x. x\<lparr>w_data := (cp, 0), data_org := cp\<rparr>) ctx_write w) (\<lambda>w.
       bnd (set_wctx (\<lambda>x. x\<lparr>w_cb := f\<rparr>) ctx_write w) (\<lambda>w.
       bnd (get_ctx ctx w) (\<lambda>c.
       bnd (ixut_cycqueue_enqueue E (buf_write c) ctx_write w) (\<lambda>w.
       bnd (get_ctx ctx w) (\<lambda>c.
       bnd (if \<not> write_launched c
            then bnd (set_ctx (\<lambda>c. c\<lparr>write_launched := True\<rparr>) ctx w) (\<lambda>w.
                 bnd (get_sock (c_sock c) w) (\<lambda>s.
                 bnd (loop_of (s_context s) w) (\<lambda>l.
                 ev_io_start l (event_write c) w)))
            else Inr w) (\<lambda>w.
       Inr (False, w)))))))))))"

definition ixfd_commonsock_read ::
  "env \<Rightarrow> addr \<Rightarrow> addr \<Rightarrow> size_t \<Rightarrow> 'a sworld_scheme \<Rightarrow> (int \<times> 'a sworld_scheme) res" where
  "ixfd_commonsock_read E ctx buf len w =
     asserting (ctx \<noteq> 0) (asserting (buf \<noteq> 0) (
     bnd (get_ctx ctx w) (\<lambda>c.
     bnd (sys_read E (c_fd c) buf len w) (\<lambda>(n, w).
     if 0 < n then Inr (n, w)
     else if n < 0 then Inr (-1, w)
     else bnd (ixfd_commonsock_close E ctx w) (\<lambda>w. Inr (0, w))))))"

section \<open>Handlers\<close>

definition ixfd_commonsock_accept_cb ::
  "env \<Rightarrow> 'a sworld_scheme user \<Rightarrow> addr \<Rightarrow> addr \<Rightarrow> 'a sworld_scheme \<Rightarrow> 'a sworld_scheme res" where
  "ixfd_commonsock_accept_cb E U loop ev w =
     bnd (get_io ev w) (\<lambda>e. asserting (io_data e \<noteq> 0) (
     let (fd, w) = sys E (SysAccept (io_fd e)) w; w = ixut_set_socket_nonblock E fd w in
     bnd (ixfd_commonsock_create_ctx E (io_data e) fd w) (\<lambda>(ctx, w).
     bnd (get_ctx ctx w) (\<lambda>c.
     bnd (get_sock (c_sock c) w) (\<lambda>s.
     bnd (if cb_accept s \<noteq> 0 then invoke U (cb_accept s) [ctx, s_data s] w else Inr w) (\<lambda>w.
     bnd (get_ctx ctx w) (\<lambda>c.
     bnd (ev_io_start loop (event_read c) w) (\<lambda>w.
     set_ctx (\<lambda>c. c\<lparr>c_active := True\<rparr>) ctx w))))))))"

definition ixfd_commonsock_connect_cb ::
  "env \<Rightarrow> 'a sworld_scheme user \<Rightarrow> addr \<Rightarrow> addr \<Rightarrow> nat \<Rightarrow> 'a sworld_scheme \<Rightarrow> 'a sworld_scheme res" where
  "ixfd_commonsock_connect_cb E U loop ev revents w =
     bnd (get_io ev w) (\<lambda>e. asserting (io_data e \<noteq> 0) (
     let args = io_data e in
     bnd (get_cargs args w) (\<lambda>a.
     let sock = ca_sock a in
     if revents AND EV_WRITE \<noteq> 0
     then
       bnd (get_sock sock w) (\<lambda>s.
       let (r, w) = sys E (SysSoErrorRet (s_fd s)) w; (optval, w) = sys E (SysSoErrorVal (s_fd s)) w in
       bnd (if r = 1 \<or> optval \<noteq> 0
            then if cb_failed a \<noteq> 0 then invoke U (cb_failed a) [sock, ca_args a] w else Inr w
            else
              bnd (ixfd_commonsock_create_ctx E sock (s_fd s) w) (\<lambda>(ctx, w).
              bnd (set_sock (\<lambda>s. s\<lparr>default_ctx := ctx\<rparr>) sock w) (\<lambda>w.
              bnd (set_sock (\<lambda>s. s\<lparr>s_type := IXFD_SOCK_TCP\<rparr>) sock w) (\<lambda>w.
              bnd (set_ctx (\<lambda>c. c\<lparr>c_active := True\<rparr>) ctx w) (\<lambda>w.
              bnd (get_ctx ctx w) (\<lambda>c.
              bnd (ev_io_start loop (event_read c) w) (\<lambda>w.
              if cb_conn a \<noteq> 0 then invoke U (cb_conn a) [ctx, ca_args a] w else Inr w))))))) (\<lambda>w.
       bnd (free_cargs args w) (\<lambda>w.
       ev_io_stop loop ev w)))
     else Inr w)))"

definition ixfd_commonsock_read_cb ::
  "env \<Rightarrow> 'a sworld_scheme user \<Rightarrow> addr \<Rightarrow> addr \<Rightarrow> 'a sworld_scheme \<Rightarrow> 'a sworld_scheme res" where
  "ixfd_commonsock_read_cb E U loop ev w =
     asserting (ev \<noteq> 0) (
     bnd (get_io ev w) (\<lambda>e. asserting (io_data e \<noteq> 0) (
     let ctx = io_data e in
     bnd (get_ctx ctx w) (\<lambda>c.
     bnd (get_sock (c_sock c) w) (\<lambda>s.
     if \<not> passive_read s
     then
       bnd (store (replicate (unat (size_bufread c + 1)) 0) (buf_read c) w) (\<lambda>w.
       bnd (sys_read E (c_fd c) (buf_read c) (size_bufread c) w) (\<lambda>(n, w).
       if 0 < n
       then if c_cb_read c \<noteq> 0 then invoke U (c_cb_read c) [ctx, buf_read c, nat n] w else Inr w
       else if n < 0 then Inr w
       else bnd (if cb_close s \<noteq> 0 then invoke U (cb_close s) [ctx, 0] w else Inr w) (\<lambda>w.
            ixfd_commonsock_close E ctx w)))
     else invoke U (c_cb_read c) [ctx, 0, 0] w)))))"

text \<open>
  One round of the loop of \<open>ixfd_commonsock_write_cb\<close>: the flag says whether the condition held.
\<close>

definition write_round ::
  "env \<Rightarrow> 'a sworld_scheme user \<Rightarrow> addr \<Rightarrow> 'a sworld_scheme \<Rightarrow> (bool \<times> 'a sworld_scheme) res" where
  "write_round E U ctx w =
     bnd (get_ctx ctx w) (\<lambda>c.
     bnd (ixut_cycqueue_empty (buf_write c) w) (\<lambda>none.
     if none then Inr (False, w)
     else
       bnd (ixut_cycqueue_front (buf_write c) w) (\<lambda>ctx_write.
       bnd (get_wctx ctx_write w) (\<lambda>x.
       bnd (deref (bufs w) (fst (w_data x))) (\<lambda>b.
       bnd (sys_write E (c_fd c) (drop (snd (w_data x)) b) (len_remain x) w) (\<lambda>(n, w).
       if len_remain x \<le> n
       then
         bnd (ixut_cycqueue_dequeue (buf_write c) w) (\<lambda>(_, w).
         bnd (get_wctx ctx_write w) (\<lambda>x.
         bnd (if w_cb x \<noteq> 0 then invoke U (w_cb x) [ctx, cb_args x] w else Inr w) (\<lambda>w.
         bnd (get_wctx ctx_write w) (\<lambda>x.
         bnd (free_buf (data_org x) w) (\<lambda>w.
         bnd (free_ctx ctx w) (\<lambda>w.
         Inr (True, w)))))))
       else if 0 < n
       then bnd (set_wctx (\<lambda>x. x\<lparr>len_remain := len_remain x - n,
                   w_data := (fst (w_data x), snd (w_data x) + unat n)\<rparr>) ctx_write w) (\<lambda>w.
            Inr (True, w))
       else Inr (True, w)))))))"

partial_function (option) write_loop ::
  "env \<Rightarrow> 'a sworld_scheme user \<Rightarrow> addr \<Rightarrow> 'a sworld_scheme \<Rightarrow> 'a sworld_scheme res option" where
  "write_loop E U ctx w =
     (case write_round E U ctx w of
        Inl e \<Rightarrow> Some (Inl e)
      | Inr (again, w) \<Rightarrow> if again then write_loop E U ctx w else Some (Inr w))"

declare write_loop.simps [code]

definition ixfd_commonsock_write_cb ::
  "env \<Rightarrow> 'a sworld_scheme user \<Rightarrow> addr \<Rightarrow> addr \<Rightarrow> 'a sworld_scheme \<Rightarrow> 'a sworld_scheme res option" where
  "ixfd_commonsock_write_cb E U loop ev w =
     after (Some (asserting (ev \<noteq> 0) (bnd (get_io ev w) (\<lambda>e. asserting (io_data e \<noteq> 0) (Inr (io_data e)))))) (\<lambda>ctx.
     after (write_loop E U ctx w) (\<lambda>w.
     Some (
       bnd (set_ctx (\<lambda>c. c\<lparr>write_launched := False\<rparr>) ctx w) (\<lambda>w.
       ev_io_stop loop ev w))))"

end
