(* ===== verification/Timer.thy ===== *)
theory Timer
  imports Sock
begin

text \<open>
  Timers, timer.cxx: a one-shot timer and a timeout, both over one libev timer watcher.  The
  struct \<open>ixut_timer\<close> and its watcher are two heap objects that point at each other.  The
  operations are translated statement by statement; the two handlers libev calls come with what
  libev does around them (\<open>timer_expired\<close>).
\<close>

section \<open>Data\<close>

datatype timer_handler = Ixut_timer_cb | Ixut_timeout_cb

text \<open>The fields of libev's watcher that the code sets or reads.\<close>

record ev_timer =
  t_handler :: timer_handler
  t_data :: addr
  t_at :: real
  t_repeat :: real

record ixut_timer =
  cb :: nat
  args :: nat
  active :: bool
  is_timeout :: bool
  interval :: real
  timer_w :: addr
  last_act :: real
  t_context :: addr

record tworld = sworld +
  timers :: "addr \<Rightarrow> ixut_timer option"
  evtimers :: "addr \<Rightarrow> ev_timer option"

definition zero_timer :: ixut_timer where
  "zero_timer = \<lparr>cb = 0, args = 0, active = False, is_timeout = False, interval = 0, timer_w = 0,
                 last_act = 0, t_context = 0\<rparr>"

section \<open>Memory\<close>

definition get_timer :: "addr \<Rightarrow> 'a tworld_scheme \<Rightarrow> ixut_timer res" where
  "get_timer p w = deref (timers w) p"

definition set_timer :: "(ixut_timer \<Rightarrow> ixut_timer) \<Rightarrow> addr \<Rightarrow> 'a tworld_scheme \<Rightarrow> 'a tworld_scheme res" where
  "set_timer f p w = bnd (modify f p (timers w)) (\<lambda>m. Inr (w\<lparr>timers := m\<rparr>))"

definition get_evt :: "addr \<Rightarrow> 'a tworld_scheme \<Rightarrow> ev_timer res" where
  "get_evt p w = deref (evtimers w) p"

definition set_evt :: "(ev_timer \<Rightarrow> ev_timer) \<Rightarrow> addr \<Rightarrow> 'a tworld_scheme \<Rightarrow> 'a tworld_scheme res" where
  "set_evt f p w = bnd (modify f p (evtimers w)) (\<lambda>m. Inr (w\<lparr>evtimers := m\<rparr>))"

text \<open>malloc and \<open>memset(ret, 0, sizeof(*ret))\<close>, which writes through NULL when malloc failed.\<close>

definition malloc_timer :: "env \<Rightarrow> 'a tworld_scheme \<Rightarrow> (addr \<times> 'a tworld_scheme) res" where
  "malloc_timer E w =
     (let (p, w) = malloc E w
      in if p = 0 then Inl NullDeref else Inr (p, w\<lparr>timers := (timers w)(p \<mapsto> zero_timer)\<rparr>))"

text \<open>malloc alone: the fields of the watcher are indeterminate.\<close>

definition malloc_evt :: "env \<Rightarrow> 'a tworld_scheme \<Rightarrow> addr \<times> 'a tworld_scheme" where
  "malloc_evt E w =
     (let (p, w) = malloc E w
      in (p, if p = 0 then w
             else w\<lparr>evtimers := (evtimers w)(p \<mapsto>
                    \<lparr>t_handler = Ixut_timer_cb, t_data = junk E (hist w) 0,
                     t_at = real (junk E (hist w) 1), t_repeat = real (junk E (hist w) 2)\<rparr>)\<rparr>))"

definition free_timer :: "addr \<Rightarrow> 'a tworld_scheme \<Rightarrow> 'a tworld_scheme res" where
  "free_timer p w = bnd (release p (timers w)) (\<lambda>m. Inr (w\<lparr>timers := m\<rparr>))"

text \<open>
  libev's macros: \<open>ev_init\<close> installs the handler and marks the watcher inactive, which is
  recorded; \<open>ev_timer_set\<close> sets the two times.  libev forbids both on a watcher that is
  active (\<open>ev_init\<close> would leave it in the loop's heap while it counts as inactive); the
  macros check nothing, and neither does the code, so that this is a condition on the caller, to be
  found in the step relation of TimerProps.
\<close>

definition ev_init_timer :: "addr \<Rightarrow> timer_handler \<Rightarrow> 'a tworld_scheme \<Rightarrow> 'a tworld_scheme res" where
  "ev_init_timer p h w = bnd (set_evt (\<lambda>e. e\<lparr>t_handler := h\<rparr>) p w) (\<lambda>w. Inr (emit (Ev (EvInit p)) w))"

definition ev_timer_set :: "addr \<Rightarrow> real \<Rightarrow> real \<Rightarrow> 'a tworld_scheme \<Rightarrow> 'a tworld_scheme res" where
  "ev_timer_set p aft repeat w = set_evt (\<lambda>e. e\<lparr>t_at := aft, t_repeat := repeat\<rparr>) p w"

section \<open>Operations\<close>

definition ixut_timer_create :: "env \<Rightarrow> addr \<Rightarrow> 'a tworld_scheme \<Rightarrow> (addr \<times> 'a tworld_scheme) res" where
  "ixut_timer_create E ctx w =
     bnd (malloc_timer E w) (\<lambda>(ret, w).
     let (t, w) = malloc_evt E w in
     bnd (set_timer (\<lambda>x. x\<lparr>timer_w := t\<rparr>) ret w) (\<lambda>w.
     bnd (ev_init_timer t Ixut_timer_cb w) (\<lambda>w.
     bnd (set_evt (\<lambda>e. e\<lparr>t_data := ret\<rparr>) t w) (\<lambda>w.
     bnd (set_timer (\<lambda>x. x\<lparr>t_context := ctx, active := False, is_timeout := False, interval := 0\<rparr>) ret w) (\<lambda>w.
     Inr (ret, w))))))"

definition ixut_timer_free :: "addr \<Rightarrow> 'a tworld_scheme \<Rightarrow> 'a tworld_scheme res" where
  "ixut_timer_free timer w =
     asserting (timer \<noteq> 0) (
     bnd (get_timer timer w) (\<lambda>t. asserting (timer_w t \<noteq> 0) (
     asserting (\<not> active t) (free_timer timer w))))"

definition ixut_timer_start ::
  "addr \<Rightarrow> real \<Rightarrow> nat \<Rightarrow> nat \<Rightarrow> 'a tworld_scheme \<Rightarrow> 'a tworld_scheme res" where
  "ixut_timer_start timer i f a w =
     asserting (timer \<noteq> 0) (
     bnd (set_timer (\<lambda>x. x\<lparr>cb := f\<rparr>) timer w) (\<lambda>w.
     bnd (set_timer (\<lambda>x. x\<lparr>args := a\<rparr>) timer w) (\<lambda>w.
     bnd (get_timer timer w) (\<lambda>t.
     bnd (ev_timer_set (timer_w t) i 0 w) (\<lambda>w.
     bnd (loop_of (t_context t) w) (\<lambda>l.
     bnd (get_evt (timer_w t) w) (\<lambda>e.
     let w = emit (Ev (EvTimerStart l (timer_w t) (t_at e) (t_repeat e))) w in
     bnd (set_timer (\<lambda>x. x\<lparr>active := True\<rparr>) timer w) (\<lambda>w.
     set_timer (\<lambda>x. x\<lparr>interval := i\<rparr>) timer w))))))))"

definition ixut_timer_stop :: "addr \<Rightarrow> 'a tworld_scheme \<Rightarrow> 'a tworld_scheme res" where
  "ixut_timer_stop timer w =
     asserting (timer \<noteq> 0) (
     bnd (get_timer timer w) (\<lambda>t. asserting (active t) (
     bnd (loop_of (t_context t) w) (\<lambda>l.
     bnd (get_evt (timer_w t) w) (\<lambda>_.
     let w = emit (Ev (EvTimerStop l (timer_w t))) w in
     set_timer (\<lambda>x. x\<lparr>active := False\<rparr>) timer w)))))"

definition ixut_timer_setimeout :: "addr \<Rightarrow> 'a tworld_scheme \<Rightarrow> 'a tworld_scheme res" where
  "ixut_timer_setimeout timer w =
     asserting (timer \<noteq> 0) (
     bnd (set_timer (\<lambda>x. x\<lparr>is_timeout := True\<rparr>) timer w) (\<lambda>w.
     bnd (get_timer timer w) (\<lambda>t.
     ev_init_timer (timer_w t) Ixut_timeout_cb w)))"

definition ixut_timer_tick :: "env \<Rightarrow> addr \<Rightarrow> 'a tworld_scheme \<Rightarrow> 'a tworld_scheme res" where
  "ixut_timer_tick E timer w =
     asserting (timer \<noteq> 0) (
     bnd (get_timer timer w) (\<lambda>t.
     bnd (loop_of (t_context t) w) (\<lambda>_.
     set_timer (\<lambda>x. x\<lparr>last_act := clock E (hist w)\<rparr>) timer w)))"

definition ixut_timer_again :: "addr \<Rightarrow> 'a tworld_scheme \<Rightarrow> 'a tworld_scheme res" where
  "ixut_timer_again timer w =
     asserting (timer \<noteq> 0) (
     bnd (get_timer timer w) (\<lambda>t.
     bnd (loop_of (t_context t) w) (\<lambda>l.
     bnd (get_evt (timer_w t) w) (\<lambda>e.
     let w = emit (Ev (EvTimerAgain l (timer_w t) (t_repeat e))) w in
     set_timer (\<lambda>x. x\<lparr>active := True\<rparr>) timer w))))"

section \<open>Handlers\<close>

definition ixut_timer_cb :: "'a tworld_scheme user \<Rightarrow> addr \<Rightarrow> 'a tworld_scheme \<Rightarrow> 'a tworld_scheme res" where
  "ixut_timer_cb U ev w =
     bnd (get_evt ev w) (\<lambda>e. asserting (t_data e \<noteq> 0) (
     bnd (get_timer (t_data e) w) (\<lambda>t. asserting (timer_w t = ev) (
     let timer = t_data e in
     bnd (set_timer (\<lambda>x. x\<lparr>active := False\<rparr>) timer w) (\<lambda>w.
     bnd (get_timer timer w) (\<lambda>t.
     if cb t \<noteq> 0 then invoke U (cb t) [timer, args t] w else Inr w))))))"

definition ixut_timeout_cb ::
  "env \<Rightarrow> 'a tworld_scheme user \<Rightarrow> addr \<Rightarrow> 'a tworld_scheme \<Rightarrow> 'a tworld_scheme res" where
  "ixut_timeout_cb E U ev w =
     bnd (get_evt ev w) (\<lambda>e. asserting (t_data e \<noteq> 0) (
     bnd (get_timer (t_data e) w) (\<lambda>t. asserting (timer_w t = ev) (asserting (is_timeout t) (
     let timer = t_data e; now = clock E (hist w); timeout = last_act t + interval t in
     if timeout < now
     then if cb t \<noteq> 0
          then bnd (set_timer (\<lambda>x. x\<lparr>active := False\<rparr>) timer w) (\<lambda>w.
               invoke U (cb t) [timer, args t] w)
          else Inr w
     else bnd (set_evt (\<lambda>e. e\<lparr>t_repeat := timeout - now\<rparr>) ev w) (\<lambda>w.
          ixut_timer_again timer w))))))"

text \<open>
  What libev does when a watcher expires: a watcher whose repeat value is zero is no longer active,
  one with a positive repeat value is scheduled again and stays active; then the handler that
  \<open>ev_init\<close> installed is called.
\<close>

definition expiring :: "addr \<Rightarrow> 'a tworld_scheme \<Rightarrow> 'a tworld_scheme" where
  "expiring ev w =
     emit (Ev (EvExpire ev (case evtimers w ev of None \<Rightarrow> 0 | Some e \<Rightarrow> t_repeat e))) w"

definition timer_expired ::
  "env \<Rightarrow> 'a tworld_scheme user \<Rightarrow> addr \<Rightarrow> 'a tworld_scheme \<Rightarrow> 'a tworld_scheme res" where
  "timer_expired E U ev w =
     bnd (get_evt ev w) (\<lambda>e.
     let w = expiring ev w in
     case t_handler e of Ixut_timer_cb \<Rightarrow> ixut_timer_cb U ev w
                       | Ixut_timeout_cb \<Rightarrow> ixut_timeout_cb E U ev w)"

text \<open>
  The documented meaning of the recorded libev calls: is the timer watcher \<open>v\<close> active after the
  history \<open>h\<close>?  \<open>ev_timer_again\<close> arms a watcher only if its repeat value is positive and
  otherwise stops it; a watcher that expired stays active exactly if its repeat value was positive.
\<close>

fun armed :: "event list \<Rightarrow> addr \<Rightarrow> bool" where
  "armed [] v = False"
| "armed ((Ev (EvTimerStart l u a r), _) # h) v = (u = v \<or> armed h v)"
| "armed ((Ev (EvTimerStop l u), _) # h) v = (u \<noteq> v \<and> armed h v)"
| "armed ((Ev (EvTimerAgain l u r), _) # h) v = (if u = v then 0 < r else armed h v)"
| "armed ((Ev (EvInit u), _) # h) v = (u \<noteq> v \<and> armed h v)"
| "armed ((Ev (EvExpire u r), _) # h) v = ((u \<noteq> v \<or> 0 < r) \<and> armed h v)"
| "armed (_ # h) v = armed h v"

text \<open>The calls through function pointers in a history, newest first.\<close>

fun invocations :: "event list \<Rightarrow> (nat \<times> nat list) list" where
  "invocations [] = []"
| "invocations ((Invoke f xs, _) # h) = (f, xs) # invocations h"
| "invocations (_ # h) = invocations h"

end
