(* ===== verification/TimerSpec.thy ===== *)
theory TimerSpec
  imports Timer
begin

text \<open>
  What timer.cxx guarantees: the two objects of a timer keep pointing at each other and no
  operation on a live timer touches memory it should not (an invariant over every sequence of
  operations and expiries); what each operation does to the timer, to the calls made to libev and
  to the user's callback; and the one-shot timer as a two-state machine.
\<close>

section \<open>Executing the operations\<close>

lemma get_timer_ok [cstmt]: "p \<noteq> 0 \<Longrightarrow> timers w p = Some x \<Longrightarrow> get_timer p w = Inr x"
  by (simp add: get_timer_def cstmt)

lemma get_evt_ok [cstmt]: "p \<noteq> 0 \<Longrightarrow> evtimers w p = Some x \<Longrightarrow> get_evt p w = Inr x"
  by (simp add: get_evt_def cstmt)

lemma set_timer_ok [cstmt]:
  "p \<noteq> 0 \<Longrightarrow> timers w p = Some x \<Longrightarrow> set_timer f p w = Inr (w\<lparr>timers := (timers w)(p \<mapsto> f x)\<rparr>)"
  by (simp add: set_timer_def cstmt)

lemma set_evt_ok [cstmt]:
  "p \<noteq> 0 \<Longrightarrow> evtimers w p = Some x \<Longrightarrow> set_evt f p w = Inr (w\<lparr>evtimers := (evtimers w)(p \<mapsto> f x)\<rparr>)"
  by (simp add: set_evt_def cstmt)

lemma free_timer_ok [cstmt]:
  "p \<noteq> 0 \<Longrightarrow> timers w p = Some x \<Longrightarrow> free_timer p w = Inr (w\<lparr>timers := (timers w)(p := None)\<rparr>)"
  by (simp add: free_timer_def cstmt)

lemma emit_timers [simp]: "timers (emit c w) = timers w" "evtimers (emit c w) = evtimers w"
  by (simp_all add: emit_def)

text \<open>A live timer: both objects are there, point at each other, and the context is live.\<close>

definition timer_ok :: "'a tworld_scheme \<Rightarrow> addr \<Rightarrow> bool" where
  "timer_ok w t \<longleftrightarrow> t \<noteq> 0 \<and> (case timers w t of None \<Rightarrow> False | Some x \<Rightarrow>
     timer_w x \<noteq> 0 \<and> t_context x \<noteq> 0 \<and> contexts w (t_context x) \<noteq> None \<and>
     (case evtimers w (timer_w x) of None \<Rightarrow> False | Some e \<Rightarrow> t_data e = t))"

lemma timer_okE:
  assumes "timer_ok w t"
  obtains x e c where "t \<noteq> 0" "timers w t = Some x" "timer_w x \<noteq> 0" "t_context x \<noteq> 0"
    "contexts w (t_context x) = Some c" "evtimers w (timer_w x) = Some e" "t_data e = t"
  using assms by (auto simp: timer_ok_def split: option.splits)

text \<open>
  The invariant of the timer heaps: every timer is live, and malloc will not hand out an address
  in use.
\<close>

definition timers_inv :: "'a tworld_scheme \<Rightarrow> bool" where
  "timers_inv w \<longleftrightarrow> (\<forall>t. timers w t \<noteq> None \<longrightarrow> timer_ok w t) \<and>
     (\<forall>a. timers w a \<noteq> None \<or> evtimers w a \<noteq> None \<longrightarrow> a \<le> brk w)"

text \<open>
  Steps that keep the objects where they are and the pointers between them: they preserve the
  invariant.  \<open>same_shape\<close> is the shape the operations on an existing timer keep.
\<close>

definition same_shape :: "'a tworld_scheme \<Rightarrow> 'a tworld_scheme \<Rightarrow> bool" where
  "same_shape w v \<longleftrightarrow> contexts v = contexts w \<and> brk v = brk w \<and>
     (\<forall>t. map_option (\<lambda>x. (timer_w x, t_context x)) (timers v t) =
          map_option (\<lambda>x. (timer_w x, t_context x)) (timers w t)) \<and>
     (\<forall>a. map_option t_data (evtimers v a) = map_option t_data (evtimers w a))"

lemma same_shape_refl [simp]: "same_shape w w"
  by (simp add: same_shape_def)

lemma same_shape_trans: "same_shape w v \<Longrightarrow> same_shape v u \<Longrightarrow> same_shape w u"
  by (simp add: same_shape_def)

lemma same_shape_timer_ok: "same_shape w v \<Longrightarrow> timer_ok v t = timer_ok w t"
proof -
  assume s: "same_shape w v"
  then have t: "map_option (\<lambda>x. (timer_w x, t_context x)) (timers v t) =
      map_option (\<lambda>x. (timer_w x, t_context x)) (timers w t)" and c: "contexts v = contexts w"
    by (simp_all add: same_shape_def)
  show ?thesis
  proof (cases "timers w t")
    case None
    with t show ?thesis by (simp add: timer_ok_def)
  next
    case (Some x)
    with t obtain y where y: "timers v t = Some y" "timer_w y = timer_w x" "t_context y = t_context x"
      by auto
    from s have "map_option t_data (evtimers v (timer_w x)) = map_option t_data (evtimers w (timer_w x))"
      by (simp add: same_shape_def)
    with Some y c show ?thesis
      by (cases "evtimers w (timer_w x)"; cases "evtimers v (timer_w x)") (auto simp: timer_ok_def)
  qed
qed

lemma same_shape_inv: "same_shape w v \<Longrightarrow> timers_inv w \<Longrightarrow> timers_inv v"
proof -
  assume s: "same_shape w v" and i: "timers_inv w"
  have t: "timers v t \<noteq> None \<longleftrightarrow> timers w t \<noteq> None" for t
    using s by (cases "timers v t"; cases "timers w t") (auto simp: same_shape_def dest!: spec [of _ t])
  have e: "evtimers v a \<noteq> None \<longleftrightarrow> evtimers w a \<noteq> None" for a
    using s by (cases "evtimers v a"; cases "evtimers w a") (auto simp: same_shape_def dest!: spec [of _ a])
  have "brk v = brk w" using s by (simp add: same_shape_def)
  with i show ?thesis unfolding timers_inv_def t e same_shape_timer_ok [OF s] by simp
qed

lemma same_shape_emit [simp]: "same_shape w (emit c v) \<longleftrightarrow> same_shape w v"
  by (simp add: same_shape_def)

lemma same_shape_set_timer:
  "timers w p = Some x \<Longrightarrow> timer_w y = timer_w x \<Longrightarrow> t_context y = t_context x \<Longrightarrow>
   same_shape w (w\<lparr>timers := (timers w)(p \<mapsto> y)\<rparr>)"
  by (simp add: same_shape_def)

lemma same_shape_set_evt:
  "evtimers w p = Some x \<Longrightarrow> t_data y = t_data x \<Longrightarrow> same_shape w (w\<lparr>evtimers := (evtimers w)(p \<mapsto> y)\<rparr>)"
  by (simp add: same_shape_def)

subsection \<open>The operations on a live timer\<close>

text \<open>\<open>timer_at w t x e c\<close>: the live timer \<open>t\<close> with its struct, its watcher and its context.\<close>

definition timer_at :: "'a tworld_scheme \<Rightarrow> addr \<Rightarrow> ixut_timer \<Rightarrow> ev_timer \<Rightarrow> ixc_context \<Rightarrow> bool" where
  "timer_at w t x e c \<longleftrightarrow> t \<noteq> 0 \<and> timers w t = Some x \<and> timer_w x \<noteq> 0 \<and> t_context x \<noteq> 0 \<and>
     contexts w (t_context x) = Some c \<and> evtimers w (timer_w x) = Some e \<and> t_data e = t"

lemma timer_ok_at: "timer_ok w t \<longleftrightarrow> (\<exists>x e c. timer_at w t x e c)"
  by (auto simp: timer_ok_def timer_at_def split: option.splits)

lemma timers_inv_at: "timers_inv w \<Longrightarrow> timers w t = Some x \<Longrightarrow> \<exists>e c. timer_at w t x e c"
  by (fastforce simp: timers_inv_def timer_ok_at timer_at_def)

lemmas timer_ops = ixut_timer_start_def ixut_timer_stop_def ixut_timer_setimeout_def ixut_timer_tick_def
  ixut_timer_again_def ixut_timer_free_def ev_timer_set_def ev_init_timer_def Let_def

lemma start_exec [cstmt]:
  "timer_at w t x e c \<Longrightarrow> ixut_timer_start t i f a w = Inr (w\<lparr>
     hist := (Ev (EvTimerStart (evl c) (timer_w x) i 0), 0) # hist w,
     timers := (timers w)(t \<mapsto> x\<lparr>cb := f, args := a, active := True, interval := i\<rparr>),
     evtimers := (evtimers w)(timer_w x \<mapsto> e\<lparr>t_at := i, t_repeat := 0\<rparr>)\<rparr>)"
  by (simp add: timer_at_def timer_ops cstmt emit_def)

lemma stop_exec [cstmt]:
  "timer_at w t x e c \<Longrightarrow> ixut_timer_stop t w =
     (if active x then Inr (w\<lparr>hist := (Ev (EvTimerStop (evl c) (timer_w x)), 0) # hist w,
                              timers := (timers w)(t \<mapsto> x\<lparr>active := False\<rparr>)\<rparr>)
      else Inl Assertion)"
  by (simp add: timer_at_def timer_ops cstmt emit_def)

lemma setimeout_exec [cstmt]:
  "timer_at w t x e c \<Longrightarrow> ixut_timer_setimeout t w = Inr (w\<lparr>
     hist := (Ev (EvInit (timer_w x)), 0) # hist w,
     timers := (timers w)(t \<mapsto> x\<lparr>is_timeout := True\<rparr>),
     evtimers := (evtimers w)(timer_w x \<mapsto> e\<lparr>t_handler := Ixut_timeout_cb\<rparr>)\<rparr>)"
  by (simp add: timer_at_def timer_ops cstmt emit_def)

lemma tick_exec [cstmt]:
  "timer_at w t x e c \<Longrightarrow> ixut_timer_tick E t w =
     Inr (w\<lparr>timers := (timers w)(t \<mapsto> x\<lparr>last_act := clock E (hist w)\<rparr>)\<rparr>)"
  by (simp add: timer_at_def timer_ops cstmt)

lemma again_exec [cstmt]:
  "timer_at w t x e c \<Longrightarrow> ixut_timer_again t w = Inr (w\<lparr>
     hist := (Ev (EvTimerAgain (evl c) (timer_w x) (t_repeat e)), 0) # hist w,
     timers := (timers w)(t \<mapsto> x\<lparr>active := True\<rparr>)\<rparr>)"
  by (simp add: timer_at_def timer_ops cstmt emit_def)

lemma free_exec [cstmt]:
  "timer_at w t x e c \<Longrightarrow> ixut_timer_free t w =
     (if active x then Inl Assertion else Inr (w\<lparr>timers := (timers w)(t := None)\<rparr>))"
  by (simp add: timer_at_def timer_ops cstmt)

lemma timer_cb_exec [cstmt]:
  "timer_at w t x e c \<Longrightarrow> ixut_timer_cb U (timer_w x) w =
     (let v = w\<lparr>timers := (timers w)(t \<mapsto> x\<lparr>active := False\<rparr>)\<rparr>
      in if cb x = 0 then Inr v else U (cb x) [t, args x] (emit (Invoke (cb x) [t, args x]) v))"
  by (simp add: timer_at_def ixut_timer_cb_def cstmt Let_def)

lemma timeout_cb_exec [cstmt]:
  "timer_at w t x e c \<Longrightarrow> ixut_timeout_cb E U (timer_w x) w =
     (if \<not> is_timeout x then Inl Assertion
      else if last_act x + interval x < clock E (hist w)
      then if cb x = 0 then Inr w
           else U (cb x) [t, args x] (emit (Invoke (cb x) [t, args x])
                  (w\<lparr>timers := (timers w)(t \<mapsto> x\<lparr>active := False\<rparr>)\<rparr>))
      else let r = last_act x + interval x - clock E (hist w)
           in Inr (w\<lparr>hist := (Ev (EvTimerAgain (evl c) (timer_w x) r), 0) # hist w,
                     timers := (timers w)(t \<mapsto> x\<lparr>active := True\<rparr>),
                     evtimers := (evtimers w)(timer_w x \<mapsto> e\<lparr>t_repeat := r\<rparr>)\<rparr>))"
  by (simp add: timer_at_def ixut_timeout_cb_def timer_ops cstmt emit_def)

lemma expiring_at:
  "timer_at w t x e c \<Longrightarrow> expiring (timer_w x) w = emit (Ev (EvExpire (timer_w x) (t_repeat e))) w"
  by (simp add: timer_at_def expiring_def)

lemma expiring_timers [simp]:
  "timers (expiring v w) = timers w" "evtimers (expiring v w) = evtimers w"
  "contexts (expiring v w) = contexts w" "invocations (hist (expiring v w)) = invocations (hist w)"
  by (simp_all add: expiring_def)

lemma expired_exec [cstmt]:
  "timer_at w t x e c \<Longrightarrow> timer_expired E U (timer_w x) w =
     (case t_handler e of
        Ixut_timer_cb \<Rightarrow> ixut_timer_cb U (timer_w x) (expiring (timer_w x) w)
      | Ixut_timeout_cb \<Rightarrow> ixut_timeout_cb E U (timer_w x) (expiring (timer_w x) w))"
  by (simp add: timer_at_def timer_expired_def cstmt Let_def)

lemma timer_at_emit [simp]: "timer_at (emit k w) t x e c \<longleftrightarrow> timer_at w t x e c"
  by (simp add: timer_at_def)

lemma timer_at_expiring [simp]: "timer_at (expiring v w) t x e c \<longleftrightarrow> timer_at w t x e c"
  by (simp add: expiring_def)

lemma armed_expiring:
  "timer_at w t x e c \<Longrightarrow> armed (hist (expiring (timer_w x) w)) v \<longleftrightarrow>
     (v = timer_w x \<longrightarrow> 0 < t_repeat e) \<and> armed (hist w) v"
  by (auto simp: expiring_at)

section \<open>The invariant\<close>

text \<open>
  Whatever libev has armed belongs to a live timer, so that no expiry can reach a timer that has been
  freed; and the program knows the timer to be active, unless the watcher is one that repeats.
\<close>

definition no_stray :: "'a tworld_scheme \<Rightarrow> bool" where
  "no_stray w \<longleftrightarrow>
     (\<forall>v. armed (hist w) v \<longrightarrow> (\<exists>t x e. timers w t = Some x \<and> timer_w x = v \<and> evtimers w v = Some e \<and>
        (active x \<or> 0 < t_repeat e)))"

text \<open>Only a timer that has been made a timeout carries the timeout handler.\<close>

definition handlers_ok :: "'a tworld_scheme \<Rightarrow> bool" where
  "handlers_ok w \<longleftrightarrow> (\<forall>t x e. timers w t = Some x \<longrightarrow> evtimers w (timer_w x) = Some e \<longrightarrow>
     t_handler e = Ixut_timeout_cb \<longrightarrow> is_timeout x)"

definition timer_sys :: "'a tworld_scheme \<Rightarrow> bool" where
  "timer_sys w \<longleftrightarrow> timers_inv w \<and> no_stray w \<and> handlers_ok w"

lemma timer_at_unique:
  "timers_inv w \<Longrightarrow> timer_at w t x e c \<Longrightarrow> timers w u = Some y \<Longrightarrow> timer_w y = timer_w x \<Longrightarrow> u = t"
  using timers_inv_at [of w u y] by (auto simp: timer_at_def)

text \<open>
  An operation on one live timer: it keeps the shape, replaces the struct of that timer only, and
  records libev calls after which the armed watchers are those from before, except perhaps the
  timer's own, which may be armed only if the timer is marked active or the watcher repeats.
\<close>

lemma timer_sys_change:
  assumes s: "timer_sys w" and a: "timer_at w t x e c"
    and t: "timers v = (timers w)(t \<mapsto> y)" and y: "timer_w y = timer_w x" "t_context y = t_context x"
    and e: "same_shape w v"
    and o: "\<And>u. u \<noteq> timer_w x \<Longrightarrow> armed (hist v) u \<Longrightarrow> armed (hist w) u"
    and own: "armed (hist v) (timer_w x) \<Longrightarrow> active y \<or> 0 < t_repeat d"
    and ev: "\<And>b. b \<noteq> timer_w x \<Longrightarrow> evtimers v b = evtimers w b" "evtimers v (timer_w x) = Some d"
    and h: "t_handler d = Ixut_timeout_cb \<Longrightarrow>
      is_timeout y \<or> t_handler e = Ixut_timeout_cb \<and> (is_timeout x \<longrightarrow> is_timeout y)"
  shows "timer_sys v"
proof -
  have i: "timers_inv w" using s by (simp add: timer_sys_def)
  have "\<exists>u z q. timers v u = Some z \<and> timer_w z = b \<and> evtimers v b = Some q \<and> (active z \<or> 0 < t_repeat q)"
    if b: "armed (hist v) b" for b
  proof (cases "b = timer_w x")
    case True
    with own b t y ev(2) show ?thesis by (intro exI [of _ t] exI [of _ y] exI [of _ d]) simp
  next
    case False
    with o b have "armed (hist w) b" by blast
    with s obtain u z q where z: "timers w u = Some z" "timer_w z = b" "evtimers w b = Some q"
        "active z \<or> 0 < t_repeat q"
      unfolding timer_sys_def no_stray_def by meson
    with False a have "u \<noteq> t" by (auto simp: timer_at_def)
    with z t ev(1) [OF False] show ?thesis by auto
  qed
  moreover have "is_timeout z"
    if z: "timers v u = Some z" "evtimers v (timer_w z) = Some k" "t_handler k = Ixut_timeout_cb" for u z k
  proof (cases "u = t")
    case True
    from s a have "t_handler e = Ixut_timeout_cb \<longrightarrow> is_timeout x"
      by (auto simp: timer_sys_def handlers_ok_def timer_at_def)
    moreover from True z t y ev(2) have "z = y" "k = d" by simp_all
    ultimately show ?thesis using h z(3) by blast
  next
    case False
    with z t have u: "timers w u = Some z" by simp
    with timer_at_unique [OF i a u] False have "timer_w z \<noteq> timer_w x" by blast
    with s u z ev(1) show ?thesis by (auto simp: timer_sys_def handlers_ok_def)
  qed
  ultimately show ?thesis
    using same_shape_inv [OF e i] by (simp add: timer_sys_def no_stray_def handlers_ok_def)
qed

lemma timer_at_shape:
  "timer_at w t x e c \<Longrightarrow> timer_w y = timer_w x \<Longrightarrow> t_context y = t_context x \<Longrightarrow> t_data d = t_data e \<Longrightarrow>
   same_shape w (w\<lparr>hist := h, timers := (timers w)(t \<mapsto> y), evtimers := (evtimers w)(timer_w x \<mapsto> d)\<rparr>)"
  by (simp add: same_shape_def timer_at_def)

lemma timer_at_shape':
  "timer_at w t x e c \<Longrightarrow> timer_w y = timer_w x \<Longrightarrow> t_context y = t_context x \<Longrightarrow>
   same_shape w (w\<lparr>hist := h, timers := (timers w)(t \<mapsto> y)\<rparr>)"
  "timer_at w t x e c \<Longrightarrow> timer_w y = timer_w x \<Longrightarrow> t_context y = t_context x \<Longrightarrow>
   same_shape w (w\<lparr>timers := (timers w)(t \<mapsto> y)\<rparr>)"
  by (simp_all add: same_shape_def timer_at_def)

subsection \<open>Every operation keeps it\<close>

lemma timer_sys_at: "timer_sys w \<Longrightarrow> timers w t \<noteq> None \<Longrightarrow> \<exists>x e c. timer_at w t x e c"
  using timers_inv_at by (fastforce simp: timer_sys_def)

lemma timer_at_evt: "timer_at w t x e c \<Longrightarrow> evtimers w (timer_w x) = Some e"
  by (simp add: timer_at_def)

lemma start_sys:
  assumes "timer_sys w" "timer_at w t x e c" "ixut_timer_start t i f a w = Inr v"
  shows "timer_sys v"
  using assms(3) unfolding start_exec [OF assms(2)]
  by (auto intro!: timer_sys_change [OF assms(1,2), where y = "x\<lparr>cb := f, args := a, active := True, interval := i\<rparr>"
        and d = "e\<lparr>t_at := i, t_repeat := 0\<rparr>"]
      timer_at_shape [OF assms(2)])

lemma stop_sys:
  assumes "timer_sys w" "timer_at w t x e c" "ixut_timer_stop t w = Inr v"
  shows "timer_sys v"
  using assms(3) unfolding stop_exec [OF assms(2)]
  by (auto intro!: timer_sys_change [OF assms(1,2), where y = "x\<lparr>active := False\<rparr>" and d = e]
      timer_at_shape' [OF assms(2)] simp: timer_at_evt [OF assms(2)] split: if_splits)

lemma setimeout_sys:
  assumes "timer_sys w" "timer_at w t x e c" "ixut_timer_setimeout t w = Inr v"
  shows "timer_sys v"
  using assms(3) unfolding setimeout_exec [OF assms(2)]
  by (auto intro!: timer_sys_change [OF assms(1,2), where y = "x\<lparr>is_timeout := True\<rparr>"
        and d = "e\<lparr>t_handler := Ixut_timeout_cb\<rparr>"]
      timer_at_shape [OF assms(2)])

lemma again_sys:
  assumes "timer_sys w" "timer_at w t x e c" "ixut_timer_again t w = Inr v"
  shows "timer_sys v"
  using assms(3) unfolding again_exec [OF assms(2)]
  by (auto intro!: timer_sys_change [OF assms(1,2), where y = "x\<lparr>active := True\<rparr>" and d = e]
      timer_at_shape' [OF assms(2)] simp: timer_at_evt [OF assms(2)])

lemma armed_own:
  "timer_sys w \<Longrightarrow> timer_at w t x e c \<Longrightarrow> armed (hist w) (timer_w x) \<Longrightarrow> active x \<or> 0 < t_repeat e"
proof -
  assume s: "timer_sys w" and a: "timer_at w t x e c" and "armed (hist w) (timer_w x)"
  then obtain u y d where y: "timers w u = Some y" "timer_w y = timer_w x" "evtimers w (timer_w x) = Some d"
      "active y \<or> 0 < t_repeat d"
    unfolding timer_sys_def no_stray_def by meson
  moreover from s have "timers_inv w" by (simp add: timer_sys_def)
  from timer_at_unique [OF this a y(1,2)] have "u = t" .
  ultimately show "active x \<or> 0 < t_repeat e" using a by (simp add: timer_at_def)
qed

lemma tick_sys:
  assumes "timer_sys w" "timer_at w t x e c" "ixut_timer_tick E t w = Inr v"
  shows "timer_sys v"
  using assms(3) armed_own [OF assms(1,2)] unfolding tick_exec [OF assms(2)]
  by (auto intro!: timer_sys_change [OF assms(1,2), where y = "x\<lparr>last_act := clock E (hist w)\<rparr>" and d = e]
      timer_at_shape' [OF assms(2)] simp: timer_at_evt [OF assms(2)])

text \<open>
  Freeing is refused while the timer is active; the watcher stays allocated, unarmed if it is not one
  that repeats behind the back of the program.
\<close>

lemma free_sys:
  assumes "timer_sys w" "timer_at w t x e c" "ixut_timer_free t w = Inr v"
    "armed (hist w) (timer_w x) \<longrightarrow> t_repeat e \<le> 0"
  shows "timer_sys v"
proof -
  from assms(3) have x: "\<not> active x" and v: "v = w\<lparr>timers := (timers w)(t := None)\<rparr>"
    unfolding free_exec [OF assms(2)] by (simp_all split: if_splits)
  have i: "timers_inv w" using assms(1) by (simp add: timer_sys_def)
  then have "timers_inv v" unfolding v by (auto simp: timers_inv_def timer_ok_def)
  moreover have "no_stray v"
    unfolding no_stray_def
  proof (intro allI impI)
    fix b assume b: "armed (hist v) b"
    with v assms(1) obtain u z q where z: "timers w u = Some z" "timer_w z = b" "evtimers w b = Some q"
        "active z \<or> 0 < t_repeat q"
      unfolding timer_sys_def no_stray_def by fastforce
    moreover have "u \<noteq> t" using z x assms(2,4) b v by (auto simp: timer_at_def)
    ultimately show "\<exists>u z q. timers v u = Some z \<and> timer_w z = b \<and> evtimers v b = Some q \<and>
        (active z \<or> 0 < t_repeat q)" using v by auto
  qed
  moreover have "handlers_ok v" using assms(1) v by (auto simp: timer_sys_def handlers_ok_def)
  ultimately show ?thesis by (simp add: timer_sys_def)
qed

text \<open>Creating: two new objects that point at each other, everything else as before.\<close>

lemma create_exec:
  assumes "alloc_ok E w" "alloc_ok E (snd (malloc E w))" "timers_inv w" "c \<noteq> 0" "contexts w c \<noteq> None"
  shows "\<exists>v x e k. ixut_timer_create E c w = Inr (Suc (brk w), v) \<and> timer_at v (Suc (brk w)) x e k \<and>
    x = zero_timer\<lparr>timer_w := Suc (Suc (brk w)), t_context := c\<rparr> \<and> t_handler e = Ixut_timer_cb \<and>
    timers v = (timers w)(Suc (brk w) \<mapsto> x) \<and> evtimers v = (evtimers w)(Suc (Suc (brk w)) \<mapsto> e) \<and>
    contexts v = contexts w \<and> brk v = Suc (Suc (brk w)) \<and>
    hist v = (Ev (EvInit (Suc (Suc (brk w)))), 0)
             # (Malloc, ask E Malloc (snd (malloc E w))) # (Malloc, ask E Malloc w) # hist w"
proof -
  let ?h = "(Malloc, ask E Malloc (snd (malloc E w))) # (Malloc, ask E Malloc w) # hist w"
  let ?t = "Suc (brk w)" and ?e = "Suc (Suc (brk w))"
  let ?x = "zero_timer\<lparr>timer_w := ?e, t_context := c\<rparr>"
  let ?d = "\<lparr>t_handler = Ixut_timer_cb, t_data = ?t, t_at = real (junk E ?h 1), t_repeat = real (junk E ?h 2)\<rparr>"
  let ?v = "w\<lparr>brk := ?e, hist := (Ev (EvInit ?e), 0) # ?h, timers := (timers w)(?t \<mapsto> ?x),
             evtimers := (evtimers w)(?e \<mapsto> ?d)\<rparr>"
  obtain k where k: "contexts w c = Some k" using assms(5) by blast
  have ok2: "alloc_ok E (w\<lparr>brk := ?t, hist := (Malloc, ask E Malloc w) # hist w,
                       timers := (timers w)(?t \<mapsto> zero_timer)\<rparr>)"
    using assms(2) by (simp add: alloc_ok_def ask_def malloc_ok [OF assms(1)])
  have "ixut_timer_create E c w = Inr (?t, ?v)"
    using assms(1) ok2
    by (simp add: ixut_timer_create_def malloc_timer_def malloc_evt_def ev_init_timer_def cstmt Let_def
        emit_def ask_def zero_timer_def)
  moreover have "timer_at ?v ?t ?x ?d k"
    using assms(4) k by (simp add: timer_at_def)
  ultimately show ?thesis
    by (intro exI [of _ ?v] exI [of _ ?x] exI [of _ ?d] exI [of _ k]) simp
qed

lemma create_result:
  "ixut_timer_create E c w = Inr (t, v) \<Longrightarrow> alloc_ok E w \<and> alloc_ok E (snd (malloc E w))"
proof (rule ccontr)
  assume r: "ixut_timer_create E c w = Inr (t, v)" and n: "\<not> (alloc_ok E w \<and> alloc_ok E (snd (malloc E w)))"
  show False
  proof (cases "alloc_ok E w")
    case False
    with r show ?thesis by (simp add: ixut_timer_create_def malloc_timer_def cstmt)
  next
    case True
    let ?u = "w\<lparr>brk := Suc (brk w), hist := (Malloc, ask E Malloc w) # hist w,
              timers := (timers w)(Suc (brk w) \<mapsto> zero_timer)\<rparr>"
    from True n have "\<not> alloc_ok E ?u" by (simp add: alloc_ok_def ask_def malloc_ok [OF True])
    with True r show ?thesis
      by (simp add: ixut_timer_create_def malloc_timer_def malloc_evt_def cstmt ev_init_timer_def set_evt_def Let_def)
  qed
qed

lemma create_sys:
  assumes "timer_sys w" "c \<noteq> 0" "contexts w c \<noteq> None" "ixut_timer_create E c w = Inr (t, v)"
  shows "timer_sys v"
proof -
  have i: "timers_inv w" using assms(1) by (simp add: timer_sys_def)
  from create_result [OF assms(4)] have ok: "alloc_ok E w" "alloc_ok E (snd (malloc E w))" by simp_all
  from create_exec [OF ok i assms(2,3)] assms(4) obtain x e k where
    at: "timer_at v (Suc (brk w)) x e k" and
    x: "timer_w x = Suc (Suc (brk w))" and h: "t_handler e = Ixut_timer_cb" and
    f: "timers v = (timers w)(Suc (brk w) \<mapsto> x)" "evtimers v = (evtimers w)(Suc (Suc (brk w)) \<mapsto> e)"
      "contexts v = contexts w" "brk v = Suc (Suc (brk w))"
      "hist v = (Ev (EvInit (Suc (Suc (brk w)))), 0)
             # (Malloc, ask E Malloc (snd (malloc E w))) # (Malloc, ask E Malloc w) # hist w" by auto
  have new: "timers w (Suc (brk w)) = None" "evtimers w (Suc (Suc (brk w))) = None"
    using i by (auto simp: timers_inv_def)
  have "timer_ok v u" if u: "timers v u \<noteq> None" for u
  proof (cases "u = Suc (brk w)")
    case True
    with at show ?thesis by (auto simp: timer_ok_at)
  next
    case False
    with u f(1) obtain y where y: "timers w u = Some y" by auto
    from timers_inv_at [OF i y] obtain d k' where d: "timer_at w u y d k'" by blast
    with new(2) have "timer_w y \<noteq> Suc (Suc (brk w))" by (auto simp: timer_at_def)
    with d f False show ?thesis by (auto simp: timer_ok_at timer_at_def)
  qed
  moreover have "a \<le> brk v" if "timers v a \<noteq> None \<or> evtimers v a \<noteq> None" for a
    using that i f(1,2,4) by (auto simp: timers_inv_def le_Suc_eq split: if_splits)
  ultimately have "timers_inv v" by (simp add: timers_inv_def)
  moreover have "no_stray v"
    unfolding no_stray_def
  proof (intro allI impI)
    fix b assume "armed (hist v) b"
    with f(5) have "armed (hist w) b" by simp
    with assms(1) obtain u z q where z: "timers w u = Some z" "timer_w z = b" "evtimers w b = Some q"
        "active z \<or> 0 < t_repeat q"
      unfolding timer_sys_def no_stray_def by meson
    moreover have "u \<noteq> Suc (brk w)" "b \<noteq> Suc (Suc (brk w))" using z(1,3) new by auto
    ultimately show "\<exists>u z q. timers v u = Some z \<and> timer_w z = b \<and> evtimers v b = Some q \<and>
        (active z \<or> 0 < t_repeat q)" using f(1,2) by auto
  qed
  moreover have "is_timeout z"
    if z: "timers v u = Some z" "evtimers v (timer_w z) = Some d" "t_handler d = Ixut_timeout_cb" for u z d
  proof (cases "u = Suc (brk w)")
    case True
    with z f(1,2) x h show ?thesis by simp
  next
    case False
    with z f(1) have u: "timers w u = Some z" by simp
    from timers_inv_at [OF i u] new(2) have "timer_w z \<noteq> Suc (Suc (brk w))" by (auto simp: timer_at_def)
    with u z f(2) assms(1) show ?thesis by (auto simp: timer_sys_def handlers_ok_def)
  qed
  then have "handlers_ok v" unfolding handlers_ok_def by blast
  ultimately show ?thesis by (simp add: timer_sys_def)
qed

text \<open>
  Expiry: first the handler runs, with the watcher disarmed unless it repeats, then the user's
  callback, of which it is only assumed that it keeps the invariant itself.
\<close>

definition keeps_timers :: "'a tworld_scheme user \<Rightarrow> bool" where
  "keeps_timers U \<longleftrightarrow> (\<forall>f xs w v. timer_sys w \<longrightarrow> U f xs w = Inr v \<longrightarrow> timer_sys v)"

lemma expire_event_sys: "timer_sys w \<Longrightarrow> timer_at w t x e c \<Longrightarrow> timer_sys (expiring (timer_w x) w)"
  by (rule timer_sys_change [where y = x and d = e])
    (auto simp: timer_at_def same_shape_def fun_upd_idem expiring_def)

lemma invoke_event_sys: "timer_sys w \<Longrightarrow> timer_sys (emit (Invoke f xs) w)"
  by (auto simp: timer_sys_def no_stray_def handlers_ok_def timers_inv_def timer_ok_def)

lemma timer_cb_sys:
  assumes "timer_sys w" "timer_at w t x e c" "keeps_timers U" "armed (hist w) (timer_w x) \<longrightarrow> 0 < t_repeat e"
    "ixut_timer_cb U (timer_w x) w = Inr v"
  shows "timer_sys v"
proof -
  let ?u = "w\<lparr>timers := (timers w)(t \<mapsto> x\<lparr>active := False\<rparr>)\<rparr>"
  have u: "timer_sys ?u"
    using assms(4)
    by (intro timer_sys_change [OF assms(1,2), where y = "x\<lparr>active := False\<rparr>" and d = e]
        timer_at_shape' [OF assms(2)]) (auto simp: timer_at_evt [OF assms(2)])
  show ?thesis
  proof (cases "cb x = 0")
    case True
    with assms(5) u show ?thesis by (simp add: timer_cb_exec [OF assms(2)])
  next
    case False
    with assms(5) have "U (cb x) [t, args x] (emit (Invoke (cb x) [t, args x]) ?u) = Inr v"
      by (simp add: timer_cb_exec [OF assms(2)] Let_def)
    with assms(3) invoke_event_sys [OF u] show ?thesis unfolding keeps_timers_def by blast
  qed
qed

lemma timeout_cb_sys:
  assumes "timer_sys w" "timer_at w t x e c" "keeps_timers U" "armed (hist w) (timer_w x) \<longrightarrow> 0 < t_repeat e"
    "ixut_timeout_cb E U (timer_w x) w = Inr v"
  shows "timer_sys v"
proof -
  let ?u = "w\<lparr>timers := (timers w)(t \<mapsto> x\<lparr>active := False\<rparr>)\<rparr>"
  have u: "timer_sys ?u"
    using assms(4)
    by (intro timer_sys_change [OF assms(1,2), where y = "x\<lparr>active := False\<rparr>" and d = e]
        timer_at_shape' [OF assms(2)]) (auto simp: timer_at_evt [OF assms(2)])
  let ?due = "last_act x + interval x < clock E (hist w)"
  consider "?due" "cb x = 0" | "?due" "cb x \<noteq> 0" | "\<not> ?due" by blast
  then show ?thesis
  proof cases
    case 1
    with assms(1,5) show ?thesis by (simp add: timeout_cb_exec [OF assms(2)] split: if_splits)
  next
    case 2
    with assms(5) have "U (cb x) [t, args x] (emit (Invoke (cb x) [t, args x]) ?u) = Inr v"
      by (simp add: timeout_cb_exec [OF assms(2)] split: if_splits)
    with assms(3) invoke_event_sys [OF u] show ?thesis unfolding keeps_timers_def by blast
  next
    case 3
    with assms(5) show ?thesis
      unfolding timeout_cb_exec [OF assms(2)]
      by (auto simp: Let_def split: if_splits
          intro!: timer_sys_change [OF assms(1,2), where y = "x\<lparr>active := True\<rparr>"
              and d = "e\<lparr>t_repeat := last_act x + interval x - clock E (hist w)\<rparr>"]
            timer_at_shape [OF assms(2)])
  qed
qed

lemma expired_sys:
  assumes "timer_sys w" "timer_at w t x e c" "keeps_timers U" "timer_expired E U (timer_w x) w = Inr v"
  shows "timer_sys v"
proof -
  let ?w = "expiring (timer_w x) w"
  have w: "timer_sys ?w" "timer_at ?w t x e c" "armed (hist ?w) (timer_w x) \<longrightarrow> 0 < t_repeat e"
    using expire_event_sys [OF assms(1,2)] assms(2) by (simp_all add: armed_expiring [OF assms(2)])
  show ?thesis
    using assms(4) timer_cb_sys [OF w(1,2) assms(3) w(3)] timeout_cb_sys [OF w(1,2) assms(3) w(3)]
    by (auto simp: expired_exec [OF assms(2)] split: timer_handler.splits)
qed

end
