(* ===== verification/TimerProps.thy ===== *)
theory TimerProps
  imports TimerSpec
begin

text \<open>
  The properties of timer.cxx: the transition system of all timer operations and expiries with its
  safety invariant, the one-shot timer as a refinement of a two-state machine, what a handler
  leaves to the user's callback, and the exact behaviour of a timeout.
\<close>

section \<open>The transition system\<close>

datatype timer_op =
    Create addr
  | Start addr real nat nat
  | Stop addr
  | SetTimeout addr
  | Tick addr
  | Again addr
  | Release addr

fun timer_do :: "env \<Rightarrow> timer_op \<Rightarrow> 'a tworld_scheme \<Rightarrow> 'a tworld_scheme res" where
  "timer_do E (Create c) w = bnd (ixut_timer_create E c w) (\<lambda>(_, w). Inr w)"
| "timer_do E (Start t i f a) w = ixut_timer_start t i f a w"
| "timer_do E (Stop t) w = ixut_timer_stop t w"
| "timer_do E (SetTimeout t) w = ixut_timer_setimeout t w"
| "timer_do E (Tick t) w = ixut_timer_tick E t w"
| "timer_do E (Again t) w = ixut_timer_again t w"
| "timer_do E (Release t) w = ixut_timer_free t w"

text \<open>
  The calls the documentation of libev allows on live objects: start and setimeout set up the
  watcher, which must not be active then, and a timer whose watcher still repeats must not be freed.
\<close>

definition running :: "addr \<Rightarrow> 'a tworld_scheme \<Rightarrow> bool" where
  "running t w = (case timers w t of None \<Rightarrow> False | Some x \<Rightarrow> armed (hist w) (timer_w x))"

definition repeating :: "addr \<Rightarrow> 'a tworld_scheme \<Rightarrow> bool" where
  "repeating t w = (case timers w t of None \<Rightarrow> False | Some x \<Rightarrow>
     (case evtimers w (timer_w x) of None \<Rightarrow> False | Some e \<Rightarrow> armed (hist w) (timer_w x) \<and> 0 < t_repeat e))"

fun op_live :: "timer_op \<Rightarrow> 'a tworld_scheme \<Rightarrow> bool" where
  "op_live (Create c) w = (c \<noteq> 0 \<and> contexts w c \<noteq> None)"
| "op_live (Start t i f a) w = (timers w t \<noteq> None \<and> \<not> running t w)"
| "op_live (Stop t) w = (timers w t \<noteq> None)"
| "op_live (SetTimeout t) w = (timers w t \<noteq> None \<and> \<not> running t w)"
| "op_live (Tick t) w = (timers w t \<noteq> None)"
| "op_live (Again t) w = (timers w t \<noteq> None)"
| "op_live (Release t) w = (timers w t \<noteq> None \<and> \<not> repeating t w)"

text \<open>
  A step of the process: the program performs an operation on a live timer, or libev reports the
  expiry of a watcher that is armed.
\<close>

inductive timer_step :: "env \<Rightarrow> 'a tworld_scheme user \<Rightarrow> 'a tworld_scheme \<Rightarrow> 'a tworld_scheme \<Rightarrow> bool"
  for E :: env and U :: "'a tworld_scheme user" where
  op: "op_live x w \<Longrightarrow> timer_do E x w = Inr v \<Longrightarrow> timer_step E U w v"
| expire: "armed (hist w) ev \<Longrightarrow> timer_expired E U ev w = Inr v \<Longrightarrow> timer_step E U w v"

inductive_cases timer_stepE: "timer_step E U w v"

inductive timer_reach :: "env \<Rightarrow> 'a tworld_scheme user \<Rightarrow> 'a tworld_scheme \<Rightarrow> bool"
  for E :: env and U :: "'a tworld_scheme user" where
  start: "brk w = b \<Longrightarrow> hist w = [] \<Longrightarrow> timers w = (\<lambda>_. None) \<Longrightarrow> evtimers w = (\<lambda>_. None) \<Longrightarrow> timer_reach E U w"
| step: "timer_reach E U w \<Longrightarrow> timer_step E U w v \<Longrightarrow> timer_reach E U v"

lemma timer_do_sys:
  assumes s: "timer_sys w" and l: "op_live x w" and r: "timer_do E x w = Inr v"
  shows "timer_sys v"
proof (cases x)
  case (Create c)
  with l r create_sys [OF s] show ?thesis by (auto simp: bnd_eq_Inr)
next
  case (Start t i f a)
  with l r have "timers w t \<noteq> None" and d: "timer_do E (Start t i f a) w = Inr v" by simp_all
  from timer_sys_at [OF s this(1)] obtain y e c where "timer_at w t y e c" by blast
  from start_sys [OF s this] d show ?thesis by simp
next
  case (Stop t)
  with l r have "timers w t \<noteq> None" and d: "timer_do E (Stop t) w = Inr v" by simp_all
  from timer_sys_at [OF s this(1)] obtain y e c where "timer_at w t y e c" by blast
  from stop_sys [OF s this] d show ?thesis by simp
next
  case (SetTimeout t)
  with l r have "timers w t \<noteq> None" and d: "timer_do E (SetTimeout t) w = Inr v" by simp_all
  from timer_sys_at [OF s this(1)] obtain y e c where "timer_at w t y e c" by blast
  from setimeout_sys [OF s this] d show ?thesis by simp
next
  case (Tick t)
  with l r have "timers w t \<noteq> None" and d: "timer_do E (Tick t) w = Inr v" by simp_all
  from timer_sys_at [OF s this(1)] obtain y e c where "timer_at w t y e c" by blast
  from tick_sys [OF s this] d show ?thesis by simp
next
  case (Again t)
  with l r have "timers w t \<noteq> None" and d: "timer_do E (Again t) w = Inr v" by simp_all
  from timer_sys_at [OF s this(1)] obtain y e c where "timer_at w t y e c" by blast
  from again_sys [OF s this] d show ?thesis by simp
next
  case (Release t)
  with l r have "timers w t \<noteq> None" and d: "timer_do E (Release t) w = Inr v" and n: "\<not> repeating t w"
    by simp_all
  from timer_sys_at [OF s this(1)] obtain y e c where at: "timer_at w t y e c" by blast
  with n have "armed (hist w) (timer_w y) \<longrightarrow> t_repeat e \<le> 0" by (auto simp: repeating_def timer_at_def)
  from free_sys [OF s at _ this] d show ?thesis by simp
qed

lemma timer_step_sys: "timer_sys w \<Longrightarrow> keeps_timers U \<Longrightarrow> timer_step E U w v \<Longrightarrow> timer_sys v"
proof (erule timer_stepE)
  fix ev assume s: "timer_sys w" and k: "keeps_timers U" and a: "armed (hist w) ev" and r: "timer_expired E U ev w = Inr v"
  from s a obtain t y where y: "timers w t = Some y" "timer_w y = ev"
    unfolding timer_sys_def no_stray_def by meson
  with timer_sys_at [OF s, of t] obtain x e c where at: "timer_at w t x e c" by blast
  with y have "ev = timer_w x" by (simp add: timer_at_def)
  with expired_sys [OF s at k] r show "timer_sys v" by simp
qed (rule timer_do_sys)

lemma timer_reach_sys: "timer_reach E U w \<Longrightarrow> keeps_timers U \<Longrightarrow> timer_sys w"
proof (induction rule: timer_reach.induct)
  case (start w b)
  then show ?case by (simp add: timer_sys_def no_stray_def handlers_ok_def timers_inv_def)
next
  case (step w v)
  then show ?case using timer_step_sys by blast
qed

subsection \<open>Which faults an operation can end in\<close>

lemma create_fault:
  assumes "timer_sys w" "c \<noteq> 0" "contexts w c \<noteq> None" "ixut_timer_create E c w = Inl e"
  shows "e = NullDeref"
proof (cases "alloc_ok E w")
  case False
  with assms(4) show ?thesis by (simp add: ixut_timer_create_def malloc_timer_def cstmt)
next
  case True
  let ?u = "w\<lparr>brk := Suc (brk w), hist := (Malloc, ask E Malloc w) # hist w,
            timers := (timers w)(Suc (brk w) \<mapsto> zero_timer)\<rparr>"
  have i: "timers_inv w" using assms(1) by (simp add: timer_sys_def)
  have "\<not> alloc_ok E (snd (malloc E w))"
    using create_exec [OF True _ i assms(2,3)] assms(4) by auto
  then have "\<not> alloc_ok E ?u" by (simp add: alloc_ok_def ask_def malloc_ok [OF True])
  with True assms(4) show ?thesis
    by (simp add: ixut_timer_create_def malloc_timer_def malloc_evt_def cstmt ev_init_timer_def set_evt_def Let_def)
qed

lemma op_fault:
  assumes s: "timer_sys w" and l: "op_live x w" and r: "timer_do E x w = Inl e"
  shows "e = Assertion \<or> (\<exists>c. x = Create c) \<and> e = NullDeref"
proof -
  have at: "\<exists>y d k. timer_at w t y d k" if "timers w t \<noteq> None" for t using timer_sys_at [OF s that] .
  show ?thesis
  proof (cases x)
    case (Create c)
    with l r create_fault [OF s] show ?thesis by (auto simp: bnd_eq_Inl)
  next
    case (Start t i f a)
    with l at [of t] r show ?thesis by (auto simp: start_exec)
  next
    case (Stop t)
    with l at [of t] r show ?thesis by (auto simp: stop_exec split: if_splits)
  next
    case (SetTimeout t)
    with l at [of t] r show ?thesis by (auto simp: setimeout_exec)
  next
    case (Tick t)
    with l at [of t] r show ?thesis by (auto simp: tick_exec)
  next
    case (Again t)
    with l at [of t] r show ?thesis by (auto simp: again_exec)
  next
    case (Release t)
    with l at [of t] r show ?thesis by (auto simp: free_exec split: if_splits)
  qed
qed

lemma expired_fault:
  assumes s: "timer_sys w" and at: "timer_at w t x e c" and r: "timer_expired E U (timer_w x) w = Inl q"
  shows "\<exists>f xs u. U f xs u = Inl q"
proof -
  have "t_handler e = Ixut_timeout_cb \<longrightarrow> is_timeout x"
    using s at by (auto simp: timer_sys_def handlers_ok_def timer_at_def)
  with r timer_at_expiring [of "timer_w x" w t x e c] at show ?thesis
    by (auto simp: expired_exec [OF at] timer_cb_exec timeout_cb_exec Let_def
        split: timer_handler.splits if_splits)
qed

text \<open>
  C3: safety of the timer component, for a program that keeps to libev's rules (it sets up no watcher
  that is running and frees no timer whose watcher repeats) and callbacks that do so too.  In every
  state that operations and expiries can lead to, every watcher libev has armed belongs to a live
  timer, which is marked active unless its watcher repeats, so that no expiry can hit a freed timer;
  an operation never touches memory it must not (it can fail only by its own assertions, or by the
  unchecked malloc of create); and the assertions and memory accesses of the two handlers never
  fail: a fault during an expiry is one of the user's callback.
\<close>

theorem timer_safety:
  assumes "timer_reach E U w" "keeps_timers U"
  shows "(\<forall>ev. armed (hist w) ev \<longrightarrow>
      (\<exists>t x e. timers w t = Some x \<and> timer_w x = ev \<and> evtimers w ev = Some e \<and> (active x \<or> 0 < t_repeat e))) \<and>
    (\<forall>x e. op_live x w \<longrightarrow> timer_do E x w = Inl e \<longrightarrow> e = Assertion \<or> (\<exists>c. x = Create c) \<and> e = NullDeref) \<and>
    (\<forall>ev e. armed (hist w) ev \<longrightarrow> timer_expired E U ev w = Inl e \<longrightarrow> (\<exists>f xs u. U f xs u = Inl e))"
proof -
  have s: "timer_sys w" using timer_reach_sys assms by blast
  have a: "\<exists>t x e. timers w t = Some x \<and> timer_w x = ev \<and> evtimers w ev = Some e \<and> (active x \<or> 0 < t_repeat e)"
    if "armed (hist w) ev" for ev
    using s that unfolding timer_sys_def no_stray_def by blast
  have "\<exists>f xs u. U f xs u = Inl e" if r: "armed (hist w) ev" "timer_expired E U ev w = Inl e" for ev e
  proof -
    from a [OF r(1)] obtain t y where y: "timers w t = Some y" "timer_w y = ev" by blast
    with timer_sys_at [OF s, of t] obtain x d c where at: "timer_at w t x d c" by blast
    with y have "ev = timer_w x" by (simp add: timer_at_def)
    with expired_fault [OF s at] r(2) show ?thesis by blast
  qed
  with a op_fault [OF s] show ?thesis by (intro conjI allI impI)
qed

text \<open>A process with one context and no timer yet, and a callback that does nothing.\<close>

definition fresh_timers :: tworld where
  "fresh_timers = \<lparr>brk = 1, hist = [], contexts = [1 \<mapsto> \<lparr>state = 0, evl = 9\<rparr>],
     nodes = (\<lambda>_. None), socks = (\<lambda>_. None), ctxs = (\<lambda>_. None), wctxs = (\<lambda>_. None),
     cargs = (\<lambda>_. None), ios = (\<lambda>_. None), bufs = (\<lambda>_. None),
                   timers = (\<lambda>_. None), evtimers = (\<lambda>_. None)\<rparr>"

definition idle_user :: "'w user" where
  "idle_user = (\<lambda>f xs w. Inr w)"

lemma idle_keeps [simp]: "keeps_timers idle_user"
  by (simp add: keeps_timers_def idle_user_def)

lemma fresh_timers_sys: "timer_sys fresh_timers"
  by (simp add: timer_sys_def no_stray_def handlers_ok_def timers_inv_def fresh_timers_def)

text \<open>The witness follows the process to a running timer and applies the theorem there.\<close>

theorem timer_safety_witness:
  "\<exists>w. timer_reach calm idle_user (w :: tworld) \<and> armed (hist w) 3 \<and>
     (\<exists>t x e. timers w t = Some x \<and> timer_w x = 3 \<and> evtimers w 3 = Some e \<and> (active x \<or> 0 < t_repeat e))"
proof -
  have r0: "timer_reach calm idle_user fresh_timers"
    by (rule timer_reach.start [of _ 1]) (simp_all add: fresh_timers_def)
  have l0: "op_live (Create 1) fresh_timers" by (simp add: fresh_timers_def)
  have i: "timers_inv fresh_timers" using fresh_timers_sys by (simp add: timer_sys_def)
  have b: "Suc (brk fresh_timers) = 2" "contexts fresh_timers 1 \<noteq> None" by (simp_all add: fresh_timers_def)
  from create_exec [of calm fresh_timers 1, unfolded b(1)] i b(2) obtain v x e k where
    v: "ixut_timer_create calm 1 fresh_timers = Inr (2, v)" "timer_at v 2 x e k" "timer_w x = 3" and
    h: "\<not> armed (hist v) 3"
    by (auto simp: fresh_timers_def)
  from v(1) have "timer_do calm (Create 1) fresh_timers = Inr v" by simp
  with r0 l0 have r1: "timer_reach calm idle_user v" by (blast intro: timer_reach.step timer_step.op)
  from v(2) obtain u where u: "timer_do calm (Start 2 5 0 0) v = Inr u" "armed (hist u) 3"
    using v(3) by (simp add: start_exec)
  have "op_live (Start 2 5 0 0) v" using v(2,3) h by (simp add: timer_at_def running_def)
  with r1 u(1) have "timer_reach calm idle_user u" by (blast intro: timer_reach.step timer_step.op)
  from this timer_safety [OF this idle_keeps] u(2) show ?thesis by blast
qed

section \<open>The one-shot timer as a two-state machine\<close>

text \<open>
  The abstract one-shot timer is idle or runs with a callback and its argument; next to it is the
  log of callback invocations.  Starting a running timer and stopping an idle one are not allowed.
\<close>

datatype shot_op = Arm real nat nat | Cancel | Expire

type_synonym shot = "(nat \<times> nat) option \<times> (nat \<times> nat list) list"

fun shot_spec :: "addr \<Rightarrow> shot_op \<Rightarrow> shot \<Rightarrow> (unit \<times> shot) option" where
  "shot_spec t (Arm i f a) (None, calls) = Some ((), (Some (f, a), calls))"
| "shot_spec t (Arm i f a) (Some _, calls) = None"
| "shot_spec t Cancel (Some _, calls) = Some ((), (None, calls))"
| "shot_spec t Cancel (None, calls) = None"
| "shot_spec t Expire (Some (f, a), calls) = Some ((), (None, if f = 0 then calls else (f, [t, a]) # calls))"
| "shot_spec t Expire (None, calls) = None"

primrec shot_step ::
  "env \<Rightarrow> 'a tworld_scheme user \<Rightarrow> addr \<Rightarrow> addr \<Rightarrow> shot_op \<Rightarrow> 'a tworld_scheme \<Rightarrow> (unit \<times> 'a tworld_scheme) res" where
  "shot_step E U t ev (Arm i f a) w = bnd (ixut_timer_start t i f a w) (\<lambda>w. Inr ((), w))"
| "shot_step E U t ev Cancel w = bnd (ixut_timer_stop t w) (\<lambda>w. Inr ((), w))"
| "shot_step E U t ev Expire w = bnd (timer_expired E U ev w) (\<lambda>w. Inr ((), w))"

text \<open>A callback that returns and leaves timers alone.\<close>

definition quiet :: "'a tworld_scheme user \<Rightarrow> bool" where
  "quiet U \<longleftrightarrow> (\<forall>f xs w. \<exists>v. U f xs w = Inr v \<and> timers v = timers w \<and> evtimers v = evtimers w \<and>
     contexts v = contexts w \<and> armed (hist v) = armed (hist w) \<and> invocations (hist v) = invocations (hist w))"

definition shot_rel :: "'a tworld_scheme user \<Rightarrow> addr \<Rightarrow> addr \<Rightarrow> 'a tworld_scheme \<Rightarrow> shot \<Rightarrow> bool" where
  "shot_rel U t ev w s \<longleftrightarrow> quiet U \<and> (\<exists>x e c. timer_at w t x e c \<and> timer_w x = ev \<and>
     t_handler e = Ixut_timer_cb \<and> invocations (hist w) = snd s \<and>
     (case fst s of None \<Rightarrow> \<not> active x \<and> \<not> armed (hist w) ev
                  | Some (f, a) \<Rightarrow> active x \<and> armed (hist w) ev \<and> t_repeat e \<le> 0 \<and> cb x = f \<and> args x = a))"

lemma shot_relI:
  "quiet U \<Longrightarrow> timer_at w t x e c \<Longrightarrow> timer_w x = ev \<Longrightarrow> t_handler e = Ixut_timer_cb \<Longrightarrow>
   invocations (hist w) = snd s \<Longrightarrow>
   (case fst s of None \<Rightarrow> \<not> active x \<and> \<not> armed (hist w) ev
                | Some (f, a) \<Rightarrow> active x \<and> armed (hist w) ev \<and> t_repeat e \<le> 0 \<and> cb x = f \<and> args x = a) \<Longrightarrow>
   shot_rel U t ev w s"
  unfolding shot_rel_def by blast

lemma shot_arm:
  assumes "shot_rel U t ev w (None, calls)"
  shows "\<exists>v. ixut_timer_start t i f a w = Inr v \<and> shot_rel U t ev v (Some (f, a), calls)"
proof -
  from assms obtain x e c where at: "timer_at w t x e c" "timer_w x = ev" "t_handler e = Ixut_timer_cb"
    and q: "quiet U" "invocations (hist w) = calls" by (auto simp: shot_rel_def)
  show ?thesis
    unfolding start_exec [OF at(1)] using at q
    by (auto intro!: shot_relI [where x = "x\<lparr>cb := f, args := a, active := True, interval := i\<rparr>"
          and e = "e\<lparr>t_at := i, t_repeat := 0\<rparr>" and c = c] simp: timer_at_def)
qed

lemma shot_cancel:
  assumes "shot_rel U t ev w (Some (f, a), calls)"
  shows "\<exists>v. ixut_timer_stop t w = Inr v \<and> shot_rel U t ev v (None, calls)"
proof -
  from assms obtain x e c where at: "timer_at w t x e c" "timer_w x = ev" "t_handler e = Ixut_timer_cb"
    and q: "quiet U" "invocations (hist w) = calls" "active x" by (auto simp: shot_rel_def split: prod.splits)
  show ?thesis
    unfolding stop_exec [OF at(1)] using at q
    by (auto intro!: shot_relI [where x = "x\<lparr>active := False\<rparr>" and e = e and c = c] simp: timer_at_def)
qed

lemma shot_expire:
  assumes "shot_rel U t ev w (Some (f, a), calls)"
  shows "\<exists>v. timer_expired E U ev w = Inr v \<and>
    shot_rel U t ev v (None, if f = 0 then calls else (f, [t, a]) # calls)"
proof -
  from assms obtain x e c where at: "timer_at w t x e c" "timer_w x = ev" "t_handler e = Ixut_timer_cb"
    and q: "quiet U" "invocations (hist w) = calls" "cb x = f" "args x = a" and r: "t_repeat e \<le> 0"
    by (auto simp: shot_rel_def split: prod.splits)
  let ?w = "expiring ev w"
  have na: "\<not> armed (hist ?w) ev" using armed_expiring [OF at(1)] at(2) r by simp
  let ?u = "?w\<lparr>timers := (timers w)(t \<mapsto> x\<lparr>active := False\<rparr>)\<rparr>"
  have at': "timer_at ?w t x e c" using at(1) by simp
  have run: "timer_expired E U ev w =
      (if f = 0 then Inr ?u else U f [t, a] (emit (Invoke f [t, a]) ?u))"
    using timer_cb_exec [OF at', of U] expired_exec [OF at(1), of E U] at(2,3) q(3,4) by (simp add: Let_def)
  have rel: "shot_rel U t ev v (None, l)"
    if "timers v = timers ?u" "evtimers v = evtimers ?u" "contexts v = contexts ?u"
      "\<not> armed (hist v) ev" "invocations (hist v) = l" for v l
    using that at q(1) by (intro shot_relI [where x = "x\<lparr>active := False\<rparr>" and e = e and c = c])
      (auto simp: timer_at_def)
  show ?thesis
  proof (cases "f = 0")
    case True
    with run q(2) na rel [of ?u calls] show ?thesis by simp
  next
    case False
    from q(1) obtain v where v: "U f [t, a] (emit (Invoke f [t, a]) ?u) = Inr v"
      "timers v = timers ?u" "evtimers v = evtimers ?u" "contexts v = contexts ?u"
      "armed (hist v) = armed (hist (emit (Invoke f [t, a]) ?u))"
      "invocations (hist v) = invocations (hist (emit (Invoke f [t, a]) ?u))"
      unfolding quiet_def by (metis emit_simps(3) emit_timers)
    with run False q(2) na rel [of v "(f, [t, a]) # calls"] show ?thesis by simp
  qed
qed

interpretation shot: simulation "shot_step E U t ev" "shot_spec t" "shot_rel U t ev" for E U t ev
proof
  fix w and s s' :: shot and x r
  assume r: "shot_rel U t ev w s" and x: "shot_spec t x s = Some (r, s')"
  obtain m calls where s: "s = (m, calls)" by (cases s)
  show "\<exists>w'. shot_step E U t ev x w = Inr (r, w') \<and> shot_rel U t ev w' s'"
  proof (cases x)
    case (Arm i f a)
    with x s shot_arm [of U t ev w calls i f a] r show ?thesis by (cases m) auto
  next
    case Cancel
    with x s obtain f a where m: "m = Some (f, a)" and s': "s' = (None, calls)" by (cases m) auto
    from shot_cancel [of U t ev w f a calls] r s m s' x Cancel show ?thesis by auto
  next
    case Expire
    with x s obtain f a where m: "m = Some (f, a)"
      and s': "s' = (None, if f = 0 then calls else (f, [t, a]) # calls)" by (cases m) auto
    from shot_expire [of U t ev w f a calls E] r s m s' x Expire show ?thesis by auto
  qed
qed

text \<open>
  C6: a one-shot timer refines the two-state machine.  Create a timer and perform any script of
  starts, stops and expiries that the machine allows: nothing faults, exactly the callbacks the
  machine logs are invoked, each with the timer and the argument given to start, and at the end the
  timer is marked active, and armed with libev, exactly if the machine runs.
\<close>

theorem one_shot_refines:
  fixes w :: "'a tworld_scheme"
  assumes "plentiful E" "quiet U" "timers_inv w" "c \<noteq> 0" "contexts w c \<noteq> None"
    "run_spec (shot_spec (Suc (brk w))) ops (None, invocations (hist w)) = Some (rs, (m, calls))"
  shows "\<exists>v ev v' x. ixut_timer_create E c w = Inr (Suc (brk w), v) \<and>
    run_ops (shot_step E U (Suc (brk w)) ev) ops v = Inr (rs, v') \<and> invocations (hist v') = calls \<and>
    timers v' (Suc (brk w)) = Some x \<and> timer_w x = ev \<and>
    active x = (m \<noteq> None) \<and> armed (hist v') ev = (m \<noteq> None)"
proof -
  let ?t = "Suc (brk w)" and ?ev = "Suc (Suc (brk w))"
  from create_exec [of E w c] assms(1,3-5) obtain v x e k where
    v: "ixut_timer_create E c w = Inr (?t, v)" "timer_at v ?t x e k"
      "x = zero_timer\<lparr>timer_w := ?ev, t_context := c\<rparr>" "t_handler e = Ixut_timer_cb"
      "hist v = (Ev (EvInit ?ev), 0) # (Malloc, ask E Malloc (snd (malloc E w))) # (Malloc, ask E Malloc w) # hist w"
    by auto
  have "shot_rel U ?t ?ev v (None, invocations (hist w))"
    using v assms(2) by (intro shot_relI [where x = x and e = e and c = k]) (auto simp: zero_timer_def)
  from shot.run_sim [OF this assms(6), of E] obtain v' where
    v': "run_ops (shot_step E U ?t ?ev) ops v = Inr (rs, v')" "shot_rel U ?t ?ev v' (m, calls)" by blast
  then obtain y where "timers v' ?t = Some y" "timer_w y = ?ev" "invocations (hist v') = calls"
    "active y = (m \<noteq> None) \<and> armed (hist v') ?ev = (m \<noteq> None)"
    by (auto simp: shot_rel_def timer_at_def split: option.splits)
  with v(1) v'(1) show ?thesis by blast
qed

lemma idle_quiet [simp]: "quiet idle_user"
  by (simp add: quiet_def idle_user_def)

theorem one_shot_refines_witness:
  "\<exists>v ev v'. ixut_timer_create calm 1 fresh_timers = Inr (2, v) \<and>
    run_ops (shot_step calm idle_user 2 ev) [Arm 5 8 70, Expire, Arm 1 9 71, Cancel] v = Inr ([(), (), (), ()], v') \<and>
    invocations (hist v') = [(8, [2, 70])]"
proof -
  have w: "timers_inv fresh_timers" "contexts fresh_timers 1 \<noteq> None" "Suc (brk fresh_timers) = 2"
    using fresh_timers_sys by (simp_all add: timer_sys_def fresh_timers_def)
  have s: "run_spec (shot_spec 2) [Arm 5 8 70, Expire, Arm 1 9 71, Cancel]
      (None, invocations (hist fresh_timers)) = Some ([(), (), (), ()], (None, [(8, [2, 70])]))"
    by (simp add: fresh_timers_def)
  from one_shot_refines [OF calm_plentiful idle_quiet w(1) _ w(2), unfolded w(3), OF _ s]
  show ?thesis by (auto intro: exI)
qed

section \<open>What a handler leaves to the callback\<close>

text \<open>
  C17: when a one-shot timer expires, the user's callback is invoked once, with the timer and its
  argument, in a state where the timer is already inactive, and disarmed as its watcher does not
  repeat (start sets the repeat value to 0).  The callback may therefore free the timer (the
  assertion of free holds) or start it again, and the timer is then armed.
\<close>

theorem one_shot_expiry:
  assumes "timer_at w t x e c" "t_handler e = Ixut_timer_cb" "cb x \<noteq> 0"
  shows "\<exists>v. timer_expired E U (timer_w x) w = U (cb x) [t, args x] v \<and>
    timers v = (timers w)(t \<mapsto> x\<lparr>active := False\<rparr>) \<and>
    (armed (hist v) (timer_w x) \<longleftrightarrow> 0 < t_repeat e \<and> armed (hist w) (timer_w x)) \<and>
    invocations (hist v) = (cb x, [t, args x]) # invocations (hist w) \<and>
    (\<exists>u. ixut_timer_free t v = Inr u \<and> timers u t = None) \<and>
    (\<exists>u. ixut_timer_start t i f a v = Inr u \<and> armed (hist u) (timer_w x))"
proof -
  let ?w = "expiring (timer_w x) w"
  let ?v = "emit (Invoke (cb x) [t, args x]) (?w\<lparr>timers := (timers w)(t \<mapsto> x\<lparr>active := False\<rparr>)\<rparr>)"
  have at': "timer_at ?w t x e c" using assms(1) by simp
  have run: "timer_expired E U (timer_w x) w = U (cb x) [t, args x] ?v"
    using timer_cb_exec [OF at', of U] expired_exec [OF assms(1), of E U] assms(2,3) by (simp add: Let_def)
  have at2: "timer_at ?v t (x\<lparr>active := False\<rparr>) e c" using assms(1) by (simp add: timer_at_def)
  from start_exec [OF at2, of i f a] free_exec [OF at2] run armed_expiring [OF assms(1)] show ?thesis
    by (intro exI [of _ ?v]) simp
qed

definition one_timer :: tworld where
  "one_timer = fresh_timers\<lparr>brk := 3, hist := [(Ev (EvTimerStart 9 3 5 0), 0)],
     timers := [2 \<mapsto> zero_timer\<lparr>cb := 8, args := 70, active := True, interval := 5, timer_w := 3, t_context := 1\<rparr>],
     evtimers := [3 \<mapsto> \<lparr>t_handler = Ixut_timer_cb, t_data = 2, t_at = 5, t_repeat = 0\<rparr>]\<rparr>"

theorem one_shot_expiry_witness:
  "\<exists>v. timer_expired calm idle_user 3 one_timer = Inr v \<and> invocations (hist v) = [(8, [2, 70])]"
proof -
  let ?x = "zero_timer\<lparr>cb := 8, args := 70, active := True, interval := 5, timer_w := 3, t_context := 1\<rparr>"
  let ?e = "\<lparr>t_handler = Ixut_timer_cb, t_data = 2, t_at = 5, t_repeat = 0\<rparr>"
  have "timer_at one_timer 2 ?x ?e \<lparr>state = 0, evl = 9\<rparr>"
    by (simp add: timer_at_def one_timer_def fresh_timers_def)
  from one_shot_expiry [OF this, of calm idle_user 0 0 0] show ?thesis
    by (auto simp: idle_user_def one_timer_def)
qed

section \<open>Timeouts\<close>

text \<open>
  C18: a timeout, when its watcher expires.  Its deadline is the last activity plus the interval.
  Past the deadline the callback is invoked, with the timer inactive; its watcher is disarmed if it
  does not repeat, and stays armed if it does.  Strictly before the deadline nothing is invoked and
  the watcher is armed for exactly the time that is left, with the timer active: a tick postpones the
  callback, and it never comes before the deadline.
\<close>

theorem timeout_expiry:
  assumes "timer_at w t x e c" "t_handler e = Ixut_timeout_cb" "is_timeout x" "cb x \<noteq> 0"
    "now = clock E (hist (expiring (timer_w x) w))"
  shows "(last_act x + interval x < now \<longrightarrow>
      (\<exists>v. timer_expired E U (timer_w x) w = U (cb x) [t, args x] v \<and>
         timers v = (timers w)(t \<mapsto> x\<lparr>active := False\<rparr>) \<and>
         (armed (hist v) (timer_w x) \<longleftrightarrow> 0 < t_repeat e \<and> armed (hist w) (timer_w x)) \<and>
         invocations (hist v) = (cb x, [t, args x]) # invocations (hist w))) \<and>
    (now < last_act x + interval x \<longrightarrow>
      (\<exists>v. timer_expired E U (timer_w x) w = Inr v \<and> invocations (hist v) = invocations (hist w) \<and>
         timers v = (timers w)(t \<mapsto> x\<lparr>active := True\<rparr>) \<and> armed (hist v) (timer_w x) \<and>
         hd (hist v) = (Ev (EvTimerAgain (evl c) (timer_w x) (last_act x + interval x - now)), 0)))"
proof -
  let ?w = "expiring (timer_w x) w"
  have at': "timer_at ?w t x e c" using assms(1) by simp
  have run: "timer_expired E U (timer_w x) w = ixut_timeout_cb E U (timer_w x) ?w"
    using expired_exec [OF assms(1), of E U] assms(2) by simp
  have now: "clock E (hist ?w) = now" using assms(5) by simp
  show ?thesis
    using assms(3,4) armed_expiring [OF assms(1)]
    unfolding run timeout_cb_exec [OF at'] now by (auto simp: Let_def)
qed

definition one_timeout :: tworld where
  "one_timeout = one_timer\<lparr>
     timers := [2 \<mapsto> zero_timer\<lparr>cb := 8, args := 70, active := True, is_timeout := True, interval := 5,
                               timer_w := 3, t_context := 1\<rparr>],
     evtimers := [3 \<mapsto> \<lparr>t_handler = Ixut_timeout_cb, t_data = 2, t_at = 5, t_repeat = 0\<rparr>]\<rparr>"

abbreviation "the_timeout \<equiv> zero_timer\<lparr>cb := 8, args := 70, active := True, is_timeout := True,
  interval := 5, timer_w := 3, t_context := 1\<rparr>"

lemma one_timeout_at:
  "timer_at one_timeout 2 the_timeout \<lparr>t_handler = Ixut_timeout_cb, t_data = 2, t_at = 5, t_repeat = 0\<rparr>
     \<lparr>state = 0, evl = 9\<rparr>"
  by (simp add: timer_at_def one_timeout_def one_timer_def fresh_timers_def)

text \<open>At time 0 there are 5 seconds left; at time 6 the callback is due.\<close>

theorem timeout_expiry_witness:
  "(\<exists>v. timer_expired calm idle_user 3 one_timeout = Inr v \<and> armed (hist v) 3) \<and>
   (\<exists>v. timer_expired (calm\<lparr>clock := \<lambda>h. 6\<rparr>) idle_user 3 one_timeout = Inr v \<and> \<not> armed (hist v) 3)"
proof -
  have "clock calm h = 0" for h by (simp add: calm_def)
  then show ?thesis
    using timeout_expiry [OF one_timeout_at, of _ calm idle_user]
      timeout_expiry [OF one_timeout_at, of _ "calm\<lparr>clock := \<lambda>h. 6\<rparr>" idle_user]
    by (auto simp: idle_user_def zero_timer_def)
qed

text \<open>
  C19: liveness of an idle timeout.  If the watcher expires before the deadline and the timer is not
  touched until the next expiry, which libev reports after the time it was armed for, then the
  second expiry invokes the callback.
\<close>

theorem idle_timeout_fires:
  assumes "timer_at w t x e c" "t_handler e = Ixut_timeout_cb" "is_timeout x" "cb x \<noteq> 0"
    "clock E (hist (expiring (timer_w x) w)) < last_act x + interval x"
    "timer_expired E U (timer_w x) w = Inr v"
    "last_act x + interval x < clock E (hist (expiring (timer_w x) v))"
  shows "armed (hist v) (timer_w x) \<and>
    (\<exists>u. timer_expired E U (timer_w x) v = U (cb x) [t, args x] u \<and>
       invocations (hist u) = (cb x, [t, args x]) # invocations (hist w))"
proof -
  let ?w = "expiring (timer_w x) w"
  let ?r = "last_act x + interval x - clock E (hist ?w)"
  have at': "timer_at ?w t x e c" using assms(1) by simp
  have v: "v = ?w\<lparr>hist := (Ev (EvTimerAgain (evl c) (timer_w x) ?r), 0) # hist ?w,
       timers := (timers ?w)(t \<mapsto> x\<lparr>active := True\<rparr>),
       evtimers := (evtimers ?w)(timer_w x \<mapsto> e\<lparr>t_repeat := ?r\<rparr>)\<rparr>"
    using assms(2,3,5,6) expired_exec [OF assms(1), of E U] timeout_cb_exec [OF at', of E U]
    by (simp add: Let_def)
  have at2: "timer_at v t (x\<lparr>active := True\<rparr>) (e\<lparr>t_repeat := ?r\<rparr>) c"
    unfolding v using assms(1) by (simp add: timer_at_def)
  have "armed (hist v) (timer_w x)" "invocations (hist v) = invocations (hist w)"
    unfolding v using assms(5) by simp_all
  moreover from expired_exec [OF at2, of E U] timeout_cb_exec [of "expiring (timer_w x) v" t
      "x\<lparr>active := True\<rparr>" "e\<lparr>t_repeat := ?r\<rparr>" c E U] at2 assms(2,3,4,7)
  have "timer_expired E U (timer_w x) v = U (cb x) [t, args x] (emit (Invoke (cb x) [t, args x])
      ((expiring (timer_w x) v)\<lparr>timers := (timers v)(t \<mapsto> x\<lparr>active := False\<rparr>)\<rparr>))"
    by simp
  ultimately show ?thesis by auto
qed

text \<open>A clock that moves by 4 seconds with every recorded event: 4 at the first expiry, 12 at the next.\<close>

theorem idle_timeout_fires_witness:
  "\<exists>v u. timer_expired (calm\<lparr>clock := \<lambda>h. 4 * real (length h) - 4\<rparr>) idle_user 3 one_timeout = Inr v \<and>
     timer_expired (calm\<lparr>clock := \<lambda>h. 4 * real (length h) - 4\<rparr>) idle_user 3 v = Inr u \<and>
     invocations (hist u) = [(8, [2, 70])]"
proof -
  let ?E = "calm\<lparr>clock := \<lambda>h. 4 * real (length h) - 4\<rparr>"
  have h: "hist one_timeout = [(Ev (EvTimerStart 9 3 5 0), 0)]"
    by (simp add: one_timeout_def one_timer_def)
  have "timer_at (expiring 3 one_timeout) 2 the_timeout
      \<lparr>t_handler = Ixut_timeout_cb, t_data = 2, t_at = 5, t_repeat = 0\<rparr> \<lparr>state = 0, evl = 9\<rparr>"
    using one_timeout_at by simp
  from timeout_cb_exec [OF this, of ?E idle_user] expired_exec [OF one_timeout_at, of ?E idle_user]
  obtain v where v: "timer_expired ?E idle_user 3 one_timeout = Inr v" "length (hist v) = 3"
    by (simp add: h zero_timer_def Let_def expiring_def)
  from idle_timeout_fires [OF one_timeout_at, of ?E idle_user v] v
  show ?thesis by (auto simp: h zero_timer_def idle_user_def expiring_def)
qed

text \<open>
  C34: at the very deadline the timeout is lost.  The handler then arms the watcher with repeat 0,
  which stops it: the timer stays marked active, so free still refuses it, but libev will not
  report another expiry, and the callback never comes.
\<close>

theorem timeout_lost_at_deadline:
  assumes "timer_at w t x e c" "t_handler e = Ixut_timeout_cb" "is_timeout x"
    "clock E (hist (expiring (timer_w x) w)) = last_act x + interval x"
  shows "\<exists>v. timer_expired E U (timer_w x) w = Inr v \<and> \<not> armed (hist v) (timer_w x) \<and>
    invocations (hist v) = invocations (hist w) \<and> timers v = (timers w)(t \<mapsto> x\<lparr>active := True\<rparr>) \<and>
    ixut_timer_free t v = Inl Assertion"
proof -
  let ?w = "expiring (timer_w x) w"
  let ?v = "?w\<lparr>hist := (Ev (EvTimerAgain (evl c) (timer_w x) 0), 0) # hist ?w,
     timers := (timers ?w)(t \<mapsto> x\<lparr>active := True\<rparr>),
     evtimers := (evtimers ?w)(timer_w x \<mapsto> e\<lparr>t_repeat := 0\<rparr>)\<rparr>"
  have at': "timer_at ?w t x e c" using assms(1) by simp
  have run: "timer_expired E U (timer_w x) w = Inr ?v"
    using assms(2-4) expired_exec [OF assms(1), of E U] timeout_cb_exec [OF at', of E U] by (simp add: Let_def)
  have "timer_at ?v t (x\<lparr>active := True\<rparr>) (e\<lparr>t_repeat := 0\<rparr>) c" using assms(1) by (simp add: timer_at_def)
  from free_exec [OF this] run show ?thesis by (intro exI [of _ ?v]) simp
qed

theorem timeout_lost_at_deadline_witness:
  "\<exists>v. timer_expired (calm\<lparr>clock := \<lambda>h. 5\<rparr>) idle_user 3 one_timeout = Inr v \<and>
     \<not> armed (hist v) 3 \<and> ixut_timer_free 2 v = Inl Assertion"
  using timeout_lost_at_deadline [OF one_timeout_at, of "calm\<lparr>clock := \<lambda>h. 5\<rparr>" idle_user]
  by (auto simp: zero_timer_def)

text \<open>
  C38: a timeout that fires after a postponement fires on a watcher that repeats, as the handler set the
  repeat value and nothing resets it.  The callback is invoked with the timer marked inactive while
  libev still has its watcher armed, and both ways out are wrong: stop refuses (its assertion fails),
  and free accepts, after which the watcher is still armed and its next expiry reads the freed timer.
\<close>

theorem fired_timeout_repeats:
  assumes "timer_at w t x e c" "t_handler e = Ixut_timeout_cb" "is_timeout x" "cb x \<noteq> 0"
    "armed (hist w) (timer_w x)" "clock E (hist (expiring (timer_w x) w)) < last_act x + interval x"
    "timer_expired E U (timer_w x) w = Inr v"
    "last_act x + interval x < clock E (hist (expiring (timer_w x) v))"
  shows "\<exists>u. timer_expired E U (timer_w x) v = U (cb x) [t, args x] u \<and> armed (hist u) (timer_w x) \<and>
    (\<exists>y. timers u t = Some y \<and> \<not> active y) \<and> ixut_timer_stop t u = Inl Assertion \<and>
    (\<exists>z. ixut_timer_free t u = Inr z \<and> armed (hist z) (timer_w x) \<and>
       timer_expired E U (timer_w x) z = Inl Dangling)"
proof -
  let ?w = "expiring (timer_w x) w"
  let ?r = "last_act x + interval x - clock E (hist ?w)"
  have at': "timer_at ?w t x e c" using assms(1) by simp
  have v: "v = ?w\<lparr>hist := (Ev (EvTimerAgain (evl c) (timer_w x) ?r), 0) # hist ?w,
       timers := (timers ?w)(t \<mapsto> x\<lparr>active := True\<rparr>),
       evtimers := (evtimers ?w)(timer_w x \<mapsto> e\<lparr>t_repeat := ?r\<rparr>)\<rparr>"
    using assms(2,3,6,7) expired_exec [OF assms(1), of E U] timeout_cb_exec [OF at', of E U]
    by (simp add: Let_def)
  have at2: "timer_at v t (x\<lparr>active := True\<rparr>) (e\<lparr>t_repeat := ?r\<rparr>) c"
    unfolding v using assms(1) by (simp add: timer_at_def)
  have "armed (hist v) (timer_w x)" unfolding v using assms(6) by simp
  with armed_expiring [OF at2] assms(6) have arm: "armed (hist (expiring (timer_w x) v)) (timer_w x)" by simp
  define u where "u = emit (Invoke (cb x) [t, args x])
      ((expiring (timer_w x) v)\<lparr>timers := (timers v)(t \<mapsto> x\<lparr>active := False\<rparr>)\<rparr>)"
  have run: "timer_expired E U (timer_w x) v = U (cb x) [t, args x] u"
    using expired_exec [OF at2, of E U] timeout_cb_exec [of "expiring (timer_w x) v" t
      "x\<lparr>active := True\<rparr>" "e\<lparr>t_repeat := ?r\<rparr>" c E U] at2 assms(2,3,4,8) by (simp add: u_def)
  have at3: "timer_at u t (x\<lparr>active := False\<rparr>) (e\<lparr>t_repeat := ?r\<rparr>) c"
    using at2 by (simp add: u_def timer_at_def)
  have "armed (hist u) (timer_w x)" using arm by (simp add: u_def)
  with run at3 assms(2) stop_exec [OF at3] free_exec [OF at3] show ?thesis
    by (intro exI [of _ u])
      (simp add: timer_at_def timer_expired_def ixut_timeout_cb_def cstmt get_timer_def)
qed

theorem fired_timeout_repeats_witness:
  "\<exists>v u z. timer_expired (calm\<lparr>clock := \<lambda>h. 4 * real (length h) - 4\<rparr>) idle_user 3 one_timeout = Inr v \<and>
     timer_expired (calm\<lparr>clock := \<lambda>h. 4 * real (length h) - 4\<rparr>) idle_user 3 v = Inr u \<and>
     armed (hist u) 3 \<and> ixut_timer_stop 2 u = Inl Assertion \<and> ixut_timer_free 2 u = Inr z \<and>
     timer_expired (calm\<lparr>clock := \<lambda>h. 4 * real (length h) - 4\<rparr>) idle_user 3 z = Inl Dangling"
proof -
  let ?E = "calm\<lparr>clock := \<lambda>h. 4 * real (length h) - 4\<rparr>"
  have h: "hist one_timeout = [(Ev (EvTimerStart 9 3 5 0), 0)]"
    by (simp add: one_timeout_def one_timer_def)
  have "timer_at (expiring 3 one_timeout) 2 the_timeout
      \<lparr>t_handler = Ixut_timeout_cb, t_data = 2, t_at = 5, t_repeat = 0\<rparr> \<lparr>state = 0, evl = 9\<rparr>"
    using one_timeout_at by simp
  from timeout_cb_exec [OF this, of ?E idle_user] expired_exec [OF one_timeout_at, of ?E idle_user]
  obtain v where v: "timer_expired ?E idle_user 3 one_timeout = Inr v" "length (hist v) = 3"
    by (simp add: h zero_timer_def Let_def expiring_def)
  from fired_timeout_repeats [OF one_timeout_at, of ?E idle_user v] v
  show ?thesis by (auto simp: h zero_timer_def idle_user_def expiring_def)
qed

text \<open>
  \<open>ixut_timer_again\<close> on a running one-shot timer stops it.  Start leaves the watcher's repeat
  value at 0, and libev's again stops a watcher that does not repeat; the timer is nevertheless
  marked active.  A restart through stop and start is what arms it.
\<close>

theorem again_stops_one_shot:
  assumes "timer_at w t x e c"
  shows "\<exists>v u. ixut_timer_start t i f a w = Inr v \<and> armed (hist v) (timer_w x) \<and>
    ixut_timer_again t v = Inr u \<and> \<not> armed (hist u) (timer_w x) \<and>
    (\<exists>y. timers u t = Some y \<and> active y) \<and>
    (\<exists>r s. ixut_timer_stop t v = Inr r \<and> ixut_timer_start t i f a r = Inr s \<and> armed (hist s) (timer_w x))"
proof -
  let ?x = "x\<lparr>cb := f, args := a, active := True, interval := i\<rparr>" and ?e = "e\<lparr>t_at := i, t_repeat := 0\<rparr>"
  obtain v where v: "ixut_timer_start t i f a w = Inr v" "armed (hist v) (timer_w x)" and at: "timer_at v t ?x ?e c"
    using assms by (simp add: start_exec [OF assms] timer_at_def)
  obtain r where r: "ixut_timer_stop t v = Inr r" and at2: "timer_at r t (?x\<lparr>active := False\<rparr>) ?e c"
    using stop_exec [OF at] at by (simp add: timer_at_def)
  from again_exec [OF at] start_exec [OF at2, of i f a] v r show ?thesis by auto
qed

theorem again_stops_one_shot_witness:
  "\<exists>v u. ixut_timer_start 2 5 8 70 one_timeout = Inr v \<and> ixut_timer_again 2 v = Inr u \<and> \<not> armed (hist u) 3"
  using again_stops_one_shot [OF one_timeout_at, of 5 8 70] by auto

end
