(* ===== verification/Childprocess.thy ===== *)
theory Childprocess
  imports Timer
begin

unbundle bit_operations_syntax

text \<open>
  Child processes: fork and the watchers of childprocess.cxx, the termination callbacks of
  child_termcb.cxx, and the decoding of wait statuses, with the macros of the C library's
  sys/wait.h as Linux defines them on 32-bit status words.
\<close>

section \<open>Wait statuses\<close>

type_synonym wstatus = "32 word"

definition WTERMSIG :: "wstatus \<Rightarrow> wstatus" where
  "WTERMSIG s = s AND 0x7f"

definition WEXITSTATUS :: "wstatus \<Rightarrow> wstatus" where
  "WEXITSTATUS s = drop_bit 8 (s AND 0xff00)"

definition WIFEXITED :: "wstatus \<Rightarrow> bool" where
  "WIFEXITED s = (WTERMSIG s = 0)"

text \<open>\<open>((signed char) ((s & 0x7f) + 1) >> 1) > 0\<close>\<close>

definition WIFSIGNALED :: "wstatus \<Rightarrow> bool" where
  "WIFSIGNALED s = (0 < sint (signed_drop_bit 1 (ucast ((s AND 0x7f) + 1) :: 8 word)))"

definition WIFSTOPPED :: "wstatus \<Rightarrow> bool" where
  "WIFSTOPPED s = (s AND 0xff = 0x7f)"

definition WSTOPSIG :: "wstatus \<Rightarrow> wstatus" where
  "WSTOPSIG s = WEXITSTATUS s"

text \<open>The wrappers luafound.cxx exports to scripts.\<close>

definition ixlb_wexitstatus :: "wstatus \<Rightarrow> wstatus" where "ixlb_wexitstatus s = WEXITSTATUS s"

definition ixlb_wtermsig :: "wstatus \<Rightarrow> wstatus" where "ixlb_wtermsig s = WTERMSIG s"

definition ixlb_wifexited :: "wstatus \<Rightarrow> bool" where "ixlb_wifexited s = WIFEXITED s"

definition ixlb_wifsignaled :: "wstatus \<Rightarrow> bool" where "ixlb_wifsignaled s = WIFSIGNALED s"

definition ixlb_wifstopped :: "wstatus \<Rightarrow> bool" where "ixlb_wifstopped s = WIFSTOPPED s"

definition ixlb_wstopsig :: "wstatus \<Rightarrow> wstatus" where "ixlb_wstopsig s = WSTOPSIG s"

record ixut_child_exitstatus =
  status_raw :: wstatus
  status :: wstatus
  exit_cause :: int
  term_sig :: wstatus

text \<open>The computation of \<open>ixut_childw_getstatus\<close> on the raw status.\<close>

definition exitstatus_of :: "wstatus \<Rightarrow> ixut_child_exitstatus" where
  "exitstatus_of raw =
     (let st = \<lparr>status_raw = 0, status = 0, exit_cause = 0, term_sig = 0\<rparr>;
          st = st\<lparr>status_raw := raw\<rparr>;
          st = st\<lparr>status := WEXITSTATUS raw\<rparr>;
          st = st\<lparr>term_sig := WTERMSIG raw\<rparr>;
          st = (if WIFEXITED raw then st\<lparr>exit_cause := 0\<rparr> else st);
          st = (if WIFSIGNALED raw then st\<lparr>exit_cause := 1\<rparr> else st);
          st = (if WIFSTOPPED raw then st\<lparr>exit_cause := 2\<rparr> else st)
      in st)"

section \<open>Data\<close>

datatype child_handler = Ixut_childw_cb | Ixcb_child_terminated_ev

text \<open>The fields of libev's child watcher that the code sets or reads.\<close>

record ev_child =
  ec_handler :: child_handler
  ec_data :: addr
  ec_pid :: int
  rpid :: int
  rstatus :: wstatus

record ixut_child_watcher =
  cw_event :: addr
  cw_cb :: nat
  cw_data :: nat
  cw_context :: addr

record ixc_termcb_args =
  ta_data :: nat
  ta_cb :: nat
  ta_pid :: int
  ta_status :: wstatus
  ta_term_signal :: wstatus

record cworld = tworld +
  childws :: "addr \<Rightarrow> ixut_child_watcher option"
  evchilds :: "addr \<Rightarrow> ev_child option"
  termargs :: "addr \<Rightarrow> ixc_termcb_args option"

section \<open>Memory\<close>

definition get_childw :: "addr \<Rightarrow> 'a cworld_scheme \<Rightarrow> ixut_child_watcher res" where
  "get_childw p w = deref (childws w) p"

definition set_childw ::
  "(ixut_child_watcher \<Rightarrow> ixut_child_watcher) \<Rightarrow> addr \<Rightarrow> 'a cworld_scheme \<Rightarrow> 'a cworld_scheme res" where
  "set_childw f p w = bnd (modify f p (childws w)) (\<lambda>m. Inr (w\<lparr>childws := m\<rparr>))"

definition get_evc :: "addr \<Rightarrow> 'a cworld_scheme \<Rightarrow> ev_child res" where
  "get_evc p w = deref (evchilds w) p"

definition set_evc :: "(ev_child \<Rightarrow> ev_child) \<Rightarrow> addr \<Rightarrow> 'a cworld_scheme \<Rightarrow> 'a cworld_scheme res" where
  "set_evc f p w = bnd (modify f p (evchilds w)) (\<lambda>m. Inr (w\<lparr>evchilds := m\<rparr>))"

definition get_targs :: "addr \<Rightarrow> 'a cworld_scheme \<Rightarrow> ixc_termcb_args res" where
  "get_targs p w = deref (termargs w) p"

definition set_targs ::
  "(ixc_termcb_args \<Rightarrow> ixc_termcb_args) \<Rightarrow> addr \<Rightarrow> 'a cworld_scheme \<Rightarrow> 'a cworld_scheme res" where
  "set_targs f p w = bnd (modify f p (termargs w)) (\<lambda>m. Inr (w\<lparr>termargs := m\<rparr>))"

definition free_childw :: "addr \<Rightarrow> 'a cworld_scheme \<Rightarrow> 'a cworld_scheme res" where
  "free_childw p w = bnd (release p (childws w)) (\<lambda>m. Inr (w\<lparr>childws := m\<rparr>))"

definition free_evc :: "addr \<Rightarrow> 'a cworld_scheme \<Rightarrow> 'a cworld_scheme res" where
  "free_evc p w = bnd (release p (evchilds w)) (\<lambda>m. Inr (w\<lparr>evchilds := m\<rparr>))"

definition free_targs :: "addr \<Rightarrow> 'a cworld_scheme \<Rightarrow> 'a cworld_scheme res" where
  "free_targs p w = bnd (release p (termargs w)) (\<lambda>m. Inr (w\<lparr>termargs := m\<rparr>))"

text \<open>malloc followed by memset to zero, which writes through NULL when malloc failed.\<close>

definition malloc_childw :: "env \<Rightarrow> 'a cworld_scheme \<Rightarrow> (addr \<times> 'a cworld_scheme) res" where
  "malloc_childw E w =
     (let (p, w) = malloc E w
      in if p = 0 then Inl NullDeref
         else Inr (p, w\<lparr>childws := (childws w)(p \<mapsto> \<lparr>cw_event = 0, cw_cb = 0, cw_data = 0, cw_context = 0\<rparr>)\<rparr>))"

definition malloc_targs :: "env \<Rightarrow> 'a cworld_scheme \<Rightarrow> (addr \<times> 'a cworld_scheme) res" where
  "malloc_targs E w =
     (let (p, w) = malloc E w
      in if p = 0 then Inl NullDeref
         else Inr (p, w\<lparr>termargs := (termargs w)(p \<mapsto>
                      \<lparr>ta_data = 0, ta_cb = 0, ta_pid = 0, ta_status = 0, ta_term_signal = 0\<rparr>)\<rparr>))"

text \<open>malloc alone: the fields of the watcher are indeterminate.\<close>

definition malloc_evc :: "env \<Rightarrow> 'a cworld_scheme \<Rightarrow> addr \<times> 'a cworld_scheme" where
  "malloc_evc E w =
     (let (p, w) = malloc E w
      in (p, if p = 0 then w
             else w\<lparr>evchilds := (evchilds w)(p \<mapsto>
                    \<lparr>ec_handler = Ixut_childw_cb, ec_data = junk E (hist w) 0, ec_pid = int (junk E (hist w) 1),
                     rpid = int (junk E (hist w) 2), rstatus = of_nat (junk E (hist w) 3)\<rparr>)\<rparr>))"

definition ev_init_child :: "addr \<Rightarrow> child_handler \<Rightarrow> 'a cworld_scheme \<Rightarrow> 'a cworld_scheme res" where
  "ev_init_child p h w = bnd (set_evc (\<lambda>e. e\<lparr>ec_handler := h\<rparr>) p w) (\<lambda>w. Inr (emit (Ev (EvInit p)) w))"

definition ev_is_active :: "env \<Rightarrow> addr \<Rightarrow> 'a world_scheme \<Rightarrow> bool" where
  "ev_is_active E p w = (ask E (Ev (EvIsActive p)) w \<noteq> 0)"

definition ev_is_pending :: "env \<Rightarrow> addr \<Rightarrow> 'a world_scheme \<Rightarrow> bool" where
  "ev_is_pending E p w = (ask E (Ev (EvIsPending p)) w \<noteq> 0)"

section \<open>childprocess.cxx\<close>

text \<open>In the child the callback runs and the process aborts; only the parent returns.\<close>

definition ixut_fork ::
  "env \<Rightarrow> 'a world_scheme user \<Rightarrow> nat \<Rightarrow> nat \<Rightarrow> 'a world_scheme \<Rightarrow> (int \<times> 'a world_scheme) res" where
  "ixut_fork E U f a w =
     (let (pid, w) = ext E (Proc SysFork) w
      in if pid = -1 then Inr (-1, w)
         else if pid = 0 then bnd (invoke U f [a] w) (\<lambda>w. Inl Aborted)
         else Inr (pid, w))"

definition ixut_childw_cb ::
  "'a cworld_scheme user \<Rightarrow> addr \<Rightarrow> addr \<Rightarrow> 'a cworld_scheme \<Rightarrow> 'a cworld_scheme res" where
  "ixut_childw_cb U loop ev w =
     bnd (get_evc ev w) (\<lambda>e. asserting (ec_data e \<noteq> 0) (
     bnd (get_childw (ec_data e) w) (\<lambda>c. asserting (cw_event c = ev) (
     let w = emit (Ev (EvChildStop loop ev)) w in
     if cw_cb c \<noteq> 0 then invoke U (cw_cb c) [ec_data e, cw_data c] w else Inr w))))"

definition ixut_childw_create :: "env \<Rightarrow> addr \<Rightarrow> 'a cworld_scheme \<Rightarrow> (addr \<times> 'a cworld_scheme) res" where
  "ixut_childw_create E ctx w =
     asserting (ctx \<noteq> 0) (
     bnd (malloc_childw E w) (\<lambda>(ret, w).
     let (ev, w) = malloc_evc E w in
     bnd (set_childw (\<lambda>x. x\<lparr>cw_event := ev\<rparr>) ret w) (\<lambda>w.
     bnd (set_childw (\<lambda>x. x\<lparr>cw_context := ctx\<rparr>) ret w) (\<lambda>w.
     bnd (ev_init_child ev Ixut_childw_cb w) (\<lambda>w.
     bnd (set_evc (\<lambda>e. e\<lparr>ec_data := ret\<rparr>) ev w) (\<lambda>w.
     Inr (ret, w)))))))"

definition ixut_childw_free :: "env \<Rightarrow> addr \<Rightarrow> 'a cworld_scheme \<Rightarrow> 'a cworld_scheme res" where
  "ixut_childw_free E childw w =
     asserting (childw \<noteq> 0) (
     bnd (get_childw childw w) (\<lambda>c. asserting (cw_event c \<noteq> 0) (
     bnd (get_evc (cw_event c) w) (\<lambda>_.
     asserting (\<not> ev_is_active E (cw_event c) w) (
     asserting (\<not> ev_is_pending E (cw_event c) w) (
     bnd (free_evc (cw_event c) w) (\<lambda>w.
     free_childw childw w)))))))"

definition ixut_childw_start ::
  "env \<Rightarrow> addr \<Rightarrow> int \<Rightarrow> nat \<Rightarrow> nat \<Rightarrow> 'a cworld_scheme \<Rightarrow> 'a cworld_scheme res" where
  "ixut_childw_start E childw pid f a w =
     asserting (childw \<noteq> 0) (
     bnd (get_childw childw w) (\<lambda>c. asserting (cw_event c \<noteq> 0) (
     bnd (get_evc (cw_event c) w) (\<lambda>_.
     asserting (\<not> ev_is_active E (cw_event c) w) (
     asserting (\<not> ev_is_pending E (cw_event c) w) (
     bnd (set_evc (\<lambda>e. e\<lparr>ec_pid := pid\<rparr>) (cw_event c) w) (\<lambda>w.
     bnd (set_childw (\<lambda>x. x\<lparr>cw_cb := f, cw_data := a\<rparr>) childw w) (\<lambda>w.
     bnd (loop_of (cw_context c) w) (\<lambda>l.
     Inr (emit (Ev (EvChildStart l (cw_event c) pid)) w))))))))))"

definition ixut_childw_getpid :: "addr \<Rightarrow> 'a cworld_scheme \<Rightarrow> int res" where
  "ixut_childw_getpid childw w =
     asserting (childw \<noteq> 0) (
     bnd (get_childw childw w) (\<lambda>c. bnd (get_evc (cw_event c) w) (\<lambda>e. Inr (rpid e))))"

definition ixut_childw_getstatus :: "addr \<Rightarrow> 'a cworld_scheme \<Rightarrow> ixut_child_exitstatus res" where
  "ixut_childw_getstatus childw w =
     asserting (childw \<noteq> 0) (
     bnd (get_childw childw w) (\<lambda>c. bnd (get_evc (cw_event c) w) (\<lambda>e. Inr (exitstatus_of (rstatus e)))))"

section \<open>child_termcb.cxx\<close>

definition ixc_add_termcb :: "env \<Rightarrow> int \<Rightarrow> nat \<Rightarrow> nat \<Rightarrow> 'a cworld_scheme \<Rightarrow> 'a cworld_scheme res" where
  "ixc_add_termcb E pid f a w =
     bnd (malloc_targs E w) (\<lambda>(r, w).
     bnd (set_targs (\<lambda>x. x\<lparr>ta_pid := pid, ta_cb := f, ta_data := a\<rparr>) r w) (\<lambda>w.
     let (childt, w) = malloc_evc E w in
     bnd (ev_init_child childt Ixcb_child_terminated_ev w) (\<lambda>w.
     bnd (set_evc (\<lambda>e. e\<lparr>ec_pid := pid\<rparr>) childt w) (\<lambda>w.
     bnd (set_evc (\<lambda>e. e\<lparr>ec_data := r\<rparr>) childt w) (\<lambda>w.
     Inr (emit (Ev (EvChildStart (default_loop E) childt pid)) w))))))"

definition ixcb_child_terminated_ev ::
  "'a cworld_scheme user \<Rightarrow> addr \<Rightarrow> addr \<Rightarrow> 'a cworld_scheme \<Rightarrow> 'a cworld_scheme res" where
  "ixcb_child_terminated_ev U loop ev w =
     bnd (get_evc ev w) (\<lambda>e.
     let args = ec_data e in
     bnd (set_targs (\<lambda>x. x\<lparr>ta_pid := rpid e\<rparr>) args w) (\<lambda>w.
     bnd (set_targs (\<lambda>x. x\<lparr>ta_status := rstatus e\<rparr>) args w) (\<lambda>w.
     bnd (get_targs args w) (\<lambda>x.
     bnd (invoke U (ta_cb x) [args] w) (\<lambda>w.
     bnd (get_evc ev w) (\<lambda>_.
     let w = emit (Ev (EvChildStop loop ev)) w in
     bnd (free_targs args w) (\<lambda>w.
     free_evc ev w)))))))"

definition ixut_spawn_process ::
  "env \<Rightarrow> string \<Rightarrow> nat \<Rightarrow> nat \<Rightarrow> 'a cworld_scheme \<Rightarrow> 'a cworld_scheme res" where
  "ixut_spawn_process E file f a w =
     (let (pid, w) = ext E (Proc SysFork) w
      in if pid = -1 then Inr (emit (Printf ''%s: fork failed.'') w)
         else if pid = 0
         then (let (r, w) = ext E (Proc (SysExecvp file)) w
               in if r = -1 then Inl Assertion else Inl Replaced)
         else ixc_add_termcb E pid f a w)"

text \<open>Neither of these two does anything but check its argument.\<close>

definition ixc_enable_termcb :: "addr \<Rightarrow> 'a world_scheme \<Rightarrow> 'a world_scheme res" where
  "ixc_enable_termcb ctx w = bnd (deref (contexts w) ctx) (\<lambda>c. asserting (evl c \<noteq> 0) (Inr w))"

definition ixc_disable_termcb :: "addr \<Rightarrow> 'a world_scheme \<Rightarrow> 'a world_scheme res" where
  "ixc_disable_termcb ctx w = bnd (deref (contexts w) ctx) (\<lambda>c. asserting (evl c \<noteq> 0) (Inr w))"

section \<open>libev's side\<close>

text \<open>
  When a watched child changes state, libev stores its pid and wait status in the watcher and calls
  the handler; a child watcher stays active until it is stopped.
\<close>

definition child_event ::
  "'a cworld_scheme user \<Rightarrow> addr \<Rightarrow> addr \<Rightarrow> int \<Rightarrow> wstatus \<Rightarrow> 'a cworld_scheme \<Rightarrow> 'a cworld_scheme res" where
  "child_event U loop ev pid st w =
     bnd (set_evc (\<lambda>e. e\<lparr>rpid := pid, rstatus := st\<rparr>) ev w) (\<lambda>w.
     bnd (get_evc ev w) (\<lambda>e.
     case ec_handler e of Ixut_childw_cb \<Rightarrow> ixut_childw_cb U loop ev w
                        | Ixcb_child_terminated_ev \<Rightarrow> ixcb_child_terminated_ev U loop ev w))"

text \<open>Is the child watcher \<open>v\<close> started and not stopped since, by the recorded calls?\<close>

fun watching :: "event list \<Rightarrow> addr \<Rightarrow> bool" where
  "watching [] v = False"
| "watching ((Ev (EvChildStart l u p), _) # h) v = (u = v \<or> watching h v)"
| "watching ((Ev (EvChildStop l u), _) # h) v = (u \<noteq> v \<and> watching h v)"
| "watching ((Ev (EvInit u), _) # h) v = (u \<noteq> v \<and> watching h v)"
| "watching (_ # h) v = watching h v"

text \<open>
  What libev documents of its queries: a watcher is active exactly from its start to its stop, and
  only an active watcher can be pending.
\<close>

definition honest :: "env \<Rightarrow> bool" where
  "honest E \<longleftrightarrow> (\<forall>h p. (answer E h (Ev (EvIsActive p)) \<noteq> 0 \<longleftrightarrow> watching h p) \<and>
     (answer E h (Ev (EvIsPending p)) \<noteq> 0 \<longrightarrow> watching h p))"

end
