(* ===== verification/ChildprocessProps.thy ===== *)
theory ChildprocessProps
  imports Childprocess
begin

unbundle bit_operations_syntax

text \<open>
  The properties of childprocess.cxx and child_termcb.cxx: what a decoded wait status says, the
  life of a child watcher and of a termination callback, and who returns from a fork.
\<close>

section \<open>Executing the operations\<close>

lemma get_childw_ok [cstmt]: "p \<noteq> 0 \<Longrightarrow> childws w p = Some x \<Longrightarrow> get_childw p w = Inr x"
  by (simp add: get_childw_def cstmt)

lemma get_evc_ok [cstmt]: "p \<noteq> 0 \<Longrightarrow> evchilds w p = Some x \<Longrightarrow> get_evc p w = Inr x"
  by (simp add: get_evc_def cstmt)

lemma get_targs_ok [cstmt]: "p \<noteq> 0 \<Longrightarrow> termargs w p = Some x \<Longrightarrow> get_targs p w = Inr x"
  by (simp add: get_targs_def cstmt)

lemma set_childw_ok [cstmt]:
  "p \<noteq> 0 \<Longrightarrow> childws w p = Some x \<Longrightarrow> set_childw f p w = Inr (w\<lparr>childws := (childws w)(p \<mapsto> f x)\<rparr>)"
  by (simp add: set_childw_def cstmt)

lemma set_evc_ok [cstmt]:
  "p \<noteq> 0 \<Longrightarrow> evchilds w p = Some x \<Longrightarrow> set_evc f p w = Inr (w\<lparr>evchilds := (evchilds w)(p \<mapsto> f x)\<rparr>)"
  by (simp add: set_evc_def cstmt)

lemma set_targs_ok [cstmt]:
  "p \<noteq> 0 \<Longrightarrow> termargs w p = Some x \<Longrightarrow> set_targs f p w = Inr (w\<lparr>termargs := (termargs w)(p \<mapsto> f x)\<rparr>)"
  by (simp add: set_targs_def cstmt)

lemma free_childw_ok [cstmt]:
  "p \<noteq> 0 \<Longrightarrow> childws w p = Some x \<Longrightarrow> free_childw p w = Inr (w\<lparr>childws := (childws w)(p := None)\<rparr>)"
  by (simp add: free_childw_def cstmt)

lemma free_evc_ok [cstmt]:
  "p \<noteq> 0 \<Longrightarrow> evchilds w p = Some x \<Longrightarrow> free_evc p w = Inr (w\<lparr>evchilds := (evchilds w)(p := None)\<rparr>)"
  by (simp add: free_evc_def cstmt)

lemma free_targs_ok [cstmt]:
  "p \<noteq> 0 \<Longrightarrow> termargs w p = Some x \<Longrightarrow> free_targs p w = Inr (w\<lparr>termargs := (termargs w)(p := None)\<rparr>)"
  by (simp add: free_targs_def cstmt)

lemma emit_childs [simp]:
  "childws (emit c w) = childws w" "evchilds (emit c w) = evchilds w" "termargs (emit c w) = termargs w"
  by (simp_all add: emit_def)

lemma emit_child_upd [simp]:
  "emit c (w\<lparr>childws := m\<rparr>) = (emit c w)\<lparr>childws := m\<rparr>"
  "emit c (w\<lparr>evchilds := n\<rparr>) = (emit c w)\<lparr>evchilds := n\<rparr>"
  "emit c (w\<lparr>termargs := k\<rparr>) = (emit c w)\<lparr>termargs := k\<rparr>"
  by (simp_all add: emit_def)

text \<open>What libev documents of its queries, in a state.\<close>

lemma honest_active: "honest E \<Longrightarrow> ev_is_active E p w = watching (hist w) p"
  by (simp add: honest_def ev_is_active_def ask_def)

lemma honest_pending: "honest E \<Longrightarrow> \<not> watching (hist w) p \<Longrightarrow> \<not> ev_is_pending E p w"
  by (auto simp: honest_def ev_is_pending_def ask_def)

text \<open>
  \<open>childw_at w c x e k\<close>: a live child watcher at \<open>c\<close>: both objects are there and point at
  each other, and the context is live.
\<close>

definition childw_at ::
  "'a cworld_scheme \<Rightarrow> addr \<Rightarrow> ixut_child_watcher \<Rightarrow> ev_child \<Rightarrow> ixc_context \<Rightarrow> bool" where
  "childw_at w c x e k \<longleftrightarrow> c \<noteq> 0 \<and> childws w c = Some x \<and> cw_event x \<noteq> 0 \<and>
     evchilds w (cw_event x) = Some e \<and> ec_data e = c \<and> cw_context x \<noteq> 0 \<and>
     contexts w (cw_context x) = Some k"

lemma childw_free_exec:
  assumes "childw_at w c x e k" "honest E"
  shows "ixut_childw_free E c w = (if watching (hist w) (cw_event x) then Inl Assertion
     else Inr (w\<lparr>childws := (childws w)(c := None), evchilds := (evchilds w)(cw_event x := None)\<rparr>))"
  using assms
  by (auto simp: ixut_childw_free_def childw_at_def cstmt honest_active honest_pending)

lemma childw_start_exec:
  assumes "childw_at w c x e k" "honest E"
  shows "ixut_childw_start E c pid f a w = (if watching (hist w) (cw_event x) then Inl Assertion
     else Inr (emit (Ev (EvChildStart (evl k) (cw_event x) pid))
       (w\<lparr>childws := (childws w)(c \<mapsto> x\<lparr>cw_cb := f, cw_data := a\<rparr>),
          evchilds := (evchilds w)(cw_event x \<mapsto> e\<lparr>ec_pid := pid\<rparr>)\<rparr>)))"
  using assms
  by (auto simp: ixut_childw_start_def childw_at_def cstmt honest_active honest_pending)

lemma child_event_exec:
  assumes "childw_at w c x e k" "ec_handler e = Ixut_childw_cb" "cw_cb x \<noteq> 0"
  shows "child_event U l (cw_event x) pid st w = U (cw_cb x) [c, cw_data x]
     (emit (Invoke (cw_cb x) [c, cw_data x]) (emit (Ev (EvChildStop l (cw_event x)))
        (w\<lparr>evchilds := (evchilds w)(cw_event x \<mapsto> e\<lparr>rpid := pid, rstatus := st\<rparr>)\<rparr>)))"
  using assms
  by (simp add: child_event_def ixut_childw_cb_def childw_at_def cstmt Let_def)

lemma childw_read_exec:
  assumes "childw_at w c x e k"
  shows "ixut_childw_getpid c w = Inr (rpid e)"
    "ixut_childw_getstatus c w = Inr (exitstatus_of (rstatus e))"
  using assms
  by (simp_all add: ixut_childw_getpid_def ixut_childw_getstatus_def childw_at_def cstmt)

section \<open>Wait statuses\<close>

lemma int_and_127: "(x :: int) AND 127 = x mod 128"
  using take_bit_eq_mask [of 7 x] take_bit_eq_mod [of 7 x] by (simp add: mask_eq_exp_minus_1)

lemma mod_128: "0 \<le> b \<Longrightarrow> b < 256 \<Longrightarrow> b mod 128 = (if b < 128 then b else b - 128)" for b :: int
  by presburger

lemma wtermsig_bound: "uint (s AND 0x7f :: wstatus) < 128"
proof -
  have "s AND 0x7f = take_bit 7 s" by (simp add: take_bit_eq_mask mask_eq_decr_exp)
  then show ?thesis by (simp add: unsigned_take_bit_eq take_bit_int_less_exp [of 7, simplified])
qed

text \<open>The arithmetic of the signal macro on a signed char.\<close>

lemma WIFSIGNALED_iff: "WIFSIGNALED s \<longleftrightarrow> 0 < uint (WTERMSIG s) \<and> uint (WTERMSIG s) < 127"
proof -
  let ?t = "s AND 0x7f"
  have b: "uint ?t < 128" by (rule wtermsig_bound)
  have u: "uint (?t + 1) = uint ?t + 1" using b by (simp add: uint_word_arith_bintrs take_bit_int_eq_self)
  have "sint (ucast (?t + 1) :: 8 word) = (if uint ?t = 127 then -128 else uint ?t + 1)"
    using b u by (auto simp: sint_uint unsigned_ucast_eq take_bit_int_eq_self signed_take_bit_int_eq_self)
  then have "sint (signed_drop_bit 1 (ucast (?t + 1) :: 8 word)) =
      (if uint ?t = 127 then -64 else (uint ?t + 1) div 2)"
    by (simp add: sint_signed_drop_bit_eq drop_bit_eq_div)
  then show ?thesis using b by (auto simp: WIFSIGNALED_def WTERMSIG_def)
qed

text \<open>
  How a status is classified.  The three macros exclude each other; \<open>exit_cause\<close> says 1 for a
  process killed by a signal, 2 for a stopped one and 0 otherwise.  "Otherwise" is not only an
  exited process: a status whose low byte is 0xff, such as the 0xffff of a continued process,
  satisfies none of the macros and is reported as exited too.
\<close>

theorem exit_cause_classifies:
  "exit_cause (exitstatus_of raw) =
     (if WIFSTOPPED raw then 2 else if WIFSIGNALED raw then 1 else 0) \<and>
   (if raw AND 0xff = 0xff then \<not> WIFEXITED raw \<and> \<not> WIFSIGNALED raw \<and> \<not> WIFSTOPPED raw
    else (WIFEXITED raw \<and> \<not> WIFSIGNALED raw \<and> \<not> WIFSTOPPED raw) \<or>
         (\<not> WIFEXITED raw \<and> WIFSIGNALED raw \<and> \<not> WIFSTOPPED raw) \<or>
         (\<not> WIFEXITED raw \<and> \<not> WIFSIGNALED raw \<and> WIFSTOPPED raw)) \<and>
   status_raw (exitstatus_of raw) = raw"
proof -
  let ?t = "uint (WTERMSIG raw)" and ?b = "uint (raw AND 0xff)"
  have t: "0 \<le> ?t" "?t < 128" using wtermsig_bound [of raw] by (simp_all add: WTERMSIG_def)
  have "WTERMSIG raw = (raw AND 0xff) AND 0x7f" by (simp add: WTERMSIG_def and.assoc)
  then have tb: "?t = ?b mod 128"
    by (simp add: uint_and int_and_127)
  have "raw AND 0xff = take_bit 8 raw" by (simp add: take_bit_eq_mask mask_eq_decr_exp)
  then have b: "?b < 256" by (simp add: unsigned_take_bit_eq take_bit_int_less_exp [of 8, simplified])
  have e: "WIFEXITED raw \<longleftrightarrow> ?t = 0" by (simp add: WIFEXITED_def uint_0_iff)
  have s: "WIFSTOPPED raw \<longleftrightarrow> ?b = 127" by (simp add: WIFSTOPPED_def word_uint_eq_iff)
  have f: "raw AND 0xff = 0xff \<longleftrightarrow> ?b = 255" by (simp add: word_uint_eq_iff)
  have g: "WIFSIGNALED raw \<longleftrightarrow> 0 < ?t \<and> ?t < 127" by (rule WIFSIGNALED_iff)
  have h: "?t = (if ?b < 128 then ?b else ?b - 128)" using tb mod_128 [of ?b] b by simp
  have c: "exit_cause (exitstatus_of raw) =
      (if WIFSTOPPED raw then 2 else if WIFSIGNALED raw then 1 else 0)"
    by (simp add: exitstatus_of_def Let_def)
  have "(if ?b = 255 then ?t \<noteq> 0 \<and> \<not> (0 < ?t \<and> ?t < 127) \<and> ?b \<noteq> 127
      else (?t = 0 \<and> \<not> (0 < ?t \<and> ?t < 127) \<and> ?b \<noteq> 127) \<or>
        (?t \<noteq> 0 \<and> (0 < ?t \<and> ?t < 127) \<and> ?b \<noteq> 127) \<or>
        (?t \<noteq> 0 \<and> \<not> (0 < ?t \<and> ?t < 127) \<and> ?b = 127))"
    using h t b by (cases "?b < 128") (auto simp: less_le)
  moreover have "status_raw (exitstatus_of raw) = raw" by (simp add: exitstatus_of_def Let_def)
  ultimately show ?thesis using c unfolding e s f g by (intro conjI)
qed

text \<open>The bytes of a status, and of an encoded one.\<close>

lemma WTERMSIG_take: "WTERMSIG s = take_bit 7 s"
  by (simp add: WTERMSIG_def take_bit_eq_mask mask_eq_decr_exp)

lemma low_byte_take: "(s :: wstatus) AND 0xff = take_bit 8 s"
  by (simp add: take_bit_eq_mask mask_eq_decr_exp)

lemma WEXITSTATUS_take: "WEXITSTATUS s = take_bit 8 (drop_bit 8 s)"
  by (simp add: WEXITSTATUS_def drop_bit_and low_byte_take)

lemma mask_7: "(0x7f :: wstatus) = mask 7"
  by (simp add: mask_eq_decr_exp)

lemmas status_bytes = WTERMSIG_take WEXITSTATUS_take low_byte_take

lemma byte_bit: "bit (n :: byte) i \<Longrightarrow> i < 8"
  using bit_imp_le_length [of n i] by simp

lemma exit_byte:
  "WEXITSTATUS (push_bit 8 (ucast (n :: byte))) = ucast n" "WTERMSIG (push_bit 8 (ucast n)) = 0"
  "push_bit 8 (ucast n) AND 0xff = (0 :: wstatus)"
  unfolding status_bytes
    apply (rule bit_word_eqI; auto simp: bit_simps dest: byte_bit)
   apply (rule bit_word_eqI; auto simp: bit_simps dest: byte_bit)
  apply (rule bit_word_eqI; auto simp: bit_simps dest: byte_bit)
  done

lemma stop_byte:
  "WEXITSTATUS (push_bit 8 (ucast (n :: byte)) OR 0x7f) = ucast n"
  "WTERMSIG (push_bit 8 (ucast n) OR 0x7f) = 0x7f"
  "(push_bit 8 (ucast n) OR 0x7f) AND 0xff = (0x7f :: wstatus)"
  unfolding status_bytes mask_7
    apply (rule bit_word_eqI; auto simp: bit_simps dest: byte_bit)
   apply (rule bit_word_eqI; auto simp: bit_simps dest: byte_bit)
  apply (rule bit_word_eqI; auto simp: bit_simps dest: byte_bit)
  done

lemma small_byte: "(s :: byte) < 127 \<Longrightarrow> \<not> bit s 7"
proof -
  assume "s < 127"
  then have "uint s div 128 = 0" by (simp add: word_less_def)
  then have "\<not> bit (uint s) 7" by (simp add: bit_iff_odd)
  then show ?thesis by (simp add: bit_uint_iff)
qed

lemma signal_byte:
  assumes "(s :: byte) < 127" "core \<in> {0, 0x80}"
  shows "WEXITSTATUS (ucast s OR core) = 0" "WTERMSIG (ucast s OR core) = ucast s"
    "(ucast s OR core) AND 0xff \<noteq> (0x7f :: wstatus)"
proof -
  have c: "core \<in> {0, push_bit 7 1}" using assms(2) by (simp add: push_bit_eq_mult)
  show "WEXITSTATUS (ucast s OR core) = 0"
  proof -
    have "drop_bit 8 (ucast s :: wstatus) = 0" by (rule bit_word_eqI) (auto simp: bit_simps dest: byte_bit)
    then show ?thesis using assms(2) unfolding status_bytes drop_bit_or by auto
  qed
  show t: "WTERMSIG (ucast s OR core) = ucast s"
    using c small_byte [OF assms(1)] unfolding status_bytes
    by (intro bit_word_eqI) (auto simp: bit_simps less_Suc_eq numeral_eq_Suc dest: byte_bit)
  show "(ucast s OR core) AND 0xff \<noteq> (0x7f :: wstatus)"
  proof
    assume "(ucast s OR core) AND 0xff = (0x7f :: wstatus)"
    then have "WTERMSIG (ucast s OR core) = 0x7f"
      by (metis (no_types) WTERMSIG_def and.assoc and.idem)
    with t have "ucast s = (0x7f :: wstatus)" by simp
    then have "uint (ucast s :: wstatus) = 127" by simp
    then have "uint s = 127" using unsigned_less [of s, where 'a = int] by (simp add: unsigned_ucast_eq take_bit_int_eq_self)
    with assms(1) show False by (simp add: word_less_def)
  qed
qed

text \<open>
  C22: decoding undoes the kernel's encoding of a status: a process that exited with \<open>n\<close>, one
  killed by the signal \<open>s\<close> (with or without a core dump, bit 7), one stopped by the signal \<open>s\<close>.
\<close>

theorem wait_status_roundtrip:
  "exitstatus_of (push_bit 8 (ucast n)) =
     \<lparr>status_raw = push_bit 8 (ucast n), status = ucast (n :: byte), exit_cause = 0, term_sig = 0\<rparr> \<and>
   (0 < s \<and> s < 127 \<longrightarrow> core \<in> {0, 0x80} \<longrightarrow> exitstatus_of (ucast s OR core) =
     \<lparr>status_raw = ucast s OR core, status = 0, exit_cause = 1, term_sig = ucast (s :: byte)\<rparr>) \<and>
   exitstatus_of (push_bit 8 (ucast s) OR 0x7f) =
     \<lparr>status_raw = push_bit 8 (ucast s) OR 0x7f, status = ucast s, exit_cause = 2, term_sig = 0x7f\<rparr>"
proof (intro conjI impI)
  show "exitstatus_of (push_bit 8 (ucast n)) =
     \<lparr>status_raw = push_bit 8 (ucast n), status = ucast n, exit_cause = 0, term_sig = 0\<rparr>"
    using exit_byte [of n] WIFSIGNALED_iff [of "push_bit 8 (ucast n)"]
    by (simp add: exitstatus_of_def WIFEXITED_def WIFSTOPPED_def)
  show "exitstatus_of (push_bit 8 (ucast s) OR 0x7f) =
     \<lparr>status_raw = push_bit 8 (ucast s) OR 0x7f, status = ucast s, exit_cause = 2, term_sig = 0x7f\<rparr>"
    using stop_byte [of s] WIFSIGNALED_iff [of "push_bit 8 (ucast s) OR 0x7f"]
    by (simp add: exitstatus_of_def WIFEXITED_def WIFSTOPPED_def)
  assume s: "0 < s \<and> s < 127" and core: "core \<in> {0, 0x80}"
  have "0 < uint s" "uint s < 127" using s by (simp_all add: word_less_def)
  moreover have "uint (ucast s :: wstatus) = uint s" 
    using unsigned_less [of s, where 'a = int] by (simp add: unsigned_ucast_eq take_bit_int_eq_self)
  ultimately show "exitstatus_of (ucast s OR core) =
     \<lparr>status_raw = ucast s OR core, status = 0, exit_cause = 1, term_sig = ucast s\<rparr>"
    using signal_byte [OF _ core, of s] s WIFSIGNALED_iff [of "ucast s OR core"]
    by (auto simp: exitstatus_of_def WIFEXITED_def WIFSTOPPED_def Let_def)
qed

text \<open>Signal 9 (no core), and signal 11 with a core dump.\<close>

theorem wait_status_roundtrip_witness:
  "exit_cause (exitstatus_of (9 OR 0)) = 1 \<and> exit_cause (exitstatus_of (11 OR 0x80)) = 1 \<and>
   status (exitstatus_of (push_bit 8 3)) = 3"
  using wait_status_roundtrip [of 3 9 0] wait_status_roundtrip [of 3 11 "0x80"] by simp

section \<open>The life of a child watcher\<close>

text \<open>
  C10: a watcher from its start to the death of the child.  A running watcher refuses to be freed or
  started again.  When libev reports the child, the callback is invoked once with the watcher and
  its argument, in a state where the watcher is stopped and tells the pid and the decoded status
  that were reported; there the callback may free the watcher, which frees both its objects and
  nothing else, or start it for another child.
\<close>

theorem child_watcher_life:
  assumes "childw_at w c x e k" "honest E" "ec_handler e = Ixut_childw_cb" "f \<noteq> 0"
    "\<not> watching (hist w) (cw_event x)"
  shows "\<exists>v u. ixut_childw_start E c pid f a w = Inr v \<and> watching (hist v) (cw_event x) \<and>
    ixut_childw_free E c v = Inl Assertion \<and> ixut_childw_start E c pid' f' a' v = Inl Assertion \<and>
    child_event U l (cw_event x) p st v = U f [c, a] u \<and>
    hd (hist u) = (Invoke f [c, a], 0) \<and> \<not> watching (hist u) (cw_event x) \<and>
    ixut_childw_getpid c u = Inr p \<and> ixut_childw_getstatus c u = Inr (exitstatus_of st) \<and>
    (\<exists>r. ixut_childw_free E c u = Inr r \<and> childws r = (childws w)(c := None) \<and>
       evchilds r = (evchilds w)(cw_event x := None)) \<and>
    (\<exists>r. ixut_childw_start E c pid' f' a' u = Inr r \<and> watching (hist r) (cw_event x))"
proof -
  let ?x = "x\<lparr>cw_cb := f, cw_data := a\<rparr>" and ?e = "e\<lparr>ec_pid := pid\<rparr>"
  let ?d = "?e\<lparr>rpid := p, rstatus := st\<rparr>"
  let ?v = "emit (Ev (EvChildStart (evl k) (cw_event x) pid))
       (w\<lparr>childws := (childws w)(c \<mapsto> ?x), evchilds := (evchilds w)(cw_event x \<mapsto> ?e)\<rparr>)"
  let ?u = "emit (Invoke f [c, a]) (emit (Ev (EvChildStop l (cw_event x)))
        (?v\<lparr>evchilds := (evchilds ?v)(cw_event x \<mapsto> ?d)\<rparr>))"
  have s: "ixut_childw_start E c pid f a w = Inr ?v"
    using childw_start_exec [OF assms(1,2)] assms(5) by simp
  have v: "childw_at ?v c ?x ?e k" "ec_handler ?e = Ixut_childw_cb" "cw_cb ?x \<noteq> 0" "watching (hist ?v) (cw_event ?x)"
    using assms(1,3,4) by (simp_all add: childw_at_def)
  have u: "childw_at ?u c ?x ?d k" "\<not> watching (hist ?u) (cw_event ?x)"
    using assms(1) by (simp_all add: childw_at_def)
  have "child_event U l (cw_event x) p st ?v = U f [c, a] ?u"
    using child_event_exec [OF v(1-3), of U l p st] by simp
  moreover have "ixut_childw_free E c ?v = Inl Assertion" "ixut_childw_start E c pid' f' a' ?v = Inl Assertion"
    using childw_free_exec [OF v(1) assms(2)] childw_start_exec [OF v(1) assms(2)] v(4) by simp_all
  moreover have "ixut_childw_getpid c ?u = Inr p" "ixut_childw_getstatus c ?u = Inr (exitstatus_of st)"
    using childw_read_exec [OF u(1)] by simp_all
  moreover have "\<exists>r. ixut_childw_free E c ?u = Inr r \<and> childws r = (childws w)(c := None) \<and>
       evchilds r = (evchilds w)(cw_event x := None)"
    using childw_free_exec [OF u(1) assms(2)] u(2) by simp
  moreover have "\<exists>r. ixut_childw_start E c pid' f' a' ?u = Inr r \<and> watching (hist r) (cw_event x)"
    using childw_start_exec [OF u(1) assms(2), of pid' f' a'] u(2) by simp
  ultimately show ?thesis using s v(4) u(2) by (intro exI [of _ ?v] exI [of _ ?u]) simp
qed

text \<open>An environment that answers libev's queries as documented, and a process with one watcher.\<close>

definition honest_env :: env where
  "honest_env = calm\<lparr>answer := \<lambda>h c. case c of Ev (EvIsActive p) \<Rightarrow> if watching h p then 1 else 0
                                            | Ev (EvIsPending p) \<Rightarrow> 0 | _ \<Rightarrow> 1\<rparr>"

lemma honest_env_honest: "honest honest_env"
  by (simp add: honest_def honest_env_def)

definition one_watcher :: cworld where
  "one_watcher = \<lparr>brk = 3, hist = [], contexts = [1 \<mapsto> \<lparr>state = 0, evl = 9\<rparr>],
     nodes = (\<lambda>_. None), socks = (\<lambda>_. None), ctxs = (\<lambda>_. None), wctxs = (\<lambda>_. None),
     cargs = (\<lambda>_. None), ios = (\<lambda>_. None), bufs = (\<lambda>_. None),
     timers = (\<lambda>_. None), evtimers = (\<lambda>_. None),
     childws = [2 \<mapsto> \<lparr>cw_event = 3, cw_cb = 0, cw_data = 0, cw_context = 1\<rparr>],
     evchilds = [3 \<mapsto> \<lparr>ec_handler = Ixut_childw_cb, ec_data = 2, ec_pid = 0, rpid = 0, rstatus = 0\<rparr>],
     termargs = (\<lambda>_. None)\<rparr>"

lemma one_watcher_at:
  "childw_at one_watcher 2 \<lparr>cw_event = 3, cw_cb = 0, cw_data = 0, cw_context = 1\<rparr>
     \<lparr>ec_handler = Ixut_childw_cb, ec_data = 2, ec_pid = 0, rpid = 0, rstatus = 0\<rparr> \<lparr>state = 0, evl = 9\<rparr>"
  by (simp add: childw_at_def one_watcher_def)

theorem child_watcher_life_witness:
  "\<exists>v u. ixut_childw_start honest_env 2 500 8 70 one_watcher = Inr v \<and>
     ixut_childw_free honest_env 2 v = Inl Assertion \<and>
     child_event (\<lambda>f xs w. Inr w) 9 3 500 (push_bit 8 2) v = Inr u \<and>
     ixut_childw_getpid 2 u = Inr 500"
proof -
  have "\<not> watching (hist one_watcher) 3" by (simp add: one_watcher_def)
  with child_watcher_life [OF one_watcher_at honest_env_honest, of 8 500 70 0 0 0 "\<lambda>f xs w. Inr w" 9 500 "push_bit 8 2"]
  show ?thesis by auto
qed

section \<open>Termination callbacks\<close>

text \<open>malloc will not hand out an address in use.\<close>

definition childs_fresh :: "'a cworld_scheme \<Rightarrow> bool" where
  "childs_fresh w \<longleftrightarrow> (\<forall>p. brk w < p \<longrightarrow> evchilds w p = None \<and> termargs w p = None)"

text \<open>A callback that returns and leaves the two heaps alone.\<close>

definition child_quiet :: "'a cworld_scheme user \<Rightarrow> bool" where
  "child_quiet U \<longleftrightarrow> (\<forall>f xs w. \<exists>v. U f xs w = Inr v \<and> termargs v = termargs w \<and> evchilds v = evchilds w)"

lemma add_termcb_exec:
  assumes "plentiful E"
  shows "\<exists>h e. ixc_add_termcb E pid f a w = Inr (w\<lparr>brk := Suc (Suc (brk w)),
       hist := (Ev (EvChildStart (default_loop E) (Suc (Suc (brk w))) pid), 0) #
               (Ev (EvInit (Suc (Suc (brk w)))), 0) # h @ hist w,
       termargs := (termargs w)(Suc (brk w) \<mapsto>
         \<lparr>ta_data = a, ta_cb = f, ta_pid = pid, ta_status = 0, ta_term_signal = 0\<rparr>),
       evchilds := (evchilds w)(Suc (Suc (brk w)) \<mapsto> e)\<rparr>) \<and>
     ec_data e = Suc (brk w) \<and> ec_handler e = Ixcb_child_terminated_ev \<and> ec_pid e = pid \<and>
     (\<forall>q. watching (h @ hist w) q = watching (hist w) q)"
proof -
  let ?h1 = "(Malloc, ask E Malloc w) # hist w"
  let ?h2 = "(Malloc, answer E ?h1 Malloc) # ?h1"
  let ?e = "\<lparr>ec_handler = Ixcb_child_terminated_ev, ec_data = Suc (brk w), ec_pid = pid,
             rpid = int (junk E ?h2 2), rstatus = of_nat (junk E ?h2 3)\<rparr>"
  show ?thesis
    using assms
    by (intro exI [of _ "[(Malloc, answer E ?h1 Malloc), (Malloc, ask E Malloc w)]"] exI [of _ ?e])
      (simp add: ixc_add_termcb_def malloc_targs_def malloc_evc_def cstmt ev_init_child_def Let_def
        ask_def emit_def)
qed

text \<open>
  C11: the life of a termination callback.  Registering it allocates its argument block and a running
  watcher; when libev reports the child, the callback is invoked once with the block, which holds
  the user's pointer, the reported pid and the raw status, and after it the watcher is stopped and
  both objects are freed, nothing else.  But \<open>term_signal\<close> is 0 whatever the status says: the field
  is never assigned.
\<close>

theorem termcb_life:
  assumes "plentiful E" "childs_fresh w" "child_quiet U" "f \<noteq> 0"
  shows "\<exists>v u r z. ixc_add_termcb E pid f a w = Inr v \<and> watching (hist v) (Suc (Suc (brk w))) \<and>
    termargs u (Suc (brk w)) =
      Some \<lparr>ta_data = a, ta_cb = f, ta_pid = p, ta_status = st, ta_term_signal = 0\<rparr> \<and>
    hist u = (Invoke f [Suc (brk w)], 0) # hist v \<and> U f [Suc (brk w)] u = Inr r \<and>
    child_event U l (Suc (Suc (brk w))) p st v = Inr z \<and>
    hist z = (Ev (EvChildStop l (Suc (Suc (brk w)))), 0) # hist r \<and>
    \<not> watching (hist z) (Suc (Suc (brk w))) \<and>
    termargs z = termargs w \<and> evchilds z = evchilds w"
proof -
  let ?t = "Suc (brk w)" and ?ev = "Suc (Suc (brk w))"
  let ?a = "\<lparr>ta_data = a, ta_cb = f, ta_pid = p, ta_status = st, ta_term_signal = 0\<rparr>"
  from add_termcb_exec [OF assms(1), of pid f a w] obtain v e where
    v: "ixc_add_termcb E pid f a w = Inr v" "watching (hist v) ?ev"
      "termargs v = (termargs w)(?t \<mapsto>
        \<lparr>ta_data = a, ta_cb = f, ta_pid = pid, ta_status = 0, ta_term_signal = 0\<rparr>)"
      "evchilds v = (evchilds w)(?ev \<mapsto> e)" "ec_data e = ?t" "ec_handler e = Ixcb_child_terminated_ev"
    by fastforce
  let ?u = "emit (Invoke f [?t]) (v\<lparr>evchilds := (evchilds w)(?ev \<mapsto> e\<lparr>rpid := p, rstatus := st\<rparr>),
      termargs := (termargs w)(?t \<mapsto> ?a)\<rparr>)"
  from assms(3) obtain r where r: "U f [?t] ?u = Inr r" "termargs r = termargs ?u" "evchilds r = evchilds ?u"
    unfolding child_quiet_def by blast
  let ?z = "(emit (Ev (EvChildStop l ?ev)) r)\<lparr>termargs := (termargs w)(?t := None),
      evchilds := (evchilds w)(?ev := None)\<rparr>"
  have "child_event U l ?ev p st v = Inr ?z"
    using v(3-6) assms(4) r
    by (simp add: child_event_def ixcb_child_terminated_ev_def cstmt Let_def)
  moreover have "(termargs w)(?t := None) = termargs w" "(evchilds w)(?ev := None) = evchilds w"
    using assms(2) by (auto simp: childs_fresh_def)
  ultimately show ?thesis
    using v(1,2) r(1)
    by (intro exI [of _ v] exI [of _ ?u] exI [of _ r] exI [of _ ?z]) simp
qed

theorem termcb_life_witness:
  "\<exists>v z. ixc_add_termcb calm 500 8 70 one_watcher = Inr v \<and>
     child_event (\<lambda>f xs w. Inr w) 9 5 500 9 v = Inr z \<and> termargs z = termargs one_watcher"
proof -
  have f: "childs_fresh one_watcher" by (simp add: childs_fresh_def one_watcher_def)
  have q: "child_quiet (\<lambda>f xs w. Inr w :: cworld res)" by (simp add: child_quiet_def)
  have "Suc (Suc (brk one_watcher)) = 5" by (simp add: one_watcher_def)
  with termcb_life [OF calm_plentiful f q, of 8 500 70 500 9 9] show ?thesis by auto
qed

section \<open>Who returns from a fork\<close>

text \<open>
  C23: \<open>ixut_fork\<close> and \<open>ixut_spawn_process\<close> return to their caller only in the parent.  In the child
  the first runs the callback and aborts; the second never gets past \<open>execvp\<close>, be it that the
  program is replaced or that the assertion behind it fails.  When the fork fails, spawning only
  prints: no watcher is started and the callback will never be invoked; otherwise the new child is
  watched.
\<close>

theorem fork_returns_in_parent:
  assumes "plentiful E"
  shows "(\<forall>p v. ixut_fork E U f a w = Inr (p, v) \<longrightarrow> p \<noteq> 0 \<and> p = ask E (Proc SysFork) w) \<and>
    (ask E (Proc SysFork) w = 0 \<longrightarrow> is_fault (ixut_fork E U f a w) \<and>
       ixut_spawn_process E file g b w \<in> {Inl Assertion, Inl Replaced}) \<and>
    (ask E (Proc SysFork) w \<noteq> 0 \<longrightarrow> \<not> is_fault (ixut_fork E U f a w) \<and>
       (\<exists>v. ixut_spawn_process E file g b w = Inr v \<and>
       (if ask E (Proc SysFork) w = -1
        then watching (hist v) = watching (hist w) \<and> evchilds v = evchilds w \<and> termargs v = termargs w
        else watching (hist v) (Suc (Suc (brk w))) \<and>
          (\<exists>d. termargs v (Suc (brk w)) = Some d \<and> ta_cb d = g \<and> ta_data d = b))))"
proof -
  let ?r = "ask E (Proc SysFork) w"
  let ?w = "w\<lparr>hist := (Proc SysFork, ?r) # hist w\<rparr>"
  have child: "is_fault (bnd (invoke U f [a] ?w) (\<lambda>w. Inl Aborted))" by (cases "invoke U f [a] ?w") simp_all
  from add_termcb_exec [OF assms, of ?r g b ?w] obtain v where
    v: "ixc_add_termcb E ?r g b ?w = Inr v" "watching (hist v) (Suc (Suc (brk w)))"
      "\<exists>d. termargs v (Suc (brk w)) = Some d \<and> ta_cb d = g \<and> ta_data d = b" by auto
  show ?thesis
    using child v unfolding ixut_fork_def ixut_spawn_process_def
    by (auto simp: ext_def Let_def emit_def bnd_eq_Inr fun_eq_iff split: if_splits)
qed

text \<open>A parent (the fork returns 1).\<close>

theorem fork_returns_in_parent_witness:
  "(\<exists>v. ixut_spawn_process calm ''a.out'' 8 70 one_watcher = Inr v \<and> watching (hist v) 5)"
proof -
  have "Suc (Suc (brk one_watcher)) = 5" "ask calm (Proc SysFork) one_watcher = 1"
    by (simp_all add: one_watcher_def ask_def calm_def)
  with fork_returns_in_parent [OF calm_plentiful, of idle 8 70 one_watcher "''a.out''" 8 70]
  show ?thesis by auto
qed

end
