(* ===== verification/Syscallname.thy ===== *)
theory Syscallname
  imports Prelude
begin

text \<open>
  The names of system calls, losyscall.cxx: one switch whose cases stand between \<open>#ifdef\<close> and
  \<open>#endif\<close>.  Which \<open>SYS_\<close> macros exist, and
  their numbers, is the platform's sys/syscall.h: the parameter \<open>SYS\<close> of the model.
\<close>

section \<open>The switch\<close>

text \<open>
  A case is its label and the string it returns; the label is compiled only if the macro is
  defined.  \<open>compiles\<close> is what the language demands of a switch: no two of its labels have the
  same value.
\<close>

type_synonym macros = "string \<Rightarrow> int option"

fun switch :: "macros \<Rightarrow> (string \<times> string) list \<Rightarrow> string \<Rightarrow> int \<Rightarrow> string" where
  "switch val [] d n = d"
| "switch val ((l, s) # cs) d n = (if val l = Some n then s else switch val cs d n)"

definition compiles :: "macros \<Rightarrow> (string \<times> string) list \<Rightarrow> bool" where
  "compiles val cs \<longleftrightarrow> distinct (List.map_filter (\<lambda>(l, _). val l) cs)"

definition cases_1 :: "(string \<times> string) list" where
  "cases_1 =
  [(''SYS__sysctl'', ''_sysctl''), (''SYS_access'', ''access''), (''SYS_acct'', ''acct''),
   (''SYS_add_key'', ''add_key''), (''SYS_adjtimex'', ''adjtimex''),
   (''SYS_afs_syscall'', ''afs_syscall''), (''SYS_alarm'', ''alarm''), (''SYS_brk'', ''brk''),
   (''SYS_capget'', ''capget''), (''SYS_capset'', ''capset''), (''SYS_chdir'', ''chdir''),
   (''SYS_chmod'', ''chmod''), (''SYS_chown'', ''chown''), (''SYS_chroot'', ''chroot''),
   (''SYS_clock_getres'', ''clock_getres''), (''SYS_clock_gettime'', ''clock_gettime''),
   (''SYS_clock_nanosleep'', ''clock_nanosleep''), (''SYS_clock_settime'', ''clock_settime''),
   (''SYS_clone'', ''clone''), (''SYS_close'', ''close''), (''SYS_creat'', ''creat''),
   (''SYS_create_module'', ''create_module''), (''SYS_delete_module'', ''delete_module''),
   (''SYS_dup'', ''dup''), (''SYS_dup2'', ''dup2''), (''SYS_epoll_create'', ''epoll_create''),
   (''SYS_epoll_ctl'', ''epoll_ctl''), (''SYS_epoll_pwait'', ''epoll_pwait''),
   (''SYS_epoll_wait'', ''epoll_wait''), (''SYS_eventfd'', ''eventfd''),
   (''SYS_execve'', ''execve''), (''SYS_exit'', ''exit''), (''SYS_exit_group'', ''exit_group''),
   (''SYS_faccessat'', ''faccessat''), (''SYS_fadvise64'', ''fadvise64''),
   (''SYS_fallocate'', ''fallocate''), (''SYS_fchdir'', ''fchdir'')]"

definition cases_2 :: "(string \<times> string) list" where
  "cases_2 =
  [(''SYS_fchmod'', ''fchmod''), (''SYS_fchmodat'', ''fchmodat''), (''SYS_fchown'', ''fchown''),
   (''SYS_fchownat'', ''fchownat''), (''SYS_fcntl'', ''fcntl''),
   (''SYS_fdatasync'', ''fdatasync''), (''SYS_fgetxattr'', ''fgetxattr''),
   (''SYS_flistxattr'', ''flistxattr''), (''SYS_flock'', ''flock''), (''SYS_fork'', ''fork''),
   (''SYS_fremovexattr'', ''fremovexattr''), (''SYS_fsetxattr'', ''fsetxattr''),
   (''SYS_fstat'', ''fstat''), (''SYS_fstatfs'', ''fstatfs''), (''SYS_fsync'', ''fsync''),
   (''SYS_ftruncate'', ''ftruncate''), (''SYS_futex'', ''futex''),
   (''SYS_futimesat'', ''futimesat''), (''SYS_get_kernel_syms'', ''get_kernel_syms''),
   (''SYS_get_mempolicy'', ''get_mempolicy''), (''SYS_get_robust_list'', ''get_robust_list''),
   (''SYS_get_thread_area'', ''get_thread_area''), (''SYS_getcwd'', ''getcwd''),
   (''SYS_getdents'', ''getdents''), (''SYS_getdents64'', ''getdents64''),
   (''SYS_getegid'', ''getegid''), (''SYS_geteuid'', ''geteuid''), (''SYS_getgid'', ''getgid''),
   (''SYS_getgroups'', ''getgroups''), (''SYS_getitimer'', ''getitimer''),
   (''SYS_getpgid'', ''getpgid''), (''SYS_getpgrp'', ''getpgrp''), (''SYS_getpid'', ''getpid''),
   (''SYS_getpmsg'', ''getpmsg''), (''SYS_getppid'', ''getppid''),
   (''SYS_getpriority'', ''getpriority''), (''SYS_getresgid'', ''getresgid'')]"

definition cases_3 :: "(string \<times> string) list" where
  "cases_3 =
  [(''SYS_getresuid'', ''getresuid''), (''SYS_getrlimit'', ''getrlimit''),
   (''SYS_getrusage'', ''getrusage''), (''SYS_getsid'', ''getsid''), (''SYS_gettid'', ''gettid''),
   (''SYS_gettimeofday'', ''gettimeofday''), (''SYS_getuid'', ''getuid''),
   (''SYS_getxattr'', ''getxattr''), (''SYS_init_module'', ''init_module''),
   (''SYS_inotify_add_watch'', ''inotify_add_watch''), (''SYS_inotify_init'', ''inotify_init''),
   (''SYS_inotify_rm_watch'', ''inotify_rm_watch''), (''SYS_io_cancel'', ''io_cancel''),
   (''SYS_io_destroy'', ''io_destroy''), (''SYS_io_getevents'', ''io_getevents''),
   (''SYS_io_setup'', ''io_setup''), (''SYS_io_submit'', ''io_submit''),
   (''SYS_ioctl'', ''ioctl''), (''SYS_ioperm'', ''ioperm''), (''SYS_iopl'', ''iopl''),
   (''SYS_ioprio_get'', ''ioprio_get''), (''SYS_ioprio_set'', ''ioprio_set''),
   (''SYS_kexec_load'', ''kexec_load''), (''SYS_keyctl'', ''keyctl''), (''SYS_kill'', ''kill''),
   (''SYS_lchown'', ''lchown''), (''SYS_lgetxattr'', ''lgetxattr''), (''SYS_link'', ''link''),
   (''SYS_linkat'', ''linkat''), (''SYS_listxattr'', ''listxattr''),
   (''SYS_llistxattr'', ''llistxattr''), (''SYS_lookup_dcookie'', ''lookup_dcookie''),
   (''SYS_lremovexattr'', ''lremovexattr''), (''SYS_lseek'', ''lseek''),
   (''SYS_lsetxattr'', ''lsetxattr''), (''SYS_lstat'', ''lstat''), (''SYS_madvise'', ''madvise'')]"

definition cases_4 :: "(string \<times> string) list" where
  "cases_4 =
  [(''SYS_mbind'', ''mbind''), (''SYS_migrate_pages'', ''migrate_pages''),
   (''SYS_mincore'', ''mincore''), (''SYS_mkdir'', ''mkdir''), (''SYS_mkdirat'', ''mkdirat''),
   (''SYS_mknod'', ''mknod''), (''SYS_mknodat'', ''mknodat''), (''SYS_mlock'', ''mlock''),
   (''SYS_mlockall'', ''mlockall''), (''SYS_mmap'', ''mmap''),
   (''SYS_modify_ldt'', ''modify_ldt''), (''SYS_mount'', ''mount''),
   (''SYS_move_pages'', ''move_pages''), (''SYS_mprotect'', ''mprotect''),
   (''SYS_mq_getsetattr'', ''mq_getsetattr''), (''SYS_mq_notify'', ''mq_notify''),
   (''SYS_mq_open'', ''mq_open''), (''SYS_mq_timedreceive'', ''mq_timedreceive''),
   (''SYS_mq_timedsend'', ''mq_timedsend''), (''SYS_mq_unlink'', ''mq_unlink''),
   (''SYS_mremap'', ''mremap''), (''SYS_msync'', ''msync''), (''SYS_munlock'', ''munlock''),
   (''SYS_munlockall'', ''munlockall''), (''SYS_munmap'', ''munmap''),
   (''SYS_nanosleep'', ''nanosleep''), (''SYS_nfsservctl'', ''nfsservctl''),
   (''SYS_open'', ''open''), (''SYS_openat'', ''openat''), (''SYS_pause'', ''pause''),
   (''SYS_personality'', ''personality''), (''SYS_pipe'', ''pipe''),
   (''SYS_pivot_root'', ''pivot_root''), (''SYS_poll'', ''poll''), (''SYS_ppoll'', ''ppoll''),
   (''SYS_prctl'', ''prctl''), (''SYS_pread64'', ''pread64'')]"

definition cases_5 :: "(string \<times> string) list" where
  "cases_5 =
  [(''SYS_pselect6'', ''pselect6''), (''SYS_ptrace'', ''ptrace''), (''SYS_putpmsg'', ''putpmsg''),
   (''SYS_pwrite64'', ''pwrite64''), (''SYS_query_module'', ''query_module''),
   (''SYS_quotactl'', ''quotactl''), (''SYS_read'', ''read''), (''SYS_readahead'', ''readahead''),
   (''SYS_readlink'', ''readlink''), (''SYS_readlinkat'', ''readlinkat''),
   (''SYS_readv'', ''readv''), (''SYS_reboot'', ''reboot''),
   (''SYS_remap_file_pages'', ''remap_file_pages''), (''SYS_removexattr'', ''removexattr''),
   (''SYS_rename'', ''rename''), (''SYS_renameat'', ''renameat''),
   (''SYS_request_key'', ''request_key''), (''SYS_restart_syscall'', ''restart_syscall''),
   (''SYS_rmdir'', ''rmdir''), (''SYS_rt_sigaction'', ''rt_sigaction''),
   (''SYS_rt_sigpending'', ''rt_sigpending''), (''SYS_rt_sigprocmask'', ''rt_sigprocmask''),
   (''SYS_rt_sigqueueinfo'', ''rt_sigqueueinfo''), (''SYS_rt_sigreturn'', ''rt_sigreturn''),
   (''SYS_rt_sigsuspend'', ''rt_sigsuspend''), (''SYS_rt_sigtimedwait'', ''rt_sigtimedwait''),
   (''SYS_sched_get_priority_max'', ''sched_get_priority_max''),
   (''SYS_sched_get_priority_min'', ''sched_get_priority_min''),
   (''SYS_sched_getaffinity'', ''sched_getaffinity''),
   (''SYS_sched_getparam'', ''sched_getparam''),
   (''SYS_sched_getscheduler'', ''sched_getscheduler''),
   (''SYS_sched_rr_get_interval'', ''sched_rr_get_interval''),
   (''SYS_sched_setaffinity'', ''sched_setaffinity''),
   (''SYS_sched_setparam'', ''sched_setparam''),
   (''SYS_sched_setscheduler'', ''sched_setscheduler''), (''SYS_sched_yield'', ''sched_yield''),
   (''SYS_select'', ''select'')]"

definition cases_6 :: "(string \<times> string) list" where
  "cases_6 =
  [(''SYS_sendfile'', ''sendfile''), (''SYS_set_mempolicy'', ''set_mempolicy''),
   (''SYS_set_robust_list'', ''set_robust_list''), (''SYS_set_thread_area'', ''set_thread_area''),
   (''SYS_set_tid_address'', ''set_tid_address''), (''SYS_setdomainname'', ''setdomainname''),
   (''SYS_setfsgid'', ''setfsgid''), (''SYS_setfsuid'', ''setfsuid''),
   (''SYS_setgid'', ''setgid''), (''SYS_setgroups'', ''setgroups''),
   (''SYS_sethostname'', ''sethostname''), (''SYS_setitimer'', ''setitimer''),
   (''SYS_setpgid'', ''setpgid''), (''SYS_setpriority'', ''setpriority''),
   (''SYS_setregid'', ''setregid''), (''SYS_setresgid'', ''setresgid''),
   (''SYS_setresuid'', ''setresuid''), (''SYS_setreuid'', ''setreuid''),
   (''SYS_setrlimit'', ''setrlimit''), (''SYS_setsid'', ''setsid''),
   (''SYS_settimeofday'', ''settimeofday''), (''SYS_setuid'', ''setuid''),
   (''SYS_setxattr'', ''setxattr''), (''SYS_sigaltstack'', ''sigaltstack''),
   (''SYS_signalfd'', ''signalfd''), (''SYS_splice'', ''splice''), (''SYS_stat'', ''stat''),
   (''SYS_statfs'', ''statfs''), (''SYS_swapoff'', ''swapoff''), (''SYS_swapon'', ''swapon''),
   (''SYS_symlink'', ''symlink''), (''SYS_symlinkat'', ''symlinkat''), (''SYS_sync'', ''sync''),
   (''SYS_sync_file_range'', ''sync_file_range''), (''SYS_sysfs'', ''sysfs''),
   (''SYS_sysinfo'', ''sysinfo''), (''SYS_syslog'', ''syslog'')]"

definition cases_7 :: "(string \<times> string) list" where
  "cases_7 =
  [(''SYS_tee'', ''tee''), (''SYS_tgkill'', ''tgkill''), (''SYS_time'', ''time''),
   (''SYS_timer_create'', ''timer_create''), (''SYS_timer_delete'', ''timer_delete''),
   (''SYS_timer_getoverrun'', ''timer_getoverrun''), (''SYS_timer_gettime'', ''timer_gettime''),
   (''SYS_timer_settime'', ''timer_settime''), (''SYS_timerfd_create'', ''timerfd_create''),
   (''SYS_timerfd_gettime'', ''timerfd_gettime''), (''SYS_timerfd_settime'', ''timerfd_settime''),
   (''SYS_times'', ''times''), (''SYS_tkill'', ''tkill''), (''SYS_truncate'', ''truncate''),
   (''SYS_umask'', ''umask''), (''SYS_umount2'', ''umount2''), (''SYS_uname'', ''uname''),
   (''SYS_unlink'', ''unlink''), (''SYS_unlinkat'', ''unlinkat''), (''SYS_unshare'', ''unshare''),
   (''SYS_uselib'', ''uselib''), (''SYS_ustat'', ''ustat''), (''SYS_utime'', ''utime''),
   (''SYS_utimensat'', ''utimensat''), (''SYS_utimes'', ''utimes''), (''SYS_vfork'', ''vfork''),
   (''SYS_vhangup'', ''vhangup''), (''SYS_vmsplice'', ''vmsplice''),
   (''SYS_vserver'', ''vserver''), (''SYS_wait4'', ''wait4''), (''SYS_waitid'', ''waitid''),
   (''SYS_write'', ''write''), (''SYS_writev'', ''writev''), (''SYS_accept'', ''accept''),
   (''SYS_arch_prctl'', ''arch_prctl''), (''SYS_bind'', ''bind''), (''SYS_connect'', ''connect'')]"

definition cases_8 :: "(string \<times> string) list" where
  "cases_8 =
  [(''SYS_epoll_ctl_old'', ''epoll_ctl_old''), (''SYS_epoll_wait_old'', ''epoll_wait_old''),
   (''SYS_getpeername'', ''getpeername''), (''SYS_getsockname'', ''getsockname''),
   (''SYS_getsockopt'', ''getsockopt''), (''SYS_listen'', ''listen''),
   (''SYS_msgctl'', ''msgctl''), (''SYS_msgget'', ''msgget''), (''SYS_msgrcv'', ''msgrcv''),
   (''SYS_msgsnd'', ''msgsnd''), (''SYS_newfstatat'', ''newfstatat''),
   (''SYS_recvfrom'', ''recvfrom''), (''SYS_recvmsg'', ''recvmsg''),
   (''SYS_security'', ''security''), (''SYS_semctl'', ''semctl''), (''SYS_semget'', ''semget''),
   (''SYS_semop'', ''semop''), (''SYS_semtimedop'', ''semtimedop''),
   (''SYS_sendmsg'', ''sendmsg''), (''SYS_sendto'', ''sendto''),
   (''SYS_setsockopt'', ''setsockopt''), (''SYS_shmat'', ''shmat''), (''SYS_shmctl'', ''shmctl''),
   (''SYS_shmdt'', ''shmdt''), (''SYS_shmget'', ''shmget''), (''SYS_shutdown'', ''shutdown''),
   (''SYS_socket'', ''socket''), (''SYS_socketpair'', ''socketpair''),
   (''SYS_tuxcall'', ''tuxcall''), (''SYS__llseek'', ''_llseek''),
   (''SYS__newselect'', ''_newselect''), (''SYS_bdflush'', ''bdflush''),
   (''SYS_break'', ''break''), (''SYS_chown32'', ''chown32''),
   (''SYS_fadvise64_64'', ''fadvise64_64''), (''SYS_fchown32'', ''fchown32''),
   (''SYS_fcntl64'', ''fcntl64'')]"

definition cases_9 :: "(string \<times> string) list" where
  "cases_9 =
  [(''SYS_fstat64'', ''fstat64''), (''SYS_fstatat64'', ''fstatat64''),
   (''SYS_fstatfs64'', ''fstatfs64''), (''SYS_ftime'', ''ftime''),
   (''SYS_ftruncate64'', ''ftruncate64''), (''SYS_getcpu'', ''getcpu''),
   (''SYS_getegid32'', ''getegid32''), (''SYS_geteuid32'', ''geteuid32''),
   (''SYS_getgid32'', ''getgid32''), (''SYS_getgroups32'', ''getgroups32''),
   (''SYS_getresgid32'', ''getresgid32''), (''SYS_getresuid32'', ''getresuid32''),
   (''SYS_getuid32'', ''getuid32''), (''SYS_gtty'', ''gtty''), (''SYS_idle'', ''idle''),
   (''SYS_ipc'', ''ipc''), (''SYS_lchown32'', ''lchown32''), (''SYS_lock'', ''lock''),
   (''SYS_lstat64'', ''lstat64''), (''SYS_madvise1'', ''madvise1''), (''SYS_mmap2'', ''mmap2''),
   (''SYS_mpx'', ''mpx''), (''SYS_nice'', ''nice''), (''SYS_oldfstat'', ''oldfstat''),
   (''SYS_oldlstat'', ''oldlstat''), (''SYS_oldolduname'', ''oldolduname''),
   (''SYS_oldstat'', ''oldstat''), (''SYS_olduname'', ''olduname''), (''SYS_prof'', ''prof''),
   (''SYS_profil'', ''profil''), (''SYS_readdir'', ''readdir''),
   (''SYS_sendfile64'', ''sendfile64''), (''SYS_setfsgid32'', ''setfsgid32''),
   (''SYS_setfsuid32'', ''setfsuid32''), (''SYS_setgid32'', ''setgid32''),
   (''SYS_setgroups32'', ''setgroups32''), (''SYS_setregid32'', ''setregid32'')]"

definition cases_10 :: "(string \<times> string) list" where
  "cases_10 =
  [(''SYS_setresgid32'', ''setresgid32''), (''SYS_setresuid32'', ''setresuid32''),
   (''SYS_setreuid32'', ''setreuid32''), (''SYS_setuid32'', ''setuid32''),
   (''SYS_sgetmask'', ''sgetmask''), (''SYS_sigaction'', ''sigaction''),
   (''SYS_signal'', ''signal''), (''SYS_sigpending'', ''sigpending''),
   (''SYS_sigprocmask'', ''sigprocmask''), (''SYS_sigreturn'', ''sigreturn''),
   (''SYS_sigsuspend'', ''sigsuspend''), (''SYS_socketcall'', ''socketcall''),
   (''SYS_ssetmask'', ''ssetmask''), (''SYS_stat64'', ''stat64''),
   (''SYS_statfs64'', ''statfs64''), (''SYS_stime'', ''stime''), (''SYS_stty'', ''stty''),
   (''SYS_truncate64'', ''truncate64''), (''SYS_ugetrlimit'', ''ugetrlimit''),
   (''SYS_ulimit'', ''ulimit''), (''SYS_umount'', ''umount''), (''SYS_vm86'', ''vm86''),
   (''SYS_vm86old'', ''vm86old''), (''SYS_waitpid'', ''waitpid'')]"

definition syscall_cases :: "(string \<times> string) list" where
  "syscall_cases = cases_1 @ cases_2 @ cases_3 @ cases_4 @ cases_5 @ cases_6 @ cases_7 @ cases_8 @
     cases_9 @ cases_10"

definition ixut_syscall_name :: "macros \<Rightarrow> int \<Rightarrow> string" where
  "ixut_syscall_name SYS call = switch SYS syscall_cases ''unknown'' call"

section \<open>Facts about the cases\<close>

lemmas all_cases = syscall_cases_def cases_1_def cases_2_def cases_3_def cases_4_def cases_5_def
  cases_6_def cases_7_def cases_8_def cases_9_def cases_10_def

text \<open>Every case returns the name its label ends in, and none returns the default.\<close>

lemma cases_named: "list_all (\<lambda>(m, s). m = ''SYS_'' @ s \<and> s \<noteq> ''unknown'') syscall_cases"
  unfolding all_cases by simp

lemma case_label: "(m, s) \<in> set syscall_cases \<Longrightarrow> m = ''SYS_'' @ s"
  using cases_named by (auto simp: list_all_iff)

lemma case_known: "(m, s) \<in> set syscall_cases \<Longrightarrow> s \<noteq> ''unknown''"
  using cases_named by (auto simp: list_all_iff)

lemma set_map_filter_values: "set (List.map_filter f xs) = {y. \<exists>x \<in> set xs. f x = Some y}"
  by (force simp: List.map_filter_def)

lemma compiles_Cons:
  "compiles val ((l, s) # cs) \<longleftrightarrow>
     compiles val cs \<and> (\<forall>n. val l = Some n \<longrightarrow> (\<forall>(l', s') \<in> set cs. val l' \<noteq> Some n))"
  by (auto simp: compiles_def map_filter_simps set_map_filter_values split: option.splits)

text \<open>A switch that compiles goes to the only case with the value, if there is one.\<close>

lemma switch_case: "compiles val cs \<Longrightarrow> (l, s) \<in> set cs \<Longrightarrow> val l = Some n \<Longrightarrow> switch val cs d n = s"
  by (induction val cs d n rule: switch.induct) (auto simp: compiles_Cons)

lemma switch_default: "\<forall>(l, s) \<in> set cs. val l \<noteq> Some n \<Longrightarrow> switch val cs d n = d"
  by (induction val cs d n rule: switch.induct) auto

lemma switch_result: "switch val cs d n = d \<or> (\<exists>l. (l, switch val cs d n) \<in> set cs \<and> val l = Some n)"
  by (induction val cs d n rule: switch.induct) auto

section \<open>Properties\<close>

text \<open>The names the table knows.\<close>

definition known_names :: "string set" where
  "known_names = snd ` set syscall_cases"

text \<open>
  C21: the table is right on every platform.  Wherever the switch compiles, a name is returned for
  exactly the number its macro has there, the answer "unknown" for exactly the numbers no known
  macro has; in particular two numbers never share a name.
\<close>

theorem syscall_name_correct:
  assumes "compiles SYS syscall_cases"
  shows "(s \<in> known_names \<longrightarrow> (ixut_syscall_name SYS n = s \<longleftrightarrow> SYS (''SYS_'' @ s) = Some n)) \<and>
    (ixut_syscall_name SYS n = ''unknown'' \<longleftrightarrow> (\<forall>s \<in> known_names. SYS (''SYS_'' @ s) \<noteq> Some n)) \<and>
    ixut_syscall_name SYS n \<in> insert ''unknown'' known_names"
proof -
  have hit: "ixut_syscall_name SYS n = t" if t: "t \<in> known_names" "SYS (''SYS_'' @ t) = Some n" for t
  proof -
    from t(1) obtain m where m: "(m, t) \<in> set syscall_cases" by (auto simp: known_names_def)
    with case_label [OF m] t(2) show ?thesis
      using switch_case [OF assms m] by (simp add: ixut_syscall_name_def)
  qed
  have res: "ixut_syscall_name SYS n = ''unknown'' \<or>
      ixut_syscall_name SYS n \<in> known_names \<and> SYS (''SYS_'' @ ixut_syscall_name SYS n) = Some n"
    using switch_result [of SYS syscall_cases "''unknown''" n] case_label
    by (force simp: ixut_syscall_name_def known_names_def)
  have no: "''unknown'' \<notin> known_names" unfolding known_names_def using case_known by fastforce
  from hit res no show ?thesis by (metis insert_iff)
qed

text \<open>A platform with three of the macros.\<close>

definition small_platform :: macros where
  "small_platform = [''SYS_read'' \<mapsto> 0, ''SYS_write'' \<mapsto> 1, ''SYS_fork'' \<mapsto> 57]"

lemma map_filter_append: "List.map_filter f (xs @ ys) = List.map_filter f xs @ List.map_filter f ys"
  by (simp add: List.map_filter_def)

lemma small_platform_compiles: "compiles small_platform syscall_cases"
proof -
  have "List.map_filter (\<lambda>(l, _). small_platform l) cases_1 = []"
    unfolding cases_1_def by (simp add: map_filter_simps small_platform_def)
  moreover have "List.map_filter (\<lambda>(l, _). small_platform l) cases_2 = [57]"
    unfolding cases_2_def by (simp add: map_filter_simps small_platform_def)
  moreover have "List.map_filter (\<lambda>(l, _). small_platform l) cases_3 = []"
    unfolding cases_3_def by (simp add: map_filter_simps small_platform_def)
  moreover have "List.map_filter (\<lambda>(l, _). small_platform l) cases_4 = []"
    unfolding cases_4_def by (simp add: map_filter_simps small_platform_def)
  moreover have "List.map_filter (\<lambda>(l, _). small_platform l) cases_5 = [0]"
    unfolding cases_5_def by (simp add: map_filter_simps small_platform_def)
  moreover have "List.map_filter (\<lambda>(l, _). small_platform l) cases_6 = []"
    unfolding cases_6_def by (simp add: map_filter_simps small_platform_def)
  moreover have "List.map_filter (\<lambda>(l, _). small_platform l) cases_7 = [1]"
    unfolding cases_7_def by (simp add: map_filter_simps small_platform_def)
  moreover have "List.map_filter (\<lambda>(l, _). small_platform l) cases_8 = []"
    unfolding cases_8_def by (simp add: map_filter_simps small_platform_def)
  moreover have "List.map_filter (\<lambda>(l, _). small_platform l) cases_9 = []"
    unfolding cases_9_def by (simp add: map_filter_simps small_platform_def)
  moreover have "List.map_filter (\<lambda>(l, _). small_platform l) cases_10 = []"
    unfolding cases_10_def by (simp add: map_filter_simps small_platform_def)
  ultimately show ?thesis
    unfolding compiles_def syscall_cases_def map_filter_append by simp
qed

theorem syscall_name_correct_witness:
  "ixut_syscall_name small_platform 57 = ''fork'' \<and> ixut_syscall_name small_platform 2 = ''unknown''"
proof -
  have f: "''fork'' \<in> known_names"
    unfolding known_names_def syscall_cases_def cases_2_def by simp
  have "SYS_none \<noteq> Some 2" if "SYS_none = small_platform m" for SYS_none m
    using that by (simp add: small_platform_def)
  with f syscall_name_correct [OF small_platform_compiles, of "''fork''" 57]
    syscall_name_correct [OF small_platform_compiles, of "''fork''" 2]
  show ?thesis by (simp add: small_platform_def)
qed

end
