(* ===== verification/SockSpec.thy ===== *)
theory SockSpec
  imports Sock CycqueueSpec
begin

text \<open>
  Executing the operations of sock.cxx on a live connection: the rewrite rules of each statement,
  what a live connection is, the bytes waiting in its write queue, and the bytes the kernel has
  taken from it, read off the history of the process.
\<close>

section \<open>Statements\<close>

lemma sock_cells [cstmt]:
  "p \<noteq> 0 \<Longrightarrow> socks w p = Some s \<Longrightarrow> get_sock p w = Inr s"
  "p \<noteq> 0 \<Longrightarrow> socks w p = Some s \<Longrightarrow> set_sock f p w = Inr (w\<lparr>socks := (socks w)(p \<mapsto> f s)\<rparr>)"
  "p \<noteq> 0 \<Longrightarrow> socks w p = Some s \<Longrightarrow> free_sock p w = Inr (w\<lparr>socks := (socks w)(p := None)\<rparr>)"
  by (simp_all add: get_sock_def set_sock_def free_sock_def cstmt)

lemma ctx_cells [cstmt]:
  "p \<noteq> 0 \<Longrightarrow> ctxs w p = Some c \<Longrightarrow> get_ctx p w = Inr c"
  "p \<noteq> 0 \<Longrightarrow> ctxs w p = Some c \<Longrightarrow> set_ctx g p w = Inr (w\<lparr>ctxs := (ctxs w)(p \<mapsto> g c)\<rparr>)"
  "p \<noteq> 0 \<Longrightarrow> ctxs w p = Some c \<Longrightarrow> free_ctx p w = Inr (w\<lparr>ctxs := (ctxs w)(p := None)\<rparr>)"
  by (simp_all add: get_ctx_def set_ctx_def free_ctx_def cstmt)

lemma wctx_cells [cstmt]:
  "p \<noteq> 0 \<Longrightarrow> wctxs w p = Some x \<Longrightarrow> get_wctx p w = Inr x"
  "p \<noteq> 0 \<Longrightarrow> wctxs w p = Some x \<Longrightarrow> set_wctx h p w = Inr (w\<lparr>wctxs := (wctxs w)(p \<mapsto> h x)\<rparr>)"
  by (simp_all add: get_wctx_def set_wctx_def cstmt)

lemma cargs_cells [cstmt]:
  "p \<noteq> 0 \<Longrightarrow> cargs w p = Some a \<Longrightarrow> get_cargs p w = Inr a"
  "p \<noteq> 0 \<Longrightarrow> cargs w p = Some a \<Longrightarrow> set_cargs h p w = Inr (w\<lparr>cargs := (cargs w)(p \<mapsto> h a)\<rparr>)"
  "p \<noteq> 0 \<Longrightarrow> cargs w p = Some a \<Longrightarrow> free_cargs p w = Inr (w\<lparr>cargs := (cargs w)(p := None)\<rparr>)"
  by (simp_all add: get_cargs_def set_cargs_def free_cargs_def cstmt)

lemma io_cells [cstmt]:
  "p \<noteq> 0 \<Longrightarrow> ios w p = Some e \<Longrightarrow> get_io p w = Inr e"
  "p \<noteq> 0 \<Longrightarrow> ios w p = Some e \<Longrightarrow> set_io h p w = Inr (w\<lparr>ios := (ios w)(p \<mapsto> h e)\<rparr>)"
  "p \<noteq> 0 \<Longrightarrow> ios w p = Some e \<Longrightarrow> free_io p w = Inr (w\<lparr>ios := (ios w)(p := None)\<rparr>)"
  "p \<noteq> 0 \<Longrightarrow> ios w p = Some e \<Longrightarrow> ev_io_start l p w = Inr (emit (Ev (EvIoStart l p)) w)"
  "p \<noteq> 0 \<Longrightarrow> ios w p = Some e \<Longrightarrow> ev_io_stop l p w = Inr (emit (Ev (EvIoStop l p)) w)"
  by (simp_all add: get_io_def set_io_def free_io_def ev_io_start_def ev_io_stop_def cstmt)

lemma buf_cells [cstmt]:
  "p \<noteq> 0 \<Longrightarrow> bufs w p = Some b \<Longrightarrow> free_buf p w = Inr (w\<lparr>bufs := (bufs w)(p := None)\<rparr>)"
  "p \<noteq> 0 \<Longrightarrow> bufs w p = Some b \<Longrightarrow> length bs \<le> length b \<Longrightarrow>
     store bs p w = Inr (w\<lparr>bufs := (bufs w)(p \<mapsto> bs @ drop (length bs) b)\<rparr>)"
  "p \<noteq> 0 \<Longrightarrow> bufs w p = Some b \<Longrightarrow> length b < length bs \<Longrightarrow> store bs p w = Inl OutOfBounds"
  by (simp_all add: free_buf_def store_def cstmt)

lemma sys_exec [cstmt]: "sys E c w = (ask E (Sys c) w, w\<lparr>hist := (Sys c, ask E (Sys c) w) # hist w\<rparr>)"
  by (simp add: sys_def ext_def Let_def)

lemma emit_sworld [simp]:
  "nodes (emit c w) = nodes w" "socks (emit c w) = socks w" "ctxs (emit c w) = ctxs w"
  "wctxs (emit c w) = wctxs w" "cargs (emit c w) = cargs w" "ios (emit c w) = ios w"
  "bufs (emit c w) = bufs w"
  by (simp_all add: emit_def)

section \<open>A live connection\<close>

text \<open>
  \<open>conn_at w p c s k\<close>: at \<open>p\<close> is a connection whose socket, event loop, watchers and read
  buffer are live, the buffer one byte longer than its stated size.
\<close>

definition conn_at ::
  "'a sworld_scheme \<Rightarrow> addr \<Rightarrow> ixfd_conn_ctx \<Rightarrow> ixfd_sock \<Rightarrow> ixc_context \<Rightarrow> bool" where
  "conn_at w p c s k \<longleftrightarrow> p \<noteq> 0 \<and> ctxs w p = Some c \<and> c_sock c \<noteq> 0 \<and> socks w (c_sock c) = Some s \<and>
     s_context s \<noteq> 0 \<and> contexts w (s_context s) = Some k \<and>
     event_read c \<noteq> 0 \<and> ios w (event_read c) \<noteq> None \<and>
     event_write c \<noteq> 0 \<and> ios w (event_write c) \<noteq> None \<and> event_read c \<noteq> event_write c \<and>
     buf_read c \<noteq> 0 \<and>
     (case bufs w (buf_read c) of None \<Rightarrow> False | Some b \<Rightarrow> length b = Suc (unat (size_bufread c)))"

text \<open>A pending write is live when its pointer and length stay within its buffer.\<close>

definition wctx_ok :: "'a sworld_scheme \<Rightarrow> addr \<Rightarrow> bool" where
  "wctx_ok w p \<longleftrightarrow> p \<noteq> 0 \<and> (case wctxs w p of None \<Rightarrow> False | Some x \<Rightarrow>
     fst (w_data x) \<noteq> 0 \<and> data_org x = fst (w_data x) \<and> 0 < len_remain x \<and>
     (case bufs w (fst (w_data x)) of None \<Rightarrow> False
      | Some b \<Rightarrow> length b = snd (w_data x) + unat (len_remain x)))"

text \<open>The bytes it stands for, and those of a queue of them.\<close>

definition wctx_bytes :: "'a sworld_scheme \<Rightarrow> addr \<Rightarrow> byte list" where
  "wctx_bytes w p = (case wctxs w p of None \<Rightarrow> [] | Some x \<Rightarrow>
     (case bufs w (fst (w_data x)) of None \<Rightarrow> []
      | Some b \<Rightarrow> take (unat (len_remain x)) (drop (snd (w_data x)) b)))"

definition pending :: "'a sworld_scheme \<Rightarrow> addr list \<Rightarrow> byte list" where
  "pending w ps = concat (map (wctx_bytes w) ps)"

text \<open>The bytes the kernel has taken for a descriptor, in the order it took them.\<close>

fun sent :: "int \<Rightarrow> event list \<Rightarrow> byte list" where
  "sent fd [] = []"
| "sent fd ((Sys (SysWrite d bs), r) # h) = sent fd h @ (if d = fd then take (nat r) bs else [])"
| "sent fd (_ # h) = sent fd h"

text \<open>malloc will not hand out an address in use.\<close>

definition sock_fresh :: "'a sworld_scheme \<Rightarrow> bool" where
  "sock_fresh w \<longleftrightarrow> nodes_ok w \<and> (\<forall>a. brk w < a \<longrightarrow> wctxs w a = None \<and> bufs w a = None \<and>
     ctxs w a = None \<and> ios w a = None \<and> socks w a = None \<and> cargs w a = None)"

lemma pending_append [simp]: "pending w (ps @ qs) = pending w ps @ pending w qs"
  by (simp add: pending_def)

lemma pending_Nil [simp]: "pending w [] = []"
  by (simp add: pending_def)

lemma pending_single [simp]: "pending w [p] = wctx_bytes w p"
  by (simp add: pending_def)

lemma pending_cong:
  "(\<And>p. p \<in> set ps \<Longrightarrow> wctx_bytes w p = wctx_bytes v p) \<Longrightarrow> pending w ps = pending v ps"
  unfolding pending_def by (induction ps) auto

lemma pending_same:
  assumes "wctxs v = wctxs w" "bufs v = bufs w"
  shows "pending v ps = pending w ps" "wctx_ok v q = wctx_ok w q"
  unfolding pending_def wctx_bytes_def wctx_ok_def assms by (rule refl)+

text \<open>New cells above the old ones do not disturb pending writes.\<close>

lemma wctx_frame:
  assumes "wctx_ok w p" "\<And>a. a \<le> b \<Longrightarrow> wctxs v a = wctxs w a" "\<And>a. a \<le> b \<Longrightarrow> bufs v a = bufs w a"
    "\<And>a. b < a \<Longrightarrow> wctxs w a = None \<and> bufs w a = None"
  shows "wctx_ok v p" "wctx_bytes v p = wctx_bytes w p"
proof -
  from assms(1) obtain x bs where x: "wctxs w p = Some x" "bufs w (fst (w_data x)) = Some bs"
    by (auto simp: wctx_ok_def split: option.splits)
  have "p \<le> b" "fst (w_data x) \<le> b"
    using assms(4) [of p] assms(4) [of "fst (w_data x)"] x by (auto simp: not_less [symmetric])
  with assms(2,3) x have "wctxs v p = Some x" "bufs v (fst (w_data x)) = Some bs" by simp_all
  with assms(1) x show "wctx_ok v p" "wctx_bytes v p = wctx_bytes w p"
    by (auto simp: wctx_ok_def wctx_bytes_def)
qed

section \<open>Writing\<close>

lemma queue_at_nodes: "nodes v = nodes w \<Longrightarrow> queue_at v e F xs = queue_at w e F xs"
  by (simp add: queue_at_def)

text \<open>The kernel took everything, or said so (the result -1 is the largest \<open>size_t\<close>).\<close>

lemma write_all_exec:
  assumes "conn_at w p c s k" "length data = unat len"
    "len \<le> word_of_int (ask E (Sys (SysWrite (c_fd c) data)) w)"
  shows "ixfd_commonsock_write E U p data len f a w =
    (let v = w\<lparr>hist := (Sys (SysWrite (c_fd c) data), ask E (Sys (SysWrite (c_fd c) data)) w) # hist w\<rparr>
     in bnd (if f \<noteq> 0 then invoke U f [p, a] v else Inr v) (\<lambda>w. Inr (True, w)))"
  using assms
  by (simp add: ixfd_commonsock_write_def sys_write_def conn_at_def cstmt Let_def)

lemma malloc_wctx_exec:
  "plentiful E \<Longrightarrow> malloc_wctx E w = (Suc (brk w), w\<lparr>brk := Suc (brk w), hist := (Malloc, ask E Malloc w) # hist w,
     wctxs := (wctxs w)(Suc (brk w) \<mapsto>
       \<lparr>w_data = (junk E ((Malloc, ask E Malloc w) # hist w) 0, 0),
        len_remain = of_nat (junk E ((Malloc, ask E Malloc w) # hist w) 1),
        w_cb = junk E ((Malloc, ask E Malloc w) # hist w) 2, data_org = junk E ((Malloc, ask E Malloc w) # hist w) 3,
        cb_args = junk E ((Malloc, ask E Malloc w) # hist w) 4\<rparr>)\<rparr>)"
  by (simp add: malloc_wctx_def cstmt Let_def)

lemma copy_bytes_exec:
  "plentiful E \<Longrightarrow> length data = unat len \<Longrightarrow> copy_bytes E data len w = Inr (Suc (brk w),
     w\<lparr>brk := Suc (brk w), hist := (Malloc, ask E Malloc w) # hist w, bufs := (bufs w)(Suc (brk w) \<mapsto> data)\<rparr>)"
  by (simp add: copy_bytes_def malloc_buf_def cstmt Let_def)

text \<open>Splitting off what the kernel took; nothing was taken when it took zero bytes.\<close>

lemma write_rest: "(if 0 < (n :: size_t) then (drop (unat n) data, len - n) else (data, len)) =
    (drop (unat n) data, len - n)"
  by (cases "n = 0") (simp_all add: word_neq_0_conv)

lemma write_part_exec:
  fixes len :: size_t
  assumes c: "conn_at w p c s k" and q: "queue_at w (buf_write c) F ps" and fr: "sock_fresh w"
    and pl: "plentiful E" and dl: "length data = unat len"
    and r: "r = ask E (Sys (SysWrite (c_fd c) data)) w" and n: "n = word_of_int r" "n < len"
  shows "\<exists>v m h. ixfd_commonsock_write E U p data len f a w = Inr (False, v) \<and>
    brk v = Suc (Suc (Suc (brk w))) \<and> contexts v = contexts w \<and> socks v = socks w \<and> ios v = ios w \<and> cargs v = cargs w \<and>
    nodes v = m \<and> (\<forall>b. b \<notin> insert (brk v) F \<longrightarrow> m b = nodes w b) \<and>
    queue_at v (buf_write c) (insert (brk v) F) (ps @ [Suc (brk w)]) \<and>
    ctxs v = (ctxs w)(p \<mapsto> c\<lparr>write_launched := True\<rparr>) \<and>
    wctxs v = (wctxs w)(Suc (brk w) \<mapsto> \<lparr>w_data = (Suc (Suc (brk w)), 0), len_remain = len - n, w_cb = f,
       data_org = Suc (Suc (brk w)),
       cb_args = junk E ((Malloc, ask E Malloc (w\<lparr>hist := (Sys (SysWrite (c_fd c) data), r) # hist w\<rparr>)) #
                         (Sys (SysWrite (c_fd c) data), r) # hist w) 4\<rparr>) \<and>
    bufs v = (bufs w)(Suc (Suc (brk w)) \<mapsto> drop (unat n) data) \<and>
    hist v = (if write_launched c then [] else [(Ev (EvIoStart (evl k) (event_write c)), 0)]) @
       h @ (Sys (SysWrite (c_fd c) data), r) # hist w \<and> set (map fst h) = {Malloc}"
proof -
  let ?h1 = "(Sys (SysWrite (c_fd c) data), r) # hist w"
  let ?w1 = "w\<lparr>hist := ?h1\<rparr>"
  let ?h2 = "(Malloc, ask E Malloc ?w1) # ?h1"
  let ?h3 = "(Malloc, answer E ?h2 Malloc) # ?h2"
  let ?q = "Suc (brk w)" and ?b = "Suc (Suc (brk w))"
  let ?rest = "drop (unat n) data"
  let ?x = "\<lparr>w_data = (?b, 0), len_remain = len - n, w_cb = f, data_org = ?b, cb_args = junk E ?h2 4\<rparr>"
  let ?w4 = "w\<lparr>brk := ?b, hist := ?h3, bufs := (bufs w)(?b \<mapsto> ?rest), wctxs := (wctxs w)(?q \<mapsto> ?x)\<rparr>"
  obtain io where cx: "p \<noteq> 0" "ctxs w p = Some c" "c_sock c \<noteq> 0" "socks w (c_sock c) = Some s" "s_context s \<noteq> 0"
    "contexts w (s_context s) = Some k" "event_write c \<noteq> 0" "ios w (event_write c) = Some io"
    using c by (auto simp: conn_at_def)
  have nle: "(len \<le> n) = False" "ask E (Sys (SysWrite (c_fd c) data)) w = r" "word_of_int r = n"
    using n r by simp_all
  have len: "unat (len - n) = unat len - unat n" using n(2) by (simp add: unat_sub less_imp_le)
  have rest: "length ?rest = unat (len - n)" using dl len by simp
  have ok4: "nodes_ok ?w4" using fr by (auto simp: sock_fresh_def nodes_ok_def)
  have q4: "queue_at ?w4 (buf_write c) F ps" using q queue_at_nodes [of ?w4 w] by simp
  from enqueue_exec [OF q4 ok4, of E ?q] pl obtain m where
    m: "ixut_cycqueue_enqueue E (buf_write c) ?q ?w4 =
        Inr (?w4\<lparr>brk := Suc (brk ?w4), hist := (Malloc, ask E Malloc ?w4) # hist ?w4, nodes := m\<rparr>)"
      "queue_at (?w4\<lparr>nodes := m\<rparr>) (buf_write c) (insert (Suc (brk ?w4)) F) (ps @ [?q])"
      "\<forall>b. b \<notin> insert (Suc (brk ?w4)) F \<longrightarrow> m b = nodes ?w4 b" by auto
  let ?w5 = "?w4\<lparr>brk := Suc (brk ?w4), hist := (Malloc, ask E Malloc ?w4) # hist ?w4, nodes := m\<rparr>"
  let ?v = "if write_launched c then ?w5
     else emit (Ev (EvIoStart (evl k) (event_write c))) (?w5\<lparr>ctxs := (ctxs w)(p \<mapsto> c\<lparr>write_launched := True\<rparr>)\<rparr>)"
  have "ixfd_commonsock_write E U p data len f a w = Inr (False, ?v)"
    using cx nle dl rest pl m(1) 
    unfolding ixfd_commonsock_write_def write_rest
    by (simp add: sys_write_def cstmt Let_def malloc_wctx_exec copy_bytes_exec ask_def)
  moreover have "queue_at ?v (buf_write c) (insert (Suc ?b) F) (ps @ [?q])"
    using m(2) queue_at_nodes [of ?v "?w4\<lparr>nodes := m\<rparr>"] by simp
  moreover have "ctxs ?v = (ctxs w)(p \<mapsto> c\<lparr>write_launched := True\<rparr>)"
    using cx(2) by (auto simp: fun_upd_idem)
  ultimately show ?thesis
    using m(3)
    by (intro exI [of _ ?v] exI [of _ m]
        exI [of _ "[(Malloc, ask E Malloc ?w4), (Malloc, answer E ?h2 Malloc), (Malloc, ask E Malloc ?w1)]"])
      (cases "write_launched c"; simp add: ask_def)
qed

section \<open>A process with one connection\<close>

text \<open>
  Context 1, socket 2, connection 3 with watchers 4 and 5, a read buffer of 3 bytes and its NUL at
  6, and the empty write queue 7; and the same with one pending write of two bytes.
\<close>

definition one_sock :: ixfd_sock where
  "one_sock = zero_sock\<lparr>s_fd := 10, s_type := 1, s_context := 1\<rparr>"

definition one_ctx :: ixfd_conn_ctx where
  "one_ctx = zero_ctx\<lparr>c_sock := 2, c_fd := 11, event_read := 4, event_write := 5, buf_write := 7,
     size_bufread := 3, buf_read := 6\<rparr>"

definition one_conn :: sworld where
  "one_conn = \<lparr>brk = 8, hist = [], contexts = [1 \<mapsto> \<lparr>state = 0, evl = 9\<rparr>],
     nodes = [7 \<mapsto> \<lparr>q_data = memset_0F, q_next = 8\<rparr>, 8 \<mapsto> \<lparr>q_data = memset_0F, q_next = 8\<rparr>],
     socks = [2 \<mapsto> one_sock], ctxs = [3 \<mapsto> one_ctx], wctxs = (\<lambda>_. None), cargs = (\<lambda>_. None),
     ios = [4 \<mapsto> \<lparr>io_cb = Ixfd_commonsock_read_cb, io_fd = 11, io_events = EV_READ, io_data = 3\<rparr>,
            5 \<mapsto> \<lparr>io_cb = Ixfd_commonsock_write_cb, io_fd = 11, io_events = EV_WRITE, io_data = 3\<rparr>],
     bufs = [6 \<mapsto> [0, 0, 0, 0]]\<rparr>"

definition busy_conn :: sworld where
  "busy_conn = one_conn\<lparr>brk := 11,
     nodes := [7 \<mapsto> \<lparr>q_data = memset_0F, q_next = 11\<rparr>, 8 \<mapsto> \<lparr>q_data = memset_0F, q_next = 11\<rparr>,
               11 \<mapsto> \<lparr>q_data = 9, q_next = 8\<rparr>],
     wctxs := [9 \<mapsto> \<lparr>w_data = (10, 0), len_remain = 2, w_cb = 0, data_org = 10, cb_args = 7\<rparr>],
     bufs := [6 \<mapsto> [0, 0, 0, 0], 10 \<mapsto> [65, 66]]\<rparr>"

lemma one_conn_at: "conn_at one_conn 3 one_ctx one_sock \<lparr>state = 0, evl = 9\<rparr>"
  by (simp add: conn_at_def one_conn_def one_ctx_def one_sock_def zero_ctx_def zero_sock_def)

lemma one_conn_queue: "queue_at one_conn (buf_write one_ctx) {7, 8} []"
  unfolding queue_at_def
  by (intro exI [of _ 8] exI [of _ "[]"]) (auto simp: ring_def cells_def one_conn_def one_ctx_def next_is_def)

lemma one_conn_fresh: "sock_fresh one_conn"
  by (simp add: sock_fresh_def one_conn_def nodes_ok_def)

lemma busy_conn_at: "conn_at busy_conn 3 one_ctx one_sock \<lparr>state = 0, evl = 9\<rparr>"
  by (simp add: conn_at_def busy_conn_def one_conn_def one_ctx_def one_sock_def zero_ctx_def zero_sock_def)

lemma busy_conn_queue: "queue_at busy_conn (buf_write one_ctx) {7, 8, 11} [9]"
  unfolding queue_at_def
  by (intro exI [of _ 8] exI [of _ "[(11, 9)]"])
    (auto simp: ring_def cells_def busy_conn_def one_ctx_def next_is_def data_is_def newest_def)

lemma busy_conn_pending: "wctx_ok busy_conn 9" "wctx_bytes busy_conn 9 = [65, 66]"
  by (simp_all add: wctx_ok_def wctx_bytes_def busy_conn_def)

end
