(* ===== verification/SockWrite.thy ===== *)
theory SockWrite
  imports SockSpec
begin

text \<open>
  The properties of writing to a connection: what a write does to the byte stream (bytes the kernel
  has taken, followed by bytes waiting in the queue), and what becomes of queued writes when the
  write handler runs.
\<close>

section \<open>Writing to the stream\<close>

lemma sent_mallocs: "set (map fst h) \<subseteq> {Malloc} \<Longrightarrow> sent fd (h @ h') = sent fd h'"
  by (induction h) auto

lemma word_result: "0 \<le> r \<Longrightarrow> r < 2 ^ 64 \<Longrightarrow> unat (word_of_int r :: size_t) = nat r"
  by (simp add: unat_eq_nat_uint uint_word_of_int_eq take_bit_int_eq_self)

lemma word_result_less:
  "0 \<le> r \<Longrightarrow> r < int (unat len) \<Longrightarrow> (word_of_int r :: size_t) < len \<and> unat (word_of_int r :: size_t) = nat r"
proof -
  assume r: "0 \<le> r" "r < int (unat len)"
  have "int (unat len) < 2 ^ 64" using unsigned_less [of len, where 'a = int] by simp
  with r have "unat (word_of_int r :: size_t) = nat r" by (intro word_result) simp_all
  with r show ?thesis by (simp add: word_less_nat_alt nat_less_iff)
qed

lemma write_keeps:
  assumes "conn_at w p c s k" "queue_at w (buf_write c) F ps" "sock_fresh w" "plentiful E"
    "\<forall>q \<in> set ps. wctx_ok w q" "length data = unat len"
    "r = ask E (Sys (SysWrite (c_fd c) data)) w" "0 \<le> r" "r < int (length data)"
  shows "\<exists>v q G x. ixfd_commonsock_write E U p data len f a w = Inr (False, v) \<and>
    sent (c_fd c) (hist v) = sent (c_fd c) (hist w) @ take (nat r) data \<and>
    pending v (ps @ [q]) = pending w ps @ drop (nat r) data \<and>
    (ps = [] \<longrightarrow> sent (c_fd c) (hist v) @ pending v [q] = sent (c_fd c) (hist w) @ data) \<and>
    conn_at v p (c\<lparr>write_launched := True\<rparr>) s k \<and> queue_at v (buf_write c) G (ps @ [q]) \<and> sock_fresh v \<and>
    (\<forall>q \<in> set (ps @ [q]). wctx_ok v q) \<and>
    (write_launched c \<or> hd (hist v) = (Ev (EvIoStart (evl k) (event_write c)), 0)) \<and>
    wctxs v = (wctxs w)(q \<mapsto> x) \<and> q \<notin> set ps \<and> fst (w_data x) \<noteq> buf_read c"
proof -
  let ?n = "word_of_int r :: size_t" and ?q = "Suc (brk w)" and ?b = "Suc (Suc (brk w))"
  have n: "?n < len" "unat ?n = nat r" using word_result_less [of r len] assms(6,8,9) by simp_all
  from write_part_exec [OF assms(1-4,6,7) refl n(1), of U f a] obtain v h x where
    v: "ixfd_commonsock_write E U p data len f a w = Inr (False, v)"
      "brk v = Suc (Suc (Suc (brk w)))" "contexts v = contexts w" "socks v = socks w" "ios v = ios w"
      "cargs v = cargs w" "\<forall>b. b \<notin> insert (brk v) F \<longrightarrow> nodes v b = nodes w b"
      "queue_at v (buf_write c) (insert (brk v) F) (ps @ [?q])"
      "ctxs v = (ctxs w)(p \<mapsto> c\<lparr>write_launched := True\<rparr>)" "wctxs v = (wctxs w)(?q \<mapsto> x)"
      "bufs v = (bufs w)(?b \<mapsto> drop (unat ?n) data)"
      "hist v = (if write_launched c then [] else [(Ev (EvIoStart (evl k) (event_write c)), 0)]) @
         h @ (Sys (SysWrite (c_fd c) data), r) # hist w" "set (map fst h) = {Malloc}"
    and x: "w_data x = (?b, 0)" "len_remain x = len - ?n" "data_org x = ?b"
    by fastforce
  have len: "unat (len - ?n) = length data - nat r" using n assms(6) by (simp add: unat_sub less_imp_le)
  have fresh: "wctxs w a = None \<and> bufs w a = None" if "brk w < a" for a using assms(3) that by (simp add: sock_fresh_def)
  have old: "wctx_ok v q" "wctx_bytes v q = wctx_bytes w q" if "q \<in> set ps" for q
  proof -
    from that assms(5) have ok: "wctx_ok w q" by blast
    have "wctxs v a = wctxs w a" "bufs v a = bufs w a" if "a \<le> brk w" for a using that v(10,11) by simp_all
    with wctx_frame [OF ok, of "brk w" v] fresh show "wctx_ok v q" "wctx_bytes v q = wctx_bytes w q" by blast+
  qed
  have "unat (len - ?n) \<noteq> 0" using len assms(9,8) by simp
  then have pos: "0 < len - ?n" by (simp add: word_neq_0_conv [symmetric] unat_eq_zero)
  have new: "wctx_ok v ?q" "wctx_bytes v ?q = drop (nat r) data"
    using v(10,11) x len n(2) pos by (simp_all add: wctx_ok_def wctx_bytes_def)
  have "pending v ps = pending w ps" by (rule pending_cong) (use old in simp)
  moreover have s: "sent (c_fd c) (hist v) = sent (c_fd c) (hist w) @ take (nat r) data"
    using v(12,13) sent_mallocs [of h] by auto
  moreover have "conn_at v p (c\<lparr>write_launched := True\<rparr>) s k"
  proof -
    have "buf_read c \<noteq> ?b" using assms(1) fresh [of ?b] by (auto simp: conn_at_def)
    with assms(1) v(3-5,9,11) show ?thesis by (auto simp: conn_at_def split: option.splits)
  qed
  moreover have "sock_fresh v"
  proof -
    have "nodes_ok w" using assms(3) by (simp add: sock_fresh_def)
    moreover have "b \<le> brk v" if "b \<in> insert (brk v) F" for b
      using that queue_at_le [OF assms(2) calculation, of b] v(2) by auto
    ultimately have "nodes_ok v" using v(2,7) by (intro nodes_ok_change [of w "insert (brk v) F" v]) auto
    moreover have "p \<le> brk w" using assms(1,3) by (auto simp: conn_at_def sock_fresh_def not_less [symmetric])
    ultimately show ?thesis using assms(3) v(2,4-6,9-11) by (simp add: sock_fresh_def)
  qed
  moreover have "?q \<notin> set ps" using assms(5) fresh [of ?q] by (auto simp: wctx_ok_def)
  moreover have "buf_read c \<noteq> ?b" using assms(1) fresh [of ?b] by (auto simp: conn_at_def)
  ultimately show ?thesis using v(1,8,10,12) old new s x(1)
    by (intro exI [of _ v] exI [of _ ?q] exI [of _ "insert (brk v) F"] exI [of _ x]) auto
qed

text \<open>
  C4: a write the kernel takes only in part.  The bytes it took are the beginning of the data, the
  rest waits at the end of the queue, byte for byte; what waited before still does; the write
  watcher is started unless it already runs; and the state is again one in which the connection and
  all pending writes are live.  With an empty queue, the stream is the old one followed by the data.
\<close>

theorem write_conserves_bytes:
  assumes "conn_at w p c s k" "queue_at w (buf_write c) F ps" "sock_fresh w" "plentiful E"
    "\<forall>q \<in> set ps. wctx_ok w q" "length data = unat len"
    "r = ask E (Sys (SysWrite (c_fd c) data)) w" "0 \<le> r" "r < int (length data)"
  shows "\<exists>v q G. ixfd_commonsock_write E U p data len f a w = Inr (False, v) \<and>
    sent (c_fd c) (hist v) = sent (c_fd c) (hist w) @ take (nat r) data \<and>
    pending v (ps @ [q]) = pending w ps @ drop (nat r) data \<and>
    (ps = [] \<longrightarrow> sent (c_fd c) (hist v) @ pending v [q] = sent (c_fd c) (hist w) @ data) \<and>
    conn_at v p (c\<lparr>write_launched := True\<rparr>) s k \<and> queue_at v (buf_write c) G (ps @ [q]) \<and> sock_fresh v \<and>
    (\<forall>q \<in> set (ps @ [q]). wctx_ok v q) \<and>
    (write_launched c \<or> hd (hist v) = (Ev (EvIoStart (evl k) (event_write c)), 0))"
  using write_keeps [OF assms] by blast

text \<open>Three bytes, of which the kernel takes one.\<close>

theorem write_conserves_bytes_witness:
  "\<exists>v q. ixfd_commonsock_write calm (\<lambda>f xs w. Inr w) 3 [1, 2, 3] 3 0 0 one_conn = Inr (False, v) \<and>
     sent 11 (hist v) = [1] \<and> pending v [q] = [2, 3]"
proof -
  have "c_fd one_ctx = 11" "hist one_conn = []" by (simp_all add: one_ctx_def one_conn_def)
  then show ?thesis
    using write_conserves_bytes [OF one_conn_at one_conn_queue one_conn_fresh calm_plentiful,
        of "[1, 2, 3]" 3 1 "\<lambda>f xs w. Inr w" 0 0]
    by (auto simp: ask_def calm_def)
qed

text \<open>
  C33: a write does not wait its turn.  When earlier writes are still pending, the new data is
  nevertheless offered to the kernel at once; if it is taken, it stands in the stream before the
  bytes that were written earlier.
\<close>

theorem write_overtakes_pending:
  assumes "conn_at w p c s k" "length data = unat len"
    "r = ask E (Sys (SysWrite (c_fd c) data)) w" "r = int (length data)"
  shows "\<exists>v. ixfd_commonsock_write E U p data len 0 a w = Inr (True, v) \<and>
    sent (c_fd c) (hist v) @ pending v ps = sent (c_fd c) (hist w) @ data @ pending w ps \<and>
    (\<forall>q. wctx_ok v q = wctx_ok w q) \<and> nodes v = nodes w"
proof -
  let ?v = "w\<lparr>hist := (Sys (SysWrite (c_fd c) data), r) # hist w\<rparr>"
  have "len \<le> word_of_int r" using assms(2,4) by simp
  then have "ixfd_commonsock_write E U p data len 0 a w = Inr (True, ?v)"
    using write_all_exec [OF assms(1,2), of E U 0 a] assms(3) by simp
  moreover have "pending ?v ps = pending w ps" "\<forall>q. wctx_ok ?v q = wctx_ok w q"
    using pending_same [of ?v w] by simp_all
  ultimately show ?thesis using assms(4) by (intro exI [of _ ?v]) simp
qed

text \<open>The bytes 65, 66 are pending; 67 is written and goes out first.\<close>

theorem write_overtakes_pending_witness:
  "\<exists>v. ixfd_commonsock_write calm (\<lambda>f xs w. Inr w) 3 [67] 1 0 0 busy_conn = Inr (True, v) \<and>
     sent 11 (hist v) @ pending v [9] = [67, 65, 66]"
proof -
  have "c_fd one_ctx = 11" "hist busy_conn = []" by (simp_all add: one_ctx_def busy_conn_def one_conn_def)
  then show ?thesis
    using write_overtakes_pending [OF busy_conn_at, of "[67]" 1 1 calm "\<lambda>f xs w. Inr w" 0 "[9]"] busy_conn_pending
    by (auto simp: ask_def calm_def)
qed

text \<open>
  C32: an error of the kernel (the result -1, also when it would merely block) is taken for success,
  because the result is compared as a \<open>size_t\<close>.  The completion callback runs, true is returned,
  nothing is queued, and not a byte of the data was sent.
\<close>

theorem write_error_reported_as_success:
  assumes "conn_at w p c s k" "length data = unat len" "f \<noteq> 0"
    "ask E (Sys (SysWrite (c_fd c) data)) w = -1"
  shows "\<exists>v. ixfd_commonsock_write E U p data len f a w =
      bnd (U f [p, a] v) (\<lambda>w. Inr (True, w)) \<and>
    sent (c_fd c) (hist v) = sent (c_fd c) (hist w) \<and> pending v ps = pending w ps \<and>
    nodes v = nodes w \<and> wctxs v = wctxs w \<and> bufs v = bufs w"
proof -
  let ?v = "emit (Invoke f [p, a]) (w\<lparr>hist := (Sys (SysWrite (c_fd c) data), -1) # hist w\<rparr>)"
  have "len \<le> word_of_int (ask E (Sys (SysWrite (c_fd c) data)) w)" using assms(4) by simp
  then have "ixfd_commonsock_write E U p data len f a w = bnd (U f [p, a] ?v) (\<lambda>w. Inr (True, w))"
    using write_all_exec [OF assms(1,2), of E U f a] assms(3,4) by (simp add: invoke_def)
  moreover have "pending ?v ps = pending w ps" using pending_same [of ?v w] by simp
  ultimately show ?thesis by (intro exI [of _ ?v]) simp
qed

theorem write_error_reported_as_success_witness:
  "\<exists>v. ixfd_commonsock_write (calm\<lparr>answer := \<lambda>h c. -1\<rparr>) (\<lambda>f xs w. Inr w) 3 [1, 2] 2 8 0 one_conn = Inr (True, v) \<and>
     sent 11 (hist v) = []"
proof -
  have "c_fd one_ctx = 11" "hist one_conn = []" by (simp_all add: one_ctx_def one_conn_def)
  then show ?thesis
    using write_error_reported_as_success [OF one_conn_at, of "[1, 2]" 2 8 "calm\<lparr>answer := \<lambda>h c. -1\<rparr>" "\<lambda>f xs w. Inr w" 0 "[]"]
    by (auto simp: ask_def calm_def)
qed

text \<open>
  The argument of the completion callback is lost when the write is queued: what happens does
  not depend on it at all, and the field the handler will later pass to the callback is whatever the
  fresh memory held.
\<close>

theorem write_callback_argument_lost:
  assumes "conn_at w p c s k" "queue_at w (buf_write c) F ps" "sock_fresh w" "plentiful E"
    "length data = unat len" "r = ask E (Sys (SysWrite (c_fd c) data)) w" "0 \<le> r" "r < int (length data)"
  shows "ixfd_commonsock_write E U p data len f a w = ixfd_commonsock_write E U p data len f a' w \<and>
    (\<exists>v q x h. ixfd_commonsock_write E U p data len f a w = Inr (False, v) \<and>
       wctxs v q = Some x \<and> queue_at v (buf_write c) (insert (brk v) F) (ps @ [q]) \<and>
       w_cb x = f \<and> cb_args x = junk E h 4)"
proof -
  let ?n = "word_of_int r :: size_t"
  have n: "?n < len" "unat ?n = nat r" using word_result_less [of r len] assms(5,7,8) by simp_all
  then have nle: "\<not> len \<le> ?n" by simp
  have "ixfd_commonsock_write E U p data len f a w = ixfd_commonsock_write E U p data len f a' w"
    using assms(1,5,6) nle
    by (simp add: ixfd_commonsock_write_def sys_write_def conn_at_def cstmt)
  moreover
  let ?h = "(Malloc, ask E Malloc (w\<lparr>hist := (Sys (SysWrite (c_fd c) data), r) # hist w\<rparr>)) #
     (Sys (SysWrite (c_fd c) data), r) # hist w"
  let ?x = "\<lparr>w_data = (Suc (Suc (brk w)), 0), len_remain = len - ?n, w_cb = f,
     data_org = Suc (Suc (brk w)), cb_args = junk E ?h 4\<rparr>"
  from write_part_exec [OF assms(1-6) refl n(1), of U f a] obtain v where
    v: "ixfd_commonsock_write E U p data len f a w = Inr (False, v)"
      "queue_at v (buf_write c) (insert (brk v) F) (ps @ [Suc (brk w)])" "wctxs v = (wctxs w)(Suc (brk w) \<mapsto> ?x)"
    by blast
  have "wctxs v (Suc (brk w)) = Some ?x" "w_cb ?x = f" "cb_args ?x = junk E ?h 4" by (simp_all add: v(3))
  with v(1,2) have "\<exists>v q x h. ixfd_commonsock_write E U p data len f a w = Inr (False, v) \<and>
       wctxs v q = Some x \<and> queue_at v (buf_write c) (insert (brk v) F) (ps @ [q]) \<and>
       w_cb x = f \<and> cb_args x = junk E h 4" by blast
  ultimately show ?thesis by blast
qed

theorem write_callback_argument_lost_witness:
  "ixfd_commonsock_write calm (\<lambda>f xs w. Inr w) 3 [1, 2, 3] 3 8 70 one_conn =
     ixfd_commonsock_write calm (\<lambda>f xs w. Inr w) 3 [1, 2, 3] 3 8 71 one_conn"
proof -
  have r: "1 = ask calm (Sys (SysWrite (c_fd one_ctx) [1, 2, 3])) one_conn" by (simp add: ask_def calm_def)
  show ?thesis
    by (rule conjunct1 [OF write_callback_argument_lost [OF one_conn_at one_conn_queue one_conn_fresh
          calm_plentiful _ r]]) simp_all
qed

section \<open>The write handler\<close>

text \<open>
  A state the loop is in while there is something to write: either the connection is gone, or its
  queue holds a pending write that is live.
\<close>

definition draining :: "addr \<Rightarrow> 'a sworld_scheme \<Rightarrow> bool" where
  "draining p w \<longleftrightarrow> p \<noteq> 0 \<and> (ctxs w p = None \<or>
     (\<exists>c F q qs. ctxs w p = Some c \<and> queue_at w (buf_write c) F (q # qs) \<and> wctx_ok w q))"

lemma drainingI:
  "p \<noteq> 0 \<Longrightarrow> ctxs w p = Some c \<Longrightarrow> queue_at w (buf_write c) F (q # qs) \<Longrightarrow> wctx_ok w q \<Longrightarrow> draining p w"
  unfolding draining_def by fastforce

text \<open>One round: the outcomes by the number of bytes the kernel says it took.\<close>

lemma round_front:
  assumes "p \<noteq> 0" "ctxs w p = Some c" "queue_at w (buf_write c) F (q # qs)" "wctx_ok w q"
  obtains x d off bs where "q \<noteq> 0" "wctxs w q = Some x" "w_data x = (d, off)" "data_org x = d" "d \<noteq> 0"
    "bufs w d = Some bs" "length bs = off + unat (len_remain x)" "0 < len_remain x"
    "write_round E U p w =
      (let n = word_of_int (ask E (Sys (SysWrite (c_fd c) (drop off bs))) w);
           v = w\<lparr>hist := (Sys (SysWrite (c_fd c) (drop off bs)),
                          ask E (Sys (SysWrite (c_fd c) (drop off bs))) w) # hist w\<rparr>
       in if len_remain x \<le> n
          then bnd (ixut_cycqueue_dequeue (buf_write c) v) (\<lambda>(_, w).
               bnd (get_wctx q w) (\<lambda>x.
               bnd (if w_cb x \<noteq> 0 then invoke U (w_cb x) [p, cb_args x] w else Inr w) (\<lambda>w.
               bnd (get_wctx q w) (\<lambda>x.
               bnd (free_buf (data_org x) w) (\<lambda>w.
               bnd (free_ctx p w) (\<lambda>w. Inr (True, w)))))))
          else Inr (True, if 0 < n
               then v\<lparr>wctxs := (wctxs w)(q \<mapsto> x\<lparr>len_remain := len_remain x - n, w_data := (d, off + unat n)\<rparr>)\<rparr>
               else v))"
proof -
  from assms(4) obtain x bs where x: "q \<noteq> 0" "wctxs w q = Some x" "fst (w_data x) \<noteq> 0" "data_org x = fst (w_data x)"
    "0 < len_remain x" "bufs w (fst (w_data x)) = Some bs" "length bs = snd (w_data x) + unat (len_remain x)"
    by (auto simp: wctx_ok_def split: option.splits)
  show ?thesis
    by (rule that [of x "fst (w_data x)" "snd (w_data x)" bs])
      (use x assms(1,2) empty_exec [OF assms(3)] front_exec [OF assms(3)] in
        \<open>simp_all add: write_round_def sys_write_def cstmt Let_def\<close>)
qed

text \<open>
  What a callback does that returns and leaves the connections, the pending writes and the buffers to
  the handler.
\<close>

definition leaves_writes :: "'a sworld_scheme user \<Rightarrow> nat \<Rightarrow> bool" where
  "leaves_writes U f \<longleftrightarrow> f = 0 \<or>
     (\<forall>xs w. \<exists>v. U f xs w = Inr v \<and> ctxs v = ctxs w \<and> wctxs v = wctxs w \<and> bufs v = bufs w)"

lemma round_completed:
  assumes "p \<noteq> 0" "ctxs w p = Some c" "queue_at w (buf_write c) F (q # qs)" "wctx_ok w q"
    "wctxs w q = Some x" "leaves_writes U (w_cb x)" "bufs w (fst (w_data x)) = Some bs"
    "len_remain x \<le> word_of_int (ask E (Sys (SysWrite (c_fd c) (drop (snd (w_data x)) bs))) w)"
  shows "\<exists>v. write_round E U p w = Inr (True, v) \<and> ctxs v = (ctxs w)(p := None)"
proof -
  let ?r = "ask E (Sys (SysWrite (c_fd c) (drop (snd (w_data x)) bs))) w"
  let ?v = "w\<lparr>hist := (Sys (SysWrite (c_fd c) (drop (snd (w_data x)) bs)), ?r) # hist w\<rparr>"
  have q: "queue_at ?v (buf_write c) F (q # qs)" using assms(3) by (simp add: queue_at_def)
  from dequeue_exec [OF q] obtain m where m: "ixut_cycqueue_dequeue (buf_write c) ?v = Inr (q, ?v\<lparr>nodes := m\<rparr>)" by blast
  obtain u where u: "(if w_cb x \<noteq> 0 then invoke U (w_cb x) [p, cb_args x] (?v\<lparr>nodes := m\<rparr>) else Inr (?v\<lparr>nodes := m\<rparr>)) = Inr u"
    "ctxs u = ctxs w" "wctxs u = wctxs w" "bufs u = bufs w"
  proof (cases "w_cb x = 0")
    case True
    with that [of "?v\<lparr>nodes := m\<rparr>"] show thesis by simp
  next
    case False
    from assms(6) False obtain u where
      "U (w_cb x) [p, cb_args x] (emit (Invoke (w_cb x) [p, cb_args x]) (?v\<lparr>nodes := m\<rparr>)) = Inr u"
      "ctxs u = ctxs w" "wctxs u = wctxs w" "bufs u = bufs w"
      unfolding leaves_writes_def by (fastforce dest: spec [of _ "[p, cb_args x]"] spec)
    with False that [of u] show thesis by (simp add: invoke_def)
  qed
  show ?thesis
  proof (rule round_front [OF assms(1-4), where E = E and U = U])
    fix y d off bs'
    assume y: "q \<noteq> 0" "wctxs w q = Some y" "w_data y = (d, off)" "data_org y = d" "d \<noteq> 0" "bufs w d = Some bs'" and
      run: "write_round E U p w =
      (let n = word_of_int (ask E (Sys (SysWrite (c_fd c) (drop off bs'))) w);
           v = w\<lparr>hist := (Sys (SysWrite (c_fd c) (drop off bs')),
                          ask E (Sys (SysWrite (c_fd c) (drop off bs'))) w) # hist w\<rparr>
       in if len_remain y \<le> n
          then bnd (ixut_cycqueue_dequeue (buf_write c) v) (\<lambda>(_, w).
               bnd (get_wctx q w) (\<lambda>x.
               bnd (if w_cb x \<noteq> 0 then invoke U (w_cb x) [p, cb_args x] w else Inr w) (\<lambda>w.
               bnd (get_wctx q w) (\<lambda>x.
               bnd (free_buf (data_org x) w) (\<lambda>w.
               bnd (free_ctx p w) (\<lambda>w. Inr (True, w)))))))
          else Inr (True, if 0 < n
               then v\<lparr>wctxs := (wctxs w)(q \<mapsto> y\<lparr>len_remain := len_remain y - n, w_data := (d, off + unat n)\<rparr>)\<rparr>
               else v))"
    have same: "y = x" "bs' = bs" "w_data x = (d, off)" using y assms(5,7) by simp_all
    note run' = run [unfolded same(1,2)] and step = m [unfolded same(3) snd_conv] u(1) [unfolded same(3) snd_conv]
    have "len_remain x \<le> word_of_int (ask E (Sys (SysWrite (c_fd c) (drop off bs))) w)" using assms(8) same(3) by simp
    with run' step u(2-4) y same assms(1,2,5) show ?thesis by (simp add: Let_def cstmt)
  qed
qed

text \<open>
  Whatever the kernel says and the callback does, a round that returns has not found the queue empty and
  leaves such a state: a completed write has freed the connection.
\<close>

lemma free_ctx_gone: "free_ctx p w = Inr v \<Longrightarrow> p \<noteq> 0 \<Longrightarrow> ctxs v p = None"
  by (auto simp: free_ctx_def bnd_eq_Inr release_eq_Inr)

lemma draining_round:
  assumes "draining p w" "write_round E U p w = Inr (b, v)"
  shows "b \<and> draining p v"
proof (cases "ctxs w p")
  case None
  with assms show ?thesis by (simp add: write_round_def draining_def get_ctx_def deref_def)
next
  case (Some c)
  with assms(1) obtain F q qs where c: "p \<noteq> 0" "queue_at w (buf_write c) F (q # qs)" "wctx_ok w q"
    by (auto simp: draining_def)
  show ?thesis
  proof (rule round_front [OF c(1) Some c(2,3), where E = E and U = U])
    fix x :: ixfd_sock_write_ctx and d off bs
    let ?r = "ask E (Sys (SysWrite (c_fd c) (drop off bs))) w"
    let ?n = "word_of_int ?r :: size_t"
    let ?v = "w\<lparr>hist := (Sys (SysWrite (c_fd c) (drop off bs)), ?r) # hist w\<rparr>"
    let ?y = "x\<lparr>len_remain := len_remain x - ?n, w_data := (d, off + unat ?n)\<rparr>"
    assume y: "q \<noteq> 0" "wctxs w q = Some x" "w_data x = (d, off)" "data_org x = d" "d \<noteq> 0" "bufs w d = Some bs"
      "length bs = off + unat (len_remain x)" "0 < len_remain x" and
      run: "write_round E U p w = (let n = ?n; v = ?v in if len_remain x \<le> n
          then bnd (ixut_cycqueue_dequeue (buf_write c) v) (\<lambda>(_, w).
               bnd (get_wctx q w) (\<lambda>x.
               bnd (if w_cb x \<noteq> 0 then invoke U (w_cb x) [p, cb_args x] w else Inr w) (\<lambda>w.
               bnd (get_wctx q w) (\<lambda>x.
               bnd (free_buf (data_org x) w) (\<lambda>w.
               bnd (free_ctx p w) (\<lambda>w. Inr (True, w)))))))
          else Inr (True, if 0 < n
               then v\<lparr>wctxs := (wctxs w)(q \<mapsto> x\<lparr>len_remain := len_remain x - n, w_data := (d, off + unat n)\<rparr>)\<rparr>
               else v))"
    show ?thesis
    proof (cases "len_remain x \<le> ?n")
      case True
      with trans [OF run [symmetric] assms(2)] have "b \<and> ctxs v p = None"
        by (auto simp: Let_def bnd_eq_Inr dest: free_ctx_gone [OF _ c(1)])
      with c(1) show ?thesis by (simp add: draining_def)
    next
      case False
      then have less: "?n < len_remain x" by simp
      then have u: "unat (len_remain x - ?n) = unat (len_remain x) - unat ?n" by (simp add: unat_sub less_imp_le)
      have pos: "0 < len_remain x - ?n" using less by (metis diff_eq_diff_eq word_neq_0_conv right_minus_eq less_irrefl)
      have le: "unat ?n \<le> unat (len_remain x)" using less by (simp add: word_less_nat_alt)
      have "v = (if 0 < ?n then ?v\<lparr>wctxs := (wctxs w)(q \<mapsto> ?y)\<rparr> else ?v)" "b"
        using run assms(2) False by (simp_all add: Let_def)
      moreover have "draining p (?v\<lparr>wctxs := (wctxs w)(q \<mapsto> ?y)\<rparr>)"
        using c(1,2) Some y u pos le
        by (intro drainingI [where c = c and F = F and q = q and qs = qs])
          (simp_all add: wctx_ok_def queue_at_def)
      moreover have "draining p ?v"
        using c(1,2) Some y by (intro drainingI [where c = c and F = F and q = q and qs = qs])
          (simp_all add: wctx_ok_def queue_at_def)
      ultimately show ?thesis by simp
    qed
  qed
qed

text \<open>So the loop never comes to its end.\<close>

lemma draining_loop:
  assumes "write_loop E U p w = Some r" "draining p w"
  shows "is_fault r"
proof -
  have "draining p w \<longrightarrow> is_fault r"
  proof (rule write_loop.raw_induct [OF _ assms(1), where P = "\<lambda>E U p w r. draining p w \<longrightarrow> is_fault r"])
    fix f E U p w r
    assume ih: "\<And>E U p w r. f E U p w = Some r \<Longrightarrow> draining p w \<longrightarrow> is_fault r"
      and run: "(case write_round E U p w of Inl e \<Rightarrow> Some (Inl e)
        | Inr (again, w) \<Rightarrow> if again then f E U p w else Some (Inr w)) = Some r"
    show "draining p w \<longrightarrow> is_fault r"
    proof (cases "write_round E U p w")
      case (Inl e)
      with run show ?thesis by auto
    next
      case (Inr y)
      obtain b v where y: "y = (b, v)" by (cases y)
      with draining_round [of p w E U b v] Inr have "draining p w \<longrightarrow> b \<and> draining p v" by blast
      with ih [of E U p v r] run Inr y show ?thesis by auto
    qed
  qed
  with assms(2) show ?thesis by blast
qed

lemma write_cb_exec:
  assumes "ev \<noteq> 0" "ios w ev = Some e" "io_data e = p" "p \<noteq> 0"
  shows "ixfd_commonsock_write_cb E U l ev w = after (write_loop E U p w) (\<lambda>w.
     Some (bnd (set_ctx (\<lambda>c. c\<lparr>write_launched := False\<rparr>) p w) (ev_io_stop l ev)))"
  using assms by (simp add: ixfd_commonsock_write_cb_def after_def cstmt)

text \<open>
  C24: the write handler.  With nothing to write it stops its watcher and marks the writing as not
  launched.  But with something to write it never returns normally, whatever the kernel answers and
  whatever the callbacks of the writes do: every run that ends is a fault.  As soon as one write is
  completed (or refused with -1, which counts as completed), the handler frees the connection instead
  of the write context; if the write has no callback, or one that leaves these objects alone, the next
  test of the loop reads the freed connection.
\<close>

theorem write_handler_outcomes:
  assumes "conn_at w p c s k" "queue_at w (buf_write c) F ps" "ev \<noteq> 0" "ios w ev = Some e" "io_data e = p"
  shows "(ps = [] \<longrightarrow> (\<exists>v. ixfd_commonsock_write_cb E U l ev w = Some (Inr v) \<and>
       hist v = (Ev (EvIoStop l ev), 0) # hist w \<and> ctxs v = (ctxs w)(p \<mapsto> c\<lparr>write_launched := False\<rparr>))) \<and>
    (\<forall>q qs x bs. ps = q # qs \<longrightarrow> wctx_ok w q \<longrightarrow> wctxs w q = Some x \<longrightarrow>
       bufs w (fst (w_data x)) = Some bs \<longrightarrow>
       (\<forall>r. ixfd_commonsock_write_cb E U l ev w = Some r \<longrightarrow> is_fault r) \<and>
       (leaves_writes U (w_cb x) \<longrightarrow> len_remain x \<le> word_of_int (ask E (Sys (SysWrite (c_fd c) (drop (snd (w_data x)) bs))) w) \<longrightarrow>
          ixfd_commonsock_write_cb E U l ev w = Some (Inl Dangling)))"
proof -
  have c: "p \<noteq> 0" "ctxs w p = Some c" using assms(1) by (simp_all add: conn_at_def)
  note run = write_cb_exec [OF assms(3-5) c(1), of E U l]
  have "\<exists>v. ixfd_commonsock_write_cb E U l ev w = Some (Inr v) \<and>
       hist v = (Ev (EvIoStop l ev), 0) # hist w \<and> ctxs v = (ctxs w)(p \<mapsto> c\<lparr>write_launched := False\<rparr>)" if "ps = []"
  proof -
    have "write_round E U p w = Inr (False, w)"
      using c empty_exec [OF assms(2)] that by (simp add: write_round_def cstmt)
    then have "write_loop E U p w = Some (Inr w)" by (subst write_loop.simps) simp
    with run c assms(3,4) show ?thesis by (simp add: after_def cstmt)
  qed
  moreover have "(\<forall>r. ixfd_commonsock_write_cb E U l ev w = Some r \<longrightarrow> is_fault r) \<and>
     (leaves_writes U (w_cb x) \<longrightarrow> len_remain x \<le> word_of_int (ask E (Sys (SysWrite (c_fd c) (drop (snd (w_data x)) bs))) w) \<longrightarrow>
          ixfd_commonsock_write_cb E U l ev w = Some (Inl Dangling))"
    if q: "ps = q # qs" "wctx_ok w q" "wctxs w q = Some x" "bufs w (fst (w_data x)) = Some bs" for q qs x bs
  proof (intro conjI allI impI)
    fix r assume "ixfd_commonsock_write_cb E U l ev w = Some r"
    moreover have "draining p w" using c assms(2) q by (intro drainingI) simp_all
    ultimately show "is_fault r"
      using run draining_loop [of E U p w] by (auto simp: after_def split: option.splits sum.splits)
  next
    assume lw: "leaves_writes U (w_cb x)"
      and n: "len_remain x \<le> word_of_int (ask E (Sys (SysWrite (c_fd c) (drop (snd (w_data x)) bs))) w)"
    from assms(2) q(1) have "queue_at w (buf_write c) F (q # qs)" by simp
    from round_completed [OF c this q(2,3) lw q(4) n] obtain v where
      v: "write_round E U p w = Inr (True, v)" "ctxs v p = None" by auto
    from v(2) c(1) have "write_round E U p v = Inl Dangling" by (simp add: write_round_def get_ctx_def cstmt)
    then have "write_loop E U p v = Some (Inl Dangling)" by (subst write_loop.simps) simp
    with v(1) have "write_loop E U p w = Some (Inl Dangling)" by (subst write_loop.simps) simp
    with run show "ixfd_commonsock_write_cb E U l ev w = Some (Inl Dangling)" by (simp add: after_def)
  qed
  ultimately show ?thesis by blast
qed

text \<open>The kernel takes both pending bytes of a write with a callback that returns.\<close>

definition busy_called :: sworld where
  "busy_called = busy_conn\<lparr>wctxs := map_option (w_cb_update (\<lambda>_. 8)) \<circ> wctxs busy_conn\<rparr>"

theorem write_handler_outcomes_witness:
  "ixfd_commonsock_write_cb (calm\<lparr>answer := \<lambda>h c. 2\<rparr>) (\<lambda>f xs w. Inr w) 9 5 busy_called = Some (Inl Dangling)"
proof -
  have at: "conn_at busy_called 3 one_ctx one_sock \<lparr>state = 0, evl = 9\<rparr>"
    using busy_conn_at by (simp add: conn_at_def busy_called_def)
  have q: "queue_at busy_called (buf_write one_ctx) {7, 8, 11} [9]"
    using busy_conn_queue by (simp add: queue_at_def busy_called_def)
  have e: "ios busy_called 5 = Some \<lparr>io_cb = Ixfd_commonsock_write_cb, io_fd = 11, io_events = EV_WRITE, io_data = 3\<rparr>"
    by (simp add: busy_called_def busy_conn_def one_conn_def)
  have "wctx_ok busy_called 9" using busy_conn_pending(1) by (simp add: wctx_ok_def busy_called_def busy_conn_def)
  moreover have "wctxs busy_called 9 = Some \<lparr>w_data = (10, 0), len_remain = 2, w_cb = 8, data_org = 10, cb_args = 7\<rparr>"
    "bufs busy_called 10 = Some [65, 66]" by (simp_all add: busy_called_def busy_conn_def)
  moreover have "leaves_writes (\<lambda>f xs (w :: sworld). Inr w) f" for f by (simp add: leaves_writes_def)
  ultimately show ?thesis
    using write_handler_outcomes [OF at q _ e, of "calm\<lparr>answer := \<lambda>h c. 2\<rparr>" "\<lambda>f xs w. Inr w" 9]
    by (simp add: ask_def)
qed

end
