(* ===== verification/SockConn.thy ===== *)
theory SockConn
  imports SockSpec
begin

text \<open>
  The properties of connections and sockets: their creation and destruction, what the read handler
  hands to the callback, the accept and connect handlers, and the opening and closing of sockets.
\<close>

section \<open>Creating and freeing a connection\<close>

lemma malloc_io_exec:
  "plentiful E \<Longrightarrow> malloc_io E w = (Suc (brk w), w\<lparr>brk := Suc (brk w), hist := (Malloc, ask E Malloc w) # hist w,
     ios := (ios w)(Suc (brk w) \<mapsto> \<lparr>io_cb = Ixfd_commonsock_read_cb,
       io_fd = int (junk E ((Malloc, ask E Malloc w) # hist w) 0), io_events = junk E ((Malloc, ask E Malloc w) # hist w) 1,
       io_data = junk E ((Malloc, ask E Malloc w) # hist w) 2\<rparr>)\<rparr>)"
  by (simp add: malloc_io_def cstmt Let_def)

text \<open>A watcher fresh from malloc after \<open>ev_init\<close> and \<open>ev_io_set\<close>.\<close>

lemma watcher_exec:
  "p \<noteq> 0 \<Longrightarrow> ios w p = Some e \<Longrightarrow>
   bnd (ev_init_io p h w) (\<lambda>w. bnd (ev_io_set p fd evs w) f) =
     f (w\<lparr>hist := (Ev (EvInit p), 0) # hist w,
          ios := (ios w)(p \<mapsto> e\<lparr>io_cb := h, io_fd := fd, io_events := evs\<rparr>)\<rparr>)"
  by (simp add: ev_init_io_def ev_io_set_def cstmt emit_def)

lemma set_bufread_len_exec:
  assumes "p \<noteq> 0" "0 < len" "ctxs w p = Some c" "buf_read c = 0 \<or> bufs w (buf_read c) \<noteq> None" "alloc_ok E w"
    "buf_read c \<noteq> Suc (brk w)"
  shows "ixfd_commonsock_set_bufread_len E p len w = Inr (w\<lparr>brk := Suc (brk w),
      hist := (Malloc, ask E Malloc w) # hist w,
      bufs := (if buf_read c = 0 then bufs w else (bufs w)(buf_read c := None))(Suc (brk w) \<mapsto>
        map (\<lambda>i. of_nat (junk E ((Malloc, ask E Malloc w) # hist w) i)) [0..<unat (len + 1)]),
      ctxs := (ctxs w)(p \<mapsto> c\<lparr>buf_read := Suc (brk w), size_bufread := len\<rparr>)\<rparr>)"
  using assms
  by (cases "buf_read c = 0")
    (auto simp: ixfd_commonsock_set_bufread_len_def malloc_buf_def cstmt Let_def fun_upd_twist)

lemma queue_create_exec:
  "plentiful E \<Longrightarrow> ixut_cycqueue_create E w = Inr (Suc (brk w), w\<lparr>brk := Suc (Suc (brk w)),
     hist := (Malloc, ask E Malloc (snd (malloc E w))) # (Malloc, ask E Malloc w) # hist w,
     nodes := (nodes w)(Suc (brk w) \<mapsto> \<lparr>q_data = memset_0F, q_next = Suc (Suc (brk w))\<rparr>,
                        Suc (Suc (brk w)) \<mapsto> \<lparr>q_data = memset_0F, q_next = Suc (Suc (brk w))\<rparr>)\<rparr>)"
  by (simp add: ixut_cycqueue_create_def malloc_node_def cstmt Let_def ask_def fun_upd_twist)

text \<open>The connection \<open>ixfd_commonsock_create_ctx\<close> makes at the address \<open>p\<close>, and its watchers.\<close>

definition fresh_ctx :: "addr \<Rightarrow> addr \<Rightarrow> int \<Rightarrow> ixfd_sock \<Rightarrow> ixfd_conn_ctx" where
  "fresh_ctx p sk fd s = zero_ctx\<lparr>c_sock := sk, c_fd := fd, event_read := p + 1, event_write := p + 2,
     buf_write := p + 4, size_bufread := 4096, buf_read := p + 3, c_cb_read := s_cb_read s\<rparr>"

lemma create_ctx_exec:
  assumes "plentiful E" "sk \<noteq> 0" "socks w sk = Some s" "p = Suc (brk w)"
  shows "\<exists>v. ixfd_commonsock_create_ctx E sk fd w = Inr (p, v) \<and> brk v = p + 5 \<and>
      (\<forall>d. sent d (hist v) = sent d (hist w)) \<and> user_calls (hist v) = user_calls (hist w) \<and>
      nodes v = (nodes w)(p + 4 \<mapsto> \<lparr>q_data = memset_0F, q_next = p + 5\<rparr>, p + 5 \<mapsto> \<lparr>q_data = memset_0F, q_next = p + 5\<rparr>) \<and>
      ctxs v = (ctxs w)(p \<mapsto> fresh_ctx p sk fd s) \<and>
      ios v = (ios w)(p + 2 \<mapsto> \<lparr>io_cb = Ixfd_commonsock_write_cb, io_fd = fd, io_events = EV_WRITE, io_data = p\<rparr>,
                     p + 1 \<mapsto> \<lparr>io_cb = Ixfd_commonsock_read_cb, io_fd = fd, io_events = EV_READ, io_data = p\<rparr>) \<and>
      (\<forall>a. a \<noteq> p + 3 \<longrightarrow> bufs v a = bufs w a) \<and>
      (case bufs v (p + 3) of None \<Rightarrow> False | Some b \<Rightarrow> length b = 4097) \<and>
      socks v = socks w \<and> contexts v = contexts w \<and> cargs v = cargs w \<and> wctxs v = wctxs w \<and>
      sworld.more v = sworld.more w"
proof -
  have n: "4 + brk w = Suc (Suc (Suc (Suc (brk w))))" "5 + brk w = Suc (Suc (Suc (Suc (Suc (brk w)))))"
    "6 + brk w = Suc (Suc (Suc (Suc (Suc (Suc (brk w))))))" by simp_all
  show ?thesis
    using assms
    by (simp add: ixfd_commonsock_create_ctx_def malloc_ctx_def cstmt malloc_io_exec watcher_exec Let_def)
      (simp add: set_bufread_len_exec queue_create_exec cstmt n fresh_ctx_def zero_ctx_def)
qed

lemma created_conn:
  assumes "sock_fresh w" "sk \<noteq> 0" "socks w sk = Some s" "s_context s \<noteq> 0" "contexts w (s_context s) = Some k"
    "plentiful E" "p = Suc (brk w)"
  shows "\<exists>v. ixfd_commonsock_create_ctx E sk fd w = Inr (p, v) \<and> conn_at v p (fresh_ctx p sk fd s) s k \<and>
     queue_at v (p + 4) {p + 4, p + 5} [] \<and> sock_fresh v \<and> (\<forall>d. sent d (hist v) = sent d (hist w)) \<and>
     user_calls (hist v) = user_calls (hist w) \<and>
     nodes v = (nodes w)(p + 4 \<mapsto> \<lparr>q_data = memset_0F, q_next = p + 5\<rparr>, p + 5 \<mapsto> \<lparr>q_data = memset_0F, q_next = p + 5\<rparr>) \<and>
     ctxs v = (ctxs w)(p \<mapsto> fresh_ctx p sk fd s) \<and>
     ios v = (ios w)(p + 2 \<mapsto> \<lparr>io_cb = Ixfd_commonsock_write_cb, io_fd = fd, io_events = EV_WRITE, io_data = p\<rparr>,
                     p + 1 \<mapsto> \<lparr>io_cb = Ixfd_commonsock_read_cb, io_fd = fd, io_events = EV_READ, io_data = p\<rparr>) \<and>
     (\<forall>a. a \<noteq> p + 3 \<longrightarrow> bufs v a = bufs w a) \<and>
     socks v = socks w \<and> contexts v = contexts w \<and> cargs v = cargs w \<and> wctxs v = wctxs w \<and>
      sworld.more v = sworld.more w"
proof -
  from create_ctx_exec [OF assms(6,2,3,7), of fd] obtain v where
    v: "ixfd_commonsock_create_ctx E sk fd w = Inr (p, v)" "brk v = p + 5" "\<forall>d. sent d (hist v) = sent d (hist w)"
      "nodes v = (nodes w)(p + 4 \<mapsto> \<lparr>q_data = memset_0F, q_next = p + 5\<rparr>, p + 5 \<mapsto> \<lparr>q_data = memset_0F, q_next = p + 5\<rparr>)"
      "ctxs v = (ctxs w)(p \<mapsto> fresh_ctx p sk fd s)"
      "ios v = (ios w)(p + 2 \<mapsto> \<lparr>io_cb = Ixfd_commonsock_write_cb, io_fd = fd, io_events = EV_WRITE, io_data = p\<rparr>,
                     p + 1 \<mapsto> \<lparr>io_cb = Ixfd_commonsock_read_cb, io_fd = fd, io_events = EV_READ, io_data = p\<rparr>)"
      "\<forall>a. a \<noteq> p + 3 \<longrightarrow> bufs v a = bufs w a" "case bufs v (p + 3) of None \<Rightarrow> False | Some b \<Rightarrow> length b = 4097"
      "socks v = socks w" "contexts v = contexts w" "cargs v = cargs w" "wctxs v = wctxs w"
      "sworld.more v = sworld.more w" "user_calls (hist v) = user_calls (hist w)" by blast
  have "conn_at v p (fresh_ctx p sk fd s) s k"
    using v(5,6,8-10) assms(2-5,7)
    by (simp add: conn_at_def fresh_ctx_def zero_ctx_def split: option.splits)
  moreover have "queue_at v (p + 4) {p + 4, p + 5} []"
    unfolding queue_at_def
    by (intro exI [of _ "p + 5"] exI [of _ "[]"]) (auto simp: ring_def cells_def next_is_def v(4))
  moreover have "sock_fresh v"
    using assms(1,7) v by (auto simp: sock_fresh_def nodes_ok_def)
  ultimately show ?thesis using v by (intro exI [of _ v]) simp
qed

lemma freectx_exec:
  assumes "conn_at w p c s k" "queue_at w (buf_write c) F ps"
  shows "ixfd_commonsock_freectx p w = Some (Inr (w\<lparr>
     ios := (ios w)(event_read c := None, event_write c := None), bufs := (bufs w)(buf_read c := None),
     nodes := nodes w |` (- F), ctxs := (ctxs w)(p := None)\<rparr>))"
proof -
  from assms(1) obtain r e b where c: "p \<noteq> 0" "ctxs w p = Some c" "event_read c \<noteq> 0" "ios w (event_read c) = Some r"
    "event_write c \<noteq> 0" "ios w (event_write c) = Some e" "event_read c \<noteq> event_write c"
    "buf_read c \<noteq> 0" "bufs w (buf_read c) = Some b" by (auto simp: conn_at_def split: option.splits)
  let ?w = "w\<lparr>ios := (ios w)(event_read c := None, event_write c := None), bufs := (bufs w)(buf_read c := None)\<rparr>"
  have q: "queue_at ?w (buf_write c) F ps" using assms(2) by (simp add: queue_at_def)
  from cycqueue_free_exec [OF q] c show ?thesis
    by (simp add: ixfd_commonsock_freectx_def after_def cstmt)
qed

text \<open>
  C12: the life of a connection's memory.  Creating a connection for a live socket gives one that is
  live, inactive, dispatches its two watchers to the read and the write handler with itself as their
  argument, reads through a buffer of 4096 bytes and has an empty write queue; freeing it gives back
  all its memory, so the heaps are what they were.
\<close>

theorem connection_create_free:
  assumes "sock_fresh w" "sk \<noteq> 0" "socks w sk = Some s" "s_context s \<noteq> 0" "contexts w (s_context s) = Some k"
    "plentiful E"
  shows "\<exists>p v c u. ixfd_commonsock_create_ctx E sk fd w = Inr (p, v) \<and> conn_at v p c s k \<and> sock_fresh v \<and>
    c_fd c = fd \<and> \<not> c_active c \<and> \<not> write_launched c \<and> size_bufread c = 4096 \<and> c_cb_read c = s_cb_read s \<and>
    ixut_cycqueue_empty (buf_write c) v = Inr True \<and>
    (\<exists>e. ios v (event_read c) = Some e \<and> io_cb e = Ixfd_commonsock_read_cb \<and> io_fd e = fd \<and> io_data e = p) \<and>
    (\<exists>e. ios v (event_write c) = Some e \<and> io_cb e = Ixfd_commonsock_write_cb \<and> io_fd e = fd \<and> io_data e = p) \<and>
    ixfd_commonsock_freectx p v = Some (Inr u) \<and>
    nodes u = nodes w \<and> ctxs u = ctxs w \<and> ios u = ios w \<and> bufs u = bufs w \<and> socks u = socks w \<and>
    wctxs u = wctxs w \<and> cargs u = cargs w"
proof -
  let ?p = "Suc (brk w)" let ?c = "fresh_ctx ?p sk fd s"
  from created_conn [OF assms refl, of fd] obtain v where
    v: "ixfd_commonsock_create_ctx E sk fd w = Inr (?p, v)" "conn_at v ?p ?c s k"
      "queue_at v (?p + 4) {?p + 4, ?p + 5} []" "sock_fresh v"
      "nodes v = (nodes w)(?p + 4 \<mapsto> \<lparr>q_data = memset_0F, q_next = ?p + 5\<rparr>, ?p + 5 \<mapsto> \<lparr>q_data = memset_0F, q_next = ?p + 5\<rparr>)"
      "ctxs v = (ctxs w)(?p \<mapsto> ?c)"
      "ios v = (ios w)(?p + 2 \<mapsto> \<lparr>io_cb = Ixfd_commonsock_write_cb, io_fd = fd, io_events = EV_WRITE, io_data = ?p\<rparr>,
                     ?p + 1 \<mapsto> \<lparr>io_cb = Ixfd_commonsock_read_cb, io_fd = fd, io_events = EV_READ, io_data = ?p\<rparr>)"
      "\<forall>a. a \<noteq> ?p + 3 \<longrightarrow> bufs v a = bufs w a" "socks v = socks w" "cargs v = cargs w" "wctxs v = wctxs w" by blast
  have bw: "buf_write ?c = ?p + 4" "event_read ?c = ?p + 1" "event_write ?c = ?p + 2" "buf_read ?c = ?p + 3"
    by (simp_all add: fresh_ctx_def)
  let ?u = "v\<lparr>ios := (ios v)(?p + 1 := None, ?p + 2 := None), bufs := (bufs v)(?p + 3 := None),
     nodes := nodes v |` (- {?p + 4, ?p + 5}), ctxs := (ctxs v)(?p := None)\<rparr>"
  have f: "ixfd_commonsock_freectx ?p v = Some (Inr ?u)"
    using freectx_exec [OF v(2), of "{?p + 4, ?p + 5}" "[]"] v(3) unfolding bw by blast
  have old: "nodes w a = None \<and> ctxs w a = None \<and> ios w a = None \<and> bufs w a = None" if "brk w < a" for a
    using assms(1) that by (auto simp: sock_fresh_def nodes_ok_def)
  have "nodes v |` (- {?p + 4, ?p + 5}) = nodes w"
    using old [of "?p + 4"] old [of "?p + 5"] by (auto simp: v(5) fun_eq_iff restrict_map_def)
  moreover have "(ctxs v)(?p := None) = ctxs w" using old [of ?p] by (auto simp: v(6) fun_eq_iff)
  moreover have "(ios v)(?p + 1 := None, ?p + 2 := None) = ios w"
    using old [of "?p + 1"] old [of "?p + 2"] by (auto simp: v(7) fun_eq_iff)
  moreover have "(bufs v)(?p + 3 := None) = bufs w" using old [of "?p + 3"] v(8) by (auto simp: fun_eq_iff)
  moreover have "ixut_cycqueue_empty (buf_write ?c) v = Inr True" using empty_exec [OF v(3)] bw(1) by simp
  ultimately show ?thesis
    using v f by (intro exI [of _ ?p] exI [of _ v] exI [of _ ?c] exI [of _ ?u]) (simp add: fresh_ctx_def zero_ctx_def)
qed

theorem connection_create_free_witness:
  "\<exists>p v u. ixfd_commonsock_create_ctx calm 2 12 one_conn = Inr (p, v) \<and>
     ixfd_commonsock_freectx p v = Some (Inr u) \<and> ctxs u = ctxs one_conn \<and> nodes u = nodes one_conn"
proof -
  have "socks one_conn 2 = Some one_sock" "s_context one_sock = 1" "contexts one_conn 1 = Some \<lparr>state = 0, evl = 9\<rparr>"
    by (simp_all add: one_conn_def one_sock_def)
  with connection_create_free [OF one_conn_fresh, of 2 one_sock _ calm 12] show ?thesis by fastforce
qed

end
