(* ===== verification/SockRead.thy ===== *)
theory SockRead
  imports SockConn
begin

text \<open>
  The properties of reading: the read buffer and its length, what the read handler hands to the
  callback, and what happens at the end of the stream.
\<close>

section \<open>The read handler\<close>

lemma conn_atE:
  assumes "conn_at w p c s k"
  obtains r e b where "p \<noteq> 0" "ctxs w p = Some c" "c_sock c \<noteq> 0" "socks w (c_sock c) = Some s"
    "s_context s \<noteq> 0" "contexts w (s_context s) = Some k"
    "event_read c \<noteq> 0" "ios w (event_read c) = Some r" "event_write c \<noteq> 0" "ios w (event_write c) = Some e"
    "event_read c \<noteq> event_write c" "buf_read c \<noteq> 0" "bufs w (buf_read c) = Some b"
    "length b = Suc (unat (size_bufread c))"
  using assms by (auto simp: conn_at_def split: option.splits)

text \<open>Closing a live connection.\<close>

lemma close_exec:
  assumes "conn_at w p c s k"
  shows "ixfd_commonsock_close E p w = Inr (w\<lparr>ctxs := (ctxs w)(p \<mapsto> c\<lparr>c_active := False\<rparr>),
     hist := (Sys (SysClose (c_fd c)), answer E ((Ev (EvIoStop (evl k) (event_read c)), 0) # hist w) (Sys (SysClose (c_fd c)))) #
             (Ev (EvIoStop (evl k) (event_read c)), 0) # hist w\<rparr>)"
  using assms
  by (elim conn_atE) (simp add: ixfd_commonsock_close_def cstmt ask_def emit_def)

text \<open>
  What the kernel documents of \<open>read\<close>: it returns -1 or the number of bytes it stored, at most as
  many as were asked for (and never more than an \<open>int\<close> holds).
\<close>

definition read_ok :: "env \<Rightarrow> bool" where
  "read_ok E \<longleftrightarrow> (\<forall>h fd len. -1 \<le> answer E h (Sys (SysRead fd len)) \<and>
     answer E h (Sys (SysRead fd len)) \<le> int (unat len) \<and> answer E h (Sys (SysRead fd len)) < 2 ^ 31 \<and>
     length (input E h (Sys (SysRead fd len))) = nat (answer E h (Sys (SysRead fd len))))"

lemma int_result: "- (2 ^ 31) \<le> r \<Longrightarrow> r < 2 ^ 31 \<Longrightarrow> sint (word_of_int r :: 32 word) = r"
  by (simp add: signed_of_int signed_take_bit_int_eq_self)

text \<open>The cleared buffer after a read: the bytes received, then zeros.\<close>

lemma read_fill:
  assumes "p \<noteq> 0" "bufs w p = Some b" "length b = Suc (unat len)" "len + 1 \<noteq> 0" "read_ok E"
    "r = answer E (hist w) (Sys (SysRead fd len))" "got = input E (hist w) (Sys (SysRead fd len))"
  shows "bnd (store (replicate (unat (len + 1)) 0) p w) (\<lambda>w. bnd (sys_read E fd p len w) f) =
    f (r, w\<lparr>hist := (Sys (SysRead fd len), r) # hist w,
            bufs := (bufs w)(p \<mapsto> got @ replicate (Suc (unat len) - length got) 0)\<rparr>)"
    "length got = nat r" "-1 \<le> r" "r \<le> int (unat len)"
proof -
  have ok: "-1 \<le> r" "r \<le> int (unat len)" "r < 2 ^ 31" "length got = nat r"
    using assms(5-7) by (auto simp: read_ok_def)
  have n: "unat (len + 1) = Suc (unat len)" using assms(4) using unatSuc [of len] by (simp add: add.commute)
  have g: "length got \<le> Suc (unat len)" using ok(2,4) by linarith
  have "take (nat r) got = got" using ok(4) by simp
  then show "bnd (store (replicate (unat (len + 1)) 0) p w) (\<lambda>w. bnd (sys_read E fd p len w) f) =
    f (r, w\<lparr>hist := (Sys (SysRead fd len), r) # hist w,
            bufs := (bufs w)(p \<mapsto> got @ replicate (Suc (unat len) - length got) 0)\<rparr>)"
    using assms(1-3,6,7) n g ok int_result [of r]
    by (simp add: cstmt sys_read_def Let_def ask_def del: replicate_Suc)
qed (use assms(5-7) in \<open>auto simp: read_ok_def\<close>)

text \<open>What the read handler does, by the result of the read.\<close>

lemma read_run:
  assumes "conn_at w p c s k" "ios w ev = Some e" "ev \<noteq> 0" "io_data e = p" "\<not> passive_read s"
    "read_ok E" "size_bufread c + 1 \<noteq> 0" "r = ask E (Sys (SysRead (c_fd c) (size_bufread c))) w"
    "got = input E (hist w) (Sys (SysRead (c_fd c) (size_bufread c)))"
  defines "v \<equiv> w\<lparr>hist := (Sys (SysRead (c_fd c) (size_bufread c)), r) # hist w,
      bufs := (bufs w)(buf_read c \<mapsto> got @ replicate (Suc (unat (size_bufread c)) - length got) 0)\<rparr>"
  shows "ixfd_commonsock_read_cb E U l ev w =
      (if 0 < r then (if c_cb_read c \<noteq> 0 then invoke U (c_cb_read c) [p, buf_read c, nat r] v else Inr v)
       else if r < 0 then Inr v
       else bnd (if cb_close s \<noteq> 0 then invoke U (cb_close s) [p, 0] v else Inr v) (ixfd_commonsock_close E p))"
    "conn_at v p c s k" "length got = nat r" "nat r \<le> unat (size_bufread c)"
proof -
  from assms(1) obtain b where c: "p \<noteq> 0" "ctxs w p = Some c" "c_sock c \<noteq> 0" "socks w (c_sock c) = Some s"
    "buf_read c \<noteq> 0" "bufs w (buf_read c) = Some b" "length b = Suc (unat (size_bufread c))" by (elim conn_atE)
  have r: "r = answer E (hist w) (Sys (SysRead (c_fd c) (size_bufread c)))" using assms(8) by (simp add: ask_def)
  note fill = read_fill [OF c(5-7) assms(7,6) r assms(9)]
  show "ixfd_commonsock_read_cb E U l ev w =
      (if 0 < r then (if c_cb_read c \<noteq> 0 then invoke U (c_cb_read c) [p, buf_read c, nat r] v else Inr v)
       else if r < 0 then Inr v
       else bnd (if cb_close s \<noteq> 0 then invoke U (cb_close s) [p, 0] v else Inr v) (ixfd_commonsock_close E p))"
    using assms(2-5) c(1-4) by (simp add: ixfd_commonsock_read_cb_def cstmt Let_def fill(1) v_def)
  show g: "length got = nat r" "nat r \<le> unat (size_bufread c)" using fill(2,4) by linarith+
  show "conn_at v p c s k" using assms(1) g by (simp add: conn_at_def v_def)
qed

text \<open>
  C7: the read handler of a live connection that reads actively, has a read callback and whose socket
  has no close callback (the property about the close callback is another).  When bytes have arrived,
  the callback is invoked once with the connection, the buffer and the number of bytes; the buffer
  then holds exactly these bytes followed by zeros up to its end, so it is NUL-terminated, and no byte
  outside it was written.  After an error of the kernel the connection and its socket are as they
  were, nothing is invoked, but the buffer has been cleared.  At the end of the stream the buffer is
  cleared, the connection is made inactive, its read watcher stopped and its descriptor closed.
\<close>

theorem read_handler:
  assumes "conn_at w p c s k" "ios w ev = Some e" "ev \<noteq> 0" "io_data e = p" "\<not> passive_read s"
    "read_ok E" "size_bufread c + 1 \<noteq> 0" "c_cb_read c \<noteq> 0" "cb_close s = 0"
    "r = ask E (Sys (SysRead (c_fd c) (size_bufread c))) w"
    "got = input E (hist w) (Sys (SysRead (c_fd c) (size_bufread c)))"
  shows "(0 < r \<longrightarrow> (\<exists>v b. ixfd_commonsock_read_cb E U l ev w = U (c_cb_read c) [p, buf_read c, nat r] v \<and>
       hd (hist v) = (Invoke (c_cb_read c) [p, buf_read c, nat r], 0) \<and> conn_at v p c s k \<and>
       length got = nat r \<and> nat r \<le> unat (size_bufread c) \<and>
       bufs v = (bufs w)(buf_read c \<mapsto> b) \<and> take (nat r) b = got \<and> b ! nat r = 0 \<and>
       length b = Suc (unat (size_bufread c)) \<and> ctxs v = ctxs w \<and> socks v = socks w)) \<and>
    (r < 0 \<longrightarrow> (\<exists>v. ixfd_commonsock_read_cb E U l ev w = Inr v \<and> ctxs v = ctxs w \<and> socks v = socks w \<and>
       bufs v = (bufs w)(buf_read c \<mapsto> replicate (Suc (unat (size_bufread c))) 0) \<and>
       hist v = (Sys (SysRead (c_fd c) (size_bufread c)), r) # hist w)) \<and>
    (r = 0 \<longrightarrow> (\<exists>v x. ixfd_commonsock_read_cb E U l ev w = Inr v \<and> ctxs v = (ctxs w)(p \<mapsto> c\<lparr>c_active := False\<rparr>) \<and>
       socks v = socks w \<and> bufs v = (bufs w)(buf_read c \<mapsto> replicate (Suc (unat (size_bufread c))) 0) \<and>
       hist v = (Sys (SysClose (c_fd c)), x) # (Ev (EvIoStop (evl k) (event_read c)), 0) #
                (Sys (SysRead (c_fd c) (size_bufread c)), r) # hist w))"
proof -
  let ?b = "got @ replicate (Suc (unat (size_bufread c)) - length got) 0"
  let ?v = "w\<lparr>hist := (Sys (SysRead (c_fd c) (size_bufread c)), r) # hist w, bufs := (bufs w)(buf_read c \<mapsto> ?b)\<rparr>"
  note step = read_run [OF assms(1-7,10,11)]
  have run: "ixfd_commonsock_read_cb E U l ev w =
     (if 0 < r then invoke U (c_cb_read c) [p, buf_read c, nat r] ?v
      else if r < 0 then Inr ?v else ixfd_commonsock_close E p ?v)"
    using step(1) [of U l] assms(8,9) by simp
  note at = step(2) and g = step(3,4)
  have at': "conn_at (emit (Invoke (c_cb_read c) [p, buf_read c, nat r]) ?v) p c s k"
    using at by (simp add: conn_at_def)
  have b: "take (nat r) ?b = got" "?b ! nat r = 0" "length ?b = Suc (unat (size_bufread c))"
    using g by (simp_all add: nth_append)
  show ?thesis
  proof (intro conjI impI)
    assume "0 < r"
    with run assms(8) at' b g show "\<exists>v b. ixfd_commonsock_read_cb E U l ev w = U (c_cb_read c) [p, buf_read c, nat r] v \<and>
       hd (hist v) = (Invoke (c_cb_read c) [p, buf_read c, nat r], 0) \<and> conn_at v p c s k \<and>
       length got = nat r \<and> nat r \<le> unat (size_bufread c) \<and>
       bufs v = (bufs w)(buf_read c \<mapsto> b) \<and> take (nat r) b = got \<and> b ! nat r = 0 \<and>
       length b = Suc (unat (size_bufread c)) \<and> ctxs v = ctxs w \<and> socks v = socks w"
      by (intro exI [of _ "emit (Invoke (c_cb_read c) [p, buf_read c, nat r]) ?v"] exI [of _ ?b])
        (simp add: invoke_def)
  next
    assume "r < 0"
    with run g show "\<exists>v. ixfd_commonsock_read_cb E U l ev w = Inr v \<and> ctxs v = ctxs w \<and> socks v = socks w \<and>
       bufs v = (bufs w)(buf_read c \<mapsto> replicate (Suc (unat (size_bufread c))) 0) \<and>
       hist v = (Sys (SysRead (c_fd c) (size_bufread c)), r) # hist w" by simp
  next
    assume "r = 0"
    with run close_exec [OF at, of E] g show "\<exists>v x. ixfd_commonsock_read_cb E U l ev w = Inr v \<and>
       ctxs v = (ctxs w)(p \<mapsto> c\<lparr>c_active := False\<rparr>) \<and> socks v = socks w \<and>
       bufs v = (bufs w)(buf_read c \<mapsto> replicate (Suc (unat (size_bufread c))) 0) \<and>
       hist v = (Sys (SysClose (c_fd c)), x) # (Ev (EvIoStop (evl k) (event_read c)), 0) #
                (Sys (SysRead (c_fd c) (size_bufread c)), r) # hist w" by simp
  qed
qed

text \<open>A kernel that has two bytes, 72 and 105, for every read of at least two.\<close>

definition two_bytes :: env where
  "two_bytes = calm\<lparr>answer := \<lambda>h c. case c of Sys (SysRead fd len) \<Rightarrow> (if 2 \<le> len then 2 else 0) | _ \<Rightarrow> 1,
     input := \<lambda>h c. case c of Sys (SysRead fd len) \<Rightarrow> (if 2 \<le> len then [72, 105] else []) | _ \<Rightarrow> []\<rparr>"

lemma two_bytes_ok: "read_ok two_bytes"
  by (auto simp: read_ok_def two_bytes_def word_le_def)

definition reading :: "ixfd_conn_ctx \<Rightarrow> sworld" where
  "reading c = one_conn\<lparr>ctxs := [3 \<mapsto> c]\<rparr>"

lemma reading_at: "conn_at (reading (one_ctx\<lparr>c_cb_read := 8\<rparr>)) 3 (one_ctx\<lparr>c_cb_read := 8\<rparr>) one_sock \<lparr>state = 0, evl = 9\<rparr>"
  by (simp add: conn_at_def reading_def one_conn_def one_ctx_def one_sock_def zero_ctx_def zero_sock_def)

theorem read_handler_witness:
  "\<exists>v. ixfd_commonsock_read_cb two_bytes (\<lambda>f xs w. Inr w) 9 4 (reading (one_ctx\<lparr>c_cb_read := 8\<rparr>)) = Inr v \<and>
     hd (hist v) = (Invoke 8 [3, 6, 2], 0) \<and> (\<exists>b. bufs v 6 = Some b \<and> take 2 b = [72, 105] \<and> b ! 2 = 0)"
proof -
  let ?c = "one_ctx\<lparr>c_cb_read := 8\<rparr>"
  have e: "ios (reading ?c) 4 = Some \<lparr>io_cb = Ixfd_commonsock_read_cb, io_fd = 11, io_events = EV_READ, io_data = 3\<rparr>"
    by (simp add: reading_def one_conn_def)
  have r: "2 = ask two_bytes (Sys (SysRead (c_fd ?c) (size_bufread ?c))) (reading ?c)"
    "[72, 105] = input two_bytes (hist (reading ?c)) (Sys (SysRead (c_fd ?c) (size_bufread ?c)))"
    by (simp_all add: ask_def two_bytes_def one_ctx_def)
  have "\<not> passive_read one_sock" "cb_close one_sock = 0" "size_bufread ?c + 1 \<noteq> 0" "buf_read ?c = 6"
    by (simp_all add: one_sock_def zero_sock_def one_ctx_def)
  with read_handler [OF reading_at e _ _ _ two_bytes_ok _ _ _ r, of "\<lambda>f xs w. Inr w" 9]
  show ?thesis by fastforce
qed

text \<open>The read handler at the end of the stream, up to the close callback.\<close>

lemma read_eof_exec:
  assumes "conn_at w p c s k" "ios w ev = Some e" "ev \<noteq> 0" "io_data e = p"
    "\<not> passive_read s" "read_ok E" "size_bufread c + 1 \<noteq> 0" "cb_close s \<noteq> 0"
    "ask E (Sys (SysRead (c_fd c) (size_bufread c))) w = 0"
  defines "v \<equiv> emit (Invoke (cb_close s) [p, 0]) (w\<lparr>hist := (Sys (SysRead (c_fd c) (size_bufread c)), 0) # hist w,
      bufs := (bufs w)(buf_read c \<mapsto> replicate (Suc (unat (size_bufread c))) 0)\<rparr>)"
  shows "ixfd_commonsock_read_cb E U l ev w = bnd (U (cb_close s) [p, 0] v) (ixfd_commonsock_close E p)"
    "conn_at v p c s k"
proof -
  note step = read_run [OF assms(1-7) assms(9) [symmetric] refl]
  have no: "input E (hist w) (Sys (SysRead (c_fd c) (size_bufread c))) = []" using step(3) by simp
  show "ixfd_commonsock_read_cb E U l ev w = bnd (U (cb_close s) [p, 0] v) (ixfd_commonsock_close E p)"
    using step(1) [of U l] assms(8) by (simp add: no invoke_def v_def del: replicate_Suc)
  show "conn_at v p c s k" using assms(1) by (simp add: conn_at_def v_def)
qed

text \<open>
  C25: the close callback at the end of the stream.  It runs before the connection is closed: if it
  leaves the connection alone, the connection is closed afterwards; but if it frees the connection,
  as the reference-counted wrapper does when it drops the last reference in its close callback, the
  handler then closes freed memory.
\<close>

theorem close_callback:
  assumes "conn_at w p c s k" "queue_at w (buf_write c) F ps" "ios w ev = Some e" "ev \<noteq> 0" "io_data e = p"
    "\<not> passive_read s" "read_ok E" "size_bufread c + 1 \<noteq> 0" "cb_close s \<noteq> 0"
    "ask E (Sys (SysRead (c_fd c) (size_bufread c))) w = 0"
  shows "\<exists>v. hd (hist v) = (Invoke (cb_close s) [p, 0], 0) \<and> conn_at v p c s k \<and>
    ixfd_commonsock_read_cb E U l ev w = bnd (U (cb_close s) [p, 0] v) (ixfd_commonsock_close E p) \<and>
    (\<forall>r. U (cb_close s) [p, 0] v = Inr r \<longrightarrow> conn_at r p c s k \<longrightarrow>
       (\<exists>z. ixfd_commonsock_read_cb E U l ev w = Inr z \<and> fst (hd (hist z)) = Sys (SysClose (c_fd c)))) \<and>
    (\<exists>r. ixfd_commonsock_freectx p v = Some (Inr r) \<and>
       (U (cb_close s) [p, 0] v = Inr r \<longrightarrow> ixfd_commonsock_read_cb E U l ev w = Inl Dangling))"
proof -
  let ?v = "emit (Invoke (cb_close s) [p, 0]) (w\<lparr>hist := (Sys (SysRead (c_fd c) (size_bufread c)), 0) # hist w,
      bufs := (bufs w)(buf_read c \<mapsto> replicate (Suc (unat (size_bufread c))) 0)\<rparr>)"
  have p: "p \<noteq> 0" using assms(1) by (elim conn_atE)
  note run = read_eof_exec(1) [OF assms(1,3-10), of U l] and at = read_eof_exec(2) [OF assms(1,3-10)]
  have q: "queue_at ?v (buf_write c) F ps" using assms(2) by (simp add: queue_at_def)
  from freectx_exec [OF at q] obtain z where z: "ixfd_commonsock_freectx p ?v = Some (Inr z)" "ctxs z p = None" by simp
  have "ixfd_commonsock_close E p z = Inl Dangling"
    using z(2) p by (simp add: ixfd_commonsock_close_def set_ctx_def modify_def deref_def)
  moreover have "\<exists>z. ixfd_commonsock_close E p r = Inr z \<and> fst (hd (hist z)) = Sys (SysClose (c_fd c))"
    if "conn_at r p c s k" for r using close_exec [OF that, of E] by simp
  ultimately show ?thesis using run at z(1) by (intro exI [of _ ?v]) auto
qed

text \<open>The kernel has nothing for a read of fewer than two bytes; the callback frees the connection.\<close>

definition closing_sock :: ixfd_sock where
  "closing_sock = one_sock\<lparr>cb_close := 5\<rparr>"

definition closing_conn :: sworld where
  "closing_conn = one_conn\<lparr>socks := [2 \<mapsto> closing_sock], ctxs := [3 \<mapsto> one_ctx\<lparr>size_bufread := 1\<rparr>], bufs := [6 \<mapsto> [0, 0]]\<rparr>"

definition freeing_user :: "sworld user" where
  "freeing_user f xs w = (case ixfd_commonsock_freectx (hd xs) w of None \<Rightarrow> Inr w | Some r \<Rightarrow> r)"

theorem close_callback_witness:
  "ixfd_commonsock_read_cb two_bytes freeing_user 9 4 closing_conn = Inl Dangling"
proof -
  let ?c = "one_ctx\<lparr>size_bufread := 1\<rparr>"
  have at: "conn_at closing_conn 3 ?c closing_sock \<lparr>state = 0, evl = 9\<rparr>"
    by (simp add: conn_at_def closing_conn_def closing_sock_def one_conn_def one_ctx_def one_sock_def zero_ctx_def zero_sock_def)
  have q: "queue_at closing_conn (buf_write ?c) {7, 8} []"
    using one_conn_queue by (simp add: queue_at_def closing_conn_def)
  have e: "ios closing_conn 4 = Some \<lparr>io_cb = Ixfd_commonsock_read_cb, io_fd = 11, io_events = EV_READ, io_data = 3\<rparr>"
    by (simp add: closing_conn_def one_conn_def)
  have "\<not> passive_read closing_sock" "cb_close closing_sock \<noteq> 0" "size_bufread ?c + 1 \<noteq> 0"
    "ask two_bytes (Sys (SysRead (c_fd ?c) (size_bufread ?c))) closing_conn = 0"
    by (simp_all add: closing_sock_def one_sock_def zero_sock_def ask_def two_bytes_def word_le_def)
  with close_callback [OF at q e _ _ _ two_bytes_ok, of freeing_user 9]
  show ?thesis by (auto simp: freeing_user_def)
qed

section \<open>The length of the read buffer\<close>

text \<open>
  Setting the length of the read buffer.  When malloc delivers, the connection is live again
  with the new length, its old buffer is freed and its other fields are as before; when malloc
  refuses, nothing changes.
\<close>

theorem set_bufread_len_functional:
  assumes "conn_at w p c s k" "sock_fresh w" "0 < len" "len + 1 \<noteq> 0"
  shows "if alloc_ok E w
    then \<exists>v. ixfd_commonsock_set_bufread_len E p len w = Inr v \<and>
      conn_at v p (c\<lparr>buf_read := Suc (brk w), size_bufread := len\<rparr>) s k \<and> bufs v (buf_read c) = None \<and>
      (\<forall>a. a \<noteq> buf_read c \<longrightarrow> a \<noteq> Suc (brk w) \<longrightarrow> bufs v a = bufs w a) \<and> sock_fresh v \<and>
      nodes v = nodes w \<and> wctxs v = wctxs w
    else ixfd_commonsock_set_bufread_len E p len w = Inr (w\<lparr>hist := (Malloc, 0) # hist w\<rparr>)"
proof (cases "alloc_ok E w")
  case True
  from assms(1) obtain b where c: "p \<noteq> 0" "ctxs w p = Some c" "buf_read c \<noteq> 0" "bufs w (buf_read c) = Some b"
    by (elim conn_atE)
  have b: "buf_read c \<le> brk w" using assms(2) c(4) by (auto simp: sock_fresh_def not_less [symmetric])
  have n: "unat (len + 1) = Suc (unat len)" using assms(4) unatSuc [of len] by (simp add: add.commute)
  let ?d = "map (\<lambda>i. of_nat (junk E ((Malloc, ask E Malloc w) # hist w) i)) [0..<unat (len + 1)] :: byte list"
  let ?c = "c\<lparr>buf_read := Suc (brk w), size_bufread := len\<rparr>"
  let ?v = "w\<lparr>brk := Suc (brk w), hist := (Malloc, ask E Malloc w) # hist w,
      bufs := ((bufs w)(buf_read c := None))(Suc (brk w) \<mapsto> ?d), ctxs := (ctxs w)(p \<mapsto> ?c)\<rparr>"
  have "ixfd_commonsock_set_bufread_len E p len w = Inr ?v"
    using set_bufread_len_exec [OF c(1) assms(3) c(2) _ True] b c(3,4) by simp
  moreover have "conn_at ?v p ?c s k" using assms(1) n by (auto simp: conn_at_def)
  moreover have "p \<le> brk w" using assms(2) c(2) by (auto simp: sock_fresh_def not_less [symmetric])
  then have "sock_fresh ?v" using assms(2) b by (auto simp: sock_fresh_def nodes_ok_def)
  ultimately show ?thesis using True b by (intro if_P [THEN iffD2] exI [of _ ?v]) (simp_all del: map_upt_Suc)
next
  case False
  from assms(1) have "p \<noteq> 0" by (simp add: conn_at_def)
  with False assms(3) show ?thesis
    by (simp add: ixfd_commonsock_set_bufread_len_def malloc_buf_def cstmt Let_def)
qed

theorem set_bufread_len_functional_witness:
  "\<exists>v. ixfd_commonsock_set_bufread_len calm 3 100 one_conn = Inr v \<and> bufs v 6 = None"
proof -
  have "buf_read one_ctx = 6" by (simp add: one_ctx_def)
  with set_bufread_len_functional [OF one_conn_at one_conn_fresh, of 100 calm] show ?thesis by auto
qed

text \<open>
  C37: the one length that breaks the buffer.  For the largest \<open>size_t\<close> (the -1 of a script) the
  size of the allocation wraps around to 0: the connection gets an empty buffer that it takes for
  one of 2^64 - 1 bytes, and the next bytes to arrive are written out of bounds.
\<close>

theorem set_bufread_len_overflow:
  assumes "conn_at w p c s k" "sock_fresh w" "alloc_ok E w" "ios w ev = Some e" "ev \<noteq> 0" "io_data e = p"
    "\<not> passive_read s"
  shows "\<exists>v. ixfd_commonsock_set_bufread_len E p (-1) w = Inr v \<and> bufs v (Suc (brk w)) = Some [] \<and>
    ctxs v = (ctxs w)(p \<mapsto> c\<lparr>buf_read := Suc (brk w), size_bufread := -1\<rparr>) \<and>
    (0 < ask E (Sys (SysRead (c_fd c) (-1))) v \<longrightarrow> input E (hist v) (Sys (SysRead (c_fd c) (-1))) \<noteq> [] \<longrightarrow>
       ixfd_commonsock_read_cb E U l ev v = Inl OutOfBounds)"
proof -
  from assms(1) obtain b where c: "p \<noteq> 0" "ctxs w p = Some c" "buf_read c \<noteq> 0" "bufs w (buf_read c) = Some b"
    "c_sock c \<noteq> 0" "socks w (c_sock c) = Some s" by (elim conn_atE)
  have b: "buf_read c \<le> brk w" using assms(2) c(4) by (auto simp: sock_fresh_def not_less [symmetric])
  let ?c = "c\<lparr>buf_read := Suc (brk w), size_bufread := -1\<rparr>"
  let ?v = "w\<lparr>brk := Suc (brk w), hist := (Malloc, ask E Malloc w) # hist w,
      bufs := ((bufs w)(buf_read c := None))(Suc (brk w) \<mapsto> []), ctxs := (ctxs w)(p \<mapsto> ?c)\<rparr>"
  have "(0 :: size_t) < -1" by (simp add: word_less_def unsigned_minus_1_eq_mask mask_eq_exp_minus_1)
  then have "ixfd_commonsock_set_bufread_len E p (-1) w = Inr ?v"
    using set_bufread_len_exec [OF c(1) _ c(2) _ assms(3), of "-1"] b c(3,4) by simp
  moreover have "ixfd_commonsock_read_cb E U l ev ?v = Inl OutOfBounds"
    if "0 < ask E (Sys (SysRead (c_fd c) (-1))) ?v" "input E (hist ?v) (Sys (SysRead (c_fd c) (-1))) \<noteq> []"
  proof -
    have "0 < length (take (nat (ask E (Sys (SysRead (c_fd c) (-1))) ?v)) (input E (hist ?v) (Sys (SysRead (c_fd c) (-1)))))"
      using that by simp
    then show ?thesis
      using assms(4-7) c(1,5,6) by (simp add: ixfd_commonsock_read_cb_def cstmt Let_def sys_read_def ask_def)
  qed
  ultimately show ?thesis by (intro exI [of _ ?v]) simp
qed

theorem set_bufread_len_overflow_witness:
  "\<exists>v. ixfd_commonsock_set_bufread_len two_bytes 3 (-1) one_conn = Inr v \<and>
     ixfd_commonsock_read_cb two_bytes (\<lambda>f xs w. Inr w) 9 4 v = Inl OutOfBounds"
proof -
  have "alloc_ok two_bytes one_conn" "\<not> passive_read one_sock"
    by (simp_all add: alloc_ok_def ask_def two_bytes_def one_sock_def zero_sock_def)
  moreover have "ios one_conn 4 = Some \<lparr>io_cb = Ixfd_commonsock_read_cb, io_fd = 11, io_events = EV_READ, io_data = 3\<rparr>"
    by (simp add: one_conn_def)
  moreover have "0 < ask two_bytes (Sys (SysRead fd (-1))) w" "input two_bytes h (Sys (SysRead fd (-1))) \<noteq> []" for fd w h
    by (simp_all add: ask_def two_bytes_def word_le_def unsigned_minus_1_eq_mask mask_eq_exp_minus_1)
  ultimately show ?thesis
    using set_bufread_len_overflow [OF one_conn_at one_conn_fresh, of two_bytes 4 _ "\<lambda>f xs w. Inr w" 9] by fastforce
qed

end
