(* ===== verification/SockInv.thy ===== *)
theory SockInv
  imports SockWrite SockRead
begin

text \<open>
  The invariant of a connection, kept by what may happen to it short of its write handler and of its
  end: writes, its read handler, changes of the read buffer, closing, and whatever its callbacks do
  with the same operations.
\<close>

section \<open>The invariant\<close>

text \<open>
  The connection is live, its read buffer does not wrap, it has a read callback if its socket reads
  passively (the handler calls it unchecked then), its queue is a queue, and every pending write is
  live and keeps its bytes in a buffer of its own.
\<close>

definition conn_inv :: "addr \<Rightarrow> 'a sworld_scheme \<Rightarrow> bool" where
  "conn_inv p w \<longleftrightarrow> (\<exists>c s k F ps. conn_at w p c s k \<and> size_bufread c + 1 \<noteq> 0 \<and>
     (passive_read s \<longrightarrow> c_cb_read c \<noteq> 0) \<and> sock_fresh w \<and> queue_at w (buf_write c) F ps \<and>
     (\<forall>q \<in> set ps. wctx_ok w q \<and> (case wctxs w q of None \<Rightarrow> False | Some x \<Rightarrow> fst (w_data x) \<noteq> buf_read c)))"

text \<open>
  What may happen to the connection \<open>p\<close>.  The operations may run callbacks, of which \<open>keeps U p\<close> says
  what a client of the component has to provide: called in a state that satisfies the invariant, they
  return, in a state that satisfies it.
\<close>

inductive conn_step :: "env \<Rightarrow> 'a sworld_scheme user \<Rightarrow> addr \<Rightarrow> 'a sworld_scheme \<Rightarrow> 'a sworld_scheme \<Rightarrow> bool"
  for E U p where
  by_write: "length data = unat len \<Longrightarrow> ixfd_commonsock_write E U p data len f a w = Inr (b, v) \<Longrightarrow> conn_step E U p w v"
| by_read: "ios w ev = Some e \<Longrightarrow> ev \<noteq> 0 \<Longrightarrow> io_data e = p \<Longrightarrow> ixfd_commonsock_read_cb E U l ev w = Inr v \<Longrightarrow> conn_step E U p w v"
| by_bufread: "len + 1 \<noteq> 0 \<Longrightarrow> ixfd_commonsock_set_bufread_len E p len w = Inr v \<Longrightarrow> conn_step E U p w v"
| by_close: "ixfd_commonsock_close E p w = Inr v \<Longrightarrow> conn_step E U p w v"

definition keeps :: "'a sworld_scheme user \<Rightarrow> addr \<Rightarrow> bool" where
  "keeps U p \<longleftrightarrow> (\<forall>f xs w. conn_inv p w \<longrightarrow> (\<exists>v. U f xs w = Inr v \<and> conn_inv p v))"

text \<open>What the kernel documents of \<open>write\<close>: -1 or the number of bytes it took.\<close>

definition write_ok :: "env \<Rightarrow> bool" where
  "write_ok E \<longleftrightarrow> (\<forall>h fd bs. -1 \<le> answer E h (Sys (SysWrite fd bs)) \<and> answer E h (Sys (SysWrite fd bs)) \<le> int (length bs))"

section \<open>The operations keep it\<close>

lemma conn_invI:
  assumes "conn_at w p c s k" "size_bufread c + 1 \<noteq> 0" "passive_read s \<longrightarrow> c_cb_read c \<noteq> 0" "sock_fresh w"
    "queue_at w (buf_write c) F ps"
    "\<And>q. q \<in> set ps \<Longrightarrow> wctx_ok w q \<and> (\<exists>x. wctxs w q = Some x \<and> fst (w_data x) \<noteq> buf_read c)"
  shows "conn_inv p w"
  unfolding conn_inv_def using assms(1-5) by (intro exI conjI ballI; force dest: assms(6))

lemma conn_invE:
  assumes "conn_inv p w"
  obtains c s k F ps where "conn_at w p c s k" "size_bufread c + 1 \<noteq> 0" "sock_fresh w" "queue_at w (buf_write c) F ps"
    "\<And>q. q \<in> set ps \<Longrightarrow> wctx_ok w q" "\<And>q. q \<in> set ps \<Longrightarrow> \<exists>x. wctxs w q = Some x \<and> fst (w_data x) \<noteq> buf_read c"
    "passive_read s \<longrightarrow> c_cb_read c \<noteq> 0"
  using assms unfolding conn_inv_def by (fastforce split: option.splits)

text \<open>A change of the history only.\<close>

lemma conn_inv_hist: "conn_inv p (w\<lparr>hist := h\<rparr>) \<longleftrightarrow> conn_inv p w"
proof -
  have "conn_at (w\<lparr>hist := h\<rparr>) p c s k = conn_at w p c s k" "sock_fresh (w\<lparr>hist := h\<rparr>) = sock_fresh w"
    "queue_at (w\<lparr>hist := h\<rparr>) e F ps = queue_at w e F ps" "wctx_ok (w\<lparr>hist := h\<rparr>) q = wctx_ok w q" for c s k e F ps q
    using pending_same(2) [of "w\<lparr>hist := h\<rparr>" w q] by (simp_all add: conn_at_def sock_fresh_def nodes_ok_def queue_at_def)
  then show ?thesis by (simp add: conn_inv_def)
qed

lemma conn_inv_emit: "conn_inv p (emit c w) \<longleftrightarrow> conn_inv p w"
  using conn_inv_hist [of p _ w] by (simp add: emit_def)

lemma invoke_keeps:
  "keeps U p \<Longrightarrow> conn_inv p w \<Longrightarrow> f \<noteq> 0 \<Longrightarrow> \<exists>v. invoke U f xs w = Inr v \<and> conn_inv p v"
  using conn_inv_emit [of p "Invoke f xs" w] unfolding keeps_def invoke_def by auto

lemma callback_keeps:
  "keeps U p \<Longrightarrow> conn_inv p w \<Longrightarrow> \<exists>v. (if f \<noteq> 0 then invoke U f xs w else Inr w) = Inr v \<and> conn_inv p v"
  using invoke_keeps [of U p w f xs] by (cases "f = 0") auto

text \<open>Other contents of the read buffer, or other flags of the connection.\<close>

lemma conn_inv_bufs:
  assumes "conn_at w p c s k" "conn_inv p w" "length b = Suc (unat (size_bufread c))"
  shows "conn_inv p (w\<lparr>bufs := (bufs w)(buf_read c \<mapsto> b)\<rparr>)"
proof -
  from assms(2) obtain c' s' k' F ps where c: "conn_at w p c' s' k'" "size_bufread c' + 1 \<noteq> 0" "sock_fresh w"
    "queue_at w (buf_write c') F ps" "\<And>q. q \<in> set ps \<Longrightarrow> wctx_ok w q"
    "\<And>q. q \<in> set ps \<Longrightarrow> \<exists>x. wctxs w q = Some x \<and> fst (w_data x) \<noteq> buf_read c'" "passive_read s' \<longrightarrow> c_cb_read c' \<noteq> 0"
    by (elim conn_invE) blast
  have [simp]: "c' = c" "s' = s" using assms(1) c(1) by (simp_all add: conn_at_def)
  show ?thesis
  proof (rule conn_invI [where F = F and ps = ps])
    show "conn_at (w\<lparr>bufs := (bufs w)(buf_read c \<mapsto> b)\<rparr>) p c s k" using assms(1,3) by (simp add: conn_at_def)
    show "sock_fresh (w\<lparr>bufs := (bufs w)(buf_read c \<mapsto> b)\<rparr>)"
      using c(3) assms(1) by (auto simp: sock_fresh_def nodes_ok_def conn_at_def)
    show "queue_at (w\<lparr>bufs := (bufs w)(buf_read c \<mapsto> b)\<rparr>) (buf_write c) F ps" using c(4) by (simp add: queue_at_def)
    show "wctx_ok (w\<lparr>bufs := (bufs w)(buf_read c \<mapsto> b)\<rparr>) q \<and>
        (\<exists>x. wctxs (w\<lparr>bufs := (bufs w)(buf_read c \<mapsto> b)\<rparr>) q = Some x \<and> fst (w_data x) \<noteq> buf_read c)" if "q \<in> set ps" for q
      using c(5,6) [OF that] by (auto simp: wctx_ok_def)
  qed (use c(2,7) in simp_all)
qed

lemma conn_inv_flags:
  assumes "conn_at w p c s k" "conn_inv p w" "c' = c\<lparr>c_active := b\<rparr>"
  shows "conn_inv p (w\<lparr>ctxs := (ctxs w)(p \<mapsto> c')\<rparr>)"
proof -
  from assms(2) obtain d s' k' F ps where d: "conn_at w p d s' k'" "size_bufread d + 1 \<noteq> 0" "sock_fresh w"
    "queue_at w (buf_write d) F ps" "\<And>q. q \<in> set ps \<Longrightarrow> wctx_ok w q"
    "\<And>q. q \<in> set ps \<Longrightarrow> \<exists>x. wctxs w q = Some x \<and> fst (w_data x) \<noteq> buf_read d" "passive_read s' \<longrightarrow> c_cb_read d \<noteq> 0"
    by (elim conn_invE) blast
  have [simp]: "d = c" "s' = s" using assms(1) d(1) by (simp_all add: conn_at_def)
  show ?thesis
  proof (rule conn_invI [where F = F and ps = ps])
    show "conn_at (w\<lparr>ctxs := (ctxs w)(p \<mapsto> c')\<rparr>) p c' s k"
      using assms(1,3) by (simp add: conn_at_def split: option.splits)
    show "sock_fresh (w\<lparr>ctxs := (ctxs w)(p \<mapsto> c')\<rparr>)"
      using d(3) assms(1) by (auto simp: sock_fresh_def nodes_ok_def conn_at_def)
    show "queue_at (w\<lparr>ctxs := (ctxs w)(p \<mapsto> c')\<rparr>) (buf_write c') F ps" using d(4) assms(3) by (simp add: queue_at_def)
    show "wctx_ok (w\<lparr>ctxs := (ctxs w)(p \<mapsto> c')\<rparr>) q \<and>
        (\<exists>x. wctxs (w\<lparr>ctxs := (ctxs w)(p \<mapsto> c')\<rparr>) q = Some x \<and> fst (w_data x) \<noteq> buf_read c')" if "q \<in> set ps" for q
      using d(5,6) [OF that] assms(3) pending_same(2) [of "w\<lparr>ctxs := (ctxs w)(p \<mapsto> c')\<rparr>" w q] by auto
  qed (use d(2,7) assms(3) in simp_all)
qed

lemma close_inv:
  assumes "conn_inv p w"
  shows "\<exists>v. ixfd_commonsock_close E p w = Inr v \<and> conn_inv p v"
proof -
  from assms obtain c s k where c: "conn_at w p c s k" by (elim conn_invE) blast
  have "w\<lparr>ctxs := (ctxs w)(p \<mapsto> c\<lparr>c_active := False\<rparr>), hist := h\<rparr> = (w\<lparr>ctxs := (ctxs w)(p \<mapsto> c\<lparr>c_active := False\<rparr>)\<rparr>)\<lparr>hist := h\<rparr>" for h
    by simp
  then have "conn_inv p (w\<lparr>ctxs := (ctxs w)(p \<mapsto> c\<lparr>c_active := False\<rparr>), hist := h\<rparr>)" for h
    using conn_inv_flags [OF c assms refl, of False] by (simp only: conn_inv_hist)
  with close_exec [OF c, of E] show ?thesis by blast
qed

lemma read_inv:
  assumes "conn_inv p w" "read_ok E" "keeps U p" "ios w ev = Some e" "ev \<noteq> 0" "io_data e = p"
  shows "\<exists>v. ixfd_commonsock_read_cb E U l ev w = Inr v \<and> conn_inv p v"
proof -
  from assms(1) obtain c s k where c: "conn_at w p c s k" "size_bufread c + 1 \<noteq> 0" "passive_read s \<longrightarrow> c_cb_read c \<noteq> 0"
    by (elim conn_invE) blast
  show ?thesis
  proof (cases "passive_read s")
    case True
    from c(1) have "p \<noteq> 0" "ctxs w p = Some c" "c_sock c \<noteq> 0" "socks w (c_sock c) = Some s" by (simp_all add: conn_at_def)
    with True assms(4-6) have "ixfd_commonsock_read_cb E U l ev w = invoke U (c_cb_read c) [p, 0, 0] w"
      by (simp add: ixfd_commonsock_read_cb_def cstmt)
    with invoke_keeps [OF assms(3,1)] c(3) True show ?thesis by simp
  next
    case False
    let ?r = "ask E (Sys (SysRead (c_fd c) (size_bufread c))) w"
    let ?got = "input E (hist w) (Sys (SysRead (c_fd c) (size_bufread c)))"
    let ?b = "?got @ replicate (Suc (unat (size_bufread c)) - length ?got) 0"
    define v' where "v' = w\<lparr>hist := (Sys (SysRead (c_fd c) (size_bufread c)), ?r) # hist w, bufs := (bufs w)(buf_read c \<mapsto> ?b)\<rparr>"
    note step = read_run [OF c(1) assms(4-6) False assms(2) c(2) refl refl]
    have "length ?b = Suc (unat (size_bufread c))" using step(3,4) by simp
    then have "conn_inv p ((w\<lparr>bufs := (bufs w)(buf_read c \<mapsto> ?b)\<rparr>)\<lparr>hist := (Sys (SysRead (c_fd c) (size_bufread c)), ?r) # hist w\<rparr>)"
      using conn_inv_bufs [OF c(1) assms(1)] by (simp only: conn_inv_hist)
    moreover have "(w\<lparr>bufs := (bufs w)(buf_read c \<mapsto> ?b)\<rparr>)\<lparr>hist := (Sys (SysRead (c_fd c) (size_bufread c)), ?r) # hist w\<rparr> = v'"
      by (simp add: v'_def)
    ultimately have inv: "conn_inv p v'" by simp
    have run: "ixfd_commonsock_read_cb E U l ev w =
      (if 0 < ?r then (if c_cb_read c \<noteq> 0 then invoke U (c_cb_read c) [p, buf_read c, nat ?r] v' else Inr v')
       else if ?r < 0 then Inr v'
       else bnd (if cb_close s \<noteq> 0 then invoke U (cb_close s) [p, 0] v' else Inr v') (ixfd_commonsock_close E p))"
      using step(1) [of U l] by (simp only: v'_def)
    have "\<exists>v. bnd (if cb_close s \<noteq> 0 then invoke U (cb_close s) [p, 0] v' else Inr v') (ixfd_commonsock_close E p) = Inr v \<and>
        conn_inv p v"
      using callback_keeps [OF assms(3) inv, of "cb_close s" "[p, 0]"] close_inv [of p _ E] by fastforce
    note closed = this and got = callback_keeps [OF assms(3) inv, of "c_cb_read c" "[p, buf_read c, nat ?r]"]
    consider "0 < ?r" | "?r < 0" | "\<not> 0 < ?r" "\<not> ?r < 0" by blast
    then show ?thesis
    proof cases
      case 1
      with got show ?thesis unfolding run by (simp only: if_True)
    next
      case 2
      with inv show ?thesis unfolding run by simp
    next
      case 3
      with closed show ?thesis unfolding run by (simp only: if_False)
    qed
  qed
qed

lemma bufread_inv:
  assumes "conn_inv p w" "len + 1 \<noteq> 0" "ixfd_commonsock_set_bufread_len E p len w = Inr v"
  shows "conn_inv p v"
proof -
  from assms(1) obtain c s k F ps where c: "conn_at w p c s k" "size_bufread c + 1 \<noteq> 0" "sock_fresh w"
    "queue_at w (buf_write c) F ps" "\<And>q. q \<in> set ps \<Longrightarrow> wctx_ok w q"
    "\<And>q. q \<in> set ps \<Longrightarrow> \<exists>x. wctxs w q = Some x \<and> fst (w_data x) \<noteq> buf_read c" "passive_read s \<longrightarrow> c_cb_read c \<noteq> 0"
    by (elim conn_invE) blast
  have "0 < len" using assms(3) by (auto simp: ixfd_commonsock_set_bufread_len_def asserting_eq_Inr)
  note step = set_bufread_len_functional [OF c(1,3) this assms(2), of E]
  show ?thesis
  proof (cases "alloc_ok E w")
    case False
    with step assms(3) have "v = w\<lparr>hist := (Malloc, 0) # hist w\<rparr>" by simp
    with assms(1) show ?thesis by (simp only: conn_inv_hist)
  next
    case True
    let ?c = "c\<lparr>buf_read := Suc (brk w), size_bufread := len\<rparr>"
    from True step assms(3) have v: "conn_at v p ?c s k" "sock_fresh v" "nodes v = nodes w" "wctxs v = wctxs w"
      "\<forall>a. a \<noteq> buf_read c \<longrightarrow> a \<noteq> Suc (brk w) \<longrightarrow> bufs v a = bufs w a" by auto
    have new: "bufs w (Suc (brk w)) = None" using c(3) by (simp add: sock_fresh_def)
    have q: "wctx_ok v q \<and> (\<exists>x. wctxs v q = Some x \<and> fst (w_data x) \<noteq> Suc (brk w))" if "q \<in> set ps" for q
    proof -
      from c(6) [OF that] obtain x where x: "wctxs w q = Some x" "fst (w_data x) \<noteq> buf_read c" by blast
      with c(5) [OF that] new have "fst (w_data x) \<noteq> Suc (brk w)" by (auto simp: wctx_ok_def)
      with x v(5) have "bufs v (fst (w_data x)) = bufs w (fst (w_data x))" by simp
      with c(5) [OF that] x \<open>fst (w_data x) \<noteq> Suc (brk w)\<close> v(4) show ?thesis by (simp add: wctx_ok_def)
    qed
    have "queue_at v (buf_write ?c) F ps" using c(4) queue_at_nodes [OF v(3)] by simp
    then show ?thesis using v(1,2) q assms(2) c(7) by (intro conn_invI [where c = ?c and F = F and ps = ps]) simp_all
  qed
qed

lemma write_inv:
  assumes "conn_inv p w" "plentiful E" "write_ok E" "keeps U p" "length data = unat len"
  shows "\<exists>b v. ixfd_commonsock_write E U p data len f a w = Inr (b, v) \<and> conn_inv p v"
proof -
  from assms(1) obtain c s k F ps where c: "conn_at w p c s k" "size_bufread c + 1 \<noteq> 0" "sock_fresh w"
    "queue_at w (buf_write c) F ps" "\<And>q. q \<in> set ps \<Longrightarrow> wctx_ok w q"
    "\<And>q. q \<in> set ps \<Longrightarrow> \<exists>x. wctxs w q = Some x \<and> fst (w_data x) \<noteq> buf_read c" "passive_read s \<longrightarrow> c_cb_read c \<noteq> 0"
    by (elim conn_invE) blast
  define r where "r = ask E (Sys (SysWrite (c_fd c) data)) w"
  have r: "-1 \<le> r" "r \<le> int (length data)" using assms(3) by (simp_all add: write_ok_def r_def ask_def)
  show ?thesis
  proof (cases "0 \<le> r \<and> r < int (length data)")
    case False
    with r have "r = -1 \<or> r = int (unat len)" using assms(5) by auto
    then have "len \<le> word_of_int r" by auto
    then have "ixfd_commonsock_write E U p data len f a w =
        bnd (if f \<noteq> 0 then invoke U f [p, a] (w\<lparr>hist := (Sys (SysWrite (c_fd c) data), r) # hist w\<rparr>)
        else Inr (w\<lparr>hist := (Sys (SysWrite (c_fd c) data), r) # hist w\<rparr>)) (\<lambda>w. Inr (True, w))"
      using write_all_exec [OF c(1) assms(5), of E U f a] by (simp add: r_def)
    moreover have "conn_inv p (w\<lparr>hist := (Sys (SysWrite (c_fd c) data), r) # hist w\<rparr>)"
      using assms(1) by (simp only: conn_inv_hist)
    from callback_keeps [OF assms(4) this, of f "[p, a]"] obtain v where
      "(if f \<noteq> 0 then invoke U f [p, a] (w\<lparr>hist := (Sys (SysWrite (c_fd c) data), r) # hist w\<rparr>)
        else Inr (w\<lparr>hist := (Sys (SysWrite (c_fd c) data), r) # hist w\<rparr>)) = Inr v" "conn_inv p v" by blast
    ultimately show ?thesis by (intro exI [of _ True] exI [of _ v]) (simp only: bnd_Inr)
  next
    case True
    from write_keeps [OF c(1,4,3) assms(2) _ assms(5) r_def, of U f a] True c(5) obtain u q G x where
      u: "ixfd_commonsock_write E U p data len f a w = Inr (False, u)" "conn_at u p (c\<lparr>write_launched := True\<rparr>) s k"
        "queue_at u (buf_write c) G (ps @ [q])" "sock_fresh u" "\<forall>q \<in> set (ps @ [q]). wctx_ok u q"
        "wctxs u = (wctxs w)(q \<mapsto> x)" "q \<notin> set ps" "fst (w_data x) \<noteq> buf_read c" by blast
    have "conn_inv p u"
    proof (rule conn_invI [where F = G and ps = "ps @ [q]", OF u(2)])
      show "queue_at u (buf_write (c\<lparr>write_launched := True\<rparr>)) G (ps @ [q])" using u(3) by simp
      show "wctx_ok u q' \<and> (\<exists>x. wctxs u q' = Some x \<and> fst (w_data x) \<noteq> buf_read (c\<lparr>write_launched := True\<rparr>))"
        if "q' \<in> set (ps @ [q])" for q'
        using that u(5-8) c(6) by auto
    qed (use u(4) c(2,7) in simp_all)
    with u(1) show ?thesis by blast
  qed
qed

lemma step_inv:
  "conn_step E U p w v \<Longrightarrow> conn_inv p w \<Longrightarrow> plentiful E \<Longrightarrow> read_ok E \<Longrightarrow> write_ok E \<Longrightarrow> keeps U p \<Longrightarrow> conn_inv p v"
proof (induction rule: conn_step.induct)
  case (by_write data len f a w b v)
  then show ?case using write_inv [of p w E U data len f a] by auto
next
  case (by_read w ev e l v)
  then show ?case using read_inv [of p w E U ev e l] by auto
next
  case (by_bufread len w v)
  then show ?case using bufread_inv by blast
next
  case (by_close w v)
  then show ?case using close_inv [of p w E] by auto
qed

section \<open>Reachable states\<close>

lemma steps_inv:
  assumes "(conn_step E U p)\<^sup>*\<^sup>* w v" "conn_inv p w" "plentiful E" "read_ok E" "write_ok E" "keeps U p"
  shows "conn_inv p v"
  using assms(1,2)
proof (induction rule: rtranclp_induct)
  case (step y z)
  then show ?case using step_inv assms(3-6) by blast
qed

text \<open>Changing the length of the buffer faults for the length 0 only, which it asserts against.\<close>

lemma bufread_no_fault:
  assumes "conn_inv p w" "plentiful E" "0 < len"
  shows "\<not> is_fault (ixfd_commonsock_set_bufread_len E p len w)"
proof -
  from assms(1) obtain c s k where c: "conn_at w p c s k" "sock_fresh w" by (elim conn_invE) blast
  from c(1) obtain b where b: "p \<noteq> 0" "ctxs w p = Some c" "buf_read c \<noteq> 0" "bufs w (buf_read c) = Some b"
    by (elim conn_atE)
  with c(2) have "buf_read c \<le> brk w" by (auto simp: sock_fresh_def not_less [symmetric])
  then show ?thesis using set_bufread_len_exec [OF b(1) assms(3) b(2), of E] b(3,4) assms(2) by simp
qed

lemma inv_freectx: "conn_inv p w \<Longrightarrow> \<exists>v. ixfd_commonsock_freectx p w = Some (Inr v)"
  using freectx_exec by (elim conn_invE) blast

text \<open>
  C2: a connection stays well formed.  Start with a connection that satisfies the invariant, and let it be
  written to, read from by its handler, closed and given other buffer lengths (short of the largest
  \<open>size_t\<close>) in any order, with callbacks that return and keep the invariant themselves.  Then the
  invariant holds in every state reached; none of these operations faults there, whatever the data, the
  callback, the state of the kernel, and whether the socket reads actively or passively, except that
  the length 0 fails the assertion against it; and freeing the connection succeeds (its two watchers
  are freed as they are: to stop them before is left to the caller).  The write handler is not among
  the steps: it breaks the invariant, as the property about it shows.
\<close>

theorem connection_invariant:
  assumes "conn_inv p w" "plentiful E" "read_ok E" "write_ok E" "keeps U p" "(conn_step E U p)\<^sup>*\<^sup>* w v"
  shows "conn_inv p v \<and> \<not> is_fault (ixfd_commonsock_close E p v) \<and>
    (\<forall>len. 0 < len \<longrightarrow> \<not> is_fault (ixfd_commonsock_set_bufread_len E p len v)) \<and>
    (\<forall>data len f a. length data = unat len \<longrightarrow> \<not> is_fault (ixfd_commonsock_write E U p data len f a v)) \<and>
    (\<forall>l ev e. ios v ev = Some e \<longrightarrow> ev \<noteq> 0 \<longrightarrow> io_data e = p \<longrightarrow>
       \<not> is_fault (ixfd_commonsock_read_cb E U l ev v)) \<and>
    (\<exists>u. ixfd_commonsock_freectx p v = Some (Inr u))"
proof -
  have inv: "conn_inv p v" using steps_inv [OF assms(6,1-5)] .
  have "\<not> is_fault (ixfd_commonsock_close E p v)" using close_inv [OF inv, of E] by auto
  moreover have "\<not> is_fault (ixfd_commonsock_write E U p data len f a v)" if "length data = unat len" for data len f a
    using write_inv [OF inv assms(2,4,5) that, of f a] by auto
  moreover have "\<not> is_fault (ixfd_commonsock_read_cb E U l ev v)"
    if "ios v ev = Some e" "ev \<noteq> 0" "io_data e = p" for l ev e
    using read_inv [OF inv assms(3,5) that, of l] by auto
  ultimately show ?thesis using inv bufread_no_fault [OF inv assms(2)] inv_freectx [OF inv] by blast
qed

lemma one_conn_inv: "conn_inv 3 one_conn"
  by (rule conn_invI [OF one_conn_at _ _ one_conn_fresh one_conn_queue]) (simp_all add: one_ctx_def one_sock_def zero_sock_def)

text \<open>A kernel that takes one byte of every write and has nothing to read.\<close>

definition one_byte :: env where
  "one_byte = calm\<lparr>answer := \<lambda>h c. case c of Sys (SysWrite fd bs) \<Rightarrow> (if bs = [] then 0 else 1) | Sys (SysRead fd len) \<Rightarrow> 0 | _ \<Rightarrow> 1\<rparr>"

lemma one_byte_ok: "plentiful one_byte" "read_ok one_byte" "write_ok one_byte"
  by (auto simp: plentiful_def read_ok_def write_ok_def one_byte_def calm_def Suc_le_eq)

lemma quiet_keeps: "keeps (\<lambda>f xs w. Inr w) p"
  by (simp add: keeps_def)

text \<open>The read handler at the end of the stream, a write of three bytes, another length of the buffer, freeing.\<close>

theorem connection_invariant_witness:
  "\<exists>b v1 v2 v3 u. ixfd_commonsock_read_cb one_byte (\<lambda>f xs w. Inr w) 9 4 one_conn = Inr v1 \<and>
     ixfd_commonsock_write one_byte (\<lambda>f xs w. Inr w) 3 [1, 2, 3] 3 8 0 v1 = Inr (b, v2) \<and>
     ixfd_commonsock_set_bufread_len one_byte 3 100 v2 = Inr v3 \<and>
     conn_inv 3 v3 \<and> ixfd_commonsock_freectx 3 v3 = Some (Inr u)"
proof -
  let ?U = "(\<lambda>f xs w. Inr w) :: sworld user"
  note inv = connection_invariant [OF one_conn_inv one_byte_ok quiet_keeps]
  have e: "ios one_conn 4 = Some \<lparr>io_cb = Ixfd_commonsock_read_cb, io_fd = 11, io_events = EV_READ, io_data = 3\<rparr>"
    by (simp add: one_conn_def)
  with inv [OF rtranclp.rtrancl_refl] have "\<not> is_fault (ixfd_commonsock_read_cb one_byte ?U 9 4 one_conn)" by auto
  then obtain v1 where v1: "ixfd_commonsock_read_cb one_byte ?U 9 4 one_conn = Inr v1"
    by (cases "ixfd_commonsock_read_cb one_byte ?U 9 4 one_conn") auto
  have s1: "(conn_step one_byte ?U 3)\<^sup>*\<^sup>* one_conn v1"
    by (intro r_into_rtranclp by_read [where l = 9, OF e _ _ v1]) simp_all
  have d: "length ([1, 2, 3] :: byte list) = unat (3 :: size_t)" by simp
  with inv [OF s1] have "\<not> is_fault (ixfd_commonsock_write one_byte ?U 3 [1, 2, 3] 3 8 0 v1)" by blast
  then obtain b v2 where v2: "ixfd_commonsock_write one_byte ?U 3 [1, 2, 3] 3 8 0 v1 = Inr (b, v2)"
    by (cases "ixfd_commonsock_write one_byte ?U 3 [1, 2, 3] 3 8 0 v1") auto
  have s2: "(conn_step one_byte ?U 3)\<^sup>*\<^sup>* one_conn v2" using s1 by (rule rtranclp.rtrancl_into_rtrancl) (rule by_write [OF d v2])
  have "(0 :: size_t) < 100" "(100 :: size_t) + 1 \<noteq> 0" by simp_all
  with inv [OF s2] have "\<not> is_fault (ixfd_commonsock_set_bufread_len one_byte 3 100 v2)" by blast
  then obtain v3 where v3: "ixfd_commonsock_set_bufread_len one_byte 3 100 v2 = Inr v3"
    by (cases "ixfd_commonsock_set_bufread_len one_byte 3 100 v2") auto
  have s3: "(conn_step one_byte ?U 3)\<^sup>*\<^sup>* one_conn v3" using s2 by (rule rtranclp.rtrancl_into_rtrancl) (rule by_bufread [OF _ v3], simp)
  from inv [OF s3] v1 v2 v3 show ?thesis by blast
qed

end
