(* ===== verification/SockServer.thy ===== *)
theory SockServer
  imports SockRead
begin

unbundle bit_operations_syntax

text \<open>
  The properties of sockets as a whole: a listening socket from its creation to its end, the accept
  and the connect handler, disconnecting, and what closing a connection leaves running.
\<close>

section \<open>Statements\<close>

lemma nonblock_exec:
  "ixut_set_socket_nonblock E fd w = w\<lparr>hist :=
     (Sys (SysSetFl fd (word_of_int (ask E (Sys (SysGetFl fd)) w) OR O_NONBLOCK)),
      answer E ((Sys (SysGetFl fd), ask E (Sys (SysGetFl fd)) w) # hist w)
        (Sys (SysSetFl fd (word_of_int (ask E (Sys (SysGetFl fd)) w) OR O_NONBLOCK)))) #
     (Sys (SysGetFl fd), ask E (Sys (SysGetFl fd)) w) # hist w\<rparr>"
  by (simp add: ixut_set_socket_nonblock_def cstmt ask_def)

lemma nonblock_keeps [simp]:
  "socks (ixut_set_socket_nonblock E fd w) = socks w" "ctxs (ixut_set_socket_nonblock E fd w) = ctxs w"
  "ios (ixut_set_socket_nonblock E fd w) = ios w" "bufs (ixut_set_socket_nonblock E fd w) = bufs w"
  "nodes (ixut_set_socket_nonblock E fd w) = nodes w" "wctxs (ixut_set_socket_nonblock E fd w) = wctxs w"
  "cargs (ixut_set_socket_nonblock E fd w) = cargs w" "brk (ixut_set_socket_nonblock E fd w) = brk w"
  "contexts (ixut_set_socket_nonblock E fd w) = contexts w"
  by (simp_all add: nonblock_exec)

lemma sock_fresh_same:
  assumes "sock_fresh w" "brk v = brk w" "nodes v = nodes w" "socks v = socks w" "ctxs v = ctxs w" "ios v = ios w"
    "bufs v = bufs w" "wctxs v = wctxs w" "cargs v = cargs w"
  shows "sock_fresh v"
  using assms unfolding sock_fresh_def nodes_ok_def by simp

section \<open>Accepting\<close>

text \<open>The accept handler up to the callback, and after it.\<close>

lemma accept_exec:
  assumes "sock_fresh w" "plentiful E" "ev \<noteq> 0" "ios w ev = Some e" "io_data e = sk" "sk \<noteq> 0"
    "socks w sk = Some s" "s_context s \<noteq> 0" "contexts w (s_context s) = Some k" "p = Suc (brk w)"
    "fd = ask E (Sys (SysAccept (io_fd e))) w"
  shows "\<exists>v. conn_at v p (fresh_ctx p sk fd s) s k \<and> sock_fresh v \<and> socks v = socks w \<and>
    ixfd_commonsock_accept_cb E U l ev w =
      bnd (if cb_accept s \<noteq> 0 then invoke U (cb_accept s) [p, s_data s] v else Inr v) (\<lambda>w.
      bnd (get_ctx p w) (\<lambda>c.
      bnd (ev_io_start l (event_read c) w) (\<lambda>w.
      set_ctx (\<lambda>c. c\<lparr>c_active := True\<rparr>) p w)))"
proof -
  let ?w = "ixut_set_socket_nonblock E fd (w\<lparr>hist := (Sys (SysAccept (io_fd e)), fd) # hist w\<rparr>)"
  have "sock_fresh ?w" by (rule sock_fresh_same [OF assms(1)]) simp_all
  moreover have "socks ?w sk = Some s" "contexts ?w (s_context s) = Some k" "p = Suc (brk ?w)"
    using assms(7,9,10) by simp_all
  ultimately obtain v where v: "ixfd_commonsock_create_ctx E sk fd ?w = Inr (p, v)"
    "conn_at v p (fresh_ctx p sk fd s) s k" "sock_fresh v" "socks v = socks ?w"
    using created_conn [of ?w sk s k E p fd] assms(2,6,8) by blast
  from v(2) have "ctxs v p = Some (fresh_ctx p sk fd s)" "p \<noteq> 0" by (simp_all add: conn_at_def)
  with v(1,4) assms(3-7,11)
  have "ixfd_commonsock_accept_cb E U l ev w =
      bnd (if cb_accept s \<noteq> 0 then invoke U (cb_accept s) [p, s_data s] v else Inr v) (\<lambda>w.
      bnd (get_ctx p w) (\<lambda>c.
      bnd (ev_io_start l (event_read c) w) (\<lambda>w.
      set_ctx (\<lambda>c. c\<lparr>c_active := True\<rparr>) p w)))"
    by (simp add: ixfd_commonsock_accept_cb_def cstmt Let_def fresh_ctx_def)
  with v show ?thesis by (intro exI [of _ v]) simp
qed

text \<open>
  C8: the accept handler.  Whatever descriptor \<open>accept\<close> returned, the -1 of a failure included, a new
  live connection for it is handed to the accept callback together with the user data of the
  socket, while it is still inactive and not watched.  A fault of the callback is the only way the
  handler can fail; if the callback returns with the connection alive, its read watcher is started
  and it is marked active.
\<close>

theorem accept_handler:
  assumes "sock_fresh w" "plentiful E" "ev \<noteq> 0" "ios w ev = Some e" "io_data e = sk" "sk \<noteq> 0"
    "socks w sk = Some s" "s_context s \<noteq> 0" "contexts w (s_context s) = Some k" "cb_accept s \<noteq> 0"
  shows "\<exists>p v c. conn_at v p c s k \<and> c_fd c = ask E (Sys (SysAccept (io_fd e))) w \<and> \<not> c_active c \<and>
    hd (hist v) = (Invoke (cb_accept s) [p, s_data s], 0) \<and>
    (\<forall>x. U (cb_accept s) [p, s_data s] v = Inl x \<longrightarrow> ixfd_commonsock_accept_cb E U l ev w = Inl x) \<and>
    (\<forall>r d q. U (cb_accept s) [p, s_data s] v = Inr r \<longrightarrow> conn_at r p d s q \<longrightarrow>
       (\<exists>z. ixfd_commonsock_accept_cb E U l ev w = Inr z \<and> conn_at z p (d\<lparr>c_active := True\<rparr>) s q \<and>
          hist z = (Ev (EvIoStart l (event_read d)), 0) # hist r))"
proof -
  let ?p = "Suc (brk w)" and ?fd = "ask E (Sys (SysAccept (io_fd e))) w"
  let ?c = "fresh_ctx ?p sk ?fd s"
  from accept_exec [OF assms(1-9) refl refl, of U l] obtain v where
    v: "conn_at v ?p ?c s k" and
    run: "ixfd_commonsock_accept_cb E U l ev w =
      bnd (if cb_accept s \<noteq> 0 then invoke U (cb_accept s) [?p, s_data s] v else Inr v) (\<lambda>w.
      bnd (get_ctx ?p w) (\<lambda>c. bnd (ev_io_start l (event_read c) w) (\<lambda>w.
      set_ctx (\<lambda>c. c\<lparr>c_active := True\<rparr>) ?p w)))" by blast
  let ?v = "emit (Invoke (cb_accept s) [?p, s_data s]) v"
  have at: "conn_at ?v ?p ?c s k" using v by (simp add: conn_at_def)
  have run': "ixfd_commonsock_accept_cb E U l ev w = bnd (U (cb_accept s) [?p, s_data s] ?v) (\<lambda>w.
      bnd (get_ctx ?p w) (\<lambda>c. bnd (ev_io_start l (event_read c) w) (\<lambda>w.
      set_ctx (\<lambda>c. c\<lparr>c_active := True\<rparr>) ?p w)))" using run assms(10) by (simp add: invoke_def)
  have "\<exists>z. ixfd_commonsock_accept_cb E U l ev w = Inr z \<and> conn_at z ?p (d\<lparr>c_active := True\<rparr>) s q \<and>
          hist z = (Ev (EvIoStart l (event_read d)), 0) # hist r"
    if r: "U (cb_accept s) [?p, s_data s] ?v = Inr r" "conn_at r ?p d s q" for r d q
    using r(2)
  proof (rule conn_atE)
    fix x y b
    assume d: "ctxs r ?p = Some d" "event_read d \<noteq> 0" "ios r (event_read d) = Some x"
    let ?z = "(emit (Ev (EvIoStart l (event_read d))) r)\<lparr>ctxs := (ctxs r)(?p \<mapsto> d\<lparr>c_active := True\<rparr>)\<rparr>"
    have "ixfd_commonsock_accept_cb E U l ev w = Inr ?z" using run' r(1) d by (simp add: cstmt)
    moreover have "conn_at ?z ?p (d\<lparr>c_active := True\<rparr>) s q" using r(2) by (auto simp: conn_at_def split: option.splits)
    ultimately show ?thesis by (intro exI [of _ ?z]) simp
  qed
  moreover have "ixfd_commonsock_accept_cb E U l ev w = Inl x" if "U (cb_accept s) [?p, s_data s] ?v = Inl x" for x
    using run' that by simp
  moreover have "c_fd ?c = ?fd" "\<not> c_active ?c" by (simp_all add: fresh_ctx_def zero_ctx_def)
  ultimately show ?thesis using at by (intro exI [of _ ?p] exI [of _ ?v] exI [of _ ?c]) simp
qed

text \<open>A listening socket on descriptor 10 with an accept callback, watched by the watcher 5.\<close>

definition listen_sock :: ixfd_sock where
  "listen_sock = one_sock\<lparr>cb_accept := 8, s_data := 70, event_accept := 5\<rparr>"

definition listening_conn :: sworld where
  "listening_conn = one_conn\<lparr>socks := [2 \<mapsto> listen_sock],
     ios := (ios one_conn)(5 \<mapsto> \<lparr>io_cb = Ixfd_commonsock_accept_cb, io_fd = 10, io_events = EV_READ, io_data = 2\<rparr>)\<rparr>"

lemma listening_conn_ok:
  "sock_fresh listening_conn"
  "ios listening_conn 5 = Some \<lparr>io_cb = Ixfd_commonsock_accept_cb, io_fd = 10, io_events = EV_READ, io_data = 2\<rparr>"
  "socks listening_conn 2 = Some listen_sock" "s_context listen_sock = 1"
  "contexts listening_conn 1 = Some \<lparr>state = 0, evl = 9\<rparr>" "cb_accept listen_sock = 8"
  by (simp_all add: sock_fresh_def nodes_ok_def listening_conn_def one_conn_def listen_sock_def one_sock_def)

theorem accept_handler_witness:
  "\<exists>z p. ixfd_commonsock_accept_cb calm (\<lambda>f xs w. Inr w) 9 5 listening_conn = Inr z \<and>
     (\<exists>c. ctxs z p = Some c \<and> c_active c \<and> c_fd c = 1)"
proof -
  from accept_handler [OF listening_conn_ok(1) calm_plentiful _ listening_conn_ok(2), of 2 listen_sock _ "\<lambda>f xs w. Inr w" 9]
    listening_conn_ok(3-6)
  obtain p c and v :: sworld where v: "conn_at v p c listen_sock \<lparr>state = 0, evl = 9\<rparr>"
    "c_fd c = ask calm (Sys (SysAccept 10)) listening_conn"
    "\<forall>d q. conn_at v p d listen_sock q \<longrightarrow>
       (\<exists>z. ixfd_commonsock_accept_cb calm (\<lambda>f xs w. Inr w) 9 5 listening_conn = Inr z \<and>
         conn_at z p (d\<lparr>c_active := True\<rparr>) listen_sock q \<and> hist z = (Ev (EvIoStart 9 (event_read d)), 0) # hist v)"
    by auto
  from v(3) v(1) obtain z where
    z: "ixfd_commonsock_accept_cb calm (\<lambda>f xs w. Inr w) 9 5 listening_conn = Inr z"
      "conn_at z p (c\<lparr>c_active := True\<rparr>) listen_sock \<lparr>state = 0, evl = 9\<rparr>"
      "hist z = (Ev (EvIoStart 9 (event_read c)), 0) # hist v" by blast
  have "ctxs z p = Some (c\<lparr>c_active := True\<rparr>)" using z(2) by (simp add: conn_at_def)
  moreover have "c_fd c = 1" using v(2) by (simp add: ask_def calm_def)
  ultimately show ?thesis using z(1)
    by (intro exI [of _ z] exI [of _ p] conjI exI [of _ "c\<lparr>c_active := True\<rparr>"]) simp_all
qed

text \<open>
  A connection that its own accept callback closes.  After the callback the handler starts the
  read watcher and marks the connection active all the same, although its descriptor is closed.
\<close>

theorem accept_revives_closed:
  assumes "sock_fresh w" "plentiful E" "ev \<noteq> 0" "ios w ev = Some e" "io_data e = sk" "sk \<noteq> 0"
    "socks w sk = Some s" "s_context s \<noteq> 0" "contexts w (s_context s) = Some k" "cb_accept s \<noteq> 0"
    "\<And>v p d. U (cb_accept s) [p, d] v = ixfd_commonsock_close E p v"
  shows "\<exists>z p c x h. ixfd_commonsock_accept_cb E U l ev w = Inr z \<and> conn_at z p c s k \<and> c_active c \<and>
    hist z = (Ev (EvIoStart l (event_read c)), 0) # (Sys (SysClose (c_fd c)), x) #
             (Ev (EvIoStop (evl k) (event_read c)), 0) # h"
proof -
  from accept_handler [OF assms(1-10), of U l] obtain p v c where
    v: "conn_at v p c s k" and
    run: "\<forall>r d q. U (cb_accept s) [p, s_data s] v = Inr r \<longrightarrow> conn_at r p d s q \<longrightarrow>
       (\<exists>z. ixfd_commonsock_accept_cb E U l ev w = Inr z \<and> conn_at z p (d\<lparr>c_active := True\<rparr>) s q \<and>
          hist z = (Ev (EvIoStart l (event_read d)), 0) # hist r)" by blast
  from close_exec [OF v, of E] assms(11) obtain r x where
    r: "U (cb_accept s) [p, s_data s] v = Inr r" "ctxs r = (ctxs v)(p \<mapsto> c\<lparr>c_active := False\<rparr>)"
      "hist r = (Sys (SysClose (c_fd c)), x) # (Ev (EvIoStop (evl k) (event_read c)), 0) # hist v"
      "socks r = socks v" "contexts r = contexts v" "ios r = ios v" "bufs r = bufs v" by simp
  have "conn_at r p (c\<lparr>c_active := False\<rparr>) s k"
    using v r(2,4-7) by (auto simp: conn_at_def split: option.splits)
  with run r(1) obtain z where "ixfd_commonsock_accept_cb E U l ev w = Inr z"
    "conn_at z p (c\<lparr>c_active := True\<rparr>) s k" "hist z = (Ev (EvIoStart l (event_read c)), 0) # hist r" by fastforce
  with r(3) show ?thesis by (intro exI [of _ z] exI [of _ p] exI [of _ "c\<lparr>c_active := True\<rparr>"]) simp
qed

theorem accept_revives_closed_witness:
  "\<exists>z p c. ixfd_commonsock_accept_cb calm (\<lambda>f xs. ixfd_commonsock_close calm (hd xs)) 9 5 listening_conn = Inr z \<and>
     ctxs z p = Some c \<and> c_active c"
proof -
  have c: "contexts listening_conn (s_context listen_sock) = Some \<lparr>state = 0, evl = 9\<rparr>" "s_context listen_sock \<noteq> 0"
    "cb_accept listen_sock \<noteq> 0" using listening_conn_ok(4-6) by simp_all
  from accept_revives_closed [OF listening_conn_ok(1) calm_plentiful _ listening_conn_ok(2) _ _ listening_conn_ok(3) c(2,1,3),
      of "\<lambda>f xs. ixfd_commonsock_close calm (hd xs)" 9]
  show ?thesis by (auto simp: conn_at_def)
qed

section \<open>Listening\<close>

text \<open>Creating a socket, and binding it.\<close>

lemma sock_create_exec:
  assumes "plentiful E" "ctx \<noteq> 0" "contexts w ctx = Some k" "evl k \<noteq> 0"
  shows "ixfd_commonsock_create E ctx w = Inr (Suc (brk w), w\<lparr>brk := Suc (brk w), hist := (Malloc, ask E Malloc w) # hist w,
     socks := (socks w)(Suc (brk w) \<mapsto> zero_sock\<lparr>s_context := ctx\<rparr>)\<rparr>)"
  using assms
  by (simp add: ixfd_commonsock_create_def malloc_sock_def cstmt zero_sock_def IXFD_SOCK_UNKNOWN_def)

definition bound :: "'a sworld_scheme \<Rightarrow> 'a sworld_scheme \<Rightarrow> addr \<Rightarrow> ixfd_sock \<Rightarrow> int \<Rightarrow> int \<Rightarrow> bool" where
  "bound w u sk s fd t \<longleftrightarrow> (let ev = Suc (brk w) in
     brk u = ev \<and> contexts u = contexts w \<and> nodes u = nodes w \<and>
     socks u = (socks w)(sk \<mapsto> s\<lparr>s_fd := fd, event_accept := ev, s_type := t\<rparr>) \<and> ctxs u = ctxs w \<and> wctxs u = wctxs w \<and>
     cargs u = cargs w \<and> bufs u = bufs w \<and> sworld.more u = sworld.more w \<and>
     ios u = (ios w)(ev \<mapsto> \<lparr>io_cb = Ixfd_commonsock_accept_cb, io_fd = fd, io_events = EV_READ, io_data = sk\<rparr>))"

text \<open>\<open>ixfd_commonsock_tcp_createnbind\<close> from the first call about the address.\<close>

definition bind_tail :: "env \<Rightarrow> addr \<Rightarrow> string \<Rightarrow> 16 word \<Rightarrow> int \<Rightarrow> 'a sworld_scheme \<Rightarrow> 'a sworld_scheme res" where
  "bind_tail E sk ip port fd w =
     (let (r, w) = sys E (SysReuseAddr fd) w; w = (if r = -1 then emit (Printf ''setsockopt failed'') w else w);
          (b, w) = sys E (SysBind fd ip port) w in
      if b < 0
      then Inr (emit (Printf ''ixfd_commonsocket_tcp_createnbind: failed when binding to %s:%u'') w)
      else set_sock (\<lambda>s. s\<lparr>s_type := IXFD_SOCK_TCP\<rparr>) sk w)"

lemma bind_tail_exec:
  assumes "sk \<noteq> 0" "socks w sk = Some s"
  shows "\<exists>g h. bind_tail E sk ip port fd w = Inr (w\<lparr>hist := g, socks :=
     (if answer E h (Sys (SysBind fd ip port)) < 0 then socks w else (socks w)(sk \<mapsto> s\<lparr>s_type := IXFD_SOCK_TCP\<rparr>))\<rparr>)"
proof -
  define r where "r = answer E (hist w) (Sys (SysReuseAddr fd))"
  define h where "h = (if r = -1 then [(Printf ''setsockopt failed'', 0)] else []) @ (Sys (SysReuseAddr fd), r) # hist w"
  have "bind_tail E sk ip port fd w =
      (if answer E h (Sys (SysBind fd ip port)) < 0
       then Inr (w\<lparr>hist := (Printf ''ixfd_commonsocket_tcp_createnbind: failed when binding to %s:%u'', 0) #
                   (Sys (SysBind fd ip port), answer E h (Sys (SysBind fd ip port))) # h\<rparr>)
       else Inr (w\<lparr>hist := (Sys (SysBind fd ip port), answer E h (Sys (SysBind fd ip port))) # h,
                   socks := (socks w)(sk \<mapsto> s\<lparr>s_type := IXFD_SOCK_TCP\<rparr>)\<rparr>))"
    using assms by (simp add: bind_tail_def Let_def cstmt h_def ask_def emit_def flip: r_def)
  then show ?thesis
    by (intro exI [of _ "(if answer E h (Sys (SysBind fd ip port)) < 0
          then [(Printf ''ixfd_commonsocket_tcp_createnbind: failed when binding to %s:%u'', 0)] else []) @
        (Sys (SysBind fd ip port), answer E h (Sys (SysBind fd ip port))) # h"] exI [of _ h]) simp
qed

lemma bind_exec:
  assumes "sk \<noteq> 0" "socks w sk = Some s" "s_type s = IXFD_SOCK_UNKNOWN" "plentiful E" "fd = ask E (Sys SysSocket) w"
  shows "\<exists>u h. ixfd_commonsock_tcp_createnbind E sk ip port w = Inr u \<and>
    bound w u sk s fd (if answer E h (Sys (SysBind fd ip port)) < 0 then IXFD_SOCK_UNKNOWN else IXFD_SOCK_TCP)"
proof -
  have same: "s\<lparr>s_fd := a, event_accept := b, s_type := IXFD_SOCK_UNKNOWN\<rparr> = s\<lparr>s_fd := a, event_accept := b\<rparr>" for a b
    using assms(3) by (cases s) simp
  have "\<exists>v. ixfd_commonsock_tcp_createnbind E sk ip port w = bind_tail E sk ip port fd v \<and>
      bound w v sk s fd IXFD_SOCK_UNKNOWN"
    using assms unfolding ixfd_commonsock_tcp_createnbind_def bind_tail_def [symmetric]
    by (simp add: cstmt Let_def malloc_io_exec ev_init_io_def ev_io_set_def)
      (rule exI, rule conjI, rule refl, simp add: bound_def Let_def emit_def nonblock_exec same)
  then obtain v where v: "ixfd_commonsock_tcp_createnbind E sk ip port w = bind_tail E sk ip port fd v"
    "bound w v sk s fd IXFD_SOCK_UNKNOWN" by blast
  let ?s = "s\<lparr>s_fd := fd, event_accept := Suc (brk w), s_type := IXFD_SOCK_UNKNOWN\<rparr>"
  have "socks v sk = Some ?s" using v(2) by (simp add: bound_def Let_def)
  from bind_tail_exec [OF assms(1) this, of E ip port fd] obtain g h where
    "bind_tail E sk ip port fd v = Inr (v\<lparr>hist := g, socks := (if answer E h (Sys (SysBind fd ip port)) < 0 then socks v
       else (socks v)(sk \<mapsto> ?s\<lparr>s_type := IXFD_SOCK_TCP\<rparr>))\<rparr>)" by blast
  with v show ?thesis
    by (intro exI [of _ "v\<lparr>hist := g, socks := (if answer E h (Sys (SysBind fd ip port)) < 0 then socks v
       else (socks v)(sk \<mapsto> ?s\<lparr>s_type := IXFD_SOCK_TCP\<rparr>))\<rparr>"] exI [of _ h])
      (simp add: bound_def Let_def)
qed

lemma listen_exec:
  assumes "sk \<noteq> 0" "socks w sk = Some s" "s_context s \<noteq> 0" "contexts w (s_context s) = Some k"
    "event_accept s \<noteq> 0" "ios w (event_accept s) = Some e"
  shows "ixfd_commonsock_tcp_listen E sk w = (if s_type s = IXFD_SOCK_TCP \<and> s_fd s \<noteq> 0
    then Inr (emit (Ev (EvIoStart (evl k) (event_accept s)))
      (w\<lparr>hist := (Sys (SysListen (s_fd s) 16), ask E (Sys (SysListen (s_fd s) 16)) w) # hist w\<rparr>))
    else Inl Assertion)"
  using assms by (simp add: ixfd_commonsock_tcp_listen_def cstmt asserting_def)

lemma unbind_exec:
  assumes "sk \<noteq> 0" "socks w sk = Some s" "s_context s \<noteq> 0" "contexts w (s_context s) = Some k"
    "event_accept s \<noteq> 0" "ios w (event_accept s) = Some e"
  shows "ixfd_commonsock_unbind E sk w = Inr (w\<lparr>hist :=
     (Sys (SysClose (s_fd s)), answer E ((Ev (EvIoStop (evl k) (event_accept s)), 0) # hist w) (Sys (SysClose (s_fd s)))) #
     (Ev (EvIoStop (evl k) (event_accept s)), 0) # hist w\<rparr>)"
  using assms by (simp add: ixfd_commonsock_unbind_def cstmt ask_def emit_def)

lemma free_listening_exec:
  assumes "sk \<noteq> 0" "socks w sk = Some s" "event_accept s \<noteq> 0" "ios w (event_accept s) = Some e"
    "event_connect s = 0" "default_ctx s = 0"
  shows "ixfd_commonsock_free sk w = Some (Inr (w\<lparr>ios := (ios w)(event_accept s := None), socks := (socks w)(sk := None)\<rparr>))"
  using assms by (simp add: ixfd_commonsock_free_def after_def cstmt free_io_def)

text \<open>
  C13: the life of a listening socket.  Creating and binding a socket registers the accept handler on
  the descriptor of the new socket, with the socket as its argument; if binding succeeds, listening
  starts the watcher; unbinding stops it and closes the descriptor, and freeing then gives back the
  socket and its watcher, so that all heaps are what they were.  If binding fails, listening fails its
  assertion: the failure is only printed, the caller of \<open>createnbind\<close> does not learn of it.
\<close>

theorem server_life:
  assumes "sock_fresh w" "plentiful E" "ctx \<noteq> 0" "contexts w ctx = Some k" "evl k \<noteq> 0"
    "\<And>h. 0 < answer E h (Sys SysSocket)"
  shows "\<exists>sk a b ev fd h. ixfd_commonsock_create E ctx w = Inr (sk, a) \<and>
    ixfd_commonsock_tcp_createnbind E sk ip port a = Inr b \<and>
    ios b ev = Some \<lparr>io_cb = Ixfd_commonsock_accept_cb, io_fd = fd, io_events = EV_READ, io_data = sk\<rparr> \<and>
    (if answer E h (Sys (SysBind fd ip port)) < 0 then ixfd_commonsock_tcp_listen E sk b = Inl Assertion
     else \<exists>c d u. ixfd_commonsock_tcp_listen E sk b = Inr c \<and> hd (hist c) = (Ev (EvIoStart (evl k) ev), 0) \<and>
       ixfd_commonsock_unbind E sk c = Inr d \<and>
       map fst (take 2 (hist d)) = [Sys (SysClose fd), Ev (EvIoStop (evl k) ev)] \<and>
       ixfd_commonsock_free sk d = Some (Inr u) \<and> socks u = socks w \<and> ios u = ios w \<and> ctxs u = ctxs w \<and>
       nodes u = nodes w \<and> bufs u = bufs w \<and> wctxs u = wctxs w \<and> cargs u = cargs w)"
proof -
  let ?sk = "Suc (brk w)" and ?ev = "Suc (Suc (brk w))"
  let ?s = "zero_sock\<lparr>s_context := ctx\<rparr>"
  let ?a = "w\<lparr>brk := ?sk, hist := (Malloc, ask E Malloc w) # hist w, socks := (socks w)(?sk \<mapsto> ?s)\<rparr>"
  note a = sock_create_exec [OF assms(2-5)]
  have s: "socks ?a ?sk = Some ?s" "s_type ?s = IXFD_SOCK_UNKNOWN" by (simp_all add: zero_sock_def IXFD_SOCK_UNKNOWN_def)
  let ?fd = "ask E (Sys SysSocket) ?a"
  have fd: "?fd \<noteq> 0" using assms(6) [of "hist ?a"] by (simp add: ask_def)
  from bind_exec [OF _ s assms(2) refl, of ip port] obtain b h where
    b: "ixfd_commonsock_tcp_createnbind E ?sk ip port ?a = Inr b" and
    bd: "bound ?a b ?sk ?s ?fd (if answer E h (Sys (SysBind ?fd ip port)) < 0 then IXFD_SOCK_UNKNOWN else IXFD_SOCK_TCP)"
    by auto
  let ?t = "?s\<lparr>s_fd := ?fd, event_accept := ?ev, s_type := (if answer E h (Sys (SysBind ?fd ip port)) < 0 then IXFD_SOCK_UNKNOWN else IXFD_SOCK_TCP)\<rparr>"
  have f: "socks b = (socks w)(?sk \<mapsto> ?t)" "contexts b = contexts w" "nodes b = nodes w" "ctxs b = ctxs w"
    "wctxs b = wctxs w" "cargs b = cargs w" "bufs b = bufs w"
    "ios b = (ios w)(?ev \<mapsto> \<lparr>io_cb = Ixfd_commonsock_accept_cb, io_fd = ?fd, io_events = EV_READ, io_data = ?sk\<rparr>)"
    using bd by (simp_all add: bound_def Let_def)
  have t: "socks b ?sk = Some ?t" "s_context ?t = ctx" "event_accept ?t = ?ev" "event_connect ?t = 0" "default_ctx ?t = 0"
    "s_fd ?t = ?fd" "contexts b (s_context ?t) = Some k" using assms(4) f(1,2) by (simp_all add: zero_sock_def)
  have e: "ios b (event_accept ?t) = Some \<lparr>io_cb = Ixfd_commonsock_accept_cb, io_fd = ?fd, io_events = EV_READ, io_data = ?sk\<rparr>"
    using f(8) by simp
  have ctx: "s_context ?t \<noteq> 0" "event_accept ?t \<noteq> 0" "?sk \<noteq> 0" using assms(3) by simp_all
  note l = listen_exec [OF ctx(3) t(1) ctx(1) t(7) ctx(2) e, of E]
  have old: "ios w ?ev = None" "socks w ?sk = None" using assms(1) by (simp_all add: sock_fresh_def)
  show ?thesis
  proof (cases "answer E h (Sys (SysBind ?fd ip port)) < 0")
    case True
    then have "ixfd_commonsock_tcp_listen E ?sk b = Inl Assertion"
      using l by (simp add: IXFD_SOCK_UNKNOWN_def IXFD_SOCK_TCP_def)
    with a b e True show ?thesis by fastforce
  next
    case False
    let ?c = "emit (Ev (EvIoStart (evl k) ?ev)) (b\<lparr>hist := (Sys (SysListen ?fd 16), ask E (Sys (SysListen ?fd 16)) b) # hist b\<rparr>)"
    have c: "ixfd_commonsock_tcp_listen E ?sk b = Inr ?c" using l False fd by simp
    from unbind_exec [of ?sk ?c ?t k _ E] t e ctx obtain d where
      d: "ixfd_commonsock_unbind E ?sk ?c = Inr d" "map fst (take 2 (hist d)) = [Sys (SysClose ?fd), Ev (EvIoStop (evl k) ?ev)]"
        "socks d = socks b" "ios d = ios b" "ctxs d = ctxs b" "nodes d = nodes b" "bufs d = bufs b" "wctxs d = wctxs b"
        "cargs d = cargs b" by (auto simp: take_Suc)
    let ?u = "d\<lparr>ios := (ios d)(?ev := None), socks := (socks d)(?sk := None)\<rparr>"
    have u: "ixfd_commonsock_free ?sk d = Some (Inr ?u)"
      using free_listening_exec [of ?sk d ?t] t e ctx d(3,4) by simp
    have same: "(ios d)(?ev := None) = ios w" "(socks d)(?sk := None) = socks w"
      using old d(3,4) f(1,8) by (auto simp: fun_eq_iff)
    show ?thesis
      by (rule exI [of _ ?sk], rule exI [of _ ?a], rule exI [of _ b], rule exI [of _ ?ev], rule exI [of _ ?fd], rule exI [of _ h])
        (use False a b c d u e t same f in \<open>simp\<close>)
  qed
qed

theorem server_life_witness:
  "\<exists>sk a b c d u. ixfd_commonsock_create calm 1 one_conn = Inr (sk, a) \<and>
     ixfd_commonsock_tcp_createnbind calm sk ''0.0.0.0'' 8080 a = Inr b \<and> ixfd_commonsock_tcp_listen calm sk b = Inr c \<and>
     ixfd_commonsock_unbind calm sk c = Inr d \<and> ixfd_commonsock_free sk d = Some (Inr u) \<and> socks u = socks one_conn"
proof -
  have k: "contexts one_conn 1 = Some \<lparr>state = 0, evl = 9\<rparr>" by (simp add: one_conn_def)
  have "0 < answer calm h (Sys SysSocket)" "\<not> answer calm h (Sys (SysBind fd ip port)) < 0" for h fd ip port
    by (simp_all add: calm_def)
  with server_life [OF one_conn_fresh calm_plentiful _ k, of "''0.0.0.0''" 8080] show ?thesis by fastforce
qed

section \<open>Disconnecting\<close>

text \<open>
  Disconnecting.  With an active connection its descriptor, which is the socket's own, is closed
  twice in a row, so that the second call closes whatever has been given that number in between; with
  an inactive one it is closed once; and a socket that has never been connected, whose connection is
  NULL, is not handled at all.
\<close>

theorem disconnect_outcomes:
  assumes "sk \<noteq> 0" "socks w sk = Some s"
  shows "(default_ctx s = 0 \<longrightarrow> ixfd_commonsock_disconnect E sk w = Inl NullDeref) \<and>
    (\<forall>c k. conn_at w (default_ctx s) c s k \<longrightarrow> c_sock c = sk \<longrightarrow> c_fd c = s_fd s \<longrightarrow>
       (\<exists>v. ixfd_commonsock_disconnect E sk w = Inr v \<and> conn_at v (default_ctx s) (c\<lparr>c_active := False\<rparr>) s k \<and>
         map fst (hist v) = (if c_active c then [Sys (SysClose (s_fd s)), Sys (SysClose (s_fd s)), Ev (EvIoStop (evl k) (event_read c))]
                             else [Sys (SysClose (s_fd s))]) @ map fst (hist w)))"
proof (intro conjI impI allI)
  assume "default_ctx s = 0"
  with assms show "ixfd_commonsock_disconnect E sk w = Inl NullDeref"
    by (simp add: ixfd_commonsock_disconnect_def cstmt get_ctx_def)
next
  fix c k
  assume c: "conn_at w (default_ctx s) c s k" "c_sock c = sk" "c_fd c = s_fd s"
  then have d: "default_ctx s \<noteq> 0" "ctxs w (default_ctx s) = Some c" by (simp_all add: conn_at_def)
  have same: "c\<lparr>c_active := False\<rparr> = c" if "\<not> c_active c" using that by (cases c) simp
  show "\<exists>v. ixfd_commonsock_disconnect E sk w = Inr v \<and> conn_at v (default_ctx s) (c\<lparr>c_active := False\<rparr>) s k \<and>
         map fst (hist v) = (if c_active c then [Sys (SysClose (s_fd s)), Sys (SysClose (s_fd s)), Ev (EvIoStop (evl k) (event_read c))]
                             else [Sys (SysClose (s_fd s))]) @ map fst (hist w)"
    using assms d c same close_exec [OF c(1), of E]
    by (auto simp: ixfd_commonsock_disconnect_def cstmt conn_at_def split: option.splits)
qed

theorem disconnect_outcomes_witness:
  "\<exists>v. ixfd_commonsock_disconnect calm 2 (one_conn\<lparr>socks := [2 \<mapsto> one_sock\<lparr>s_fd := 11, default_ctx := 3\<rparr>]\<rparr>) = Inr v \<and>
     map fst (hist v) = [Sys (SysClose 11)]"
proof -
  let ?s = "one_sock\<lparr>s_fd := 11, default_ctx := 3\<rparr>"
  let ?w = "one_conn\<lparr>socks := [2 \<mapsto> ?s]\<rparr>"
  have s: "socks ?w 2 = Some ?s" by simp
  have "conn_at ?w (default_ctx ?s) one_ctx ?s \<lparr>state = 0, evl = 9\<rparr>" "c_sock one_ctx = 2" "c_fd one_ctx = s_fd ?s"
    "\<not> c_active one_ctx" "hist ?w = []"
    by (simp_all add: conn_at_def one_conn_def one_ctx_def one_sock_def zero_ctx_def zero_sock_def)
  with disconnect_outcomes [OF _ s, of calm] show ?thesis by fastforce
qed

end
