(* ===== verification/Luafound.thy ===== *)
theory Luafound
  imports Childprocess
begin

text \<open>
  The first script interface, the wrappers of luafound.cxx around child processes, sockets and
  timers.  A wrapper keeps the Lua callback it is given in a \<open>LuaRef\<close> on the heap, passes a lambda
  and the address of the \<open>LuaRef\<close> to the C function, and the lambda calls the Lua function.  The
  lambdas are definitions of their own; \<open>luafound_code\<close> says which of them a function pointer runs.
\<close>

section \<open>State\<close>

record ixlb_connect_data =
  cb_suc :: addr
  cb_fail :: addr

record ixlb_sock_data =
  sd_cb_read :: addr
  sd_cb_write :: addr

text \<open>A \<open>LuaRef\<close> on the heap holds a Lua value, nil being 0.\<close>

record lworld = cworld +
  luarefs :: "addr \<Rightarrow> nat option"
  conndata :: "addr \<Rightarrow> ixlb_connect_data option"
  sockdata :: "addr \<Rightarrow> ixlb_sock_data option"

text \<open>\<open>new\<close> throws when there is no memory, and nothing catches it.\<close>

definition new_luaref :: "env \<Rightarrow> nat \<Rightarrow> 'a lworld_scheme \<Rightarrow> (addr \<times> 'a lworld_scheme) res" where
  "new_luaref E v w =
     (let (p, w) = malloc E w
      in if p = 0 then Inl Aborted else Inr (p, w\<lparr>luarefs := (luarefs w)(p \<mapsto> v)\<rparr>))"

definition get_luaref :: "addr \<Rightarrow> 'a lworld_scheme \<Rightarrow> nat res" where
  "get_luaref p w = deref (luarefs w) p"

text \<open>\<open>delete\<close> of a pointer to a \<open>LuaRef\<close>; nothing for NULL.\<close>

definition delete_luaref :: "addr \<Rightarrow> 'a lworld_scheme \<Rightarrow> 'a lworld_scheme res" where
  "delete_luaref p w = bnd (release p (luarefs w)) (\<lambda>m. Inr (w\<lparr>luarefs := m\<rparr>))"

definition get_conndata :: "addr \<Rightarrow> 'a lworld_scheme \<Rightarrow> ixlb_connect_data res" where
  "get_conndata p w = deref (conndata w) p"

definition set_conndata ::
  "(ixlb_connect_data \<Rightarrow> ixlb_connect_data) \<Rightarrow> addr \<Rightarrow> 'a lworld_scheme \<Rightarrow> 'a lworld_scheme res" where
  "set_conndata f p w = bnd (modify f p (conndata w)) (\<lambda>m. Inr (w\<lparr>conndata := m\<rparr>))"

definition free_conndata :: "addr \<Rightarrow> 'a lworld_scheme \<Rightarrow> 'a lworld_scheme res" where
  "free_conndata p w = bnd (release p (conndata w)) (\<lambda>m. Inr (w\<lparr>conndata := m\<rparr>))"

definition get_sockdata :: "addr \<Rightarrow> 'a lworld_scheme \<Rightarrow> ixlb_sock_data res" where
  "get_sockdata p w = deref (sockdata w) p"

definition set_sockdata ::
  "(ixlb_sock_data \<Rightarrow> ixlb_sock_data) \<Rightarrow> addr \<Rightarrow> 'a lworld_scheme \<Rightarrow> 'a lworld_scheme res" where
  "set_sockdata f p w = bnd (modify f p (sockdata w)) (\<lambda>m. Inr (w\<lparr>sockdata := m\<rparr>))"

definition malloc_conndata :: "env \<Rightarrow> 'a lworld_scheme \<Rightarrow> addr \<times> 'a lworld_scheme" where
  "malloc_conndata E w =
     (let (p, w) = malloc E w
      in (p, if p = 0 then w
             else w\<lparr>conndata := (conndata w)(p \<mapsto> \<lparr>cb_suc = junk E (hist w) 0, cb_fail = junk E (hist w) 1\<rparr>)\<rparr>))"

definition malloc_sockdata :: "env \<Rightarrow> 'a lworld_scheme \<Rightarrow> addr \<times> 'a lworld_scheme" where
  "malloc_sockdata E w =
     (let (p, w) = malloc E w
      in (p, if p = 0 then w
             else w\<lparr>sockdata := (sockdata w)(p \<mapsto>
                    \<lparr>sd_cb_read = junk E (hist w) 0, sd_cb_write = junk E (hist w) 1\<rparr>)\<rparr>))"

text \<open>A part that may run forever, where a plain result is needed.\<close>

definition settle :: "'a res option \<Rightarrow> 'a res" where
  "settle m = (case m of None \<Rightarrow> Inl NoReturn | Some r \<Rightarrow> r)"

text \<open>Calling the Lua function a \<open>LuaRef\<close> holds, unless it is nil.\<close>

definition call_ref :: "'a lworld_scheme script \<Rightarrow> addr \<Rightarrow> int list \<Rightarrow> 'a lworld_scheme \<Rightarrow> 'a lworld_scheme res" where
  "call_ref V p xs w = bnd (get_luaref p w) (\<lambda>v. if v \<noteq> 0 then lua_call V v xs w else Inr w)"

section \<open>Lambdas\<close>

text \<open>The addresses of their code.\<close>

definition FP_spawn :: nat where "FP_spawn = 101"
definition FP_sock_write :: nat where "FP_sock_write = 102"
definition FP_connect_suc :: nat where "FP_connect_suc = 103"
definition FP_connect_fail :: nat where "FP_connect_fail = 104"
definition FP_sock_read :: nat where "FP_sock_read = 105"
definition FP_timer :: nat where "FP_timer = 106"
definition FP_fork :: nat where "FP_fork = 107"
definition FP_childw :: nat where "FP_childw = 108"

definition spawn_fn :: "'a lworld_scheme script \<Rightarrow> addr \<Rightarrow> 'a lworld_scheme \<Rightarrow> 'a lworld_scheme res" where
  "spawn_fn V a w =
     bnd (get_targs a w) (\<lambda>x.
     call_ref V (ta_data x) [ta_pid x, sint (ta_status x), sint (ta_term_signal x)] w)"

definition sock_write_fn ::
  "'a lworld_scheme script \<Rightarrow> addr \<Rightarrow> addr \<Rightarrow> 'a lworld_scheme \<Rightarrow> 'a lworld_scheme res" where
  "sock_write_fn V ctx a w = call_ref V a [int ctx] w"

text \<open>Both lambdas of a connect end by deleting the two references and freeing the pair.\<close>

definition drop_connect_data :: "addr \<Rightarrow> 'a lworld_scheme \<Rightarrow> 'a lworld_scheme res" where
  "drop_connect_data d w =
     bnd (get_conndata d w) (\<lambda>x.
     bnd (delete_luaref (cb_suc x) w) (\<lambda>w.
     bnd (get_conndata d w) (\<lambda>x.
     bnd (delete_luaref (cb_fail x) w) (\<lambda>w.
     free_conndata d w))))"

definition connect_suc_fn ::
  "'a lworld_scheme script \<Rightarrow> addr \<Rightarrow> addr \<Rightarrow> 'a lworld_scheme \<Rightarrow> 'a lworld_scheme res" where
  "connect_suc_fn V ctx d w =
     bnd (get_conndata d w) (\<lambda>x.
     bnd (call_ref V (cb_suc x) [int ctx] w) (\<lambda>w.
     drop_connect_data d w))"

definition connect_fail_fn ::
  "'a lworld_scheme script \<Rightarrow> addr \<Rightarrow> addr \<Rightarrow> 'a lworld_scheme \<Rightarrow> 'a lworld_scheme res" where
  "connect_fail_fn V sock d w =
     bnd (get_conndata d w) (\<lambda>x.
     bnd (call_ref V (cb_fail x) [int sock] w) (\<lambda>w.
     drop_connect_data d w))"

definition sock_read_fn ::
  "'a lworld_scheme script \<Rightarrow> addr \<Rightarrow> addr \<Rightarrow> nat \<Rightarrow> 'a lworld_scheme \<Rightarrow> 'a lworld_scheme res" where
  "sock_read_fn V ctx buf len w =
     bnd (get_ctx ctx w) (\<lambda>c.
     bnd (get_sock (c_sock c) w) (\<lambda>s.
     bnd (get_sockdata (s_data s) w) (\<lambda>d.
     if sd_cb_read d \<noteq> 0 then call_ref V (sd_cb_read d) [int ctx, int buf, int len] w else Inr w)))"

definition timer_fn ::
  "'a lworld_scheme script \<Rightarrow> addr \<Rightarrow> addr \<Rightarrow> 'a lworld_scheme \<Rightarrow> 'a lworld_scheme res" where
  "timer_fn V timer a w = call_ref V a [int timer] w"

text \<open>The only lambda that does not test for nil.\<close>

definition fork_fn :: "'a lworld_scheme script \<Rightarrow> addr \<Rightarrow> 'a lworld_scheme \<Rightarrow> 'a lworld_scheme res" where
  "fork_fn V a w = bnd (get_luaref a w) (\<lambda>v. lua_call V v [] w)"

definition childw_fn ::
  "'a lworld_scheme script \<Rightarrow> addr \<Rightarrow> addr \<Rightarrow> 'a lworld_scheme \<Rightarrow> 'a lworld_scheme res" where
  "childw_fn V watcher a w = call_ref V a [int watcher] w"

definition luafound_code :: "'a lworld_scheme script \<Rightarrow> 'a lworld_scheme user" where
  "luafound_code V f xs w =
     (if f = FP_spawn then spawn_fn V (xs ! 0) w
      else if f = FP_sock_write then sock_write_fn V (xs ! 0) (xs ! 1) w
      else if f = FP_connect_suc then connect_suc_fn V (xs ! 0) (xs ! 1) w
      else if f = FP_connect_fail then connect_fail_fn V (xs ! 0) (xs ! 1) w
      else if f = FP_sock_read then sock_read_fn V (xs ! 0) (xs ! 1) (xs ! 2) w
      else if f = FP_timer then timer_fn V (xs ! 0) (xs ! 1) w
      else if f = FP_fork then fork_fn V (xs ! 0) w
      else if f = FP_childw then childw_fn V (xs ! 0) (xs ! 1) w
      else Inl Dangling)"

section \<open>Wrappers\<close>

definition ixlb_spawn_process :: "env \<Rightarrow> string \<Rightarrow> nat \<Rightarrow> 'a lworld_scheme \<Rightarrow> 'a lworld_scheme res" where
  "ixlb_spawn_process E file v w =
     bnd (new_luaref E v w) (\<lambda>(r, w).
     ixut_spawn_process E file FP_spawn r w)"

definition ixlb_sock_write ::
  "env \<Rightarrow> 'a lworld_scheme user \<Rightarrow> addr \<Rightarrow> byte list \<Rightarrow> size_t \<Rightarrow> nat \<Rightarrow> 'a lworld_scheme \<Rightarrow> 'a lworld_scheme res" where
  "ixlb_sock_write E U ctx bytes len v w =
     bnd (new_luaref E v w) (\<lambda>(r, w).
     bnd (ixfd_commonsock_write E U ctx bytes len FP_sock_write r w) (\<lambda>(_, w).
     Inr w))"

definition ixlb_sock_connect ::
  "env \<Rightarrow> 'a lworld_scheme user \<Rightarrow> addr \<Rightarrow> string \<Rightarrow> 16 word \<Rightarrow> nat \<Rightarrow> nat \<Rightarrow> 'a lworld_scheme \<Rightarrow> 'a lworld_scheme res" where
  "ixlb_sock_connect E U sock ip port v_suc v_fail w =
     (let (d, w) = malloc_conndata E w in
      bnd (new_luaref E v_suc w) (\<lambda>(r, w).
      bnd (set_conndata (\<lambda>x. x\<lparr>cb_suc := r\<rparr>) d w) (\<lambda>w.
      bnd (new_luaref E v_fail w) (\<lambda>(r, w).
      bnd (set_conndata (\<lambda>x. x\<lparr>cb_fail := r\<rparr>) d w) (\<lambda>w.
      ixfd_commonsock_tcp_createnconnect E U sock ip port FP_connect_suc FP_connect_fail d w)))))"

definition ixlb_sock_create :: "env \<Rightarrow> addr \<Rightarrow> 'a lworld_scheme \<Rightarrow> (addr \<times> 'a lworld_scheme) res" where
  "ixlb_sock_create E ctx w =
     bnd (ixfd_commonsock_create E ctx w) (\<lambda>(ret, w).
     let (d, w) = malloc_sockdata E w in
     bnd (set_sockdata (\<lambda>x. x\<lparr>sd_cb_read := 0\<rparr>) d w) (\<lambda>w.
     bnd (set_sock (\<lambda>s. s\<lparr>s_data := d\<rparr>) ret w) (\<lambda>w.
     Inr (ret, w))))"

definition ixlb_sock_set_read_callback :: "env \<Rightarrow> addr \<Rightarrow> nat \<Rightarrow> 'a lworld_scheme \<Rightarrow> 'a lworld_scheme res" where
  "ixlb_sock_set_read_callback E sock v w =
     bnd (new_luaref E v w) (\<lambda>(r, w).
     bnd (get_sock sock w) (\<lambda>s.
     bnd (get_sockdata (s_data s) w) (\<lambda>d.
     bnd (if sd_cb_read d \<noteq> 0 then delete_luaref (sd_cb_read d) w else Inr w) (\<lambda>w.
     bnd (set_sockdata (\<lambda>x. x\<lparr>sd_cb_read := r\<rparr>) (s_data s) w) (\<lambda>w.
     set_sock (\<lambda>s. s\<lparr>s_cb_read := FP_sock_read\<rparr>) sock w)))))"

definition ixlb_timer_start :: "env \<Rightarrow> addr \<Rightarrow> real \<Rightarrow> nat \<Rightarrow> 'a lworld_scheme \<Rightarrow> 'a lworld_scheme res" where
  "ixlb_timer_start E timer i v w =
     bnd (new_luaref E v w) (\<lambda>(r, w). ixut_timer_start timer i FP_timer r w)"

definition ixlb_fork ::
  "env \<Rightarrow> 'a lworld_scheme user \<Rightarrow> nat \<Rightarrow> 'a lworld_scheme \<Rightarrow> (int \<times> 'a lworld_scheme) res" where
  "ixlb_fork E U v w = bnd (new_luaref E v w) (\<lambda>(r, w). ixut_fork E U FP_fork r w)"

definition ixlb_childw_start :: "env \<Rightarrow> addr \<Rightarrow> int \<Rightarrow> nat \<Rightarrow> 'a lworld_scheme \<Rightarrow> 'a lworld_scheme res" where
  "ixlb_childw_start E childw pid v w =
     bnd (new_luaref E v w) (\<lambda>(r, w). ixut_childw_start E childw pid FP_childw r w)"

definition ixlb_getpid :: "env \<Rightarrow> 'a world_scheme \<Rightarrow> int \<times> 'a world_scheme" where
  "ixlb_getpid E w = ext E (Proc SysGetpid) w"

definition ixlb_break_loop :: "addr \<Rightarrow> 'a world_scheme \<Rightarrow> 'a world_scheme res" where
  "ixlb_break_loop ctx w = bnd (loop_of ctx w) (\<lambda>l. Inr (emit (Ev (EvBreak l)) w))"

text \<open>The C library's streams; where its three standard ones live is a parameter.\<close>

record stdio =
  std_in :: addr
  std_out :: addr
  std_err :: addr

definition ixlb_freopen :: "env \<Rightarrow> string \<Rightarrow> string \<Rightarrow> addr \<Rightarrow> 'a world_scheme \<Rightarrow> int \<times> 'a world_scheme" where
  "ixlb_freopen E filename mode stream w = ext E (Proc (SysFreopen filename mode stream)) w"

definition ixlb_get_stdin :: "stdio \<Rightarrow> addr" where "ixlb_get_stdin F = std_in F"
definition ixlb_get_stdout :: "stdio \<Rightarrow> addr" where "ixlb_get_stdout F = std_out F"
definition ixlb_get_stderr :: "stdio \<Rightarrow> addr" where "ixlb_get_stderr F = std_err F"

definition ixlb_fflush :: "env \<Rightarrow> addr \<Rightarrow> 'a world_scheme \<Rightarrow> int \<times> 'a world_scheme" where
  "ixlb_fflush E stream w = ext E (Proc (SysFflush stream)) w"

end
