(* ===== verification/Luafoundx.thy ===== *)
theory Luafoundx
  imports Luafound
begin

text \<open>
  The second script interface, the classes of luafoundx.cxx.  Their objects are shared between C++
  and the script by LuaBridge's \<open>RefCountedPtr\<close>: an object that the event loop will call back holds
  a counted pointer to itself (\<open>ref\<close>), which the callback gives up (\<open>un_ref\<close>); the destruction of the
  last counted pointer deletes the object.  The counting is LuaBridge's; it is recorded in the
  history, and whether a destroyed pointer was the last is the environment's answer.
\<close>

section \<open>Objects\<close>

record ixlbx_ref_base =
  m_this_ref :: addr

record ixlbx_timer = ixlbx_ref_base +
  xt_impl :: addr
  xt_ref_cb :: nat

record ixlbx_child_watcher = ixlbx_ref_base +
  xc_impl :: addr
  xc_ref_cb :: nat

record ixlbx_tcp_base = ixlbx_ref_base +
  tcp_impl :: addr
  m_ref_cbread :: nat
  m_ref_cbaccept :: nat
  m_ref_cbclose :: nat

text \<open>An object of a class derived from \<open>ixlbx_ref_base\<close>, with its dynamic type.\<close>

datatype xobj = XTimer ixlbx_timer | XChild ixlbx_child_watcher | XTcp ixlbx_tcp_base

record ixlbx_fork =
  xf_ref_cb :: nat
  xf_pid :: int

record ixlbx_socket_context =
  sc_data :: nat
  sc_this_ref :: addr
  sc_impl :: addr

record xworld = lworld +
  rcptrs :: "addr \<Rightarrow> addr option"
  objs :: "addr \<Rightarrow> xobj option"
  xforks :: "addr \<Rightarrow> ixlbx_fork option"
  xconns :: "addr \<Rightarrow> ixlbx_socket_context option"

fun this_ref :: "xobj \<Rightarrow> addr" where
  "this_ref (XTimer x) = m_this_ref x"
| "this_ref (XChild x) = m_this_ref x"
| "this_ref (XTcp x) = m_this_ref x"

fun with_this_ref :: "addr \<Rightarrow> xobj \<Rightarrow> xobj" where
  "with_this_ref t (XTimer x) = XTimer (x\<lparr>m_this_ref := t\<rparr>)"
| "with_this_ref t (XChild x) = XChild (x\<lparr>m_this_ref := t\<rparr>)"
| "with_this_ref t (XTcp x) = XTcp (x\<lparr>m_this_ref := t\<rparr>)"

section \<open>Memory\<close>

definition get_obj :: "addr \<Rightarrow> 'a xworld_scheme \<Rightarrow> xobj res" where
  "get_obj p w = deref (objs w) p"

definition set_obj :: "(xobj \<Rightarrow> xobj) \<Rightarrow> addr \<Rightarrow> 'a xworld_scheme \<Rightarrow> 'a xworld_scheme res" where
  "set_obj f p w = bnd (modify f p (objs w)) (\<lambda>m. Inr (w\<lparr>objs := m\<rparr>))"

definition free_obj :: "addr \<Rightarrow> 'a xworld_scheme \<Rightarrow> 'a xworld_scheme res" where
  "free_obj p w = bnd (release p (objs w)) (\<lambda>m. Inr (w\<lparr>objs := m\<rparr>))"

definition get_xtimer :: "addr \<Rightarrow> 'a xworld_scheme \<Rightarrow> ixlbx_timer res" where
  "get_xtimer p w = bnd (get_obj p w) (\<lambda>x. case x of XTimer t \<Rightarrow> Inr t | _ \<Rightarrow> Inl Dangling)"

definition get_xchild :: "addr \<Rightarrow> 'a xworld_scheme \<Rightarrow> ixlbx_child_watcher res" where
  "get_xchild p w = bnd (get_obj p w) (\<lambda>x. case x of XChild c \<Rightarrow> Inr c | _ \<Rightarrow> Inl Dangling)"

definition get_xtcp :: "addr \<Rightarrow> 'a xworld_scheme \<Rightarrow> ixlbx_tcp_base res" where
  "get_xtcp p w = bnd (get_obj p w) (\<lambda>x. case x of XTcp t \<Rightarrow> Inr t | _ \<Rightarrow> Inl Dangling)"

definition set_xtcp ::
  "(ixlbx_tcp_base \<Rightarrow> ixlbx_tcp_base) \<Rightarrow> addr \<Rightarrow> 'a xworld_scheme \<Rightarrow> 'a xworld_scheme res" where
  "set_xtcp f p w = bnd (get_xtcp p w) (\<lambda>t. set_obj (\<lambda>_. XTcp (f t)) p w)"

definition get_conn :: "addr \<Rightarrow> 'a xworld_scheme \<Rightarrow> ixlbx_socket_context res" where
  "get_conn p w = deref (xconns w) p"

definition set_conn ::
  "(ixlbx_socket_context \<Rightarrow> ixlbx_socket_context) \<Rightarrow> addr \<Rightarrow> 'a xworld_scheme \<Rightarrow> 'a xworld_scheme res" where
  "set_conn f p w = bnd (modify f p (xconns w)) (\<lambda>m. Inr (w\<lparr>xconns := m\<rparr>))"

definition free_conn :: "addr \<Rightarrow> 'a xworld_scheme \<Rightarrow> 'a xworld_scheme res" where
  "free_conn p w = bnd (release p (xconns w)) (\<lambda>m. Inr (w\<lparr>xconns := m\<rparr>))"

text \<open>\<open>new\<close>: the memory first, then the constructor.\<close>

definition new_obj ::
  "env \<Rightarrow> ('a xworld_scheme \<Rightarrow> (xobj \<times> 'a xworld_scheme) res) \<Rightarrow> 'a xworld_scheme \<Rightarrow> (addr \<times> 'a xworld_scheme) res" where
  "new_obj E init w =
     (let (p, w) = malloc E w
      in if p = 0 then Inl Aborted
         else bnd (init w) (\<lambda>(x, w). Inr (p, w\<lparr>objs := (objs w)(p \<mapsto> x)\<rparr>)))"

text \<open>A counted pointer on the heap, and one more or one less counted pointer to an object.\<close>

definition rc_acquire :: "addr \<Rightarrow> 'a world_scheme \<Rightarrow> 'a world_scheme" where
  "rc_acquire p w = emit (Rc (RcAcquire p)) w"

definition rc_release ::
  "env \<Rightarrow> (env \<Rightarrow> addr \<Rightarrow> 'a world_scheme \<Rightarrow> 'a world_scheme res) \<Rightarrow> addr \<Rightarrow> 'a world_scheme \<Rightarrow> 'a world_scheme res" where
  "rc_release E destroy p w =
     (let (last_one, w) = ext E (Rc (RcRelease p)) w in if last_one \<noteq> 0 then destroy E p w else Inr w)"

definition new_rcptr :: "env \<Rightarrow> addr \<Rightarrow> 'a xworld_scheme \<Rightarrow> (addr \<times> 'a xworld_scheme) res" where
  "new_rcptr E p w =
     (let (t, w) = malloc E w
      in if t = 0 then Inl Aborted else Inr (t, rc_acquire p (w\<lparr>rcptrs := (rcptrs w)(t \<mapsto> p)\<rparr>)))"

definition delete_rcptr ::
  "env \<Rightarrow> (env \<Rightarrow> addr \<Rightarrow> 'a xworld_scheme \<Rightarrow> 'a xworld_scheme res) \<Rightarrow> addr \<Rightarrow> 'a xworld_scheme \<Rightarrow> 'a xworld_scheme res" where
  "delete_rcptr E destroy t w =
     bnd (deref (rcptrs w) t) (\<lambda>p.
     bnd (rc_release E destroy p w) (\<lambda>w.
     bnd (release t (rcptrs w)) (\<lambda>m. Inr (w\<lparr>rcptrs := m\<rparr>))))"

section \<open>Destructors\<close>

definition ixlbx_timer_destroy :: "ixlbx_timer \<Rightarrow> 'a xworld_scheme \<Rightarrow> 'a xworld_scheme res" where
  "ixlbx_timer_destroy x w = ixut_timer_free (xt_impl x) (emit (Printf ''freeing ixlbx_timer ...'') w)"

definition ixlbx_child_watcher_destroy ::
  "env \<Rightarrow> ixlbx_child_watcher \<Rightarrow> 'a xworld_scheme \<Rightarrow> 'a xworld_scheme res" where
  "ixlbx_child_watcher_destroy E x w = ixut_childw_free E (xc_impl x) w"

definition ixlbx_tcp_base_destroy :: "ixlbx_tcp_base \<Rightarrow> 'a xworld_scheme \<Rightarrow> 'a xworld_scheme res" where
  "ixlbx_tcp_base_destroy x w =
     settle (ixfd_commonsock_free (tcp_impl x) (emit (Printf ''freeing ixlbx_tcp_base ...'') w))"

definition ixlbx_socket_context_destroy ::
  "ixlbx_socket_context \<Rightarrow> 'a xworld_scheme \<Rightarrow> 'a xworld_scheme res" where
  "ixlbx_socket_context_destroy x w =
     settle (ixfd_commonsock_freectx (sc_impl x) (emit (Printf ''freeing ixlbx_socket_context ...'') w))"

text \<open>\<open>delete\<close> of an object: the destructor of its dynamic type, then its memory.\<close>

definition delete_obj :: "env \<Rightarrow> addr \<Rightarrow> 'a xworld_scheme \<Rightarrow> 'a xworld_scheme res" where
  "delete_obj E p w =
     bnd (get_obj p w) (\<lambda>x.
     bnd (case x of XTimer t \<Rightarrow> ixlbx_timer_destroy t w
                  | XChild c \<Rightarrow> ixlbx_child_watcher_destroy E c w
                  | XTcp t \<Rightarrow> ixlbx_tcp_base_destroy t w) (\<lambda>w.
     free_obj p w))"

definition delete_conn :: "env \<Rightarrow> addr \<Rightarrow> 'a xworld_scheme \<Rightarrow> 'a xworld_scheme res" where
  "delete_conn E p w = bnd (get_conn p w) (\<lambda>x. bnd (ixlbx_socket_context_destroy x w) (free_conn p))"

section \<open>References to oneself\<close>

definition ixlbx_ref_base_ref :: "env \<Rightarrow> addr \<Rightarrow> 'a xworld_scheme \<Rightarrow> 'a xworld_scheme res" where
  "ixlbx_ref_base_ref E self w =
     bnd (get_obj self w) (\<lambda>x.
     if this_ref x = 0 then bnd (new_rcptr E self w) (\<lambda>(t, w). set_obj (with_this_ref t) self w) else Inr w)"

definition ixlbx_ref_base_un_ref :: "env \<Rightarrow> addr \<Rightarrow> 'a xworld_scheme \<Rightarrow> 'a xworld_scheme res" where
  "ixlbx_ref_base_un_ref E self w =
     bnd (get_obj self w) (\<lambda>x.
     if this_ref x \<noteq> 0
     then bnd (set_obj (with_this_ref 0) self w) (\<lambda>w. delete_rcptr E delete_obj (this_ref x) w)
     else Inr w)"

text \<open>The connection class has its own pair, which clears the pointer only after deleting it.\<close>

definition ixlbx_socket_context_ref :: "env \<Rightarrow> addr \<Rightarrow> 'a xworld_scheme \<Rightarrow> 'a xworld_scheme res" where
  "ixlbx_socket_context_ref E self w =
     bnd (get_conn self w) (\<lambda>x.
     if sc_this_ref x = 0
     then bnd (new_rcptr E self w) (\<lambda>(t, w). set_conn (\<lambda>x. x\<lparr>sc_this_ref := t\<rparr>) self w) else Inr w)"

definition ixlbx_socket_context_un_ref :: "env \<Rightarrow> addr \<Rightarrow> 'a xworld_scheme \<Rightarrow> 'a xworld_scheme res" where
  "ixlbx_socket_context_un_ref E self w =
     bnd (get_conn self w) (\<lambda>x.
     if sc_this_ref x \<noteq> 0
     then bnd (delete_rcptr E delete_conn (sc_this_ref x) w) (\<lambda>w. set_conn (\<lambda>x. x\<lparr>sc_this_ref := 0\<rparr>) self w)
     else Inr w)"

text \<open>
  A call that passes the script a counted pointer.  The temporary of the C++ expression is one; pushing
  it makes LuaBridge copy it into a userdata, which is another.  The temporary dies when the call has
  returned, the userdata when Lua collects it: not before the function has given it up, and otherwise
  at any time later.  A collection is \<open>rc_release\<close> in whatever state the process is then.
\<close>

definition call_with ::
  "env \<Rightarrow> 'a world_scheme script \<Rightarrow> (env \<Rightarrow> addr \<Rightarrow> 'a world_scheme \<Rightarrow> 'a world_scheme res) \<Rightarrow> nat \<Rightarrow> addr \<Rightarrow> int list \<Rightarrow>
   'a world_scheme \<Rightarrow> 'a world_scheme res" where
  "call_with E V destroy f p xs w =
     bnd (lua_call V f (int p # xs) (rc_acquire p (rc_acquire p w))) (\<lambda>w. rc_release E destroy p w)"

definition FP_xtimer :: nat where "FP_xtimer = 201"
definition FP_xfork :: nat where "FP_xfork = 202"
definition FP_xchild :: nat where "FP_xchild = 203"
definition FP_xread :: nat where "FP_xread = 204"
definition FP_xaccept :: nat where "FP_xaccept = 205"
definition FP_xclose :: nat where "FP_xclose = 206"
definition FP_xwrite :: nat where "FP_xwrite = 207"

section \<open>Timers, processes\<close>

definition ixlbx_timer_new :: "env \<Rightarrow> addr \<Rightarrow> nat \<Rightarrow> 'a xworld_scheme \<Rightarrow> (addr \<times> 'a xworld_scheme) res" where
  "ixlbx_timer_new E ctx v w =
     new_obj E (\<lambda>w.
       bnd (ixut_timer_create E ctx w) (\<lambda>(impl, w).
       Inr (XTimer \<lparr>m_this_ref = 0, xt_impl = impl, xt_ref_cb = v\<rparr>, w))) w"

definition ixlbx_timer_start :: "env \<Rightarrow> addr \<Rightarrow> real \<Rightarrow> 'a xworld_scheme \<Rightarrow> 'a xworld_scheme res" where
  "ixlbx_timer_start E self i w =
     bnd (ixlbx_ref_base_ref E self w) (\<lambda>w.
     bnd (get_xtimer self w) (\<lambda>x.
     ixut_timer_start (xt_impl x) i FP_xtimer self w))"

definition xtimer_fn :: "env \<Rightarrow> 'a xworld_scheme script \<Rightarrow> addr \<Rightarrow> addr \<Rightarrow> 'a xworld_scheme \<Rightarrow> 'a xworld_scheme res" where
  "xtimer_fn E V timer self w =
     bnd (get_xtimer self w) (\<lambda>x.
     bnd (call_with E V delete_obj (xt_ref_cb x) self [] w) (\<lambda>w.
     ixlbx_ref_base_un_ref E self w))"

definition ixlbx_fork_new ::
  "env \<Rightarrow> 'a xworld_scheme user \<Rightarrow> nat \<Rightarrow> 'a xworld_scheme \<Rightarrow> (addr \<times> 'a xworld_scheme) res" where
  "ixlbx_fork_new E U v w =
     (let (p, w) = malloc E w
      in if p = 0 then Inl Aborted
         else bnd (ixut_fork E U FP_xfork p
                (w\<lparr>xforks := (xforks w)(p \<mapsto> \<lparr>xf_ref_cb = v, xf_pid = int (junk E (hist w) 0)\<rparr>)\<rparr>)) (\<lambda>(pid, w).
              bnd (modify (\<lambda>x. x\<lparr>xf_pid := pid\<rparr>) p (xforks w)) (\<lambda>m. Inr (p, w\<lparr>xforks := m\<rparr>))))"

definition xfork_fn :: "'a xworld_scheme script \<Rightarrow> addr \<Rightarrow> 'a xworld_scheme \<Rightarrow> 'a xworld_scheme res" where
  "xfork_fn V self w = bnd (deref (xforks w) self) (\<lambda>x. lua_call V (xf_ref_cb x) [int self] w)"

definition ixlbx_child_watcher_new ::
  "env \<Rightarrow> addr \<Rightarrow> nat \<Rightarrow> 'a xworld_scheme \<Rightarrow> (addr \<times> 'a xworld_scheme) res" where
  "ixlbx_child_watcher_new E ctx v w =
     new_obj E (\<lambda>w.
       bnd (ixut_childw_create E ctx w) (\<lambda>(impl, w).
       Inr (XChild \<lparr>m_this_ref = 0, xc_impl = impl, xc_ref_cb = v\<rparr>, w))) w"

definition ixlbx_child_watcher_start :: "env \<Rightarrow> addr \<Rightarrow> int \<Rightarrow> 'a xworld_scheme \<Rightarrow> 'a xworld_scheme res" where
  "ixlbx_child_watcher_start E self pid w =
     bnd (ixlbx_ref_base_ref E self w) (\<lambda>w.
     bnd (get_xchild self w) (\<lambda>x.
     ixut_childw_start E (xc_impl x) pid FP_xchild self w))"

definition xchild_fn :: "env \<Rightarrow> 'a xworld_scheme script \<Rightarrow> addr \<Rightarrow> addr \<Rightarrow> 'a xworld_scheme \<Rightarrow> 'a xworld_scheme res" where
  "xchild_fn E V watcher self w =
     bnd (get_xchild self w) (\<lambda>x.
     bnd (lua_call V (xc_ref_cb x) [int self] w) (\<lambda>w.
     ixlbx_ref_base_un_ref E self w))"

definition ixlbx_child_watcher_get_status :: "addr \<Rightarrow> 'a xworld_scheme \<Rightarrow> ixut_child_exitstatus res" where
  "ixlbx_child_watcher_get_status self w = bnd (get_xchild self w) (\<lambda>x. ixut_childw_getstatus (xc_impl x) w)"

section \<open>Listening sockets\<close>

definition ixlbx_tcp_base_new :: "env \<Rightarrow> addr \<Rightarrow> 'a xworld_scheme \<Rightarrow> (addr \<times> 'a xworld_scheme) res" where
  "ixlbx_tcp_base_new E ctx w =
     bnd (new_obj E (\<lambda>w.
       bnd (ixfd_commonsock_create E ctx w) (\<lambda>(impl, w).
       Inr (XTcp \<lparr>m_this_ref = 0, tcp_impl = impl, m_ref_cbread = 0, m_ref_cbaccept = 0, m_ref_cbclose = 0\<rparr>, w))) w)
       (\<lambda>(self, w).
     bnd (get_xtcp self w) (\<lambda>x.
     let impl = tcp_impl x in
     bnd (set_sock (\<lambda>s. s\<lparr>s_data := self\<rparr>) impl w) (\<lambda>w.
     bnd (set_sock (\<lambda>s. s\<lparr>s_cb_read := FP_xread\<rparr>) impl w) (\<lambda>w.
     bnd (set_sock (\<lambda>s. s\<lparr>cb_accept := FP_xaccept\<rparr>) impl w) (\<lambda>w.
     bnd (set_sock (\<lambda>s. s\<lparr>cb_close := FP_xclose\<rparr>) impl w) (\<lambda>w.
     Inr (self, w)))))))"

definition ixlbx_tcp_base_start ::
  "env \<Rightarrow> addr \<Rightarrow> string \<Rightarrow> 16 word \<Rightarrow> 'a xworld_scheme \<Rightarrow> (addr \<times> 'a xworld_scheme) res" where
  "ixlbx_tcp_base_start E self ip port w =
     bnd (get_xtcp self w) (\<lambda>x.
     bnd (ixfd_commonsock_tcp_createnbind E (tcp_impl x) ip port w) (\<lambda>w.
     bnd (ixfd_commonsock_tcp_listen E (tcp_impl x) w) (\<lambda>w.
     bnd (ixlbx_ref_base_ref E self w) (\<lambda>w.
     Inr (self, w)))))"

definition ixlbx_tcp_base_on_read :: "addr \<Rightarrow> nat \<Rightarrow> 'a xworld_scheme \<Rightarrow> (addr \<times> 'a xworld_scheme) res" where
  "ixlbx_tcp_base_on_read self v w = bnd (set_xtcp (\<lambda>x. x\<lparr>m_ref_cbread := v\<rparr>) self w) (\<lambda>w. Inr (self, w))"

definition ixlbx_tcp_base_on_accept :: "addr \<Rightarrow> nat \<Rightarrow> 'a xworld_scheme \<Rightarrow> (addr \<times> 'a xworld_scheme) res" where
  "ixlbx_tcp_base_on_accept self v w = bnd (set_xtcp (\<lambda>x. x\<lparr>m_ref_cbaccept := v\<rparr>) self w) (\<lambda>w. Inr (self, w))"

definition ixlbx_tcp_base_on_close :: "addr \<Rightarrow> nat \<Rightarrow> 'a xworld_scheme \<Rightarrow> (addr \<times> 'a xworld_scheme) res" where
  "ixlbx_tcp_base_on_close self v w = bnd (set_xtcp (\<lambda>x. x\<lparr>m_ref_cbclose := v\<rparr>) self w) (\<lambda>w. Inr (self, w))"

definition ixlbx_tcp_base_close :: "env \<Rightarrow> addr \<Rightarrow> 'a xworld_scheme \<Rightarrow> 'a xworld_scheme res" where
  "ixlbx_tcp_base_close E self w =
     bnd (get_xtcp self w) (\<lambda>x.
     bnd (ixfd_commonsock_unbind E (tcp_impl x) w) (\<lambda>w.
     ixlbx_ref_base_un_ref E self w))"

section \<open>Connections\<close>

definition ixlbx_socket_context_new ::
  "env \<Rightarrow> addr \<Rightarrow> 'a xworld_scheme \<Rightarrow> (addr \<times> 'a xworld_scheme) res" where
  "ixlbx_socket_context_new E src w =
     (let (p, w) = malloc E w
      in if p = 0 then Inl Aborted
         else bnd (get_ctx src w) (\<lambda>c.
              bnd (get_sock (c_sock c) w) (\<lambda>s.
              bnd (deref (contexts w) (s_context s)) (\<lambda>_.
              let w = w\<lparr>xconns := (xconns w)(p \<mapsto> \<lparr>sc_data = 0, sc_this_ref = 0, sc_impl = src\<rparr>)\<rparr> in
              bnd (set_ctx (\<lambda>c. c\<lparr>c_data := p\<rparr>) src w) (\<lambda>w.
              bnd (ixlbx_socket_context_ref E p w) (\<lambda>w.
              Inr (p, w)))))))"

definition xwrite_fn :: "env \<Rightarrow> 'a xworld_scheme script \<Rightarrow> addr \<Rightarrow> addr \<Rightarrow> 'a xworld_scheme \<Rightarrow> 'a xworld_scheme res" where
  "xwrite_fn E V ctx a w =
     bnd (if a \<noteq> 0
          then bnd (get_luaref a w) (\<lambda>v.
               if v \<noteq> 0 then bnd (get_ctx ctx w) (\<lambda>c. call_with E V delete_conn v (c_data c) [] w) else Inr w)
          else Inr w) (\<lambda>w.
     delete_luaref a w)"

definition ixlbx_socket_context_write ::
  "env \<Rightarrow> 'a xworld_scheme user \<Rightarrow> addr \<Rightarrow> byte list \<Rightarrow> nat \<Rightarrow> 'a xworld_scheme \<Rightarrow> 'a xworld_scheme res" where
  "ixlbx_socket_context_write E U self content v w =
     bnd (new_luaref E v w) (\<lambda>(r, w).
     bnd (get_conn self w) (\<lambda>x.
     bnd (ixfd_commonsock_write E U (sc_impl x) content (of_nat (length content)) FP_xwrite r w) (\<lambda>(_, w).
     Inr w)))"

definition ixlbx_socket_context_close :: "env \<Rightarrow> addr \<Rightarrow> 'a xworld_scheme \<Rightarrow> 'a xworld_scheme res" where
  "ixlbx_socket_context_close E self w =
     bnd (get_conn self w) (\<lambda>x.
     bnd (ixfd_commonsock_close E (sc_impl x) w) (\<lambda>w.
     ixlbx_socket_context_un_ref E self w))"

definition ixlbx_socket_context_is_active :: "addr \<Rightarrow> 'a xworld_scheme \<Rightarrow> bool res" where
  "ixlbx_socket_context_is_active self w =
     bnd (get_conn self w) (\<lambda>x. bnd (get_ctx (sc_impl x) w) (\<lambda>c. Inr (c_active c)))"

definition ixlbx_socket_context_sock :: "addr \<Rightarrow> 'a xworld_scheme \<Rightarrow> addr res" where
  "ixlbx_socket_context_sock self w =
     bnd (get_conn self w) (\<lambda>x. bnd (get_ctx (sc_impl x) w) (\<lambda>c.
     bnd (get_sock (c_sock c) w) (\<lambda>s. Inr (s_data s))))"

text \<open>The three lambdas every listening socket is given.\<close>

definition xread_fn ::
  "env \<Rightarrow> 'a xworld_scheme script \<Rightarrow> addr \<Rightarrow> addr \<Rightarrow> nat \<Rightarrow> 'a xworld_scheme \<Rightarrow> 'a xworld_scheme res" where
  "xread_fn E V ctx buf len w =
     bnd (get_ctx ctx w) (\<lambda>c.
     bnd (get_sock (c_sock c) w) (\<lambda>s.
     bnd (get_xtcp (s_data s) w) (\<lambda>x.
     if m_ref_cbread x \<noteq> 0
     then call_with E V delete_conn (m_ref_cbread x) (c_data c) [int buf, int len] w else Inr w)))"

definition xaccept_fn :: "env \<Rightarrow> 'a xworld_scheme script \<Rightarrow> addr \<Rightarrow> 'a xworld_scheme \<Rightarrow> 'a xworld_scheme res" where
  "xaccept_fn E V ctx w =
     bnd (get_ctx ctx w) (\<lambda>c.
     bnd (get_sock (c_sock c) w) (\<lambda>s.
     bnd (get_xtcp (s_data s) w) (\<lambda>x.
     if m_ref_cbaccept x \<noteq> 0
     then bnd (ixlbx_socket_context_new E ctx w) (\<lambda>(p, w). call_with E V delete_conn (m_ref_cbaccept x) p [] w)
     else Inr w)))"

definition xclose_fn :: "env \<Rightarrow> 'a xworld_scheme script \<Rightarrow> addr \<Rightarrow> 'a xworld_scheme \<Rightarrow> 'a xworld_scheme res" where
  "xclose_fn E V ctx w =
     bnd (get_ctx ctx w) (\<lambda>c.
     bnd (get_sock (c_sock c) w) (\<lambda>s.
     bnd (get_xtcp (s_data s) w) (\<lambda>x.
     bnd (if m_ref_cbclose x \<noteq> 0 then call_with E V delete_conn (m_ref_cbclose x) (c_data c) [] w else Inr w) (\<lambda>w.
     ixlbx_socket_context_un_ref E (c_data c) w))))"

definition luafoundx_code :: "env \<Rightarrow> 'a xworld_scheme script \<Rightarrow> 'a xworld_scheme user" where
  "luafoundx_code E V f xs w =
     (if f = FP_xtimer then xtimer_fn E V (xs ! 0) (xs ! 1) w
      else if f = FP_xfork then xfork_fn V (xs ! 0) w
      else if f = FP_xchild then xchild_fn E V (xs ! 0) (xs ! 1) w
      else if f = FP_xread then xread_fn E V (xs ! 0) (xs ! 1) (xs ! 2) w
      else if f = FP_xaccept then xaccept_fn E V (xs ! 0) w
      else if f = FP_xclose then xclose_fn E V (xs ! 0) w
      else if f = FP_xwrite then xwrite_fn E V (xs ! 0) (xs ! 1) w
      else luafound_code V f xs w)"

section \<open>What LuaBridge documents of counted pointers\<close>

text \<open>
  The number of counted pointers to an object, by the recorded calls; the one whose destruction
  takes it from one to zero was the last.  A counted pointer that is NULL deletes nothing.
\<close>

fun refs :: "event list \<Rightarrow> addr \<Rightarrow> nat" where
  "refs [] p = 0"
| "refs ((Rc (RcAcquire q), _) # h) p = (if p = q then Suc (refs h p) else refs h p)"
| "refs ((Rc (RcRelease q), _) # h) p = (if p = q then refs h p - 1 else refs h p)"
| "refs (_ # h) p = refs h p"

definition counts_refs :: "env \<Rightarrow> bool" where
  "counts_refs E \<longleftrightarrow> (\<forall>h p. answer E h (Rc (RcRelease p)) \<noteq> 0 \<longleftrightarrow> p \<noteq> 0 \<and> refs h p = 1)"

end
