(* ===== verification/LuafoundProps.thy ===== *)
theory LuafoundProps
  imports Luafound SockServer
begin

unbundle bit_operations_syntax

text \<open>
  The properties of the wrappers of luafound.cxx, together with the handlers of sock.cxx that run
  their lambdas.
\<close>

section \<open>Statements\<close>

lemma luaref_cells [cstmt]:
  "p \<noteq> 0 \<Longrightarrow> luarefs w p = Some v \<Longrightarrow> get_luaref p w = Inr v"
  "p \<noteq> 0 \<Longrightarrow> luarefs w p = Some v \<Longrightarrow> delete_luaref p w = Inr (w\<lparr>luarefs := (luarefs w)(p := None)\<rparr>)"
  by (simp_all add: get_luaref_def delete_luaref_def cstmt)

lemma conndata_cells [cstmt]:
  "p \<noteq> 0 \<Longrightarrow> conndata w p = Some x \<Longrightarrow> get_conndata p w = Inr x"
  "p \<noteq> 0 \<Longrightarrow> conndata w p = Some x \<Longrightarrow> set_conndata f p w = Inr (w\<lparr>conndata := (conndata w)(p \<mapsto> f x)\<rparr>)"
  "p \<noteq> 0 \<Longrightarrow> conndata w p = Some x \<Longrightarrow> free_conndata p w = Inr (w\<lparr>conndata := (conndata w)(p := None)\<rparr>)"
  by (simp_all add: get_conndata_def set_conndata_def free_conndata_def cstmt)

lemma sockdata_cells [cstmt]:
  "p \<noteq> 0 \<Longrightarrow> sockdata w p = Some x \<Longrightarrow> get_sockdata p w = Inr x"
  "p \<noteq> 0 \<Longrightarrow> sockdata w p = Some x \<Longrightarrow> set_sockdata f p w = Inr (w\<lparr>sockdata := (sockdata w)(p \<mapsto> f x)\<rparr>)"
  by (simp_all add: get_sockdata_def set_sockdata_def cstmt)

lemma emit_lworld [simp]:
  "luarefs (emit c w) = luarefs w" "conndata (emit c w) = conndata w" "sockdata (emit c w) = sockdata w"
  by (simp_all add: emit_def)

lemma new_luaref_exec:
  "plentiful E \<Longrightarrow> new_luaref E v w = Inr (Suc (brk w), w\<lparr>brk := Suc (brk w), hist := (Malloc, ask E Malloc w) # hist w,
     luarefs := (luarefs w)(Suc (brk w) \<mapsto> v)\<rparr>)"
  by (simp add: new_luaref_def cstmt)

lemma malloc_conndata_exec:
  "plentiful E \<Longrightarrow> malloc_conndata E w = (Suc (brk w), w\<lparr>brk := Suc (brk w), hist := (Malloc, ask E Malloc w) # hist w,
     conndata := (conndata w)(Suc (brk w) \<mapsto> \<lparr>cb_suc = junk E ((Malloc, ask E Malloc w) # hist w) 0,
       cb_fail = junk E ((Malloc, ask E Malloc w) # hist w) 1\<rparr>)\<rparr>)"
  by (simp add: malloc_conndata_def cstmt Let_def)

section \<open>Connecting\<close>

text \<open>\<open>ixfd_commonsock_tcp_createnconnect\<close> up to the call of \<open>connect\<close>.\<close>

definition connect_prepared ::
  "'a sworld_scheme \<Rightarrow> 'a sworld_scheme \<Rightarrow> addr \<Rightarrow> ixfd_sock \<Rightarrow> int \<Rightarrow> nat \<Rightarrow> nat \<Rightarrow> nat \<Rightarrow> bool" where
  "connect_prepared w u sk s fd f g d \<longleftrightarrow> (let a = Suc (brk w); ev = Suc (Suc (brk w)) in
     brk u = ev \<and> contexts u = contexts w \<and> nodes u = nodes w \<and>
     socks u = (socks w)(sk \<mapsto> s\<lparr>s_fd := fd, event_connect := ev\<rparr>) \<and> ctxs u = ctxs w \<and> wctxs u = wctxs w \<and>
     cargs u = (cargs w)(a \<mapsto> \<lparr>ca_sock = sk, cb_conn = f, cb_failed = g, ca_args = d\<rparr>) \<and>
     ios u = (ios w)(ev \<mapsto> \<lparr>io_cb = Ixfd_commonsock_connect_cb, io_fd = fd, io_events = EV_WRITE, io_data = a\<rparr>) \<and>
     bufs u = bufs w \<and> sworld.more u = sworld.more w \<and> user_calls (hist u) = user_calls (hist w))"

definition connect_tail ::
  "env \<Rightarrow> 'a sworld_scheme user \<Rightarrow> addr \<Rightarrow> string \<Rightarrow> 16 word \<Rightarrow> int \<Rightarrow> addr \<Rightarrow> nat \<Rightarrow> nat \<Rightarrow>
   'a sworld_scheme \<Rightarrow> 'a sworld_scheme res" where
  "connect_tail E U sk ip port fd ev g d w =
     (let (e, w) = sys E (SysConnect fd ip port) w;
          (errno, w) = (if e = -1 then sys E SysErrno w else (0, w)) in
      if e = 0 \<or> e = -1 \<and> errno = EINPROGRESS
      then bnd (get_sock sk w) (\<lambda>s. bnd (loop_of (s_context s) w) (\<lambda>l. ev_io_start l ev w))
      else bnd (if g \<noteq> 0 then invoke U g [sk, d] w else Inr w) (\<lambda>w.
           Inr (emit (Printf ''ixfd_commonsocket_tcp_createnconnect: failed when connecting to %s:%u'') w)))"

lemma malloc_cargs_exec:
  "plentiful E \<Longrightarrow> malloc_cargs E w = Inr (Suc (brk w), w\<lparr>brk := Suc (brk w), hist := (Malloc, ask E Malloc w) # hist w,
     cargs := (cargs w)(Suc (brk w) \<mapsto> \<lparr>ca_sock = 0, cb_conn = 0, cb_failed = 0, ca_args = 0\<rparr>)\<rparr>)"
  by (simp add: malloc_cargs_def cstmt)

lemma connect_exec:
  assumes "sk \<noteq> 0" "socks w sk = Some s" "s_type s = IXFD_SOCK_UNKNOWN" "plentiful E"
    "fd = ask E (Sys SysSocket) w"
  shows "\<exists>u. connect_prepared w u sk s fd f g d \<and>
    ixfd_commonsock_tcp_createnconnect E U sk ip port f g d w =
      connect_tail E U sk ip port fd (Suc (Suc (brk w))) g d u"
  using assms unfolding ixfd_commonsock_tcp_createnconnect_def connect_tail_def [symmetric]
  apply (simp add: cstmt Let_def malloc_cargs_exec malloc_io_exec ev_init_io_def ev_io_set_def)
  apply (rule exI, rule conjI [rotated], rule refl)
  apply (simp add: connect_prepared_def Let_def emit_def nonblock_exec)
  done

text \<open>
  The call of \<open>connect\<close> with the history \<open>g\<close>: the history after it (and after reading \<open>errno\<close>, which
  happens if it returned -1), and whether the kernel connects, at once or in the background.
\<close>

definition connect_call :: "env \<Rightarrow> int \<Rightarrow> string \<Rightarrow> 16 word \<Rightarrow> event list \<Rightarrow> event list \<times> bool" where
  "connect_call E fd ip port g =
     (let e = answer E g (Sys (SysConnect fd ip port)); g = (Sys (SysConnect fd ip port), e) # g in
      if e = -1 then let n = answer E g (Sys SysErrno) in ((Sys SysErrno, n) # g, n = EINPROGRESS)
      else (g, e = 0))"

lemma connect_tail_exec:
  "connect_tail E U sk ip port fd ev g d w =
     (let w' = w\<lparr>hist := fst (connect_call E fd ip port (hist w))\<rparr> in
      if snd (connect_call E fd ip port (hist w))
      then bnd (get_sock sk w') (\<lambda>s. bnd (loop_of (s_context s) w') (\<lambda>l. ev_io_start l ev w'))
      else bnd (if g \<noteq> 0 then invoke U g [sk, d] w' else Inr w') (\<lambda>w.
           Inr (emit (Printf ''ixfd_commonsocket_tcp_createnconnect: failed when connecting to %s:%u'') w)))"
  by (simp add: connect_tail_def connect_call_def cstmt ask_def Let_def)

lemma connect_tail_started:
  assumes "snd (connect_call E fd ip port (hist w))" "sk \<noteq> 0" "socks w sk = Some s" "s_context s \<noteq> 0"
    "contexts w (s_context s) = Some k" "ev \<noteq> 0" "ios w ev = Some e"
  shows "connect_tail E U sk ip port fd ev g d w = Inr (emit (Ev (EvIoStart (evl k) ev))
     (w\<lparr>hist := fst (connect_call E fd ip port (hist w))\<rparr>))"
  using assms by (simp add: connect_tail_exec cstmt Let_def)

text \<open>
  \<open>connecting w sk s k ev a d suc fail\<close>: the socket \<open>sk\<close> waits for the outcome of a connect of the
  script, with all that its handler will use.
\<close>

definition connecting ::
  "'a lworld_scheme \<Rightarrow> addr \<Rightarrow> ixfd_sock \<Rightarrow> ixc_context \<Rightarrow> addr \<Rightarrow> addr \<Rightarrow> addr \<Rightarrow> addr \<Rightarrow> addr \<Rightarrow> nat \<Rightarrow> nat \<Rightarrow> bool" where
  "connecting w sk s k ev a d r1 r2 suc fail \<longleftrightarrow>
     sk \<noteq> 0 \<and> socks w sk = Some s \<and> s_context s \<noteq> 0 \<and> contexts w (s_context s) = Some k \<and>
     ev \<noteq> 0 \<and> event_connect s = ev \<and> a \<noteq> 0 \<and>
     ios w ev = Some \<lparr>io_cb = Ixfd_commonsock_connect_cb, io_fd = s_fd s, io_events = EV_WRITE, io_data = a\<rparr> \<and>
     cargs w a = Some \<lparr>ca_sock = sk, cb_conn = FP_connect_suc, cb_failed = FP_connect_fail, ca_args = d\<rparr> \<and>
     d \<noteq> 0 \<and> conndata w d = Some \<lparr>cb_suc = r1, cb_fail = r2\<rparr> \<and> r1 \<noteq> 0 \<and> r2 \<noteq> 0 \<and> r1 \<noteq> r2 \<and>
     luarefs w r1 = Some suc \<and> luarefs w r2 = Some fail"

lemma more_heaps:
  assumes "sworld.more u = sworld.more (w :: 'a lworld_scheme)"
  shows "luarefs u = luarefs w" "conndata u = conndata w" "sockdata u = sockdata w"
  using assms by (cases u, cases w, simp)+

text \<open>The call of a script up to \<open>connect\<close>: everything its handler will use is there.\<close>

lemma sock_connect_exec:
  fixes w :: "'a lworld_scheme"
  assumes "sock_fresh w" "sk \<noteq> 0" "socks w sk = Some s" "s_type s = IXFD_SOCK_UNKNOWN" "s_context s \<noteq> 0"
    "contexts w (s_context s) = Some k" "plentiful E"
  defines "d \<equiv> Suc (brk w)" and "r1 \<equiv> Suc (Suc (brk w))" and "r2 \<equiv> Suc (Suc (Suc (brk w)))"
    and "a \<equiv> Suc (Suc (Suc (Suc (brk w))))" and "ev \<equiv> Suc (Suc (Suc (Suc (Suc (brk w)))))"
  shows "\<exists>u fd. ixlb_sock_connect E U sk ip port suc fail w = connect_tail E U sk ip port fd ev FP_connect_fail d u \<and>
    sock_fresh u \<and> connecting u sk (s\<lparr>s_fd := fd, event_connect := ev\<rparr>) k ev a d r1 r2 suc fail \<and>
    luarefs u = (luarefs w)(r1 \<mapsto> suc, r2 \<mapsto> fail) \<and> conndata u = (conndata w)(d \<mapsto> \<lparr>cb_suc = r1, cb_fail = r2\<rparr>) \<and>
    cargs u = (cargs w)(a \<mapsto> \<lparr>ca_sock = sk, cb_conn = FP_connect_suc, cb_failed = FP_connect_fail, ca_args = d\<rparr>) \<and>
    ctxs u = ctxs w \<and> socks u = (socks w)(sk \<mapsto> s\<lparr>s_fd := fd, event_connect := ev\<rparr>) \<and>
    user_calls (hist u) = user_calls (hist w)"
proof -
  let ?run = "ixlb_sock_connect E U sk ip port suc fail w"
  have "\<exists>w3. ?run = ixfd_commonsock_tcp_createnconnect E U sk ip port FP_connect_suc FP_connect_fail d w3 \<and>
      brk w3 = r2 \<and> contexts w3 = contexts w \<and> nodes w3 = nodes w \<and> socks w3 = socks w \<and> ctxs w3 = ctxs w \<and>
      wctxs w3 = wctxs w \<and> cargs w3 = cargs w \<and> ios w3 = ios w \<and> bufs w3 = bufs w \<and>
      user_calls (hist w3) = user_calls (hist w) \<and>
      luarefs w3 = (luarefs w)(r1 \<mapsto> suc, r2 \<mapsto> fail) \<and> conndata w3 = (conndata w)(d \<mapsto> \<lparr>cb_suc = r1, cb_fail = r2\<rparr>)"
    using assms(7) unfolding d_def r1_def r2_def
    by (simp add: ixlb_sock_connect_def malloc_conndata_exec new_luaref_exec cstmt Let_def)
      (rule exI, rule conjI, rule refl, simp)
  then obtain w3 where w3: "?run = ixfd_commonsock_tcp_createnconnect E U sk ip port FP_connect_suc FP_connect_fail d w3"
    "brk w3 = r2" "contexts w3 = contexts w" "nodes w3 = nodes w" "socks w3 = socks w" "ctxs w3 = ctxs w"
    "wctxs w3 = wctxs w" "cargs w3 = cargs w" "ios w3 = ios w" "bufs w3 = bufs w"
    "user_calls (hist w3) = user_calls (hist w)"
    "luarefs w3 = (luarefs w)(r1 \<mapsto> suc, r2 \<mapsto> fail)" "conndata w3 = (conndata w)(d \<mapsto> \<lparr>cb_suc = r1, cb_fail = r2\<rparr>)"
    by blast
  let ?fd = "ask E (Sys SysSocket) w3"
  from connect_exec [OF assms(2) _ assms(4,7) refl, of w3 FP_connect_suc FP_connect_fail d U ip port] w3(5) assms(3)
  obtain u where u: "connect_prepared w3 u sk s ?fd FP_connect_suc FP_connect_fail d"
    "?run = connect_tail E U sk ip port ?fd ev FP_connect_fail d u"
    using w3(1,2) by (auto simp: ev_def r2_def)
  have brk: "Suc (brk w3) = a" "Suc a = ev" using w3(2) by (simp_all add: r2_def a_def ev_def)
  let ?s = "s\<lparr>s_fd := ?fd, event_connect := ev\<rparr>"
  have u': "brk u = ev" "contexts u = contexts w" "nodes u = nodes w" "socks u = (socks w)(sk \<mapsto> ?s)"
    "ctxs u = ctxs w" "wctxs u = wctxs w" "bufs u = bufs w"
    "cargs u = (cargs w)(a \<mapsto> \<lparr>ca_sock = sk, cb_conn = FP_connect_suc, cb_failed = FP_connect_fail, ca_args = d\<rparr>)"
    "ios u = (ios w)(ev \<mapsto> \<lparr>io_cb = Ixfd_commonsock_connect_cb, io_fd = ?fd, io_events = EV_WRITE, io_data = a\<rparr>)"
    "luarefs u = (luarefs w)(r1 \<mapsto> suc, r2 \<mapsto> fail)" "conndata u = (conndata w)(d \<mapsto> \<lparr>cb_suc = r1, cb_fail = r2\<rparr>)"
    "user_calls (hist u) = user_calls (hist w)"
    using u(1) [unfolded connect_prepared_def Let_def brk] w3 more_heaps [of u w3] by simp_all
  have sk: "sk \<le> brk w" using assms(1,3) unfolding sock_fresh_def by (metis not_le option.distinct(1))
  have "sock_fresh u"
    using assms(1) u' sk by (auto simp: sock_fresh_def nodes_ok_def ev_def a_def)
  moreover have "connecting u sk ?s k ev a d r1 r2 suc fail"
    using u' assms(2,5,6) by (simp add: connecting_def ev_def a_def d_def r1_def r2_def)
  ultimately show ?thesis using u' u(2) by (intro exI [of _ u] exI [of _ ?fd]) simp
qed

lemma connecting_hist [simp]:
  "connecting (w\<lparr>hist := h\<rparr>) sk s k ev a d r1 r2 suc fail \<longleftrightarrow> connecting w sk s k ev a d r1 r2 suc fail"
  "connecting (emit c w) sk s k ev a d r1 r2 suc fail \<longleftrightarrow> connecting w sk s k ev a d r1 r2 suc fail"
  by (simp_all add: connecting_def emit_def)

text \<open>A script whose functions return and change nothing of the process.\<close>

definition script_quiet :: "'a world_scheme script \<Rightarrow> bool" where
  "script_quiet V \<longleftrightarrow> (\<forall>f xs w. V f xs w = Inr w)"

lemma call_ref_exec [cstmt]:
  "script_quiet V \<Longrightarrow> p \<noteq> 0 \<Longrightarrow> luarefs w p = Some v \<Longrightarrow>
     call_ref V p xs w = Inr (if v = 0 then w else emit (LuaCall v xs) w)"
  by (simp add: call_ref_def lua_call_def script_quiet_def cstmt)

lemma connect_fns:
  "luafound_code V FP_connect_suc [x, d] w = connect_suc_fn V x d w"
  "luafound_code V FP_connect_fail [x, d] w = connect_fail_fn V x d w"
  by (simp_all add: luafound_code_def FP_spawn_def FP_sock_write_def FP_connect_suc_def FP_connect_fail_def)

lemma connect_fn_exec:
  assumes "script_quiet V" "d \<noteq> 0" "conndata w d = Some \<lparr>cb_suc = r1, cb_fail = r2\<rparr>" "r1 \<noteq> 0" "r2 \<noteq> 0" "r1 \<noteq> r2"
    "luarefs w r1 = Some suc" "luarefs w r2 = Some fail"
  shows "connect_suc_fn V x d w = Inr ((if suc = 0 then w else emit (LuaCall suc [int x]) w)\<lparr>
      luarefs := (luarefs w)(r1 := None, r2 := None), conndata := (conndata w)(d := None)\<rparr>)"
    "connect_fail_fn V x d w = Inr ((if fail = 0 then w else emit (LuaCall fail [int x]) w)\<lparr>
      luarefs := (luarefs w)(r1 := None, r2 := None), conndata := (conndata w)(d := None)\<rparr>)"
  using assms
  by (simp_all add: connect_suc_fn_def connect_fail_fn_def drop_connect_data_def cstmt)

lemma connect_refused_exec:
  assumes "connecting v sk s k ev a d r1 r2 suc fail" "script_quiet V" "fail \<noteq> 0"
    "r = ask E (Sys (SysSoErrorRet (s_fd s))) v" "h1 = (Sys (SysSoErrorRet (s_fd s)), r) # hist v"
    "e = answer E h1 (Sys (SysSoErrorVal (s_fd s)))" "r = 1 \<or> e \<noteq> 0"
  shows "ixfd_commonsock_connect_cb E (luafound_code V) l ev EV_WRITE v = Inr (v\<lparr>
      luarefs := (luarefs v)(r1 := None, r2 := None), conndata := (conndata v)(d := None), cargs := (cargs v)(a := None),
      hist := (Ev (EvIoStop l ev), 0) # (LuaCall fail [int sk], 0) # (Invoke FP_connect_fail [sk, d], 0) #
              (Sys (SysSoErrorVal (s_fd s)), e) # h1\<rparr>)"
proof -
  have "FP_connect_fail \<noteq> 0" "EV_WRITE AND EV_WRITE \<noteq> 0" by (simp_all add: FP_connect_fail_def EV_WRITE_def)
  moreover have "(r = 1 \<or> e \<noteq> 0) = True" using assms(7) by simp
  ultimately show ?thesis
    using assms(1-6)
    by (simp add: ixfd_commonsock_connect_cb_def connecting_def Let_def cstmt ask_def connect_fns
        connect_fn_exec [OF assms(2), of d _ r1 r2 suc fail] emit_def)
qed

lemma connect_accepted_exec:
  fixes v :: "'a lworld_scheme"
  assumes "connecting v sk s k ev a d r1 r2 suc fail" "script_quiet V" "suc \<noteq> 0" "sock_fresh v" "plentiful E"
    "r = ask E (Sys (SysSoErrorRet (s_fd s))) v" "h1 = (Sys (SysSoErrorRet (s_fd s)), r) # hist v"
    "answer E h1 (Sys (SysSoErrorVal (s_fd s))) = 0" "r \<noteq> 1" "p = Suc (brk v)"
    "s' = s\<lparr>default_ctx := p, s_type := IXFD_SOCK_TCP\<rparr>" "c = fresh_ctx p sk (s_fd s) s\<lparr>c_active := True\<rparr>"
  shows "\<exists>z h. ixfd_commonsock_connect_cb E (luafound_code V) l ev EV_WRITE v = Inr z \<and> conn_at z p c s' k \<and>
    luarefs z = (luarefs v)(r1 := None, r2 := None) \<and> conndata z = (conndata v)(d := None) \<and>
    cargs z = (cargs v)(a := None) \<and> ios z ev = ios v ev \<and>
    hist z = (Ev (EvIoStop l ev), 0) # (LuaCall suc [int p], 0) # (Invoke FP_connect_suc [p, d], 0) #
             (Ev (EvIoStart l (event_read c)), 0) # h \<and> user_calls h = user_calls (hist v)"
proof -
  note con = assms(1) [unfolded connecting_def]
  let ?w = "v\<lparr>hist := (Sys (SysSoErrorVal (s_fd s)), 0) # h1\<rparr>"
  have "sock_fresh ?w" using assms(4) by (simp add: sock_fresh_def nodes_ok_def)
  moreover have "socks ?w sk = Some s" "contexts ?w (s_context s) = Some k" "p = Suc (brk ?w)"
    using con assms(10) by simp_all
  ultimately obtain u where u: "ixfd_commonsock_create_ctx E sk (s_fd s) ?w = Inr (p, u)"
    "conn_at u p (fresh_ctx p sk (s_fd s) s) s k"
    "ctxs u = (ctxs ?w)(p \<mapsto> fresh_ctx p sk (s_fd s) s)"
    "ios u = (ios ?w)(p + 2 \<mapsto> \<lparr>io_cb = Ixfd_commonsock_write_cb, io_fd = s_fd s, io_events = EV_WRITE, io_data = p\<rparr>,
                     p + 1 \<mapsto> \<lparr>io_cb = Ixfd_commonsock_read_cb, io_fd = s_fd s, io_events = EV_READ, io_data = p\<rparr>)"
    "socks u = socks ?w" "contexts u = contexts ?w" "cargs u = cargs ?w" "sworld.more u = sworld.more ?w"
    "user_calls (hist u) = user_calls (hist ?w)"
    using created_conn [of ?w sk s k E p "s_fd s"] con assms(5) by blast
  have more: "luarefs u = luarefs v" "conndata u = conndata v" using more_heaps [OF u(8)] by simp_all
  have "ev \<le> brk v" using con assms(4) unfolding sock_fresh_def by (metis not_le option.distinct(1))
  then have ev: "ev \<noteq> p + 1" "ev \<noteq> p + 2" "p \<noteq> 0" using assms(10) by simp_all
  let ?z = "u\<lparr>socks := (socks v)(sk \<mapsto> s'), ctxs := (ctxs u)(p \<mapsto> c), cargs := (cargs v)(a := None),
     luarefs := (luarefs v)(r1 := None, r2 := None), conndata := (conndata v)(d := None),
     hist := (Ev (EvIoStop l ev), 0) # (LuaCall suc [int p], 0) # (Invoke FP_connect_suc [p, d], 0) #
             (Ev (EvIoStart l (event_read c)), 0) # hist u\<rparr>"
  have "FP_connect_suc \<noteq> 0" "EV_WRITE AND EV_WRITE \<noteq> 0" by (simp_all add: FP_connect_suc_def EV_WRITE_def)
  then have "ixfd_commonsock_connect_cb E (luafound_code V) l ev EV_WRITE v = Inr ?z"
    using con u(1,3-7) ev assms(3,6-9) more
    by (simp add: assms(11,12) fresh_ctx_def ixfd_commonsock_connect_cb_def Let_def cstmt ask_def connect_fns
        connect_fn_exec [OF assms(2), of d _ r1 r2 suc fail] emit_def)
  moreover have "conn_at ?z p c s' k"
    using u(2) con assms(11,12) by (auto simp: conn_at_def fresh_ctx_def split: option.splits)
  moreover have "ios ?z ev = ios v ev" using u(4) ev by simp
  moreover have "user_calls (hist u) = user_calls (hist v)" using u(9) assms(7) by simp
  ultimately show ?thesis by (intro exI [of _ ?z] exI [of _ "hist u"]) simp
qed

text \<open>\<open>connect\<close> fails at once: the failure lambda runs before the call of the script returns.\<close>

lemma connect_tail_failed:
  fixes u :: "'a lworld_scheme"
  assumes "\<not> snd (connect_call E fd ip port (hist u))" "connecting u sk s k ev a d r1 r2 suc fail" "script_quiet V" "fail \<noteq> 0"
  shows "connect_tail E (luafound_code V) sk ip port fd ev FP_connect_fail d u = Inr (u\<lparr>
      luarefs := (luarefs u)(r1 := None, r2 := None), conndata := (conndata u)(d := None),
      hist := (Printf ''ixfd_commonsocket_tcp_createnconnect: failed when connecting to %s:%u'', 0) #
              (LuaCall fail [int sk], 0) # (Invoke FP_connect_fail [sk, d], 0) # fst (connect_call E fd ip port (hist u))\<rparr>)"
proof -
  have "FP_connect_fail \<noteq> 0" by (simp add: FP_connect_fail_def)
  with assms show ?thesis
    by (simp add: connect_tail_exec Let_def cstmt connect_fns connecting_def
        connect_fn_exec [OF assms(3), of d _ r1 r2 suc fail] emit_def)
qed

text \<open>The outcome of a connect that was started, in the handler.\<close>

definition connect_outcome_at ::
  "env \<Rightarrow> 'a lworld_scheme script \<Rightarrow> addr \<Rightarrow> addr \<Rightarrow> addr \<Rightarrow> ixfd_sock \<Rightarrow> ixc_context \<Rightarrow> addr \<Rightarrow> nat \<Rightarrow> nat \<Rightarrow>
   'a lworld_scheme \<Rightarrow> 'a lworld_scheme \<Rightarrow> bool" where
  "connect_outcome_at E V l ev sk s k d suc fail v z \<longleftrightarrow>
     ixfd_commonsock_connect_cb E (luafound_code V) l ev EV_WRITE v = Inr z \<and>
     (let r = ask E (Sys (SysSoErrorRet (s_fd s))) v;
          e = answer E ((Sys (SysSoErrorRet (s_fd s)), r) # hist v) (Sys (SysSoErrorVal (s_fd s)))
      in if r = 1 \<or> e \<noteq> 0
         then socks z = socks v \<and> ctxs z = ctxs v \<and>
           user_calls (hist z) = LuaCall fail [int sk] # Invoke FP_connect_fail [sk, d] # user_calls (hist v) \<and>
           hd (hist z) = (Ev (EvIoStop l ev), 0)
         else \<exists>p c s' h. conn_at z p c s' k \<and> c_sock c = sk \<and> default_ctx s' = p \<and> s_type s' = IXFD_SOCK_TCP \<and>
           c_fd c = s_fd s \<and> c_active c \<and> user_calls h = user_calls (hist v) \<and>
           hist z = (Ev (EvIoStop l ev), 0) # (LuaCall suc [int p], 0) # (Invoke FP_connect_suc [p, d], 0) #
                    (Ev (EvIoStart l (event_read c)), 0) # h)"

lemma connect_handled:
  fixes v :: "'a lworld_scheme"
  assumes "connecting v sk s k ev a d r1 r2 suc fail" "script_quiet V" "suc \<noteq> 0" "fail \<noteq> 0" "sock_fresh v" "plentiful E"
  shows "\<exists>z. connect_outcome_at E V l ev sk s k d suc fail v z \<and> luarefs z = (luarefs v)(r1 := None, r2 := None) \<and>
    conndata z = (conndata v)(d := None) \<and> cargs z = (cargs v)(a := None) \<and> ios z ev = ios v ev"
proof -
  define r where "r = ask E (Sys (SysSoErrorRet (s_fd s))) v"
  define h1 where "h1 = (Sys (SysSoErrorRet (s_fd s)), r) # hist v"
  define e where "e = answer E h1 (Sys (SysSoErrorVal (s_fd s)))"
  show ?thesis
  proof (cases "r = 1 \<or> e \<noteq> 0")
    case True
    note run = connect_refused_exec [OF assms(1,2,4) r_def h1_def e_def True, of l]
    show ?thesis
      unfolding connect_outcome_at_def Let_def r_def [symmetric] h1_def [symmetric] e_def [symmetric] if_P [OF True] run
      by (rule exI, rule conjI, rule conjI, rule refl) (simp_all add: h1_def)
  next
    case False
    then have no: "r \<noteq> 1" "answer E h1 (Sys (SysSoErrorVal (s_fd s))) = 0" by (simp_all add: e_def)
    let ?p = "Suc (brk v)"
    let ?c = "fresh_ctx ?p sk (s_fd s) s\<lparr>c_active := True\<rparr>" and ?s = "s\<lparr>default_ctx := ?p, s_type := IXFD_SOCK_TCP\<rparr>"
    from connect_accepted_exec [OF assms(1-3,5,6) r_def h1_def no(2,1) refl refl refl, of l]
    obtain z h where z: "ixfd_commonsock_connect_cb E (luafound_code V) l ev EV_WRITE v = Inr z" "conn_at z ?p ?c ?s k"
      "luarefs z = (luarefs v)(r1 := None, r2 := None)" "conndata z = (conndata v)(d := None)"
      "cargs z = (cargs v)(a := None)" "ios z ev = ios v ev"
      "hist z = (Ev (EvIoStop l ev), 0) # (LuaCall suc [int ?p], 0) # (Invoke FP_connect_suc [?p, d], 0) #
         (Ev (EvIoStart l (event_read ?c)), 0) # h" "user_calls h = user_calls (hist v)"
      by blast
    have c: "c_sock ?c = sk" "c_fd ?c = s_fd s" "c_active ?c" "default_ctx ?s = ?p" "s_type ?s = IXFD_SOCK_TCP"
      by (simp_all add: fresh_ctx_def)
    show ?thesis
      unfolding connect_outcome_at_def Let_def r_def [symmetric] h1_def [symmetric] e_def [symmetric] if_not_P [OF False]
      using z c by blast
  qed
qed

text \<open>
  C9: a connect of a script, from the call to its outcome, whatever the kernel answers.  If \<open>connect\<close>
  succeeds or goes on in the background, the call returns with the connect watcher started.  When the
  handler then finds the socket in error, exactly the failure function is called, with the socket,
  which is as it was; otherwise exactly the success function, with a live and active connection on the
  socket's descriptor that the socket has as its default one.  In both cases the two references, the
  pair of them and the connect arguments are freed and the watcher is stopped; it stays allocated, as
  part of the socket.  If \<open>connect\<close> fails at once, the failure function is called before the call
  returns, the watcher is never started, the references and the pair are freed, and the connect
  arguments are not: nothing will free them.  (For functions that return having left the process
  alone; a failing \<open>getsockopt\<close>, -1, counts as no error, because the code compares with 1.)
\<close>

theorem connect_outcome:
  fixes w :: "'a lworld_scheme"
  assumes "sock_fresh w" "\<forall>q. brk w < q \<longrightarrow> luarefs w q = None \<and> conndata w q = None"
    "sk \<noteq> 0" "socks w sk = Some s" "s_type s = IXFD_SOCK_UNKNOWN" "s_context s \<noteq> 0"
    "contexts w (s_context s) = Some k" "plentiful E" "script_quiet V" "suc \<noteq> 0" "fail \<noteq> 0"
  shows "\<exists>v ev fd g d a. ixlb_sock_connect E (luafound_code V) sk ip port suc fail w = Inr v \<and>
    socks v = (socks w)(sk \<mapsto> s\<lparr>s_fd := fd, event_connect := ev\<rparr>) \<and> ctxs v = ctxs w \<and> cargs w a = None \<and>
    user_calls g = user_calls (hist w) \<and>
    (if snd (connect_call E fd ip port g)
     then hist v = (Ev (EvIoStart (evl k) ev), 0) # fst (connect_call E fd ip port g) \<and>
       (\<exists>z. connect_outcome_at E V l ev sk (s\<lparr>s_fd := fd, event_connect := ev\<rparr>) k d suc fail v z \<and>
          luarefs z = luarefs w \<and> conndata z = conndata w \<and> cargs z = cargs w \<and> ios z ev \<noteq> None)
     else luarefs v = luarefs w \<and> conndata v = conndata w \<and>
       cargs v = (cargs w)(a \<mapsto> \<lparr>ca_sock = sk, cb_conn = FP_connect_suc, cb_failed = FP_connect_fail, ca_args = d\<rparr>) \<and>
       hist v = (Printf ''ixfd_commonsocket_tcp_createnconnect: failed when connecting to %s:%u'', 0) #
         (LuaCall fail [int sk], 0) # (Invoke FP_connect_fail [sk, d], 0) # fst (connect_call E fd ip port g))"
proof -
  let ?d = "Suc (brk w)"
  let ?r1 = "Suc ?d" let ?r2 = "Suc ?r1" let ?a = "Suc ?r2" let ?ev = "Suc ?a"
  from sock_connect_exec [OF assms(1,3-8), of "luafound_code V" ip port suc fail] obtain u fd where
    u: "ixlb_sock_connect E (luafound_code V) sk ip port suc fail w =
        connect_tail E (luafound_code V) sk ip port fd ?ev FP_connect_fail ?d u" "sock_fresh u"
      "connecting u sk (s\<lparr>s_fd := fd, event_connect := ?ev\<rparr>) k ?ev ?a ?d ?r1 ?r2 suc fail"
      "luarefs u = (luarefs w)(?r1 \<mapsto> suc, ?r2 \<mapsto> fail)" "conndata u = (conndata w)(?d \<mapsto> \<lparr>cb_suc = ?r1, cb_fail = ?r2\<rparr>)"
      "cargs u = (cargs w)(?a \<mapsto> \<lparr>ca_sock = sk, cb_conn = FP_connect_suc, cb_failed = FP_connect_fail, ca_args = ?d\<rparr>)"
      "ctxs u = ctxs w" "socks u = (socks w)(sk \<mapsto> s\<lparr>s_fd := fd, event_connect := ?ev\<rparr>)"
      "user_calls (hist u) = user_calls (hist w)" by blast
  let ?s = "s\<lparr>s_fd := fd, event_connect := ?ev\<rparr>"
  have a: "cargs w ?a = None" using assms(1) by (simp add: sock_fresh_def)
  have same: "(luarefs u)(?r1 := None, ?r2 := None) = luarefs w" "(conndata u)(?d := None) = conndata w"
    "(cargs u)(?a := None) = cargs w"
    using assms(1,2) by (auto simp: u(4-6) sock_fresh_def fun_eq_iff)
  show ?thesis
  proof (cases "snd (connect_call E fd ip port (hist u))")
    case True
    note con = u(3) [unfolded connecting_def]
    define v where "v = emit (Ev (EvIoStart (evl k) ?ev)) (u\<lparr>hist := fst (connect_call E fd ip port (hist u))\<rparr>)"
    have run: "connect_tail E (luafound_code V) sk ip port fd ?ev FP_connect_fail ?d u = Inr v"
      unfolding v_def by (rule connect_tail_started [OF True, where s = ?s]) (use con in simp_all)
    have v: "connecting v sk ?s k ?ev ?a ?d ?r1 ?r2 suc fail" "sock_fresh v"
      using u(2,3) by (simp_all add: v_def sock_fresh_def nodes_ok_def)
    have vu: "luarefs v = luarefs u" "conndata v = conndata u" "cargs v = cargs u" "socks v = socks u" "ctxs v = ctxs u"
      "ios v ?ev \<noteq> None" "hist v = (Ev (EvIoStart (evl k) ?ev), 0) # fst (connect_call E fd ip port (hist u))"
      using con by (simp_all add: v_def)
    from connect_handled [OF v(1) assms(9-11) v(2) assms(8), of l] obtain z where
      "connect_outcome_at E V l ?ev sk ?s k ?d suc fail v z" "luarefs z = luarefs w" "conndata z = conndata w"
      "cargs z = cargs w" "ios z ?ev \<noteq> None" unfolding vu(1-3) same using vu(6) by metis
    with True run u(1,7-9) vu(4,5,7) a show ?thesis
      by (intro exI [of _ v] exI [of _ ?ev] exI [of _ fd] exI [of _ "hist u"] exI [of _ ?d] exI [of _ ?a]) auto
  next
    case False
    from connect_tail_failed [OF False u(3) assms(9,11)] u(1) False a u(6-9) show ?thesis
      unfolding same
      by (intro exI [of _ "u\<lparr>luarefs := luarefs w, conndata := conndata w,
          hist := (Printf ''ixfd_commonsocket_tcp_createnconnect: failed when connecting to %s:%u'', 0) #
              (LuaCall fail [int sk], 0) # (Invoke FP_connect_fail [sk, ?d], 0) # fst (connect_call E fd ip port (hist u))\<rparr>"]
          exI [of _ ?ev] exI [of _ fd] exI [of _ "hist u"] exI [of _ ?d] exI [of _ ?a]) simp
  qed
qed

text \<open>A process with one socket that nobody has used yet, and a kernel on which connecting succeeds.\<close>

definition new_sock_world :: lworld where
  "new_sock_world = \<lparr>brk = 2, hist = [], contexts = [1 \<mapsto> \<lparr>state = 0, evl = 9\<rparr>],
     nodes = (\<lambda>_. None), socks = [2 \<mapsto> zero_sock\<lparr>s_context := 1\<rparr>], ctxs = (\<lambda>_. None), wctxs = (\<lambda>_. None),
     cargs = (\<lambda>_. None), ios = (\<lambda>_. None), bufs = (\<lambda>_. None), timers = (\<lambda>_. None), evtimers = (\<lambda>_. None),
     childws = (\<lambda>_. None), evchilds = (\<lambda>_. None), termargs = (\<lambda>_. None),
     luarefs = (\<lambda>_. None), conndata = (\<lambda>_. None), sockdata = (\<lambda>_. None)\<rparr>"

definition connect_env :: "int \<Rightarrow> env" where
  "connect_env e = calm\<lparr>answer := (\<lambda>h c. case c of
     Sys (SysConnect fd ip port) \<Rightarrow> -1 | Sys SysErrno \<Rightarrow> EINPROGRESS
   | Sys (SysSoErrorRet fd) \<Rightarrow> 0 | Sys (SysSoErrorVal fd) \<Rightarrow> e | _ \<Rightarrow> 1)\<rparr>"

lemma connect_env_ok: "snd (connect_call (connect_env e) fd ip port g)" "plentiful (connect_env e)"
  by (simp_all add: connect_call_def Let_def plentiful_def connect_env_def)

lemma new_sock_world_ok:
  "sock_fresh new_sock_world" "\<forall>q. brk new_sock_world < q \<longrightarrow> luarefs new_sock_world q = None \<and> conndata new_sock_world q = None"
  "socks new_sock_world 2 = Some (zero_sock\<lparr>s_context := 1\<rparr>)" "contexts new_sock_world 1 = Some \<lparr>state = 0, evl = 9\<rparr>"
  by (simp_all add: sock_fresh_def nodes_ok_def new_sock_world_def)

text \<open>One kernel on which connecting succeeds, and one on which it fails at once, with \<open>ENETUNREACH\<close>.\<close>

definition refuse_env :: env where
  "refuse_env = calm\<lparr>answer := (\<lambda>h c. case c of Sys (SysConnect fd ip port) \<Rightarrow> -1 | Sys SysErrno \<Rightarrow> 101 | _ \<Rightarrow> 1)\<rparr>"

theorem connect_outcome_witness:
  "(\<exists>v z p c ev. ixlb_sock_connect (connect_env 0) (luafound_code (\<lambda>f xs w. Inr w)) 2 ''127.0.0.1'' 80 20 21 new_sock_world = Inr v \<and>
     ixfd_commonsock_connect_cb (connect_env 0) (luafound_code (\<lambda>f xs w. Inr w)) 9 ev EV_WRITE v = Inr z \<and>
     luarefs z = luarefs new_sock_world \<and> ctxs z p = Some c \<and> c_active c) \<and>
   (\<exists>v a. ixlb_sock_connect refuse_env (luafound_code (\<lambda>f xs w. Inr w)) 2 ''127.0.0.1'' 80 20 21 new_sock_world = Inr v \<and>
     luarefs v = luarefs new_sock_world \<and> cargs v a \<noteq> None \<and> (LuaCall 21 [2], 0) \<in> set (hist v))"
proof -
  let ?V = "(\<lambda>f xs w. Inr w) :: lworld script"
  have q: "script_quiet ?V" by (simp add: script_quiet_def)
  have s: "s_type (zero_sock\<lparr>s_context := 1\<rparr>) = IXFD_SOCK_UNKNOWN" "s_context (zero_sock\<lparr>s_context := 1\<rparr>) = 1"
    by (simp_all add: zero_sock_def IXFD_SOCK_UNKNOWN_def)
  note con = connect_outcome [OF new_sock_world_ok(1,2) _ new_sock_world_ok(3) s(1) _ _ _ q, unfolded s(2),
      OF _ _ new_sock_world_ok(4), of _ 20 21 "''127.0.0.1''" 80 9]
  have refused: "\<not> snd (connect_call refuse_env fd ip port g)" "plentiful refuse_env" for fd ip port g
    by (simp_all add: connect_call_def refuse_env_def Let_def EINPROGRESS_def plentiful_def)
  from con [OF _ _ connect_env_ok(2), of 0] obtain v ev fd d z where
    v: "ixlb_sock_connect (connect_env 0) (luafound_code ?V) 2 ''127.0.0.1'' 80 20 21 new_sock_world = Inr v"
      "connect_outcome_at (connect_env 0) ?V 9 ev 2 (zero_sock\<lparr>s_context := 1, s_fd := fd, event_connect := ev\<rparr>)
         \<lparr>state = 0, evl = 9\<rparr> d 20 21 v z" "luarefs z = luarefs new_sock_world"
    by (auto simp: connect_env_ok(1))
  from v(2) have "\<exists>p c. ctxs z p = Some c \<and> c_active c"
      "ixfd_commonsock_connect_cb (connect_env 0) (luafound_code ?V) 9 ev EV_WRITE v = Inr z"
    by (auto simp: connect_outcome_at_def connect_env_def ask_def Let_def conn_at_def)
  with v(1,3) con [OF _ _ refused(2)] show ?thesis by (fastforce simp: refused(1))
qed

text \<open>
  C26: a script that frees the socket in the failure function of its connect, the natural place for
  it.  Freeing succeeds, and frees the connect watcher; the handler then stops the watcher it was
  called for, in freed memory.
\<close>

theorem connect_failed_free:
  fixes v :: "'a lworld_scheme"
  assumes "connecting v sk s k ev a d r1 r2 suc fail" "fail \<noteq> 0" "event_accept s = 0" "default_ctx s = 0"
    "\<And>w. V fail [int sk] w = settle (ixfd_commonsock_free sk w)"
    "ask E (Sys (SysSoErrorRet (s_fd s))) v = 0"
    "answer E ((Sys (SysSoErrorRet (s_fd s)), 0) # hist v) (Sys (SysSoErrorVal (s_fd s))) \<noteq> 0"
  shows "\<exists>u z. V fail [int sk] u = Inr z \<and> hd (hist u) = (LuaCall fail [int sk], 0) \<and>
      socks z = (socks v)(sk := None) \<and> ios z = (ios v)(ev := None) \<and>
      ixfd_commonsock_connect_cb E (luafound_code V) l ev EV_WRITE v = Inl Dangling"
proof -
  have "FP_connect_fail \<noteq> 0" "EV_WRITE AND EV_WRITE \<noteq> 0" by (simp_all add: FP_connect_fail_def EV_WRITE_def)
  moreover have free: "V fail [int sk] u = Inr (u\<lparr>ios := (ios v)(ev := None), socks := (socks v)(sk := None)\<rparr>)"
    if "socks u = socks v" "ios u = ios v" for u
    using assms(1,3,4) that
    by (simp add: assms(5) ixfd_commonsock_free_def connecting_def after_def settle_def free_io_def free_sock_def cstmt)
  ultimately have "ixfd_commonsock_connect_cb E (luafound_code V) l ev EV_WRITE v = Inl Dangling"
    using assms(1,2,6,7)
    by (simp add: ixfd_commonsock_connect_cb_def connecting_def Let_def cstmt ask_def connect_fns
        connect_fail_fn_def call_ref_def lua_call_def drop_connect_data_def ev_io_stop_def get_io_def)
  then show ?thesis
    using free [of "emit (LuaCall fail [int sk]) v"] by (intro exI conjI) (assumption | simp)+
qed

theorem connect_failed_free_witness:
  "\<exists>v ev. ixlb_sock_connect (connect_env 1) (\<lambda>f xs w. Inr w) 2 ''127.0.0.1'' 80 20 21 new_sock_world = Inr v \<and>
     ixfd_commonsock_connect_cb (connect_env 1) (luafound_code (\<lambda>f xs w. settle (ixfd_commonsock_free 2 w))) 9 ev EV_WRITE v
       = Inl Dangling"
proof -
  let ?s = "zero_sock\<lparr>s_context := 1\<rparr>" and ?k = "\<lparr>state = 0, evl = 9\<rparr>"
  have s: "s_type ?s = IXFD_SOCK_UNKNOWN" "s_context ?s = 1" "event_accept ?s = 0" "default_ctx ?s = 0"
    by (simp_all add: zero_sock_def IXFD_SOCK_UNKNOWN_def)
  let ?run = "ixlb_sock_connect (connect_env 1) (\<lambda>f xs w. Inr w) 2 ''127.0.0.1'' 80 20 21 new_sock_world"
  from sock_connect_exec [where w = new_sock_world and sk = 2 and s = ?s and k = ?k and E = "connect_env 1" and
      U = "\<lambda>f xs w. Inr w" and ip = "''127.0.0.1''" and port = 80 and suc = 20 and fail = 21]
    new_sock_world_ok connect_env_ok(2) s(1,2)
  obtain u fd ev a d r1 r2 where
    u: "?run = connect_tail (connect_env 1) (\<lambda>f xs w. Inr w) 2 ''127.0.0.1'' 80 fd ev FP_connect_fail d u"
    "connecting u 2 (?s\<lparr>s_fd := fd, event_connect := ev\<rparr>) ?k ev a d r1 r2 20 21" by auto
  note con = u(2) [unfolded connecting_def]
  let ?v = "emit (Ev (EvIoStart (evl ?k) ev)) (u\<lparr>hist := fst (connect_call (connect_env 1) fd ''127.0.0.1'' 80 (hist u))\<rparr>)"
  have "?run = Inr ?v"
    unfolding u(1)
    by (rule connect_tail_started [OF connect_env_ok(1), where s = "?s\<lparr>s_fd := fd, event_connect := ev\<rparr>"]) (use con in simp_all)
  moreover have "connecting ?v 2 (?s\<lparr>s_fd := fd, event_connect := ev\<rparr>) ?k ev a d r1 r2 20 21" using u(2) by simp
  ultimately obtain v where v: "?run = Inr v"
    "connecting v 2 (?s\<lparr>s_fd := fd, event_connect := ev\<rparr>) ?k ev a d r1 r2 20 21" by blast
  have "ixfd_commonsock_connect_cb (connect_env 1) (luafound_code (\<lambda>f xs w. settle (ixfd_commonsock_free 2 w))) 9 ev EV_WRITE v
      = Inl Dangling"
    using connect_failed_free [OF v(2), of "\<lambda>f xs w. settle (ixfd_commonsock_free 2 w)" "connect_env 1" 9] s(3,4)
    by (simp add: connect_env_def ask_def) blast
  with v(1) show ?thesis by blast
qed

section \<open>Read callbacks\<close>

text \<open>Setting the read callback of a socket several times.\<close>

fun set_read_callbacks :: "env \<Rightarrow> addr \<Rightarrow> nat list \<Rightarrow> 'a lworld_scheme \<Rightarrow> 'a lworld_scheme res" where
  "set_read_callbacks E sock [] w = Inr w"
| "set_read_callbacks E sock (v # vs) w =
     bnd (ixlb_sock_set_read_callback E sock v w) (set_read_callbacks E sock vs)"

text \<open>
  \<open>read_ref w0 sk w s x\<close>: since \<open>w0\<close> the socket \<open>sk\<close> has got its data \<open>x\<close>, and no reference but its
  own has been left on the heap; \<open>read_set\<close> says which function it holds.
\<close>

definition read_ref ::
  "'a lworld_scheme \<Rightarrow> addr \<Rightarrow> 'a lworld_scheme \<Rightarrow> ixfd_sock \<Rightarrow> ixlb_sock_data \<Rightarrow> bool" where
  "read_ref w0 sk w s x \<longleftrightarrow> sk \<noteq> 0 \<and> socks w sk = Some s \<and> s_data s \<noteq> 0 \<and> sockdata w (s_data s) = Some x \<and>
     (\<forall>q. brk w0 < q \<longrightarrow> luarefs w0 q = None) \<and> brk w0 \<le> brk w \<and>
     (if sd_cb_read x = 0 then luarefs w = luarefs w0
      else s_cb_read s = FP_sock_read \<and> brk w0 < sd_cb_read x \<and> sd_cb_read x \<le> brk w \<and>
           (\<exists>v. luarefs w = (luarefs w0)(sd_cb_read x \<mapsto> v)))"

lemma set_read_callback_exec:
  assumes "read_ref w0 sk w s x" "plentiful E"
  shows "\<exists>u t y. ixlb_sock_set_read_callback E sk v w = Inr u \<and> read_ref w0 sk u t y \<and> sd_cb_read y \<noteq> 0 \<and>
    luarefs u (sd_cb_read y) = Some v"
proof -
  let ?r = "Suc (brk w)"
  let ?t = "s\<lparr>s_cb_read := FP_sock_read\<rparr>" and ?y = "x\<lparr>sd_cb_read := ?r\<rparr>"
  note d = assms(1) [unfolded read_ref_def]
  let ?u = "w\<lparr>brk := ?r, hist := (Malloc, ask E Malloc w) # hist w, socks := (socks w)(sk \<mapsto> ?t),
      luarefs := (luarefs w0)(?r \<mapsto> v), sockdata := (sockdata w)(s_data s \<mapsto> ?y)\<rparr>"
  have "ixlb_sock_set_read_callback E sk v w = Inr ?u"
  proof (cases "sd_cb_read x = 0")
    case True
    with d assms(2) show ?thesis by (simp add: ixlb_sock_set_read_callback_def new_luaref_exec cstmt)
  next
    case False
    with d obtain v0 where v0: "luarefs w = (luarefs w0)(sd_cb_read x \<mapsto> v0)" "sd_cb_read x \<le> brk w" "brk w0 < sd_cb_read x"
      by auto
    then have "(luarefs w)(?r \<mapsto> v, sd_cb_read x := None) = (luarefs w0)(?r \<mapsto> v)" using d by (auto simp: fun_eq_iff)
    with d False v0(1,2) assms(2) show ?thesis
      by (simp add: ixlb_sock_set_read_callback_def new_luaref_exec cstmt)
  qed
  moreover have "read_ref w0 sk ?u ?t ?y" using d by (auto simp: read_ref_def)
  ultimately show ?thesis by (intro exI [of _ ?u] exI [of _ ?t] exI [of _ ?y]) simp
qed

lemma set_read_callbacks_exec:
  "read_ref w0 sk w s x \<Longrightarrow> plentiful E \<Longrightarrow> \<exists>u t y. set_read_callbacks E sk vs w = Inr u \<and> read_ref w0 sk u t y \<and>
    (vs \<noteq> [] \<longrightarrow> sd_cb_read y \<noteq> 0 \<and> luarefs u (sd_cb_read y) = Some (last vs)) \<and> (vs = [] \<longrightarrow> u = w)"
proof (induction vs arbitrary: w s x)
  case (Cons v vs)
  from set_read_callback_exec [OF Cons.prems, of v] obtain u t y where
    u: "ixlb_sock_set_read_callback E sk v w = Inr u" "read_ref w0 sk u t y" "sd_cb_read y \<noteq> 0"
      "luarefs u (sd_cb_read y) = Some v" by blast
  show ?case
  proof (cases "vs = []")
    case True
    with u show ?thesis by auto
  next
    case False
    with u(1) Cons.IH [OF u(2) Cons.prems(2)] show ?thesis by fastforce
  qed
qed auto

lemma script_sock_create_exec:
  assumes "plentiful E" "ctx \<noteq> 0" "contexts w ctx = Some k" "evl k \<noteq> 0"
    "\<forall>q. brk w < q \<longrightarrow> luarefs w q = None"
  shows "\<exists>v s x. ixlb_sock_create E ctx w = Inr (Suc (brk w), v) \<and> read_ref w (Suc (brk w)) v s x \<and>
    sd_cb_read x = 0 \<and> luarefs v = luarefs w"
  using assms
  by (simp add: ixlb_sock_create_def ixfd_commonsock_create_def malloc_sock_def malloc_sockdata_def cstmt Let_def
      read_ref_def)

text \<open>
  C31: the read callback of a script socket.  However often it is set on a new socket, the heap holds
  one reference more than before the socket, for the function set last: every earlier one has been
  deleted.  When bytes arrive on a connection of the socket, exactly that function is called, with
  the connection, the buffer and the number of bytes, unless it is nil.
\<close>

theorem read_callback_newest:
  fixes w :: "'a lworld_scheme"
  assumes "plentiful E" "ctx \<noteq> 0" "contexts w ctx = Some k" "evl k \<noteq> 0"
    "\<forall>q. brk w < q \<longrightarrow> luarefs w q = None" "vs \<noteq> []"
  shows "\<exists>sk v u r. ixlb_sock_create E ctx w = Inr (sk, v) \<and> luarefs v = luarefs w \<and>
    set_read_callbacks E sk vs v = Inr u \<and> luarefs w r = None \<and> luarefs u = (luarefs w)(r \<mapsto> last vs) \<and>
    (\<exists>s. socks u sk = Some s \<and> s_cb_read s = FP_sock_read) \<and>
    (\<forall>z p c buf len. socks z = socks u \<longrightarrow> sockdata z = sockdata u \<longrightarrow> luarefs z = luarefs u \<longrightarrow>
       p \<noteq> 0 \<longrightarrow> ctxs z p = Some c \<longrightarrow> c_sock c = sk \<longrightarrow>
       luafound_code V FP_sock_read [p, buf, len] z =
         (if last vs = 0 then Inr z else lua_call V (last vs) [int p, int buf, int len] z))"
proof -
  let ?sk = "Suc (brk w)"
  from script_sock_create_exec [OF assms(1-5)] obtain v s x where
    v: "ixlb_sock_create E ctx w = Inr (?sk, v)" "read_ref w ?sk v s x" "luarefs v = luarefs w" by blast
  from set_read_callbacks_exec [OF v(2) assms(1), of vs] assms(6) obtain u t y where
    u: "set_read_callbacks E ?sk vs v = Inr u" "read_ref w ?sk u t y" "sd_cb_read y \<noteq> 0"
      "luarefs u (sd_cb_read y) = Some (last vs)" by blast
  note d = u(2) [unfolded read_ref_def]
  have r: "luarefs u = (luarefs w)(sd_cb_read y \<mapsto> last vs)" "luarefs w (sd_cb_read y) = None"
    using d u(3,4) by auto
  have code: "luafound_code V FP_sock_read [p, buf, len] z = sock_read_fn V p buf len z" for p buf len z
    by (simp add: luafound_code_def FP_spawn_def FP_sock_write_def FP_connect_suc_def FP_connect_fail_def FP_sock_read_def)
  show ?thesis
    using v(1,3) u(1) r d u(3)
    by (intro exI [of _ ?sk] exI [of _ v] exI [of _ u] exI [of _ "sd_cb_read y"])
      (simp add: code sock_read_fn_def call_ref_def cstmt)
qed

theorem read_callback_newest_witness:
  "\<exists>sk v u r. ixlb_sock_create calm 1 new_sock_world = Inr (sk, v) \<and>
     set_read_callbacks calm sk [30, 31, 32] v = Inr u \<and> luarefs u = [r \<mapsto> 32]"
proof -
  from read_callback_newest [OF calm_plentiful _ new_sock_world_ok(4), of "[30, 31, 32]" "\<lambda>f xs w. Inr w"]
  show ?thesis using new_sock_world_ok(2) by (fastforce simp: new_sock_world_def)
qed

end
