(* ===== verification/LuafoundxProps.thy ===== *)
theory LuafoundxProps
  imports Luafoundx LuafoundProps TimerSpec ChildprocessProps
begin

unbundle bit_operations_syntax

text \<open>
  The properties of the reference-counted classes: which objects live when, and where the code lets
  an object die that is still in use.
\<close>

section \<open>Statements\<close>

lemma obj_cells [cstmt]:
  "p \<noteq> 0 \<Longrightarrow> objs w p = Some x \<Longrightarrow> get_obj p w = Inr x"
  "p \<noteq> 0 \<Longrightarrow> objs w p = Some x \<Longrightarrow> set_obj f p w = Inr (w\<lparr>objs := (objs w)(p \<mapsto> f x)\<rparr>)"
  "p \<noteq> 0 \<Longrightarrow> objs w p = Some x \<Longrightarrow> free_obj p w = Inr (w\<lparr>objs := (objs w)(p := None)\<rparr>)"
  by (simp_all add: get_obj_def set_obj_def free_obj_def cstmt)

lemma typed_cells [cstmt]:
  "p \<noteq> 0 \<Longrightarrow> objs w p = Some (XTimer t) \<Longrightarrow> get_xtimer p w = Inr t"
  "p \<noteq> 0 \<Longrightarrow> objs w p = Some (XChild c) \<Longrightarrow> get_xchild p w = Inr c"
  "p \<noteq> 0 \<Longrightarrow> objs w p = Some (XTcp b) \<Longrightarrow> get_xtcp p w = Inr b"
  by (simp_all add: get_xtimer_def get_xchild_def get_xtcp_def cstmt)

lemma conn_cells [cstmt]:
  "p \<noteq> 0 \<Longrightarrow> xconns w p = Some x \<Longrightarrow> get_conn p w = Inr x"
  "p \<noteq> 0 \<Longrightarrow> xconns w p = Some x \<Longrightarrow> set_conn g p w = Inr (w\<lparr>xconns := (xconns w)(p \<mapsto> g x)\<rparr>)"
  "p \<noteq> 0 \<Longrightarrow> xconns w p = Some x \<Longrightarrow> free_conn p w = Inr (w\<lparr>xconns := (xconns w)(p := None)\<rparr>)"
  by (simp_all add: get_conn_def set_conn_def free_conn_def cstmt)

lemma emit_xworld [simp]:
  "rcptrs (emit c w) = rcptrs w" "objs (emit c w) = objs w" "xconns (emit c w) = xconns w" "xforks (emit c w) = xforks w"
  by (simp_all add: emit_def)

lemma new_rcptr_exec [cstmt]:
  "plentiful E \<Longrightarrow> new_rcptr E p w = Inr (Suc (brk w), w\<lparr>brk := Suc (brk w),
     hist := (Rc (RcAcquire p), 0) # (Malloc, ask E Malloc w) # hist w, rcptrs := (rcptrs w)(Suc (brk w) \<mapsto> p)\<rparr>)"
  by (simp add: new_rcptr_def rc_acquire_def cstmt emit_def)

text \<open>Destroying a counted pointer to an object with \<open>n\<close> of them.\<close>

lemma rc_release_exec:
  assumes "counts_refs E" "p \<noteq> 0"
  shows "rc_release E destroy p w = (let v = w\<lparr>hist := (Rc (RcRelease p), ask E (Rc (RcRelease p)) w) # hist w\<rparr>
     in if refs (hist w) p = 1 then destroy E p v else Inr v)"
  using assms by (simp add: rc_release_def ext_def counts_refs_def ask_def Let_def)

text \<open>
  A call that passes a counted pointer leaves the object alive, with one pointer more: that of the
  userdata, which Lua has yet to collect.
\<close>

definition called_with :: "env \<Rightarrow> nat \<Rightarrow> addr \<Rightarrow> int list \<Rightarrow> 'a world_scheme \<Rightarrow> 'a world_scheme" where
  "called_with E f p xs w = snd (ext E (Rc (RcRelease p))
     (emit (LuaCall f (int p # xs)) (rc_acquire p (rc_acquire p w))))"

lemma call_with_quiet:
  assumes "counts_refs E" "script_quiet V" "p \<noteq> 0"
  shows "call_with E V destroy f p xs w = Inr (called_with E f p xs w)"
  using assms
  by (simp add: call_with_def called_with_def rc_release_def ext_def counts_refs_def ask_def rc_acquire_def
      lua_call_def script_quiet_def Let_def)

lemma called_with_exec:
  "called_with E f p xs w = w\<lparr>hist := hist (called_with E f p xs w)\<rparr>"
  by (simp add: called_with_def ext_def rc_acquire_def emit_def Let_def)

lemma called_with_refs [simp]: "refs (hist (called_with E f p xs w)) q = (if q = p then Suc else id) (refs (hist w) q)"
  by (simp add: called_with_def rc_acquire_def)

lemma called_with_world [simp]:
  "objs (called_with E f p xs w) = objs w" "rcptrs (called_with E f p xs w) = rcptrs w"
  "xconns (called_with E f p xs w) = xconns w" "timers (called_with E f p xs w) = timers w"
  "evtimers (called_with E f p xs w) = evtimers w" "contexts (called_with E f p xs w) = contexts w"
  by (subst called_with_exec, simp)+

section \<open>Timers\<close>

lemma xtimer_start_exec:
  assumes "plentiful E" "self \<noteq> 0" "objs w self = Some (XTimer x)" "m_this_ref x = 0" "timer_at w (xt_impl x) t e k"
  shows "ixlbx_timer_start E self i w = Inr (w\<lparr>brk := Suc (brk w),
     hist := (Ev (EvTimerStart (evl k) (timer_w t) i 0), 0) # (Rc (RcAcquire self), 0) # (Malloc, ask E Malloc w) # hist w,
     timers := (timers w)(xt_impl x \<mapsto> t\<lparr>cb := FP_xtimer, args := self, active := True, interval := i\<rparr>),
     evtimers := (evtimers w)(timer_w t \<mapsto> e\<lparr>t_at := i, t_repeat := 0\<rparr>),
     rcptrs := (rcptrs w)(Suc (brk w) \<mapsto> self),
     objs := (objs w)(self \<mapsto> XTimer (x\<lparr>m_this_ref := Suc (brk w)\<rparr>))\<rparr>)"
proof -
  let ?w = "w\<lparr>brk := Suc (brk w), hist := (Rc (RcAcquire self), 0) # (Malloc, ask E Malloc w) # hist w,
     rcptrs := (rcptrs w)(Suc (brk w) \<mapsto> self), objs := (objs w)(self \<mapsto> XTimer (x\<lparr>m_this_ref := Suc (brk w)\<rparr>))\<rparr>"
  have "timer_at ?w (xt_impl x) t e k" using assms(5) by (simp add: timer_at_def)
  from start_exec [OF this, of i FP_xtimer self] assms(1-4) show ?thesis
    by (simp add: ixlbx_timer_start_def ixlbx_ref_base_ref_def cstmt)
qed

text \<open>The calls of Lua functions in a history, newest first.\<close>

fun lua_calls :: "event list \<Rightarrow> (nat \<times> int list) list" where
  "lua_calls [] = []"
| "lua_calls ((LuaCall f xs, _) # h) = (f, xs) # lua_calls h"
| "lua_calls (_ # h) = lua_calls h"

text \<open>
  \<open>self_timer w self x t e k\<close>: the timer object \<open>self\<close> waits for its expiry, holding a counted pointer
  to itself.
\<close>

definition self_timer ::
  "'a xworld_scheme \<Rightarrow> addr \<Rightarrow> ixlbx_timer \<Rightarrow> ixut_timer \<Rightarrow> ev_timer \<Rightarrow> ixc_context \<Rightarrow> bool" where
  "self_timer w self x t e k \<longleftrightarrow> self \<noteq> 0 \<and> objs w self = Some (XTimer x) \<and> m_this_ref x \<noteq> 0 \<and>
     rcptrs w (m_this_ref x) = Some self \<and> timer_at w (xt_impl x) t e k \<and> cb t = FP_xtimer \<and> args t = self \<and>
     t_handler e = Ixut_timer_cb \<and> t_repeat e \<le> 0"

lemma FP_nonzero [simp]: "FP_xtimer \<noteq> 0" "FP_xchild \<noteq> 0" "FP_xread \<noteq> 0" "FP_xaccept \<noteq> 0" "FP_xclose \<noteq> 0"
  by (simp_all add: FP_xtimer_def FP_xchild_def FP_xread_def FP_xaccept_def FP_xclose_def)

lemma xtimer_code: "luafoundx_code E V FP_xtimer [t, self] w = xtimer_fn E V t self w"
  by (simp add: luafoundx_code_def)

text \<open>The state in which the lambda of a timer runs.\<close>

definition at_lambda :: "addr \<Rightarrow> ixlbx_timer \<Rightarrow> ixut_timer \<Rightarrow> 'a xworld_scheme \<Rightarrow> 'a xworld_scheme" where
  "at_lambda self x t w = emit (Invoke FP_xtimer [xt_impl x, self])
     ((expiring (timer_w t) w)\<lparr>timers := (timers w)(xt_impl x \<mapsto> t\<lparr>active := False\<rparr>)\<rparr>)"

lemma at_lambda_simps [simp]:
  "timers (at_lambda self x t w) = (timers w)(xt_impl x \<mapsto> t\<lparr>active := False\<rparr>)"
  "objs (at_lambda self x t w) = objs w" "rcptrs (at_lambda self x t w) = rcptrs w"
  "evtimers (at_lambda self x t w) = evtimers w" "contexts (at_lambda self x t w) = contexts w"
  "refs (hist (at_lambda self x t w)) = refs (hist w)"
  "lua_calls (hist (at_lambda self x t w)) = lua_calls (hist w)"
  by (simp_all add: at_lambda_def expiring_def emit_def fun_eq_iff)

lemma xtimer_expired_exec:
  assumes "self_timer w self x t e k"
  shows "timer_expired E (luafoundx_code E V) (timer_w t) w = xtimer_fn E V (xt_impl x) self (at_lambda self x t w)"
    "self_timer (at_lambda self x t w) self x (t\<lparr>active := False\<rparr>) e k"
proof -
  have at: "timer_at w (xt_impl x) t e k" and c: "cb t = FP_xtimer" "args t = self" "t_handler e = Ixut_timer_cb"
    using assms by (simp_all add: self_timer_def)
  then have "timer_at (expiring (timer_w t) w) (xt_impl x) t e k" by simp
  from timer_cb_exec [OF this, of "luafoundx_code E V"] expired_exec [OF at, of E "luafoundx_code E V"] c
  show "timer_expired E (luafoundx_code E V) (timer_w t) w = xtimer_fn E V (xt_impl x) self (at_lambda self x t w)"
    by (simp add: Let_def xtimer_code at_lambda_def FP_nonzero)
  show "self_timer (at_lambda self x t w) self x (t\<lparr>active := False\<rparr>) e k"
    using assms by (simp add: self_timer_def timer_at_def)
qed

text \<open>Giving up the reference to oneself while there are others.\<close>

lemma xtimer_un_ref_exec:
  assumes "counts_refs E" "self_timer w self x t e k" "refs (hist w) self = Suc (Suc m)"
  shows "ixlbx_ref_base_un_ref E self w = Inr (w\<lparr>
     hist := (Rc (RcRelease self), ask E (Rc (RcRelease self)) w) # hist w,
     rcptrs := (rcptrs w)(m_this_ref x := None), objs := (objs w)(self \<mapsto> XTimer (x\<lparr>m_this_ref := 0\<rparr>))\<rparr>)"
  using assms(1,3) assms(2) [unfolded self_timer_def timer_at_def]
  by (simp add: ixlbx_ref_base_un_ref_def cstmt delete_rcptr_def rc_release_exec Let_def ask_def)

lemma xtimer_fn_quiet:
  assumes "counts_refs E" "script_quiet V" "self_timer w self x t e k" "refs (hist w) self = Suc m"
  shows "\<exists>z. xtimer_fn E V tm self w = Inr z \<and> rcptrs z = (rcptrs w)(m_this_ref x := None) \<and>
    refs (hist z) self = Suc m \<and> lua_calls (hist z) = (xt_ref_cb x, [int self]) # lua_calls (hist w) \<and>
    objs z = (objs w)(self \<mapsto> XTimer (x\<lparr>m_this_ref := 0\<rparr>)) \<and> timers z = timers w \<and>
    evtimers z = evtimers w \<and> contexts z = contexts w"
proof -
  note d = assms(3) [unfolded self_timer_def]
  let ?w = "called_with E (xt_ref_cb x) self [] w"
  have call: "call_with E V delete_obj (xt_ref_cb x) self [] w = Inr ?w"
    using call_with_quiet [OF assms(1,2)] d by simp
  have calls: "lua_calls (hist ?w) = (xt_ref_cb x, [int self]) # lua_calls (hist w)"
    by (simp add: called_with_def rc_acquire_def)
  have "self_timer ?w self x t e k" using assms(3) by (simp add: self_timer_def timer_at_def)
  from xtimer_un_ref_exec [OF assms(1) this, of m] assms(4) calls
  obtain z where "ixlbx_ref_base_un_ref E self ?w = Inr z" "rcptrs z = (rcptrs w)(m_this_ref x := None)"
    "refs (hist z) self = Suc m" "lua_calls (hist z) = (xt_ref_cb x, [int self]) # lua_calls (hist w)"
    "objs z = (objs w)(self \<mapsto> XTimer (x\<lparr>m_this_ref := 0\<rparr>))" "timers z = timers w" "evtimers z = evtimers w"
    "contexts z = contexts w" by simp
  with call d show ?thesis by (simp add: xtimer_fn_def cstmt)
qed

text \<open>The last counted pointer to a timer object, whoever held it: an idle timer is deleted, a running one not.\<close>

lemma release_timer:
  assumes "counts_refs E" "self \<noteq> 0" "objs w self = Some (XTimer x)" "timer_at w (xt_impl x) t e k"
    "refs (hist w) self = 1"
  shows "active t \<Longrightarrow> rc_release E delete_obj self w = Inl Assertion"
    "\<not> active t \<Longrightarrow> \<exists>v. rc_release E delete_obj self w = Inr v \<and> objs v = (objs w)(self := None) \<and>
       timers v = (timers w)(xt_impl x := None)"
  using assms
  by (simp_all add: rc_release_exec Let_def delete_obj_def cstmt ixlbx_timer_destroy_def ixut_timer_free_def timer_at_def)

text \<open>
  C5: the life of a timer object.  Starting it takes a counted pointer to itself, so that it cannot
  die while the event loop will call it.  When it expires, whatever the script has done with its own
  pointers meanwhile, the Lua function is called once, with a counted pointer to the object of its
  own; the pointer to itself is given up; the object and its timer stay as they were before the start,
  the timer inactive, with as many pointers as at the expiry.  When the last of them is dropped, in
  general by Lua's collector, the object and its timer are deleted, without a fault.  (Here for a
  function that returns having left the process alone.)
\<close>

theorem xtimer_life:
  fixes w :: "'a xworld_scheme"
  assumes "plentiful E" "counts_refs E" "script_quiet V" "self \<noteq> 0" "objs w self = Some (XTimer x)" "m_this_ref x = 0"
    "timer_at w (xt_impl x) t e k" "t_handler e = Ixut_timer_cb" "rcptrs w (Suc (brk w)) = None"
  shows "\<exists>v. ixlbx_timer_start E self i w = Inr v \<and> refs (hist v) self = Suc (refs (hist w) self) \<and>
    armed (hist v) (timer_w t) \<and>
    (\<forall>h m. refs (h @ hist v) self = Suc m \<longrightarrow>
       (\<exists>z. timer_expired E (luafoundx_code E V) (timer_w t) (v\<lparr>hist := h @ hist v\<rparr>) = Inr z \<and>
          rcptrs z = rcptrs w \<and> refs (hist z) self = Suc m \<and>
          lua_calls (hist z) = (xt_ref_cb x, [int self]) # lua_calls (h @ hist v) \<and>
          objs z = objs w \<and> (\<exists>y. timers z (xt_impl x) = Some y \<and> \<not> active y) \<and>
          (\<forall>g. refs (g @ hist z) self = 1 \<longrightarrow>
             (\<exists>u. rc_release E delete_obj self (z\<lparr>hist := g @ hist z\<rparr>) = Inr u \<and>
                objs u = (objs w)(self := None) \<and> timers u (xt_impl x) = None))))"
proof -
  let ?tr = "Suc (brk w)"
  let ?x = "x\<lparr>m_this_ref := ?tr\<rparr>" and ?t = "t\<lparr>cb := FP_xtimer, args := self, active := True, interval := i\<rparr>"
  let ?e = "e\<lparr>t_at := i, t_repeat := 0\<rparr>"
  let ?v = "w\<lparr>brk := ?tr,
     hist := (Ev (EvTimerStart (evl k) (timer_w t) i 0), 0) # (Rc (RcAcquire self), 0) # (Malloc, ask E Malloc w) # hist w,
     timers := (timers w)(xt_impl x \<mapsto> ?t), evtimers := (evtimers w)(timer_w t \<mapsto> ?e),
     rcptrs := (rcptrs w)(?tr \<mapsto> self), objs := (objs w)(self \<mapsto> XTimer ?x)\<rparr>"
  have v: "ixlbx_timer_start E self i w = Inr ?v" by (rule xtimer_start_exec [OF assms(1,4-7)])
  have x: "x\<lparr>m_this_ref := 0\<rparr> = x" using assms(6) by (cases x) simp
  have o: "(objs w)(self \<mapsto> XTimer x) = objs w" using assms(5) by (simp add: fun_upd_idem)
  have r: "(rcptrs w)(?tr := None) = rcptrs w" using assms(9) by (simp add: fun_upd_idem)
  have "\<exists>z. timer_expired E (luafoundx_code E V) (timer_w t) (?v\<lparr>hist := h @ hist ?v\<rparr>) = Inr z \<and>
          rcptrs z = rcptrs w \<and> refs (hist z) self = Suc m \<and>
          lua_calls (hist z) = (xt_ref_cb x, [int self]) # lua_calls (h @ hist ?v) \<and>
          objs z = objs w \<and> (\<exists>y. timers z (xt_impl x) = Some y \<and> \<not> active y) \<and>
          (\<forall>g. refs (g @ hist z) self = 1 \<longrightarrow>
             (\<exists>u. rc_release E delete_obj self (z\<lparr>hist := g @ hist z\<rparr>) = Inr u \<and>
                objs u = (objs w)(self := None) \<and> timers u (xt_impl x) = None))"
    if m: "refs (h @ hist ?v) self = Suc m" for h m
  proof -
    define a where "a = ?v\<lparr>hist := h @ hist ?v\<rparr>"
    have st: "self_timer a self ?x ?t ?e k" using assms(4,7,8) by (simp add: a_def self_timer_def timer_at_def)
    have ex: "timer_expired E (luafoundx_code E V) (timer_w t) a = xtimer_fn E V (xt_impl x) self (at_lambda self ?x ?t a)"
      using xtimer_expired_exec(1) [OF st, of E V] by simp
    have m': "refs (hist (at_lambda self ?x ?t a)) self = Suc m" using m by (simp add: a_def)
    have a: "rcptrs a = (rcptrs w)(?tr \<mapsto> self)" "objs a = (objs w)(self \<mapsto> XTimer ?x)"
      "lua_calls (hist a) = lua_calls (h @ hist ?v)" by (simp_all add: a_def)
    from xtimer_fn_quiet [OF assms(2,3) xtimer_expired_exec(2) [OF st] m', of "xt_impl x"] obtain z where
      z: "xtimer_fn E V (xt_impl x) self (at_lambda self ?x ?t a) = Inr z" "rcptrs z = rcptrs w"
        "refs (hist z) self = Suc m" "lua_calls (hist z) = (xt_ref_cb x, [int self]) # lua_calls (h @ hist ?v)"
        "objs z = objs w" "timers z = timers (at_lambda self ?x ?t a)"
        "evtimers z = evtimers (at_lambda self ?x ?t a)" "contexts z = contexts (at_lambda self ?x ?t a)"
      using a by (auto simp: x o r)
    have idle: "timer_at z (xt_impl x) (?t\<lparr>active := False\<rparr>) ?e k"
      using xtimer_expired_exec(2) [OF st] z(6-8) by (simp add: self_timer_def timer_at_def)
    have "\<exists>u. rc_release E delete_obj self (z\<lparr>hist := g @ hist z\<rparr>) = Inr u \<and>
        objs u = (objs w)(self := None) \<and> timers u (xt_impl x) = None" if g: "refs (g @ hist z) self = 1" for g
      using release_timer(2) [of E self "z\<lparr>hist := g @ hist z\<rparr>" x "?t\<lparr>active := False\<rparr>" ?e k] assms(2,4,5) z(5) idle g
      by (auto simp: timer_at_def)
    with z idle show ?thesis unfolding a_def [symmetric] ex by (intro exI [of _ z]) (simp add: timer_at_def)
  qed
  with v show ?thesis by (intro exI [of _ ?v]) simp
qed

text \<open>An environment that counts, and a process with one timer object, which a userdata of the script holds.\<close>

definition counting :: env where
  "counting = calm\<lparr>answer := (\<lambda>h c. case c of Rc (RcRelease p) \<Rightarrow> if p \<noteq> 0 \<and> refs h p = 1 then 1 else 0 | _ \<Rightarrow> 1)\<rparr>"

lemma counting_ok: "counts_refs counting" "plentiful counting" "script_quiet (\<lambda>f xs w. Inr w)"
  by (simp_all add: counts_refs_def plentiful_def counting_def script_quiet_def)

definition empty_xworld :: xworld where
  "empty_xworld = \<lparr>brk = 9, hist = [], contexts = [1 \<mapsto> \<lparr>state = 0, evl = 9\<rparr>],
     nodes = (\<lambda>_. None), socks = (\<lambda>_. None), ctxs = (\<lambda>_. None), wctxs = (\<lambda>_. None),
     cargs = (\<lambda>_. None), ios = (\<lambda>_. None), bufs = (\<lambda>_. None), timers = (\<lambda>_. None), evtimers = (\<lambda>_. None),
     childws = (\<lambda>_. None), evchilds = (\<lambda>_. None), termargs = (\<lambda>_. None),
     luarefs = (\<lambda>_. None), conndata = (\<lambda>_. None), sockdata = (\<lambda>_. None),
     rcptrs = (\<lambda>_. None), objs = (\<lambda>_. None), xforks = (\<lambda>_. None), xconns = (\<lambda>_. None)\<rparr>"

definition an_xtimer :: ixlbx_timer where
  "an_xtimer = \<lparr>m_this_ref = 0, xt_impl = 2, xt_ref_cb = 20\<rparr>"

definition a_timer :: ixut_timer where "a_timer = zero_timer\<lparr>timer_w := 3, t_context := 1\<rparr>"

definition an_evtimer :: ev_timer where
  "an_evtimer = \<lparr>t_handler = Ixut_timer_cb, t_data = 2, t_at = 0, t_repeat = 0\<rparr>"

definition xtimer_world :: xworld where
  "xtimer_world = empty_xworld\<lparr>hist := [(Rc (RcAcquire 4), 0)], timers := [2 \<mapsto> a_timer], evtimers := [3 \<mapsto> an_evtimer], objs := [4 \<mapsto> XTimer an_xtimer]\<rparr>"

lemma xtimer_world_ok:
  "objs xtimer_world 4 = Some (XTimer an_xtimer)" "m_this_ref an_xtimer = 0"
  "timer_at xtimer_world (xt_impl an_xtimer) a_timer an_evtimer \<lparr>state = 0, evl = 9\<rparr>"
  "t_handler an_evtimer = Ixut_timer_cb" "rcptrs xtimer_world (Suc (brk xtimer_world)) = None"
  by (simp_all add: xtimer_world_def empty_xworld_def an_xtimer_def a_timer_def an_evtimer_def timer_at_def zero_timer_def)

text \<open>
  The script drops its userdata while the timer runs (the pointer is collected before the expiry), and the
  one its function was given is collected after the expiry.
\<close>

theorem xtimer_life_witness:
  "\<exists>v z u. ixlbx_timer_start counting 4 1 xtimer_world = Inr v \<and>
     timer_expired counting (luafoundx_code counting (\<lambda>f xs w. Inr w)) 3
       (v\<lparr>hist := (Rc (RcRelease 4), 0) # hist v\<rparr>) = Inr z \<and> objs z 4 \<noteq> None \<and>
     rc_release counting delete_obj 4 z = Inr u \<and> objs u 4 = None"
proof -
  from xtimer_life [OF counting_ok(2,1,3) _ xtimer_world_ok, of 1] obtain v where
    v: "ixlbx_timer_start counting 4 1 xtimer_world = Inr v" "refs (hist v) 4 = Suc (refs (hist xtimer_world) 4)"
    and life: "\<forall>h m. refs (h @ hist v) 4 = Suc m \<longrightarrow>
       (\<exists>z. timer_expired counting (luafoundx_code counting (\<lambda>f xs w. Inr w)) (timer_w a_timer) (v\<lparr>hist := h @ hist v\<rparr>) = Inr z \<and>
          refs (hist z) 4 = Suc m \<and> objs z = objs xtimer_world \<and>
          (\<forall>g. refs (g @ hist z) 4 = 1 \<longrightarrow>
             (\<exists>u. rc_release counting delete_obj 4 (z\<lparr>hist := g @ hist z\<rparr>) = Inr u \<and>
                objs u = (objs xtimer_world)(4 := None))))"
    by fastforce
  have "refs (hist xtimer_world) 4 = 1" "timer_w a_timer = 3"
    by (simp_all add: xtimer_world_def empty_xworld_def a_timer_def)
  with v life [rule_format, of "[(Rc (RcRelease 4), 0)]" 0] obtain z where
    z: "timer_expired counting (luafoundx_code counting (\<lambda>f xs w. Inr w)) 3 (v\<lparr>hist := (Rc (RcRelease 4), 0) # hist v\<rparr>) = Inr z"
      "refs (hist z) 4 = 1" "objs z = objs xtimer_world"
      "\<forall>g. refs (g @ hist z) 4 = 1 \<longrightarrow> (\<exists>u. rc_release counting delete_obj 4 (z\<lparr>hist := g @ hist z\<rparr>) = Inr u \<and>
         objs u = (objs xtimer_world)(4 := None))" by auto
  from z(4) [rule_format, of "[]"] z(2) have "\<exists>u. rc_release counting delete_obj 4 z = Inr u \<and> objs u 4 = None" by auto
  with v(1) z(1,3) xtimer_world_ok(1) show ?thesis by auto
qed

lemma xtimer_fn_restart:
  assumes "counts_refs E" "self_timer w self x t e k" "refs (hist w) self = Suc m"
    "V (xt_ref_cb x) [int self] = ixlbx_timer_start E self j"
  shows "\<exists>z. xtimer_fn E V tm self w = Inr z \<and> objs z self = Some (XTimer (x\<lparr>m_this_ref := 0\<rparr>)) \<and>
      timer_at z (xt_impl x) (t\<lparr>active := True, interval := j\<rparr>) (e\<lparr>t_at := j, t_repeat := 0\<rparr>) k \<and>
      armed (hist z) (timer_w t) \<and> refs (hist z) self = Suc m"
proof -
  note d = assms(2) [unfolded self_timer_def]
  let ?t = "t\<lparr>active := True, interval := j\<rparr>" and ?e = "e\<lparr>t_at := j, t_repeat := 0\<rparr>"
  let ?c = "(Ev (EvTimerStart (evl k) (timer_w t) j 0), 0) # (LuaCall (xt_ref_cb x) [int self], 0) #
    (Rc (RcAcquire self), 0) # (Rc (RcAcquire self), 0) # hist w"
  let ?v = "w\<lparr>hist := ?c, timers := (timers w)(xt_impl x \<mapsto> ?t), evtimers := (evtimers w)(timer_w t \<mapsto> ?e)\<rparr>"
  let ?r = "?v\<lparr>hist := (Rc (RcRelease self), ask E (Rc (RcRelease self)) ?v) # ?c\<rparr>"
  let ?l = "emit (LuaCall (xt_ref_cb x) [int self]) (rc_acquire self (rc_acquire self w))"
  have same: "t\<lparr>cb := FP_xtimer, args := self, active := True, interval := j\<rparr> = ?t" using d by (cases t) simp
  have "V (xt_ref_cb x) [int self] ?l = Inr ?v"
    unfolding assms(4)
    using d start_exec [of ?l "xt_impl x" t e k j FP_xtimer self]
    by (simp add: ixlbx_timer_start_def ixlbx_ref_base_ref_def cstmt rc_acquire_def timer_at_def emit_def same)
  then have call: "call_with E V delete_obj (xt_ref_cb x) self [] w = Inr ?r"
    using assms(1,3) d by (simp add: call_with_def lua_call_def rc_release_exec Let_def)
  have st: "self_timer ?r self x ?t ?e k" using d by (simp add: self_timer_def timer_at_def)
  from xtimer_un_ref_exec [OF assms(1) st, of m] assms(3) obtain z where
    z: "ixlbx_ref_base_un_ref E self ?r = Inr z" "timers z = timers ?r" "evtimers z = evtimers ?r"
      "contexts z = contexts w" "objs z = (objs w)(self \<mapsto> XTimer (x\<lparr>m_this_ref := 0\<rparr>))"
      "hist z = (Rc (RcRelease self), ask E (Rc (RcRelease self)) ?r) # hist ?r" by simp
  have "timer_at z (xt_impl x) ?t ?e k" using d z(2-4) by (simp add: timer_at_def)
  with z call d assms(3) show ?thesis by (simp add: xtimer_fn_def cstmt)
qed

text \<open>
  C40: a timer that its own Lua function starts again.  The second start finds the pointer to itself
  still there and takes no new one; the lambda then gives that one up although the timer runs.  The
  timer runs on without holding itself; and when its last pointer is dropped meanwhile, which is for
  Lua's collector to decide if the script has stored none, the process aborts, in the assertion of
  \<open>ixut_timer_free\<close> that the timer be inactive.
\<close>

theorem xtimer_restarted:
  fixes w :: "'a xworld_scheme"
  assumes "counts_refs E" "self_timer w self x t e k" "refs (hist w) self = Suc m"
    "V (xt_ref_cb x) [int self] = ixlbx_timer_start E self j"
  shows "\<exists>z. timer_expired E (luafoundx_code E V) (timer_w t) w = Inr z \<and>
      objs z self = Some (XTimer (x\<lparr>m_this_ref := 0\<rparr>)) \<and> armed (hist z) (timer_w t) \<and> refs (hist z) self = Suc m \<and>
      (\<forall>h. refs (h @ hist z) self = 1 \<longrightarrow> rc_release E delete_obj self (z\<lparr>hist := h @ hist z\<rparr>) = Inl Assertion)"
proof -
  note ex = xtimer_expired_exec(1) [OF assms(2), of E V] and st = xtimer_expired_exec(2) [OF assms(2)]
  have m: "refs (hist (at_lambda self x t w)) self = Suc m" using assms(3) by simp
  have t: "timer_w (t\<lparr>active := False\<rparr>) = timer_w t" by simp
  from xtimer_fn_restart [where V = V, OF assms(1) st m assms(4), of "xt_impl x", unfolded t] obtain z where
    z: "xtimer_fn E V (xt_impl x) self (at_lambda self x t w) = Inr z"
      "objs z self = Some (XTimer (x\<lparr>m_this_ref := 0\<rparr>))" "armed (hist z) (timer_w t)" "refs (hist z) self = Suc m"
      "timer_at z (xt_impl x) (t\<lparr>active := False\<rparr>\<lparr>active := True, interval := j\<rparr>) (e\<lparr>t_at := j, t_repeat := 0\<rparr>) k"
    by blast
  have self: "self \<noteq> 0" using assms(2) by (simp add: self_timer_def)
  have "rc_release E delete_obj self (z\<lparr>hist := h @ hist z\<rparr>) = Inl Assertion" if "refs (h @ hist z) self = 1" for h
    using release_timer(1) [OF assms(1) self, of "z\<lparr>hist := h @ hist z\<rparr>" "x\<lparr>m_this_ref := 0\<rparr>"
        "t\<lparr>active := False\<rparr>\<lparr>active := True, interval := j\<rparr>" "e\<lparr>t_at := j, t_repeat := 0\<rparr>" k] z(2,5) that
    by (simp add: timer_at_def)
  with z ex show ?thesis by auto
qed

text \<open>The script stores no pointer; the one its function was given is collected while the timer runs.\<close>

theorem xtimer_restarted_witness:
  "\<exists>v z. ixlbx_timer_start counting 4 1 xtimer_world = Inr v \<and>
     timer_expired counting (luafoundx_code counting (\<lambda>f xs. ixlbx_timer_start counting 4 1)) 3
       (v\<lparr>hist := (Rc (RcRelease 4), 0) # hist v\<rparr>) = Inr z \<and>
     armed (hist z) 3 \<and> rc_release counting delete_obj 4 z = Inl Assertion"
proof -
  let ?x = "an_xtimer\<lparr>m_this_ref := 10\<rparr>"
  let ?t = "a_timer\<lparr>cb := FP_xtimer, args := 4, active := True, interval := 1\<rparr>"
  let ?e = "an_evtimer\<lparr>t_at := 1, t_repeat := 0\<rparr>"
  from xtimer_start_exec [OF counting_ok(2) _ xtimer_world_ok(1-3), of 1]
  obtain v where v: "ixlbx_timer_start counting 4 1 xtimer_world = Inr v"
    "self_timer (v\<lparr>hist := (Rc (RcRelease 4), 0) # hist v\<rparr>) 4 ?x ?t ?e \<lparr>state = 0, evl = 9\<rparr>"
    "refs (hist (v\<lparr>hist := (Rc (RcRelease 4), 0) # hist v\<rparr>)) 4 = Suc 0"
    by (simp add: self_timer_def timer_at_def xtimer_world_def empty_xworld_def an_xtimer_def a_timer_def an_evtimer_def)
  from xtimer_restarted [OF counting_ok(1) v(2,3), of "\<lambda>f xs. ixlbx_timer_start counting 4 1" 1] obtain z where
    z: "timer_expired counting (luafoundx_code counting (\<lambda>f xs. ixlbx_timer_start counting 4 1)) 3
       (v\<lparr>hist := (Rc (RcRelease 4), 0) # hist v\<rparr>) = Inr z" "armed (hist z) 3"
      "\<forall>h. refs (h @ hist z) 4 = 1 \<longrightarrow> rc_release counting delete_obj 4 (z\<lparr>hist := h @ hist z\<rparr>) = Inl Assertion"
      "refs (hist z) 4 = Suc 0"
    by (auto simp: a_timer_def)
  from z(3) [rule_format, of "[]"] z(4) have "rc_release counting delete_obj 4 z = Inl Assertion" by simp
  with v(1) z(1,2) show ?thesis by blast
qed

section \<open>Connections\<close>

text \<open>
  \<open>self_conn w p c s k q x\<close>: the connection \<open>p\<close> of a listening object of the script, with its own
  object \<open>q\<close>, which holds a counted pointer to itself.
\<close>

definition self_conn ::
  "'a xworld_scheme \<Rightarrow> addr \<Rightarrow> ixfd_conn_ctx \<Rightarrow> ixfd_sock \<Rightarrow> ixc_context \<Rightarrow> addr \<Rightarrow> ixlbx_socket_context \<Rightarrow> bool" where
  "self_conn w p c s k q x \<longleftrightarrow> conn_at w p c s k \<and> (\<exists>F ps. queue_at w (buf_write c) F ps) \<and>
     c_data c = q \<and> q \<noteq> 0 \<and> xconns w q = Some x \<and> sc_impl x = p \<and> sc_this_ref x \<noteq> 0 \<and>
     rcptrs w (sc_this_ref x) = Some q"

text \<open>The un_ref of a connection object: the last reference leads into freed memory.\<close>

lemma xconn_un_ref_exec:
  assumes "counts_refs E" "self_conn w p c s k q x" "refs (hist w) q = Suc m"
  shows "ixlbx_socket_context_un_ref E q w =
    (if m = 0 then Inl Dangling
     else Inr (w\<lparr>hist := (Rc (RcRelease q), ask E (Rc (RcRelease q)) w) # hist w,
                 rcptrs := (rcptrs w)(sc_this_ref x := None), xconns := (xconns w)(q \<mapsto> x\<lparr>sc_this_ref := 0\<rparr>)\<rparr>))"
proof -
  note d = assms(2) [unfolded self_conn_def]
  then obtain F ps where q: "queue_at w (buf_write c) F ps" by blast
  let ?w = "w\<lparr>hist := (Printf ''freeing ixlbx_socket_context ...'', 0) # (Rc (RcRelease q), ask E (Rc (RcRelease q)) w) # hist w\<rparr>"
  have "conn_at ?w p c s k" "queue_at ?w (buf_write c) F ps"
    using d q by (simp_all add: conn_at_def queue_at_def)
  from freectx_exec [OF this] d assms(1,3) show ?thesis
    by (simp add: ixlbx_socket_context_un_ref_def cstmt delete_rcptr_def rc_release_exec Let_def delete_conn_def
        ixlbx_socket_context_destroy_def emit_def settle_def set_conn_def modify_def deref_def)
qed

lemma self_conn_same:
  assumes "self_conn w p c s k q x" "conn_at v p c s k" "nodes v = nodes w" "xconns v = xconns w" "rcptrs v = rcptrs w"
  shows "self_conn v p c s k q x"
  using assms by (simp add: self_conn_def queue_at_def)

text \<open>The last counted pointer to the object of a connection that no longer holds itself.\<close>

lemma release_conn:
  assumes "counts_refs E" "conn_at w p c s k" "queue_at w (buf_write c) F ps" "xconns w q = Some x" "q \<noteq> 0"
    "sc_impl x = p" "refs (hist w) q = 1"
  shows "\<exists>v. rc_release E delete_conn q w = Inr v \<and> xconns v q = None \<and> ctxs v p = None"
proof -
  let ?w = "w\<lparr>hist := (Printf ''freeing ixlbx_socket_context ...'', 0) # (Rc (RcRelease q), ask E (Rc (RcRelease q)) w) # hist w\<rparr>"
  have "conn_at ?w p c s k" "queue_at ?w (buf_write c) F ps"
    using assms(2,3) by (simp_all add: conn_at_def queue_at_def)
  from freectx_exec [OF this] assms show ?thesis
    by (simp add: cstmt rc_release_exec Let_def delete_conn_def ixlbx_socket_context_destroy_def emit_def settle_def)
qed

lemma xclose_code: "luafoundx_code E V FP_xclose [p, d] w = xclose_fn E V p w"
  by (simp add: luafoundx_code_def FP_xclose_def FP_xtimer_def FP_xfork_def FP_xchild_def FP_xread_def FP_xaccept_def)

lemma xclose_exec:
  assumes "counts_refs E" "script_quiet V" "self_conn w p c s k q x"
    "s_data s = b" "b \<noteq> 0" "objs w b = Some (XTcp y)"
  shows "\<exists>v. xclose_fn E V p w = ixlbx_socket_context_un_ref E q v \<and> self_conn v p c s k q x \<and>
    refs (hist v) q = (if m_ref_cbclose y = 0 then refs (hist w) q else Suc (refs (hist w) q)) \<and>
    lua_calls (hist v) = (if m_ref_cbclose y = 0 then [] else [(m_ref_cbclose y, [int q])]) @ lua_calls (hist w) \<and>
    v = w\<lparr>hist := hist v\<rparr>"
proof -
  note d = assms(3) [unfolded self_conn_def conn_at_def]
  show ?thesis
  proof (cases "m_ref_cbclose y = 0")
    case True
    with d assms show ?thesis by (intro exI [of _ w]) (simp add: xclose_fn_def cstmt)
  next
    case False
    let ?v = "called_with E (m_ref_cbclose y) q [] w"
    have call: "call_with E V delete_conn (m_ref_cbclose y) q [] w = Inr ?v"
      using call_with_quiet [OF assms(1,2)] d by simp
    have v: "?v = w\<lparr>hist := hist ?v\<rparr>" by (rule called_with_exec)
    have "lua_calls (hist ?v) = (m_ref_cbclose y, [int q]) # lua_calls (hist w)"
      by (simp add: called_with_def rc_acquire_def)
    moreover have "self_conn ?v p c s k q x"
      by (subst v, rule self_conn_same [OF assms(3)]) (use assms(3) in \<open>simp_all add: self_conn_def conn_at_def\<close>)
    ultimately show ?thesis
      using d assms(4-6) False call v by (intro exI [of _ ?v]) (simp add: xclose_fn_def cstmt)
  qed
qed

text \<open>
  C28: the peer closes a connection whose object has \<open>Suc m\<close> counted pointers, one of them its own.  The
  close lambda tells the script, if the script has set a close callback, and gives up the pointer of the
  object to itself.  With a close callback the call has left a pointer in Lua, and the connection is
  closed properly: inactive, its read watcher stopped, its descriptor closed; its memory is freed, without
  a fault, when Lua drops the last pointer.  The same holds without one if the script holds a pointer.
  But if it has set no close callback and Lua holds no pointer, having collected those passed before,
  the pointer given up was the last: the object and the connection are freed, and the object is written
  to afterwards.
\<close>

theorem remote_close:
  fixes w :: "'a xworld_scheme"
  assumes "counts_refs E" "read_ok E" "script_quiet V" "self_conn w p c s k q x" "refs (hist w) q = Suc m"
    "s_data s = b" "b \<noteq> 0" "objs w b = Some (XTcp y)" "cb_close s = FP_xclose"
    "ios w ev = Some e" "ev \<noteq> 0" "io_data e = p" "\<not> passive_read s" "size_bufread c + 1 \<noteq> 0"
    "ask E (Sys (SysRead (c_fd c) (size_bufread c))) w = 0"
  shows "if m_ref_cbclose y = 0 \<and> m = 0
    then ixfd_commonsock_read_cb E (luafoundx_code E V) l ev w = Inl Dangling
    else \<exists>z. ixfd_commonsock_read_cb E (luafoundx_code E V) l ev w = Inr z \<and>
      conn_at z p (c\<lparr>c_active := False\<rparr>) s k \<and> fst (hd (hist z)) = Sys (SysClose (c_fd c)) \<and>
      xconns z q = Some (x\<lparr>sc_this_ref := 0\<rparr>) \<and>
      refs (hist z) q = (if m_ref_cbclose y = 0 then m else Suc m) \<and>
      lua_calls (hist z) = (if m_ref_cbclose y = 0 then [] else [(m_ref_cbclose y, [int q])]) @ lua_calls (hist w) \<and>
      (\<forall>h. refs (h @ hist z) q = 1 \<longrightarrow>
         (\<exists>u. rc_release E delete_conn q (z\<lparr>hist := h @ hist z\<rparr>) = Inr u \<and> xconns u q = None \<and> ctxs u p = None))"
proof -
  have at: "conn_at w p c s k" using assms(4) by (simp add: self_conn_def)
  have cl: "cb_close s \<noteq> 0" using assms(9) by simp
  note eof = read_eof_exec [OF at assms(10-13) assms(2,14) cl assms(15)]
  define v where "v = emit (Invoke (cb_close s) [p, 0]) (w\<lparr>hist := (Sys (SysRead (c_fd c) (size_bufread c)), 0) # hist w,
      bufs := (bufs w)(buf_read c \<mapsto> replicate (Suc (unat (size_bufread c))) 0)\<rparr>)"
  have vx: "nodes v = nodes w" "xconns v = xconns w" "rcptrs v = rcptrs w" "objs v = objs w"
    "refs (hist v) q = Suc m" "lua_calls (hist v) = lua_calls (hist w)" by (simp_all add: v_def assms(5))
  have sc: "self_conn v p c s k q x"
    by (rule self_conn_same [OF assms(4) _ vx(1-3)]) (use eof(2) in \<open>simp add: v_def\<close>)
  have y: "objs v b = Some (XTcp y)" using vx(4) assms(8) by simp
  let ?n = "if m_ref_cbclose y = 0 then m else Suc m"
  let ?calls = "(if m_ref_cbclose y = 0 then [] else [(m_ref_cbclose y, [int q])]) @ lua_calls (hist w)"
  from xclose_exec [OF assms(1,3) sc assms(6,7) y] obtain u where
    u: "xclose_fn E V p v = ixlbx_socket_context_un_ref E q u" "self_conn u p c s k q x" "refs (hist u) q = Suc ?n"
      "lua_calls (hist u) = ?calls"
    using vx(5,6) by (auto split: if_splits)
  have run: "ixfd_commonsock_read_cb E (luafoundx_code E V) l ev w =
      bnd (ixlbx_socket_context_un_ref E q u) (ixfd_commonsock_close E p)"
    using eof(1) [of "luafoundx_code E V" l] u(1) by (simp add: v_def assms(9) xclose_code)
  note un = xconn_un_ref_exec [OF assms(1) u(2,3)]
  show ?thesis
  proof (cases "m_ref_cbclose y = 0 \<and> m = 0")
    case True
    with run un show ?thesis by simp
  next
    case False
    then have n: "?n \<noteq> 0" by auto
    let ?u = "u\<lparr>hist := (Rc (RcRelease q), ask E (Rc (RcRelease q)) u) # hist u,
                 rcptrs := (rcptrs u)(sc_this_ref x := None), xconns := (xconns u)(q \<mapsto> x\<lparr>sc_this_ref := 0\<rparr>)\<rparr>"
    have "conn_at ?u p c s k" using u(2) by (simp add: self_conn_def conn_at_def)
    from close_exec [OF this, of E] run un n u(3,4)
    obtain z where z: "ixfd_commonsock_read_cb E (luafoundx_code E V) l ev w = Inr z" "ctxs z = (ctxs u)(p \<mapsto> c\<lparr>c_active := False\<rparr>)"
      "fst (hd (hist z)) = Sys (SysClose (c_fd c))" "xconns z q = Some (x\<lparr>sc_this_ref := 0\<rparr>)" "refs (hist z) q = ?n"
      "socks z = socks u" "contexts z = contexts u" "ios z = ios u" "bufs z = bufs u" "nodes z = nodes u"
      "lua_calls (hist z) = ?calls"
      by (cases "m_ref_cbclose y = 0") simp_all
    have c: "conn_at z p (c\<lparr>c_active := False\<rparr>) s k"
      using u(2) z(2,6-9) by (auto simp: self_conn_def conn_at_def split: option.splits)
    obtain F ps where q: "queue_at z (buf_write c) F ps" using u(2) z(10) by (auto simp: self_conn_def queue_at_def)
    have "\<exists>r. rc_release E delete_conn q (z\<lparr>hist := h @ hist z\<rparr>) = Inr r \<and> xconns r q = None \<and> ctxs r p = None"
      if "refs (h @ hist z) q = 1" for h
      using release_conn [OF assms(1), of "z\<lparr>hist := h @ hist z\<rparr>" p "c\<lparr>c_active := False\<rparr>" s k F ps q "x\<lparr>sc_this_ref := 0\<rparr>"]
        c q u(2) z(4) that by (simp add: self_conn_def conn_at_def queue_at_def)
    with z c show ?thesis unfolding if_not_P [OF False] by blast
  qed
qed

text \<open>
  A listening object 20 without a close callback, with one connection, whose object 21 only it itself
  holds; the peer closes.
\<close>

definition a_tcp :: ixlbx_tcp_base where
  "a_tcp = \<lparr>m_this_ref = 0, tcp_impl = 2, m_ref_cbread = 0, m_ref_cbaccept = 0, m_ref_cbclose = 0\<rparr>"

definition tcp_sock :: ixfd_sock where
  "tcp_sock = one_sock\<lparr>s_data := 20, s_cb_read := FP_xread, cb_accept := FP_xaccept, cb_close := FP_xclose\<rparr>"

definition xconn_world :: xworld where
  "xconn_world = empty_xworld\<lparr>brk := 30, hist := [(Rc (RcAcquire 21), 0)], nodes := nodes one_conn, socks := [2 \<mapsto> tcp_sock],
     ctxs := [3 \<mapsto> one_ctx\<lparr>c_data := 21\<rparr>], ios := ios one_conn, bufs := bufs one_conn,
     rcptrs := [22 \<mapsto> 21], objs := [20 \<mapsto> XTcp a_tcp],
     xconns := [21 \<mapsto> \<lparr>sc_data = 0, sc_this_ref = 22, sc_impl = 3\<rparr>]\<rparr>"

definition eof_env :: env where
  "eof_env = counting\<lparr>answer := (\<lambda>h c. case c of Sys (SysRead fd len) \<Rightarrow> 0 | _ \<Rightarrow> answer counting h c)\<rparr>"

lemma eof_env_ok: "counts_refs eof_env" "read_ok eof_env" "plentiful eof_env"
  by (simp_all add: counts_refs_def read_ok_def plentiful_def eof_env_def counting_def calm_def)

lemma xconn_world_ok:
  "conn_at xconn_world 3 (one_ctx\<lparr>c_data := 21\<rparr>) tcp_sock \<lparr>state = 0, evl = 9\<rparr>"
  "self_conn xconn_world 3 (one_ctx\<lparr>c_data := 21\<rparr>) tcp_sock \<lparr>state = 0, evl = 9\<rparr> 21 \<lparr>sc_data = 0, sc_this_ref = 22, sc_impl = 3\<rparr>"
  "refs (hist xconn_world) 21 = Suc 0" "objs xconn_world 20 = Some (XTcp a_tcp)" "cb_close tcp_sock = FP_xclose"
  "ios xconn_world 4 = Some \<lparr>io_cb = Ixfd_commonsock_read_cb, io_fd = 11, io_events = EV_READ, io_data = 3\<rparr>"
  "\<not> passive_read tcp_sock" "s_data tcp_sock = 20"
proof -
  show at: "conn_at xconn_world 3 (one_ctx\<lparr>c_data := 21\<rparr>) tcp_sock \<lparr>state = 0, evl = 9\<rparr>"
    by (simp add: conn_at_def xconn_world_def empty_xworld_def tcp_sock_def one_conn_def one_ctx_def one_sock_def
        zero_ctx_def zero_sock_def)
  have "queue_at xconn_world (buf_write (one_ctx\<lparr>c_data := 21\<rparr>)) {7, 8} []"
    using one_conn_queue by (simp add: queue_at_def xconn_world_def)
  with at show "self_conn xconn_world 3 (one_ctx\<lparr>c_data := 21\<rparr>) tcp_sock \<lparr>state = 0, evl = 9\<rparr> 21
      \<lparr>sc_data = 0, sc_this_ref = 22, sc_impl = 3\<rparr>" by (auto simp: self_conn_def xconn_world_def)
qed (simp_all add: xconn_world_def tcp_sock_def one_conn_def one_sock_def zero_sock_def)

theorem remote_close_witness:
  "ixfd_commonsock_read_cb eof_env (luafoundx_code eof_env (\<lambda>f xs w. Inr w)) 9 4 xconn_world = Inl Dangling"
proof -
  have "size_bufread (one_ctx\<lparr>c_data := 21\<rparr>) + 1 \<noteq> 0"
    "ask eof_env (Sys (SysRead (c_fd (one_ctx\<lparr>c_data := 21\<rparr>)) (size_bufread (one_ctx\<lparr>c_data := 21\<rparr>)))) xconn_world = 0"
    by (simp_all add: one_ctx_def ask_def eof_env_def)
  moreover have "m_ref_cbclose a_tcp = 0" by (simp add: a_tcp_def)
  ultimately show ?thesis
    using remote_close [OF eof_env_ok(1,2) counting_ok(3) xconn_world_ok(2,3,8) _ xconn_world_ok(4,5,6) _ _ xconn_world_ok(7), of 9]
    by simp
qed

section \<open>Listening sockets\<close>

definition new_tcp :: "addr \<Rightarrow> ixlbx_tcp_base" where
  "new_tcp sk = \<lparr>m_this_ref = 0, tcp_impl = sk, m_ref_cbread = 0, m_ref_cbaccept = 0, m_ref_cbclose = 0\<rparr>"

definition new_tcp_sock :: "addr \<Rightarrow> addr \<Rightarrow> ixfd_sock" where
  "new_tcp_sock ctx self = zero_sock\<lparr>s_context := ctx, s_data := self, s_cb_read := FP_xread, cb_accept := FP_xaccept,
     cb_close := FP_xclose\<rparr>"

lemma tcp_new_exec:
  assumes "plentiful E" "ctx \<noteq> 0" "contexts w ctx = Some k" "evl k \<noteq> 0"
  shows "\<exists>v. ixlbx_tcp_base_new E ctx w = Inr (Suc (brk w), v) \<and>
    objs v (Suc (brk w)) = Some (XTcp (new_tcp (Suc (Suc (brk w))))) \<and>
    socks v (Suc (Suc (brk w))) = Some (new_tcp_sock ctx (Suc (brk w))) \<and> contexts v = contexts w \<and>
    refs (hist v) (Suc (brk w)) = refs (hist w) (Suc (brk w))"
  using assms
  by (simp add: ixlbx_tcp_base_new_def new_obj_def cstmt Let_def sock_create_exec new_tcp_def new_tcp_sock_def)

text \<open>
  C30: a listening object that never listens.  If the script drops it before starting it, the socket
  has no watcher yet and the destructor fails the assertion of \<open>ixfd_commonsock_free\<close> that there is one;
  if its address cannot be bound, \<open>start\<close> fails the assertion of \<open>ixfd_commonsock_tcp_listen\<close> that the
  socket is bound.  Either way the process aborts, for a harmless script or an address in use.
\<close>

theorem tcp_never_listening:
  fixes w :: "'a xworld_scheme"
  assumes "plentiful E" "counts_refs E" "ctx \<noteq> 0" "contexts w ctx = Some k" "evl k \<noteq> 0"
  shows "\<exists>self v. ixlbx_tcp_base_new E ctx w = Inr (self, v) \<and>
    (\<forall>h. refs (h @ hist v) self = 1 \<longrightarrow> rc_release E delete_obj self (v\<lparr>hist := h @ hist v\<rparr>) = Inl Assertion) \<and>
    ((\<forall>h fd. answer E h (Sys (SysBind fd ip port)) < 0) \<longrightarrow> ixlbx_tcp_base_start E self ip port v = Inl Assertion)"
proof -
  from tcp_new_exec [OF assms(1,3-5)] obtain v where
    v: "ixlbx_tcp_base_new E ctx w = Inr (Suc (brk w), v)" "objs v (Suc (brk w)) = Some (XTcp (new_tcp (Suc (Suc (brk w)))))"
      "socks v (Suc (Suc (brk w))) = Some (new_tcp_sock ctx (Suc (brk w)))" "contexts v = contexts w" by blast
  let ?self = "Suc (brk w)" and ?sk = "Suc (Suc (brk w))"
  let ?s = "new_tcp_sock ctx ?self"
  have "ixfd_commonsock_free ?sk u = Some (Inl Assertion)" if "socks u = socks v" for u :: "'a xworld_scheme"
    using v(3) that by (simp add: ixfd_commonsock_free_def after_def cstmt new_tcp_sock_def zero_sock_def asserting_def)
  then have "rc_release E delete_obj ?self (v\<lparr>hist := h @ hist v\<rparr>) = Inl Assertion"
    if "refs (h @ hist v) ?self = 1" for h
    using v(2) that assms(2)
    by (simp add: rc_release_exec Let_def delete_obj_def cstmt ixlbx_tcp_base_destroy_def settle_def new_tcp_def)
  moreover have "ixlbx_tcp_base_start E ?self ip port v = Inl Assertion"
    if bad: "\<forall>h fd. answer E h (Sys (SysBind fd ip port)) < 0"
  proof -
    have "s_type ?s = IXFD_SOCK_UNKNOWN" by (simp add: new_tcp_sock_def zero_sock_def IXFD_SOCK_UNKNOWN_def)
    from bind_exec [OF _ v(3) this assms(1) refl, of ip port] bad obtain u where
      u: "ixfd_commonsock_tcp_createnbind E ?sk ip port v = Inr u"
        "bound v u ?sk ?s (ask E (Sys SysSocket) v) IXFD_SOCK_UNKNOWN" by auto
    then have "ixfd_commonsock_tcp_listen E ?sk u = Inl Assertion"
      by (simp add: ixfd_commonsock_tcp_listen_def bound_def Let_def cstmt IXFD_SOCK_UNKNOWN_def IXFD_SOCK_TCP_def)
    with u(1) v(2) show ?thesis by (simp add: ixlbx_tcp_base_start_def cstmt new_tcp_def)
  qed
  ultimately show ?thesis using v(1) by blast
qed

theorem tcp_never_listening_witness:
  "\<exists>self v. ixlbx_tcp_base_new eof_env 1 empty_xworld = Inr (self, v) \<and>
     rc_release eof_env delete_obj self (v\<lparr>hist := (Rc (RcAcquire self), 0) # hist v\<rparr>) = Inl Assertion"
proof -
  have k: "contexts empty_xworld 1 = Some \<lparr>state = 0, evl = 9\<rparr>" by (simp add: empty_xworld_def)
  from tcp_new_exec [OF eof_env_ok(3) _ k] obtain v' where
    n: "ixlbx_tcp_base_new eof_env 1 empty_xworld = Inr (Suc (brk empty_xworld), v')" "refs (hist v') (Suc (brk empty_xworld)) = 0"
    by (auto simp: empty_xworld_def)
  from tcp_never_listening [OF eof_env_ok(3,1) _ k, of "''0.0.0.0''" 0] obtain self v where
    v: "ixlbx_tcp_base_new eof_env 1 empty_xworld = Inr (self, v)"
      "\<forall>h. refs (h @ hist v) self = 1 \<longrightarrow> rc_release eof_env delete_obj self (v\<lparr>hist := h @ hist v\<rparr>) = Inl Assertion"
    by auto
  from n v(1) have "refs (hist v) self = 0" by simp
  then show ?thesis using v(1) v(2) [rule_format, of "[(Rc (RcAcquire self), 0)]"] by simp
qed

text \<open>
  C29: closing a listening object while connections it accepted are open.  If the script holds no other
  pointer to it, the object and its socket are freed; the connections, which go on pointing at the
  socket, stay with their watchers started, so that the next event of any of them, or closing it,
  reads the freed socket.  If the script holds one, the socket stays.
\<close>

theorem tcp_close_frees_socket:
  fixes w :: "'a xworld_scheme"
  assumes "counts_refs E" "b \<noteq> 0" "objs w b = Some (XTcp y)" "m_this_ref y \<noteq> 0" "rcptrs w (m_this_ref y) = Some b"
    "refs (hist w) b = Suc m" "conn_at w p c s k" "c_sock c = tcp_impl y"
    "event_accept s \<noteq> 0" "ios w (event_accept s) = Some ea" "event_connect s = 0" "default_ctx s = 0"
    "event_read c \<noteq> event_accept s" "ios w (event_read c) = Some er" "io_data er = p"
  shows "\<exists>z. ixlbx_tcp_base_close E b w = Inr z \<and> ctxs z p = Some c \<and> refs (hist z) b = m \<and>
    (if m = 0 then objs z b = None \<and> socks z (tcp_impl y) = None \<and>
       ixfd_commonsock_read_cb E U l (event_read c) z = Inl Dangling \<and> ixfd_commonsock_close E p z = Inl Dangling
     else objs z b = Some (XTcp (y\<lparr>m_this_ref := 0\<rparr>)) \<and> conn_at z p c s k)"
proof -
  let ?sk = "tcp_impl y"
  from assms(7) have c: "p \<noteq> 0" "ctxs w p = Some c" "?sk \<noteq> 0" "socks w ?sk = Some s" "s_context s \<noteq> 0"
    "contexts w (s_context s) = Some k" "event_read c \<noteq> 0" using assms(8) by (auto simp: conn_at_def)
  from unbind_exec [OF c(3,4,5,6) assms(9,10), of E] obtain h where
    u: "ixfd_commonsock_unbind E ?sk w = Inr (w\<lparr>hist := h\<rparr>)" "refs h b = Suc m" using assms(6) by simp
  let ?h = "(Rc (RcRelease b), ask E (Rc (RcRelease b)) (w\<lparr>hist := h\<rparr>)) # h"
  let ?w = "w\<lparr>hist := ?h, objs := (objs w)(b \<mapsto> XTcp (y\<lparr>m_this_ref := 0\<rparr>))\<rparr>"
  show ?thesis
  proof (cases "m = 0")
    case False
    let ?z = "?w\<lparr>rcptrs := (rcptrs w)(m_this_ref y := None)\<rparr>"
    have "ixlbx_tcp_base_close E b w = Inr ?z"
      using False u assms(1-5)
      by (simp add: ixlbx_tcp_base_close_def cstmt ixlbx_ref_base_un_ref_def delete_rcptr_def rc_release_exec Let_def ask_def)
    moreover have "conn_at ?z p c s k" using assms(7) by (simp add: conn_at_def)
    ultimately show ?thesis using c(2) u(2) False by (intro exI [of _ ?z]) simp
  next
    case True
    let ?z = "w\<lparr>hist := (Printf ''freeing ixlbx_tcp_base ...'', 0) # ?h, ios := (ios w)(event_accept s := None),
       socks := (socks w)(?sk := None), objs := (objs w)(b := None), rcptrs := (rcptrs w)(m_this_ref y := None)\<rparr>"
    have "ixlbx_tcp_base_close E b w = Inr ?z"
      using True u assms(1-5,9-12) c(3,4)
      by (simp add: ixlbx_tcp_base_close_def cstmt ixlbx_ref_base_un_ref_def delete_rcptr_def rc_release_exec Let_def ask_def
          delete_obj_def ixlbx_tcp_base_destroy_def settle_def ixfd_commonsock_free_def after_def free_io_def emit_def)
    moreover have "ixfd_commonsock_read_cb E U l (event_read c) ?z = Inl Dangling"
      using c assms(8,13-15) by (simp add: ixfd_commonsock_read_cb_def cstmt Let_def get_sock_def)
    moreover have "ixfd_commonsock_close E p ?z = Inl Dangling"
      using c assms(8) by (simp add: ixfd_commonsock_close_def cstmt get_sock_def)
    ultimately show ?thesis using c(2) u(2) True by (intro exI [of _ ?z]) simp
  qed
qed

theorem tcp_close_frees_socket_witness:
  "\<exists>z. ixlbx_tcp_base_close eof_env 20
      (xconn_world\<lparr>hist := [(Rc (RcAcquire 20), 0)], socks := [2 \<mapsto> tcp_sock\<lparr>event_accept := 25\<rparr>],
         ios := (ios one_conn)(25 \<mapsto> \<lparr>io_cb = Ixfd_commonsock_accept_cb, io_fd = 10, io_events = EV_READ, io_data = 2\<rparr>),
         objs := [20 \<mapsto> XTcp (a_tcp\<lparr>m_this_ref := 26\<rparr>)], rcptrs := [26 \<mapsto> 20]\<rparr>) = Inr z \<and>
     ixfd_commonsock_read_cb eof_env (luafoundx_code eof_env (\<lambda>f xs w. Inr w)) 9 4 z = Inl Dangling"
proof -
  let ?s = "tcp_sock\<lparr>event_accept := 25\<rparr>" and ?y = "a_tcp\<lparr>m_this_ref := 26\<rparr>" and ?c = "one_ctx\<lparr>c_data := 21\<rparr>"
  let ?w = "xconn_world\<lparr>hist := [(Rc (RcAcquire 20), 0)], socks := [2 \<mapsto> ?s],
         ios := (ios one_conn)(25 \<mapsto> \<lparr>io_cb = Ixfd_commonsock_accept_cb, io_fd = 10, io_events = EV_READ, io_data = 2\<rparr>),
         objs := [20 \<mapsto> XTcp ?y], rcptrs := [26 \<mapsto> 20]\<rparr>"
  have at: "conn_at ?w 3 ?c ?s \<lparr>state = 0, evl = 9\<rparr>"
    using xconn_world_ok(1) by (simp add: conn_at_def one_conn_def one_ctx_def tcp_sock_def one_sock_def zero_sock_def zero_ctx_def)
  have "objs ?w 20 = Some (XTcp ?y)" "m_this_ref ?y \<noteq> 0" "rcptrs ?w (m_this_ref ?y) = Some 20" "refs (hist ?w) 20 = Suc 0"
    by simp_all
  note t = this
  have s: "c_sock ?c = tcp_impl ?y" "event_accept ?s \<noteq> 0" "event_connect ?s = 0" "default_ctx ?s = 0" "event_read ?c = 4"
    by (simp_all add: one_ctx_def a_tcp_def tcp_sock_def one_sock_def zero_sock_def)
  have i: "ios ?w (event_accept ?s) = Some \<lparr>io_cb = Ixfd_commonsock_accept_cb, io_fd = 10, io_events = EV_READ, io_data = 2\<rparr>"
    "ios ?w (event_read ?c) = Some \<lparr>io_cb = Ixfd_commonsock_read_cb, io_fd = 11, io_events = EV_READ, io_data = 3\<rparr>"
    by (simp_all add: one_conn_def one_ctx_def)
  from tcp_close_frees_socket [OF eof_env_ok(1) _ t at s(1,2) i(1) s(3,4) _ i(2), of "luafoundx_code eof_env (\<lambda>f xs w. Inr w)" 9]
  show ?thesis using s(5) by auto
qed

section \<open>Child watchers\<close>

lemma xchild_code: "luafoundx_code E V FP_xchild [c, self] w = xchild_fn E V c self w"
  by (simp add: luafoundx_code_def FP_xchild_def FP_xtimer_def FP_xfork_def)

lemma xchild_start_exec:
  assumes "plentiful E" "honest E" "self \<noteq> 0" "objs w self = Some (XChild x)" "m_this_ref x = 0"
    "childw_at w (xc_impl x) cw e k" "\<not> watching (hist w) (cw_event cw)"
  shows "ixlbx_child_watcher_start E self pid w = Inr (w\<lparr>brk := Suc (brk w),
     hist := (Ev (EvChildStart (evl k) (cw_event cw) pid), 0) # (Rc (RcAcquire self), 0) # (Malloc, ask E Malloc w) # hist w,
     childws := (childws w)(xc_impl x \<mapsto> cw\<lparr>cw_cb := FP_xchild, cw_data := self\<rparr>),
     evchilds := (evchilds w)(cw_event cw \<mapsto> e\<lparr>ec_pid := pid\<rparr>),
     rcptrs := (rcptrs w)(Suc (brk w) \<mapsto> self),
     objs := (objs w)(self \<mapsto> XChild (x\<lparr>m_this_ref := Suc (brk w)\<rparr>))\<rparr>)"
proof -
  let ?w = "w\<lparr>brk := Suc (brk w), hist := (Rc (RcAcquire self), 0) # (Malloc, ask E Malloc w) # hist w,
     rcptrs := (rcptrs w)(Suc (brk w) \<mapsto> self), objs := (objs w)(self \<mapsto> XChild (x\<lparr>m_this_ref := Suc (brk w)\<rparr>))\<rparr>"
  have "childw_at ?w (xc_impl x) cw e k" using assms(6) by (simp add: childw_at_def)
  from childw_start_exec [OF this assms(2), of pid FP_xchild self] assms(1,3-5,7) show ?thesis
    by (simp add: ixlbx_child_watcher_start_def ixlbx_ref_base_ref_def cstmt emit_def)
qed

lemma xchild_fn_quiet:
  assumes "counts_refs E" "honest E" "script_quiet V" "self \<noteq> 0" "objs w self = Some (XChild x)" "m_this_ref x \<noteq> 0"
    "rcptrs w (m_this_ref x) = Some self" "childw_at w (xc_impl x) cw e k" "\<not> watching (hist w) (cw_event cw)"
    "refs (hist w) self = Suc m"
  shows "\<exists>z. xchild_fn E V c self w = Inr z \<and> rcptrs z = (rcptrs w)(m_this_ref x := None) \<and> refs (hist z) self = m \<and>
    lua_calls (hist z) = (xc_ref_cb x, [int self]) # lua_calls (hist w) \<and> \<not> watching (hist z) (cw_event cw) \<and>
    (if m = 0 then objs z = (objs w)(self := None) \<and> childws z = (childws w)(xc_impl x := None) \<and>
       evchilds z = (evchilds w)(cw_event cw := None)
     else objs z = (objs w)(self \<mapsto> XChild (x\<lparr>m_this_ref := 0\<rparr>)) \<and> childws z = childws w \<and> evchilds z = evchilds w)"
  using assms
  by (simp add: xchild_fn_def lua_call_def script_quiet_def cstmt ixlbx_ref_base_un_ref_def delete_rcptr_def
      rc_release_exec Let_def delete_obj_def ixlbx_child_watcher_destroy_def emit_def ask_def
      childw_at_def ixut_childw_free_def honest_active honest_pending)

text \<open>
  C27: the life of a child watcher object.  Starting it watches the process and takes a counted pointer
  to itself; starting it again while it watches aborts.  When the child is reported, the Lua function
  is called once, with the object, and the watcher is stopped before; then the pointer to itself is
  given up, and the object, its watcher and libev's watcher are freed exactly if the script holds no
  pointer, else the script can read the status reported.
\<close>

theorem xchild_life:
  fixes w :: "'a xworld_scheme"
  assumes "plentiful E" "counts_refs E" "honest E" "script_quiet V" "self \<noteq> 0" "objs w self = Some (XChild x)"
    "m_this_ref x = 0" "childw_at w (xc_impl x) cw e k" "ec_handler e = Ixut_childw_cb"
    "\<not> watching (hist w) (cw_event cw)" "rcptrs w (Suc (brk w)) = None"
  shows "\<exists>v. ixlbx_child_watcher_start E self pid w = Inr v \<and> watching (hist v) (cw_event cw) \<and>
    refs (hist v) self = Suc (refs (hist w) self) \<and> ixlbx_child_watcher_start E self pid v = Inl Assertion \<and>
    (\<forall>h m. refs (h @ hist v) self = Suc m \<longrightarrow>
       (\<exists>z. child_event (luafoundx_code E V) l (cw_event cw) pid st (v\<lparr>hist := h @ hist v\<rparr>) = Inr z \<and>
          rcptrs z = rcptrs w \<and> refs (hist z) self = m \<and> \<not> watching (hist z) (cw_event cw) \<and>
          lua_calls (hist z) = (xc_ref_cb x, [int self]) # lua_calls (h @ hist v) \<and>
          (if m = 0 then objs z = (objs w)(self := None) \<and> childws z (xc_impl x) = None \<and> evchilds z (cw_event cw) = None
           else objs z = objs w \<and> ixlbx_child_watcher_get_status self z = Inr (exitstatus_of st))))"
proof -
  note d = assms(8) [unfolded childw_at_def]
  let ?tr = "Suc (brk w)"
  let ?x = "x\<lparr>m_this_ref := ?tr\<rparr>" and ?cw = "cw\<lparr>cw_cb := FP_xchild, cw_data := self\<rparr>" and ?e = "e\<lparr>ec_pid := pid\<rparr>"
  let ?v = "w\<lparr>brk := ?tr,
     hist := (Ev (EvChildStart (evl k) (cw_event cw) pid), 0) # (Rc (RcAcquire self), 0) # (Malloc, ask E Malloc w) # hist w,
     childws := (childws w)(xc_impl x \<mapsto> ?cw), evchilds := (evchilds w)(cw_event cw \<mapsto> ?e),
     rcptrs := (rcptrs w)(?tr \<mapsto> self), objs := (objs w)(self \<mapsto> XChild ?x)\<rparr>"
  have v: "ixlbx_child_watcher_start E self pid w = Inr ?v" by (rule xchild_start_exec [OF assms(1,3,5-8,10)])
  have "childw_at ?v (xc_impl x) ?cw ?e k" using d by (simp add: childw_at_def)
  from childw_start_exec [OF this assms(3), of pid FP_xchild self] assms(5)
  have again: "ixlbx_child_watcher_start E self pid ?v = Inl Assertion"
    by (simp add: ixlbx_child_watcher_start_def ixlbx_ref_base_ref_def cstmt)
  have "\<exists>z. child_event (luafoundx_code E V) l (cw_event cw) pid st (?v\<lparr>hist := h @ hist ?v\<rparr>) = Inr z \<and>
          rcptrs z = rcptrs w \<and> refs (hist z) self = m \<and> \<not> watching (hist z) (cw_event cw) \<and>
          lua_calls (hist z) = (xc_ref_cb x, [int self]) # lua_calls (h @ hist ?v) \<and>
          (if m = 0 then objs z = (objs w)(self := None) \<and> childws z (xc_impl x) = None \<and> evchilds z (cw_event cw) = None
           else objs z = objs w \<and> ixlbx_child_watcher_get_status self z = Inr (exitstatus_of st))"
    if m: "refs (h @ hist ?v) self = Suc m" for h m
  proof -
    let ?u = "?v\<lparr>hist := h @ hist ?v\<rparr>"
    let ?f = "?e\<lparr>rpid := pid, rstatus := st\<rparr>"
    have at: "childw_at ?u (xc_impl x) ?cw ?e k" using d by (simp add: childw_at_def)
    define a where "a = emit (Invoke FP_xchild [xc_impl x, self]) (emit (Ev (EvChildStop l (cw_event cw)))
        (?u\<lparr>evchilds := (evchilds ?u)(cw_event cw \<mapsto> ?f)\<rparr>))"
    have ex: "child_event (luafoundx_code E V) l (cw_event cw) pid st ?u = xchild_fn E V (xc_impl x) self a"
      using child_event_exec [OF at, of "luafoundx_code E V" l pid st] assms(9) by (simp add: a_def xchild_code)
    have a: "objs a = (objs w)(self \<mapsto> XChild ?x)" "rcptrs a = (rcptrs w)(?tr \<mapsto> self)"
      "childw_at a (xc_impl x) ?cw ?f k" "\<not> watching (hist a) (cw_event cw)" "refs (hist a) self = Suc m"
      "lua_calls (hist a) = lua_calls (h @ hist ?v)" "childws a = (childws w)(xc_impl x \<mapsto> ?cw)"
      "evchilds a = (evchilds w)(cw_event cw \<mapsto> ?f)"
      using d m by (simp_all add: a_def childw_at_def)
    have x: "x\<lparr>m_this_ref := 0\<rparr> = x" using assms(7) by (cases x) simp
    have o: "(objs w)(self \<mapsto> XChild x) = objs w" using assms(6) by (simp add: fun_upd_idem)
    have r: "(rcptrs w)(?tr := None) = rcptrs w" using assms(11) by (simp add: fun_upd_idem)
    from xchild_fn_quiet [OF assms(2,3,4,5), of a ?x ?cw ?f k m "xc_impl x"] a
    obtain z where z: "xchild_fn E V (xc_impl x) self a = Inr z" "rcptrs z = rcptrs w" "refs (hist z) self = m"
      "lua_calls (hist z) = (xc_ref_cb x, [int self]) # lua_calls (h @ hist ?v)" "\<not> watching (hist z) (cw_event cw)"
      "if m = 0 then objs z = (objs w)(self := None) \<and> childws z = (childws a)(xc_impl x := None) \<and>
         evchilds z = (evchilds a)(cw_event cw := None)
       else objs z = objs w \<and> childws z = childws a \<and> evchilds z = evchilds a"
      by (auto simp: x o r)
    have "ixlbx_child_watcher_get_status self z = Inr (exitstatus_of st)" if "m \<noteq> 0"
      using that z(6) a(7,8) d assms(5,6)
      by (simp add: ixlbx_child_watcher_get_status_def ixut_childw_getstatus_def cstmt)
    with ex z a(7,8) show ?thesis by (intro exI [of _ z]) (simp split: if_splits)
  qed
  with v again show ?thesis by (intro exI [of _ ?v]) simp
qed

definition tracking :: env where
  "tracking = counting\<lparr>answer := (\<lambda>h c. case c of Ev (EvIsActive p) \<Rightarrow> if watching h p then 1 else 0
     | Ev (EvIsPending p) \<Rightarrow> 0 | _ \<Rightarrow> answer counting h c)\<rparr>"

lemma tracking_ok: "counts_refs tracking" "honest tracking" "plentiful tracking"
  by (simp_all add: counts_refs_def honest_def plentiful_def tracking_def counting_def)

definition an_xchild :: ixlbx_child_watcher where
  "an_xchild = \<lparr>m_this_ref = 0, xc_impl = 2, xc_ref_cb = 20\<rparr>"

definition a_watcher :: ixut_child_watcher where
  "a_watcher = \<lparr>cw_event = 3, cw_cb = 0, cw_data = 0, cw_context = 1\<rparr>"

definition an_evchild :: ev_child where
  "an_evchild = \<lparr>ec_handler = Ixut_childw_cb, ec_data = 2, ec_pid = 0, rpid = 0, rstatus = 0\<rparr>"

definition xchild_world :: xworld where
  "xchild_world = empty_xworld\<lparr>childws := [2 \<mapsto> a_watcher], evchilds := [3 \<mapsto> an_evchild], objs := [4 \<mapsto> XChild an_xchild]\<rparr>"

lemma xchild_world_ok:
  "objs xchild_world 4 = Some (XChild an_xchild)" "m_this_ref an_xchild = 0"
  "childw_at xchild_world (xc_impl an_xchild) a_watcher an_evchild \<lparr>state = 0, evl = 9\<rparr>"
  "ec_handler an_evchild = Ixut_childw_cb" "\<not> watching (hist xchild_world) (cw_event a_watcher)"
  "rcptrs xchild_world (Suc (brk xchild_world)) = None"
  by (simp_all add: xchild_world_def empty_xworld_def an_xchild_def a_watcher_def an_evchild_def childw_at_def)

theorem xchild_life_witness:
  "\<exists>v z. ixlbx_child_watcher_start tracking 4 77 xchild_world = Inr v \<and>
     child_event (luafoundx_code tracking (\<lambda>f xs w. Inr w)) 9 3 77 0 v = Inr z \<and> objs z 4 = None"
proof -
  from xchild_life [OF tracking_ok(3,1,2) counting_ok(3) _ xchild_world_ok, of 77 9 0] obtain v where
    v: "ixlbx_child_watcher_start tracking 4 77 xchild_world = Inr v" "refs (hist v) 4 = Suc (refs (hist xchild_world) 4)"
    and life: "\<forall>h m. refs (h @ hist v) 4 = Suc m \<longrightarrow>
       (\<exists>z. child_event (luafoundx_code tracking (\<lambda>f xs w. Inr w)) 9 (cw_event a_watcher) 77 0 (v\<lparr>hist := h @ hist v\<rparr>) = Inr z \<and>
          (if m = 0 then objs z = (objs xchild_world)(4 := None) else objs z = objs xchild_world))"
    by fastforce
  have "refs (hist xchild_world) 4 = 0" "cw_event a_watcher = 3"
    by (simp_all add: xchild_world_def empty_xworld_def a_watcher_def)
  with v life [rule_format, of "[]" 0] show ?thesis by auto
qed

end
