(* ===== verification/Platform.thy ===== *)
theory Platform
  imports Machine
begin

text \<open>
  The helpers around the process itself: the platform the code is compiled for (platform.hxx), the
  path of the executable (platformed.cxx), the directory part of a path (util.cxx) and the limits
  a script may put on the process (sandbox.cxx).
\<close>

section \<open>The platform\<close>

text \<open>
  The macros the header tests (those of the compiler, without the underscores around them, and its
  include guard) and those it defines.
\<close>

datatype macro =
    APPLE | WIN32 | MSC_VER | LINUX | GNUC | CLANG | MINGW32 | MarXsCube_Platform
  | CUBE_PLATFORM_OS_X | CUBE_PLATFORM_DARWIN | CUBE_PLATFORM_POSIX | CUBE_PLATFORM_MACH
  | CUBE_PLATFORM_BSD_LIKE | CUBE_PLATFORM_WINDOWS | CUBE_PLATFORM_NONPOSIX | CUBE_PLATFORM_LINUX
  | CUBE_COMPILER_UNKNOWN | CUBE_COMPILER_MSVC | CUBE_COMPILER_GCC_BASED | CUBE_COMPILER_CLANG
  | CUBE_COMPILER_GCC | CUBE_COMPILER_MINGW | CUBE_COMPILER_MINGW32 | CUBEMUTEW_NOT_USED

text \<open>The preprocessor's state: the macros that are defined, with their replacement.\<close>

type_synonym macros = "macro \<Rightarrow> string option"

definition defining :: "macro list \<Rightarrow> macros \<Rightarrow> macros" where
  "defining ns m = (\<lambda>n. if n \<in> set ns then Some [] else m n)"

definition undef :: "macro \<Rightarrow> macros \<Rightarrow> macros" where
  "undef n m = m(n := None)"

definition is_defined :: "macro \<Rightarrow> macros \<Rightarrow> bool" where
  "is_defined n m = (m n \<noteq> None)"

text \<open>
  Including platform.hxx where the macros \<open>m\<close> are defined; None is the error of an unknown platform,
  a pragma that only compilers of the GCC family obey.
\<close>

definition platform_os :: "macros \<Rightarrow> macros option" where
  "platform_os m =
     (if is_defined APPLE m
      then Some (defining [CUBE_PLATFORM_OS_X, CUBE_PLATFORM_DARWIN, CUBE_PLATFORM_POSIX,
                           CUBE_PLATFORM_MACH, CUBE_PLATFORM_BSD_LIKE] m)
      else if is_defined WIN32 m
      then let m = defining [CUBE_PLATFORM_WINDOWS, CUBE_PLATFORM_NONPOSIX] m
           in Some (if is_defined MSC_VER m
                    then defining [CUBE_COMPILER_MSVC] (undef CUBE_COMPILER_UNKNOWN m) else m)
      else if is_defined LINUX m
      then Some (defining [CUBE_PLATFORM_LINUX, CUBE_PLATFORM_POSIX] m)
      else if is_defined GNUC m then None else Some m)"

definition platform_compiler :: "macros \<Rightarrow> macros" where
  "platform_compiler m =
     (if is_defined GNUC m
      then let m = defining [CUBE_COMPILER_GCC_BASED] (undef CUBE_COMPILER_UNKNOWN m)
           in if is_defined CLANG m then defining [CUBE_COMPILER_CLANG] m
              else let m = defining [CUBE_COMPILER_GCC] m
                   in if is_defined MINGW32 m
                      then defining [CUBE_COMPILER_MINGW, CUBE_COMPILER_MINGW32] m else m
      else m)"

definition platform_hxx :: "macros \<Rightarrow> macros option" where
  "platform_hxx m =
     (if is_defined MarXsCube_Platform m then Some m
      else case platform_os (defining [MarXsCube_Platform, CUBE_COMPILER_UNKNOWN] m) of
             None \<Rightarrow> None
           | Some m \<Rightarrow>
               let m = platform_compiler m
               in Some (m(CUBEMUTEW_NOT_USED \<mapsto>
                    (if is_defined CUBE_COMPILER_GCC_BASED m then ''__attribute__ ((unused))'' else []))))"

section \<open>Paths\<close>

text \<open>\<open>std::string::rfind\<close> of a character among the first \<open>n\<close>; None stands for \<open>npos\<close>.\<close>

fun rfind :: "char \<Rightarrow> string \<Rightarrow> nat \<Rightarrow> nat option" where
  "rfind c s 0 = None"
| "rfind c s (Suc n) = (if s ! n = c then Some n else rfind c s n)"

definition directory_name :: "string \<Rightarrow> char \<Rightarrow> string" where
  "directory_name src slash =
     (case rfind slash src (length src) of Some i \<Rightarrow> take i src | None \<Rightarrow> src)"

text \<open>
  \<open>ixut_execpath\<close>: \<open>readlink\<close> stores at most as many bytes as it is given room for; the
  buffer on the stack is indeterminate beyond them, and the string returned ends at its first NUL.
\<close>

definition PATH_MAX :: nat where "PATH_MAX = 4096"

definition chars :: "byte list \<Rightarrow> string" where
  "chars bs = map (\<lambda>b. char_of (unat b)) bs"

definition ixut_execpath :: "env \<Rightarrow> 'a world_scheme \<Rightarrow> (string \<times> 'a world_scheme) res" where
  "ixut_execpath E w =
     (let c = Proc (SysReadlink ''/proc/self/exe'' (PATH_MAX * 2 - 1));
          buffer = map (\<lambda>i. of_nat (junk E (hist w) i)) [0..<PATH_MAX * 2];
          got = input E (hist w) c;
          (n, w) = ext E c w
      in if n = -1 then Inr (''ixut_exepath: error in readlink.'', w)
         else if length buffer < length (take (nat n) got) then Inl OutOfBounds
         else let buffer = take (nat n) got @ drop (length (take (nat n) got)) buffer
              in if n < 0 \<or> length buffer \<le> nat n then Inl OutOfBounds
                 else Inr (chars (takeWhile (\<lambda>b. b \<noteq> 0) (buffer[nat n := 0])), w))"

text \<open>
  The version for Darwin, where \<open>PATH_MAX\<close> is 1024.  \<open>realpath\<close> returns its second argument or NULL, here
  anything but 0 or 0; both calls store NUL-terminated strings, \<open>input\<close> being their bytes.
\<close>

definition cbytes :: "byte list \<Rightarrow> byte list" where
  "cbytes bs = takeWhile (\<lambda>b. b \<noteq> 0) bs"

definition put_cstring :: "byte list \<Rightarrow> byte list \<Rightarrow> byte list res" where
  "put_cstring bs buffer =
     (if length buffer \<le> length bs then Inl OutOfBounds else Inr (bs @ 0 # drop (Suc (length bs)) buffer))"

definition mach_path_ok :: "env \<Rightarrow> 'a world_scheme \<Rightarrow> (byte list option \<times> 'a world_scheme) res" where
  "mach_path_ok E w =
     (let len = 2 * 1024; c = Proc (SysNSGetExecutablePath len); got = input E (hist w) c; (r, w) = ext E c w in
      if r \<noteq> 0 then Inr (None, w)
      else bnd (put_cstring got (replicate len 0)) (\<lambda>execpath.
        let c = Proc (SysRealpath (chars (cbytes execpath))); got = input E (hist w) c; (r, w) = ext E c w in
        if r = 0 then Inr (None, w)
        else bnd (put_cstring got (replicate len 0)) (\<lambda>abspath.
          Inr (if 0 < length (cbytes abspath) then Some (cbytes abspath) else None, w))))"

definition ixut_execpath_mach :: "env \<Rightarrow> 'a world_scheme \<Rightarrow> (string \<times> 'a world_scheme) res" where
  "ixut_execpath_mach E w =
     bnd (mach_path_ok E w) (\<lambda>(path, w).
     Inr (case path of None \<Rightarrow> ''ixut_exepath: unknown error.'' | Some bs \<Rightarrow> chars bs, w))"

section \<open>Limits\<close>

text \<open>A \<open>long\<close> becomes an \<open>rlim_t\<close>, both of 64 bits.\<close>

definition ixut_reslimit_d :: "env \<Rightarrow> int \<Rightarrow> 64 word \<Rightarrow> 64 word \<Rightarrow> 'a world_scheme \<Rightarrow> 'a world_scheme" where
  "ixut_reslimit_d E resource soft hard w =
     (let (r, w) = ext E (Proc (SysSetrlimit resource soft hard)) w
      in if r \<noteq> 0 then emit (Printf ''setrlimit() failed: %d %ld %ld.'') w else w)"

definition ixut_reslimit :: "env \<Rightarrow> int \<Rightarrow> 64 word \<Rightarrow> 'a world_scheme \<Rightarrow> 'a world_scheme" where
  "ixut_reslimit E resource val w = ixut_reslimit_d E resource val val w"

definition ixut_setuid :: "env \<Rightarrow> 32 word \<Rightarrow> 'a world_scheme \<Rightarrow> int \<times> 'a world_scheme" where
  "ixut_setuid E uid w = ext E (Proc (SysSetuid uid)) w"

definition ixut_setgid :: "env \<Rightarrow> 32 word \<Rightarrow> 'a world_scheme \<Rightarrow> int \<times> 'a world_scheme" where
  "ixut_setgid E uid w = ext E (Proc (SysSetgid uid)) w"

section \<open>Properties\<close>

lemma rfind_skip: "(\<And>i. k \<le> i \<Longrightarrow> i < n \<Longrightarrow> s ! i \<noteq> c) \<Longrightarrow> k \<le> n \<Longrightarrow> rfind c s n = rfind c s k"
proof (induction n)
  case (Suc n)
  show ?case
  proof (cases "k = Suc n")
    case False
    with Suc.prems have "s ! n \<noteq> c" "k \<le> n" by simp_all
    with Suc show ?thesis by simp
  qed simp
qed simp

lemma rfind_join: "c \<notin> set f \<Longrightarrow> rfind c (d @ c # f) (length (d @ c # f)) = Some (length d)"
  by (subst rfind_skip [where k = "Suc (length d)"])
    (auto simp: nth_append nth_Cons split: nat.splits dest: nth_mem)

lemma rfind_none: "c \<notin> set s \<Longrightarrow> rfind c s (length s) = None"
  by (subst rfind_skip [where k = 0]) (auto dest: nth_mem)

text \<open>
  C39: the directory of a path is what precedes its last slash, so joining a directory and a file
  name (one without slashes) with a slash and taking the directory gives the directory back; a name
  without any slash is returned as it is, not as the empty or the current directory.  This is the
  usual description on lists: drop the last component and the slash before it.
\<close>

theorem directory_name_equiv:
  "directory_name src slash =
     (if slash \<in> set src then rev (tl (dropWhile (\<lambda>c. c \<noteq> slash) (rev src))) else src) \<and>
   (\<forall>d f. src = d @ slash # f \<longrightarrow> slash \<notin> set f \<longrightarrow> directory_name src slash = d)"
proof -
  have join: "directory_name (d @ slash # f) slash = d" if "slash \<notin> set f" for d f
    using that by (simp add: directory_name_def rfind_join del: length_append list.size)
  have "directory_name src slash = rev (tl (dropWhile (\<lambda>c. c \<noteq> slash) (rev src)))" if s: "slash \<in> set src"
  proof -
    from split_list_last [OF s] obtain d f where src: "src = d @ slash # f" "slash \<notin> set f" by blast
    then have "dropWhile (\<lambda>c. c \<noteq> slash) (rev src) = slash # rev d"
      by (auto simp: dropWhile_append)
    with join src show ?thesis by simp
  qed
  moreover have "directory_name src slash = src" if "slash \<notin> set src"
    using that by (simp add: directory_name_def rfind_none)
  ultimately show ?thesis using join by auto
qed

theorem directory_name_equiv_witness:
  "directory_name ''/usr/bin/iojxd'' CHR ''/'' = ''/usr/bin''"
  using directory_name_equiv [of "''/usr/bin/iojxd''" "CHR ''/''"] by simp

text \<open>What the kernel documents of \<open>readlink\<close>.\<close>

definition readlink_ok :: "env \<Rightarrow> bool" where
  "readlink_ok E \<longleftrightarrow> (\<forall>h p n. -1 \<le> answer E h (Proc (SysReadlink p n)) \<and>
     answer E h (Proc (SysReadlink p n)) \<le> int n \<and>
     answer E h (Proc (SysReadlink p n)) \<le> int (length (input E h (Proc (SysReadlink p n)))))"

lemma cut_at:
  assumes "length a = n" "b \<noteq> []"
  shows "takeWhile (\<lambda>x. x \<noteq> z) ((a @ b)[n := z]) = takeWhile (\<lambda>x. x \<noteq> z) a"
  using assms by (cases b) (auto simp: list_update_append takeWhile_append intro: takeWhile_eq_all_conv [THEN iffD2, symmetric])

lemma readlink_range:
  fixes w :: "'a world_scheme"
  assumes "readlink_ok E" "c = Proc (SysReadlink ''/proc/self/exe'' 8191)" "r = ask E c w"
  shows "-1 \<le> r" "r \<le> 8191" "r \<le> int (length (input E (hist w) c))"
  using assms(1) [unfolded readlink_ok_def, rule_format, of "hist w" "''/proc/self/exe''" 8191]
  by (simp_all add: assms(2,3) ask_def)

lemma execpath_exec:
  fixes w :: "'a world_scheme"
  assumes "readlink_ok E" "c = Proc (SysReadlink ''/proc/self/exe'' 8191)" "r = ask E c w"
  shows "\<exists>s. ixut_execpath E w = Inr (s, w\<lparr>hist := (c, r) # hist w\<rparr>) \<and>
    s = (if r = -1 then ''ixut_exepath: error in readlink.''
         else chars (takeWhile (\<lambda>b. b \<noteq> 0) (take (nat r) (input E (hist w) c))))"
proof -
  let ?got = "input E (hist w) c"
  have r: "-1 \<le> r" "r \<le> 8191" "r \<le> int (length ?got)"
    using readlink_range [OF assms] by simp_all
  have e: "ext E c w = (r, w\<lparr>hist := (c, r) # hist w\<rparr>)" by (simp add: ext_def assms(3) Let_def)
  show ?thesis
  proof (cases "r = -1")
    case True
    then show ?thesis using e by (simp add: ixut_execpath_def Let_def PATH_MAX_def assms(2))
  next
    case False
    with r have n: "0 \<le> r" "nat r \<le> length ?got" "nat r < 8192" by simp_all
    let ?junk = "map (\<lambda>i. of_nat (junk E (hist w) i)) [0..<8192]"
    define g where "g = take (nat r) ?got"
    have g: "length g = nat r" using n by (simp add: g_def)
    then have "takeWhile (\<lambda>b. b \<noteq> 0) ((g @ drop (nat r) ?junk)[nat r := 0]) = takeWhile (\<lambda>b. b \<noteq> 0) g"
      using n by (intro cut_at) auto
    moreover have "take (nat r) (input E (hist w) (Proc (SysReadlink ''/proc/self/exe'' 8191))) = g"
      by (simp add: g_def assms(2))
    ultimately show ?thesis
      using False n g e by (simp add: ixut_execpath_def Let_def PATH_MAX_def assms(2) chars_def)
  qed
qed

lemma chars_no_NUL: "CHR 0x00 \<notin> set (chars (takeWhile (\<lambda>b. b \<noteq> 0) bs))"
proof
  assume "CHR 0x00 \<in> set (chars (takeWhile (\<lambda>b. b \<noteq> 0) bs))"
  then obtain b :: byte where b: "b \<noteq> 0" "char_of (unat b) = CHR 0x00" by (auto simp: chars_def dest: set_takeWhileD)
  have "unat b < 256" using unsigned_less [of b] by simp
  then have "of_char (char_of (unat b) :: char) = unat b" by (simp add: of_char_of)
  with b show False by (simp add: unat_eq_zero)
qed

lemma directory_name_subset: "set (directory_name s c) \<subseteq> set s"
  by (auto simp: directory_name_def split: option.splits dest: in_set_takeD)

text \<open>
  C36: the path of the executable.  For whatever the kernel answers the buffer is not overrun: its
  last byte is left for the NUL.  The result is what the link says, up to a NUL in it, and at most
  8191 characters long; when \<open>readlink\<close> fails the result is a fixed message, which the caller cannot
  tell from a path.
\<close>

theorem execpath_bounds:
  fixes w :: "'a world_scheme"
  assumes "readlink_ok E" "c = Proc (SysReadlink ''/proc/self/exe'' 8191)" "r = ask E c w"
  shows "\<exists>s. ixut_execpath E w = Inr (s, w\<lparr>hist := (c, r) # hist w\<rparr>) \<and> length s \<le> 8191 \<and>
    s = (if r = -1 then ''ixut_exepath: error in readlink.''
         else chars (takeWhile (\<lambda>b. b \<noteq> 0) (take (nat r) (input E (hist w) c))))"
proof -
  let ?s = "if r = -1 then ''ixut_exepath: error in readlink.''
    else chars (takeWhile (\<lambda>b. b \<noteq> 0) (take (nat r) (input E (hist w) c)))"
  have "length (takeWhile (\<lambda>b. b \<noteq> 0) (take (nat r) (input E (hist w) c))) \<le> 8191"
    using length_takeWhile_le [of "\<lambda>b. b \<noteq> 0" "take (nat r) (input E (hist w) c)"] readlink_range [OF assms] by simp
  then have "length ?s \<le> 8191" by (simp add: chars_def)
  with execpath_exec [OF assms] show ?thesis by blast
qed

lemma is_defined_simps [simp]:
  "is_defined n (defining ns m) \<longleftrightarrow> n \<in> set ns \<or> is_defined n m"
  "is_defined n (undef k m) \<longleftrightarrow> n \<noteq> k \<and> is_defined n m"
  "is_defined n (m(k \<mapsto> x)) \<longleftrightarrow> n = k \<or> is_defined n m"
  "m n = None \<Longrightarrow> \<not> is_defined n m"
  by (auto simp: is_defined_def defining_def undef_def)

text \<open>
  The platform.  Before the include none of the header's own macros is defined.  Then at most one
  of the three systems is chosen, Linux and Darwin (and only they) are POSIX,
  a compiler of the GCC family on an unknown system is refused, and \<open>CUBE_COMPILER_UNKNOWN\<close>
  remains exactly when neither GCC nor, on Windows, MSVC was recognised; a second
  include changes nothing.
\<close>

theorem platform_choice:
  assumes "m MarXsCube_Platform = None" "\<forall>n \<in> set [CUBE_PLATFORM_MACH, CUBE_PLATFORM_LINUX,
      CUBE_PLATFORM_WINDOWS, CUBE_PLATFORM_POSIX, CUBE_COMPILER_GCC_BASED, CUBE_COMPILER_MSVC]. m n = None"
  shows "case platform_hxx m of
      None \<Rightarrow> is_defined GNUC m \<and> \<not> is_defined APPLE m \<and> \<not> is_defined WIN32 m \<and> \<not> is_defined LINUX m
    | Some v \<Rightarrow>
        (is_defined CUBE_PLATFORM_MACH v \<longleftrightarrow> is_defined APPLE m) \<and>
        (is_defined CUBE_PLATFORM_WINDOWS v \<longleftrightarrow> is_defined WIN32 m \<and> \<not> is_defined APPLE m) \<and>
        (is_defined CUBE_PLATFORM_LINUX v \<longleftrightarrow>
           is_defined LINUX m \<and> \<not> is_defined WIN32 m \<and> \<not> is_defined APPLE m) \<and>
        (is_defined CUBE_PLATFORM_POSIX v \<longleftrightarrow> is_defined CUBE_PLATFORM_MACH v \<or> is_defined CUBE_PLATFORM_LINUX v) \<and>
        (is_defined CUBE_COMPILER_UNKNOWN v \<longleftrightarrow>
           \<not> is_defined CUBE_COMPILER_GCC_BASED v \<and> \<not> is_defined CUBE_COMPILER_MSVC v) \<and>
        platform_hxx v = Some v"
proof (cases "platform_hxx m")
  case None
  then show ?thesis using assms
    by (simp add: platform_hxx_def platform_os_def Let_def split: if_splits option.splits)
next
  case (Some v)
  then obtain u where u: "platform_os (defining [MarXsCube_Platform, CUBE_COMPILER_UNKNOWN] m) = Some u"
    "v = (platform_compiler u)(CUBEMUTEW_NOT_USED \<mapsto>
       (if is_defined CUBE_COMPILER_GCC_BASED (platform_compiler u) then ''__attribute__ ((unused))'' else []))"
    using assms(1) by (auto simp: platform_hxx_def Let_def split: option.splits)
  have os: "is_defined CUBE_PLATFORM_MACH u \<longleftrightarrow> is_defined APPLE m"
    "is_defined CUBE_PLATFORM_WINDOWS u \<longleftrightarrow> is_defined WIN32 m \<and> \<not> is_defined APPLE m"
    "is_defined CUBE_PLATFORM_LINUX u \<longleftrightarrow> is_defined LINUX m \<and> \<not> is_defined WIN32 m \<and> \<not> is_defined APPLE m"
    "is_defined CUBE_PLATFORM_POSIX u \<longleftrightarrow> is_defined CUBE_PLATFORM_MACH u \<or> is_defined CUBE_PLATFORM_LINUX u"
    "is_defined CUBE_COMPILER_UNKNOWN u \<longleftrightarrow> \<not> is_defined CUBE_COMPILER_MSVC u"
    "\<not> is_defined CUBE_COMPILER_GCC_BASED u" "is_defined MarXsCube_Platform u"
    using u(1) assms by (auto simp: platform_os_def Let_def split: if_splits)
  have "is_defined n v \<longleftrightarrow> is_defined n u"
    if "n \<in> {CUBE_PLATFORM_MACH, CUBE_PLATFORM_WINDOWS, CUBE_PLATFORM_LINUX, CUBE_PLATFORM_POSIX, MarXsCube_Platform,
      CUBE_COMPILER_MSVC}" for n
    using that by (auto simp: u(2) platform_compiler_def Let_def)
  moreover have "is_defined CUBE_COMPILER_UNKNOWN v \<longleftrightarrow>
      \<not> is_defined CUBE_COMPILER_GCC_BASED v \<and> is_defined CUBE_COMPILER_UNKNOWN u"
    using os(6) by (simp add: u(2) platform_compiler_def Let_def)
  ultimately show ?thesis using os Some by (simp add: platform_hxx_def)
qed

theorem platform_choice_witness:
  "\<exists>v. platform_hxx [LINUX \<mapsto> ''1'', GNUC \<mapsto> ''4''] = Some v \<and> is_defined CUBE_PLATFORM_LINUX v \<and>
     is_defined CUBE_PLATFORM_POSIX v"
  using platform_choice [of "[LINUX \<mapsto> ''1'', GNUC \<mapsto> ''4'']"]
  by (auto simp: is_defined_def split: option.splits)

text \<open>A kernel that says the executable is \<open>/a\<close>.\<close>

definition link_env :: env where
  "link_env = calm\<lparr>answer := (\<lambda>h c. case c of Proc (SysReadlink p n) \<Rightarrow> if 2 \<le> n then 2 else -1 | _ \<Rightarrow> 1),
                   input := (\<lambda>h c. [47, 97])\<rparr>"

lemma link_env_ok: "readlink_ok link_env"
  by (simp add: readlink_ok_def link_env_def)

theorem execpath_bounds_witness:
  "\<exists>v. ixut_execpath link_env \<lparr>brk = 0, hist = [], contexts = (\<lambda>_. None)\<rparr> = Inr (''/a'', v)"
  using execpath_bounds [OF link_env_ok refl refl, of "\<lparr>brk = 0, hist = [], contexts = (\<lambda>_. None)\<rparr>"]
  by (auto simp: ask_def link_env_def chars_def char_of_def bit_Suc_0_iff)

text \<open>
  Limits.  \<open>ixut_reslimit\<close> asks the kernel once, with the same number as soft and as hard limit;
  as neither function has a result, a refusal is visible only as a message: whatever the kernel
  answers, the caller goes on.
\<close>

theorem reslimit_functional:
  fixes w :: "'a world_scheme"
  assumes "c = Proc (SysSetrlimit res s h)"
  shows "ixut_reslimit_d E res s h w =
      w\<lparr>hist := (if ask E c w = 0 then [] else [(Printf ''setrlimit() failed: %d %ld %ld.'', 0)]) @
                (c, ask E c w) # hist w\<rparr> \<and>
    ixut_reslimit E res s w = ixut_reslimit_d E res s s w"
  using assms by (simp add: ixut_reslimit_d_def ixut_reslimit_def ext_def emit_def Let_def)

theorem reslimit_functional_witness:
  "hist (ixut_reslimit calm 0 1 (\<lparr>brk = 0, hist = [], contexts = (\<lambda>_. None)\<rparr> :: world)) =
     [(Printf ''setrlimit() failed: %d %ld %ld.'', 0), (Proc (SysSetrlimit 0 1 1), 1)]"
  using reslimit_functional [OF refl, of calm 0 1 1 "\<lparr>brk = 0, hist = [], contexts = (\<lambda>_. None)\<rparr> :: world"]
  by (simp add: ask_def calm_def)

end
