(* ===== verification/Lua.thy ===== *)
theory Lua
  imports Luafoundx Platform
begin

text \<open>
  The program around its Lua state: setting the state up, running a script and coroutines
  (luafound.cxx, lbext.hxx), the context (context.cxx) and main (iojxd.cxx).  Lua itself is not under
  src/: its C interface is the parameter \<open>A\<close>, a record of functions on an abstract state, and
  \<open>lua_documented\<close> says what the reference manual promises of them.
\<close>

section \<open>Lua's C interface\<close>

text \<open>The values the code puts on or takes off Lua's stack.\<close>

datatype lua_value =
    LNil
  | LString string
  | LLight addr
  | LCFun nat
  | LTable nat
  | LOther nat

text \<open>
  The registry is reached by the pseudo-index of \<open>l_gettable\<close> and \<open>l_settable\<close>; no other table is
  indexed that way.
\<close>

record 'l lua_api =
  l_newstate :: 'l
  l_openlibs :: "'l \<Rightarrow> 'l"
  l_register :: "'l \<Rightarrow> 'l"
  l_gettop :: "'l \<Rightarrow> nat"
  l_getglobal :: "string \<Rightarrow> 'l \<Rightarrow> 'l"
  l_getfield :: "int \<Rightarrow> string \<Rightarrow> 'l \<Rightarrow> 'l"
  l_setfield :: "int \<Rightarrow> string \<Rightarrow> 'l \<Rightarrow> 'l"
  l_gettable :: "'l \<Rightarrow> 'l"
  l_settable :: "'l \<Rightarrow> 'l"
  l_pushstring :: "string \<Rightarrow> 'l \<Rightarrow> 'l"
  l_pushlightuserdata :: "addr \<Rightarrow> 'l \<Rightarrow> 'l"
  l_pushcfunction :: "nat \<Rightarrow> 'l \<Rightarrow> 'l"
  l_pop :: "nat \<Rightarrow> 'l \<Rightarrow> 'l"
  l_tostring :: "int \<Rightarrow> 'l \<Rightarrow> string option"
  l_touserdata :: "int \<Rightarrow> 'l \<Rightarrow> addr"
  l_value :: "int \<Rightarrow> 'l \<Rightarrow> lua_value"
  l_xmove :: "nat \<Rightarrow> 'l \<Rightarrow> 'l \<Rightarrow> 'l \<times> 'l"

record 'l luaworld = xworld +
  luas :: "addr \<Rightarrow> 'l option"

definition set_lua :: "('l \<Rightarrow> 'l) \<Rightarrow> addr \<Rightarrow> ('l, 'a) luaworld_scheme \<Rightarrow> ('l, 'a) luaworld_scheme res" where
  "set_lua f L w = bnd (modify f L (luas w)) (\<lambda>m. Inr (w\<lparr>luas := m\<rparr>))"

text \<open>A C string ends at its first NUL.\<close>

definition cstr :: "string \<Rightarrow> string" where
  "cstr s = takeWhile (\<lambda>c. c \<noteq> CHR 0x00) s"

section \<open>Setting up\<close>

definition ixlu_add_packagepath ::
  "'l lua_api \<Rightarrow> addr \<Rightarrow> string \<Rightarrow> ('l, 'a) luaworld_scheme \<Rightarrow> ('l, 'a) luaworld_scheme res" where
  "ixlu_add_packagepath A L path w =
     (let w = emit (Printf ''Adding package path %s'') w in
      bnd (deref (luas w) L) (\<lambda>s.
      let s = l_getglobal A ''package'' s;
          s = l_getfield A (-1) ''path'' s in
      case l_tostring A (-1) s of
        None \<Rightarrow> Inl NullDeref
      | Some cur_path \<Rightarrow>
          let path_append = CHR '';'' # path @ ''/?.lua'';
              cur_path = cstr cur_path @ path_append;
              s = l_pop A 1 s;
              s = l_pushstring A (cstr cur_path) s;
              s = l_setfield A (-2) ''path'' s;
              s = l_pop A 1 s
          in Inr (w\<lparr>luas := (luas w)(L \<mapsto> s)\<rparr>)))"

definition ixlu_initstate ::
  "env \<Rightarrow> 'l lua_api \<Rightarrow> ('l, 'a) luaworld_scheme \<Rightarrow> (addr \<times> ('l, 'a) luaworld_scheme) res" where
  "ixlu_initstate E A w =
     (let (L, w) = malloc E w; w = (if L = 0 then w else w\<lparr>luas := (luas w)(L \<mapsto> l_newstate A)\<rparr>) in
      asserting (L \<noteq> 0) (
      bnd (set_lua (l_openlibs A) L w) (\<lambda>w.
      bnd (ixut_execpath E w) (\<lambda>(path, w).
      let libs_path = directory_name path CHR ''/'' in
      bnd (ixlu_add_packagepath A L (cstr libs_path) w) (\<lambda>w.
      let libs_path = libs_path @ ''/lib'' in
      bnd (ixlu_add_packagepath A L (cstr libs_path) w) (\<lambda>w.
      Inr (L, w)))))))"

definition ixlb_get_cur_ctx ::
  "'l lua_api \<Rightarrow> addr \<Rightarrow> ('l, 'a) luaworld_scheme \<Rightarrow> (addr \<times> ('l, 'a) luaworld_scheme) res" where
  "ixlb_get_cur_ctx A L w =
     bnd (set_lua (\<lambda>s. l_gettable A (l_pushstring A ''_context'' s)) L w) (\<lambda>w.
     bnd (deref (luas w) L) (\<lambda>s.
     Inr (l_touserdata A (-1) s, w)))"

section \<open>The context\<close>

text \<open>
  The registrations of the two script interfaces are calls of LuaBridge, \<open>l_register\<close>; the fields of
  the context are indeterminate until they are set.
\<close>

definition set_context :: "(ixc_context \<Rightarrow> ixc_context) \<Rightarrow> addr \<Rightarrow> 'a world_scheme \<Rightarrow> 'a world_scheme res" where
  "set_context f p w = bnd (modify f p (contexts w)) (\<lambda>m. Inr (w\<lparr>contexts := m\<rparr>))"

definition ixc_create_context ::
  "env \<Rightarrow> 'l lua_api \<Rightarrow> ('l, 'a) luaworld_scheme \<Rightarrow> (addr \<times> ('l, 'a) luaworld_scheme) res" where
  "ixc_create_context E A w =
     (let (r, w) = malloc E w;
          w = (if r = 0 then w
               else w\<lparr>contexts := (contexts w)(r \<mapsto> \<lparr>state = junk E (hist w) 0, evl = junk E (hist w) 1\<rparr>)\<rparr>) in
      bnd (deref (contexts w) r) (\<lambda>_.
      bnd (ixlu_initstate E A w) (\<lambda>(L, w).
      bnd (set_context (\<lambda>c. c\<lparr>state := L\<rparr>) r w) (\<lambda>w.
      bnd (set_lua (l_register A) L w) (\<lambda>w.
      let w = emit (Ev EvDefaultLoop) w in
      bnd (set_context (\<lambda>c. c\<lparr>evl := default_loop E\<rparr>) r w) (\<lambda>w.
      bnd (set_lua (\<lambda>s. l_settable A (l_pushlightuserdata A r (l_pushstring A ''_context'' s))) L w) (\<lambda>w.
      Inr (r, w))))))))"

text \<open>
  A full collection and \<open>lua_close\<close> run the finalisers of the script's objects, which may do anything:
  the parameters \<open>gc\<close> and \<open>close\<close>.
\<close>

definition ixc_destroy_context ::
  "(addr \<Rightarrow> ('l, 'a) luaworld_scheme \<Rightarrow> ('l, 'a) luaworld_scheme res) \<Rightarrow>
   (addr \<Rightarrow> ('l, 'a) luaworld_scheme \<Rightarrow> ('l, 'a) luaworld_scheme res) \<Rightarrow> addr \<Rightarrow>
   ('l, 'a) luaworld_scheme \<Rightarrow> ('l, 'a) luaworld_scheme res" where
  "ixc_destroy_context gc close ctx w =
     asserting (ctx \<noteq> 0) (
     bnd (deref (contexts w) ctx) (\<lambda>c. asserting (state c \<noteq> 0) (asserting (evl c \<noteq> 0) (
     bnd (gc (state c) w) (\<lambda>w.
     bnd (close (state c) w) (\<lambda>w.
     bnd (set_lua id (state c) w) (\<lambda>w.
     let w = w\<lparr>luas := (luas w)(state c := None)\<rparr> in
     bnd (deref (contexts w) ctx) (\<lambda>c.
     let w = emit (Ev (EvLoopDestroy (evl c))) w in
     bnd (set_context (\<lambda>c. c\<lparr>state := 0\<rparr>) ctx w) (\<lambda>w.
     bnd (set_context (\<lambda>c. c\<lparr>evl := 0\<rparr>) ctx w) (\<lambda>w.
     bnd (release ctx (contexts w)) (\<lambda>m.
     Inr (w\<lparr>contexts := m\<rparr>))))))))))))"

text \<open>\<open>luaL_dofile\<close> runs the script, the parameter \<open>script\<close>; it tells whether there was an error.\<close>

definition ixlu_dofile ::
  "(addr \<Rightarrow> string \<Rightarrow> 'a world_scheme \<Rightarrow> (bool \<times> 'a world_scheme) res) \<Rightarrow> addr \<Rightarrow> string \<Rightarrow>
   'a world_scheme \<Rightarrow> 'a world_scheme res" where
  "ixlu_dofile script L path w =
     bnd (script L path w) (\<lambda>(failed, w).
     Inr (if failed then emit (Printf ''error in script: %s'') w else w))"

definition iojxd_main ::
  "env \<Rightarrow> 'l lua_api \<Rightarrow> (addr \<Rightarrow> string \<Rightarrow> ('l, 'a) luaworld_scheme \<Rightarrow> (bool \<times> ('l, 'a) luaworld_scheme) res) \<Rightarrow>
   (addr \<Rightarrow> ('l, 'a) luaworld_scheme \<Rightarrow> ('l, 'a) luaworld_scheme res) \<Rightarrow>
   (addr \<Rightarrow> ('l, 'a) luaworld_scheme \<Rightarrow> ('l, 'a) luaworld_scheme res) \<Rightarrow>
   (addr \<Rightarrow> ('l, 'a) luaworld_scheme \<Rightarrow> ('l, 'a) luaworld_scheme res) \<Rightarrow> string list \<Rightarrow>
   ('l, 'a) luaworld_scheme \<Rightarrow> (int \<times> ('l, 'a) luaworld_scheme) res" where
  "iojxd_main E A script run gc close argv w =
     (if length argv < 2 then Inr (0, emit (Printf ''Usage: iojxd <script file>'') w)
      else
        bnd (ixc_create_context E A w) (\<lambda>(ctx, w).
        bnd (deref (contexts w) ctx) (\<lambda>c.
        bnd (ixlu_dofile script (state c) (argv ! 1) w) (\<lambda>w.
        bnd (deref (contexts w) ctx) (\<lambda>c.
        bnd (run (evl c) (emit (Ev (EvRun (evl c))) w)) (\<lambda>w.
        bnd (ixc_destroy_context gc close ctx w) (\<lambda>w.
        Inr (0, w))))))))"

section \<open>Loops, programs, coroutines\<close>

definition ixlb_init_loop ::
  "env \<Rightarrow> 'l lua_api \<Rightarrow> addr \<Rightarrow> ('l, 'a) luaworld_scheme \<Rightarrow> ('l, 'a) luaworld_scheme res" where
  "ixlb_init_loop E A L w =
     (let w = emit (Ev (EvLoopDestroy (default_loop E))) (emit (Ev EvDefaultLoop) w);
          w = emit (Ev (EvLoopFork (default_loop E))) (emit (Ev EvDefaultLoop) w);
          w = emit (Ev (EvLoopDestroy (default_loop E))) (emit (Ev EvDefaultLoop) w) in
      bnd (ixlb_get_cur_ctx A L w) (\<lambda>(ctx, w).
      let w = emit (Ev EvDefaultLoop) w in
      bnd (set_context (\<lambda>c. c\<lparr>evl := default_loop E\<rparr>) ctx w) (\<lambda>w.
      Inr (emit (Ev (EvLoopFork (default_loop E))) (emit (Ev EvDefaultLoop) w)))))"

definition ixlb_run ::
  "'l lua_api \<Rightarrow> (addr \<Rightarrow> ('l, 'a) luaworld_scheme \<Rightarrow> ('l, 'a) luaworld_scheme res) \<Rightarrow> addr \<Rightarrow>
   ('l, 'a) luaworld_scheme \<Rightarrow> ('l, 'a) luaworld_scheme res" where
  "ixlb_run A run L w =
     bnd (ixlb_get_cur_ctx A L w) (\<lambda>(ctx, w).
     bnd (loop_of ctx w) (\<lambda>l. run l (emit (Ev (EvRun l)) w)))"

text \<open>The argument vector of \<open>ixlb_exec\<close>, NULL being None.\<close>

definition exec_argv :: "'l lua_api \<Rightarrow> 'l \<Rightarrow> string option list" where
  "exec_argv A s = map (\<lambda>i. l_tostring A (int i + 1) s) [0..<l_gettop A s] @ [None]"

definition ixlb_exec ::
  "env \<Rightarrow> 'l lua_api \<Rightarrow> addr \<Rightarrow> ('l, 'a) luaworld_scheme \<Rightarrow> (int \<times> ('l, 'a) luaworld_scheme) res" where
  "ixlb_exec E A L w =
     bnd (deref (luas w) L) (\<lambda>s.
     let (argv, w) = malloc E w in
     if argv = 0 then Inl NullDeref
     else case hd (exec_argv A s) of
            None \<Rightarrow> Inl NullDeref
          | Some file \<Rightarrow> (let (r, w) = ext E (Proc (SysExecvp file)) w
                          in if r = -1 then Inl Assertion else Inl Replaced))"

text \<open>
  \<open>fromCFunction\<close> pushes a C function and makes a reference to the value at index 1.
\<close>

definition fromCFunction :: "'l lua_api \<Rightarrow> nat \<Rightarrow> 'l \<Rightarrow> lua_value \<times> 'l" where
  "fromCFunction A f s = (let s = l_pushcfunction A f s in (l_value A 1 s, s))"

definition FP_resume :: nat where "FP_resume = 301"

text \<open>
  \<open>ixlu_resume\<close> is called by the script with a coroutine and its arguments; what the coroutine does
  until it yields is the parameter \<open>resume\<close>.  \<open>lua_xmove\<close> between a state and itself does nothing.
\<close>

definition ixlu_resume ::
  "'l lua_api \<Rightarrow> (addr \<Rightarrow> nat \<Rightarrow> ('l, 'a) luaworld_scheme \<Rightarrow> ('l, 'a) luaworld_scheme res) \<Rightarrow> addr \<Rightarrow>
   ('l, 'a) luaworld_scheme \<Rightarrow> (int \<times> ('l, 'a) luaworld_scheme) res" where
  "ixlu_resume A resume L w =
     bnd (deref (luas w) L) (\<lambda>s.
     let v = l_gettop A s; Lco = l_touserdata A 1 s in
     bnd (deref (luas w) Lco) (\<lambda>co.
     let w = (if Lco = L then w
              else case l_xmove A (v - 1) s co of (s, co) \<Rightarrow> w\<lparr>luas := (luas w)(L \<mapsto> s, Lco \<mapsto> co)\<rparr>) in
     bnd (resume Lco (v - 1) w) (\<lambda>w.
     Inr (0, w))))"

text \<open>
  The lambda of \<open>ixlb_spawn_process_co\<close>: whatever value \<open>fromCFunction\<close> yields is called, \<open>call\<close>, with
  the coroutine and what is known of the process.
\<close>

definition spawn_co_fn ::
  "'l lua_api \<Rightarrow> (lua_value \<Rightarrow> int list \<Rightarrow> ('l, 'a) luaworld_scheme \<Rightarrow> ('l, 'a) luaworld_scheme res) \<Rightarrow> addr \<Rightarrow>
   ('l, 'a) luaworld_scheme \<Rightarrow> ('l, 'a) luaworld_scheme res" where
  "spawn_co_fn A call a w =
     bnd (get_targs a w) (\<lambda>x.
     bnd (ixlb_get_cur_ctx A (ta_data x) w) (\<lambda>(ctx, w).
     bnd (deref (contexts w) ctx) (\<lambda>c.
     bnd (deref (luas w) (state c)) (\<lambda>s.
     let (r, s) = fromCFunction A FP_resume s; w = w\<lparr>luas := (luas w)(state c \<mapsto> s)\<rparr> in
     bnd (get_targs a w) (\<lambda>y.
     call r [int (ta_data x), ta_pid y, sint (ta_status y), sint (ta_term_signal y)] w)))))"

definition FP_spawn_co :: nat where "FP_spawn_co = 302"

definition ixlb_spawn_process_co ::
  "env \<Rightarrow> string \<Rightarrow> addr \<Rightarrow> ('l, 'a) luaworld_scheme \<Rightarrow> ('l, 'a) luaworld_scheme res" where
  "ixlb_spawn_process_co E file L w =
     ixut_spawn_process E file FP_spawn_co L (emit (Printf ''%s'') w)"

section \<open>What Lua's manual says\<close>

text \<open>
  \<open>stk\<close> is the stack, bottom first, and \<open>tab\<close> the tables by number, 0 the globals and 1 the registry.
  A positive index counts from the bottom, a negative one from the top.
\<close>

definition at_index :: "lua_value list \<Rightarrow> int \<Rightarrow> lua_value" where
  "at_index st i = (if 0 < i \<and> i \<le> int (length st) then st ! nat (i - 1)
     else if i < 0 \<and> - i \<le> int (length st) then st ! nat (int (length st) + i) else LNil)"

definition lua_documented ::
  "'l lua_api \<Rightarrow> ('l \<Rightarrow> lua_value list) \<Rightarrow> ('l \<Rightarrow> nat \<Rightarrow> string \<Rightarrow> lua_value) \<Rightarrow> bool" where
  "lua_documented A stk tab \<longleftrightarrow> (\<forall>s.
     l_gettop A s = length (stk s) \<and>
     (\<forall>i. l_value A i s = at_index (stk s) i) \<and>
     (\<forall>x. stk (l_pushstring A x s) = stk s @ [LString x] \<and> tab (l_pushstring A x s) = tab s) \<and>
     (\<forall>p. stk (l_pushlightuserdata A p s) = stk s @ [LLight p] \<and> tab (l_pushlightuserdata A p s) = tab s) \<and>
     (\<forall>f. stk (l_pushcfunction A f s) = stk s @ [LCFun f] \<and> tab (l_pushcfunction A f s) = tab s) \<and>
     (\<forall>n. stk (l_pop A n s) = take (length (stk s) - n) (stk s) \<and> tab (l_pop A n s) = tab s) \<and>
     (\<forall>n. stk (l_getglobal A n s) = stk s @ [tab s 0 n] \<and> tab (l_getglobal A n s) = tab s) \<and>
     (\<forall>i n t. at_index (stk s) i = LTable t \<longrightarrow>
        stk (l_getfield A i n s) = stk s @ [tab s t n] \<and> tab (l_getfield A i n s) = tab s) \<and>
     (\<forall>i n t. stk s \<noteq> [] \<longrightarrow> at_index (stk s) i = LTable t \<longrightarrow> stk (l_setfield A i n s) = butlast (stk s) \<and>
        tab (l_setfield A i n s) = (tab s)(t := (tab s t)(n := last (stk s)))) \<and>
     (\<forall>st n. stk s = st @ [LString n] \<longrightarrow> stk (l_gettable A s) = st @ [tab s 1 n] \<and> tab (l_gettable A s) = tab s) \<and>
     (\<forall>st n v. stk s = st @ [LString n, v] \<longrightarrow> stk (l_settable A s) = st \<and>
        tab (l_settable A s) = (tab s)(1 := (tab s 1)(n := v))) \<and>
     (\<forall>i x. at_index (stk s) i = LString x \<longrightarrow> l_tostring A i s = Some x) \<and>
     (\<forall>i. at_index (stk s) i = LNil \<longrightarrow> l_tostring A i s = None) \<and>
     (\<forall>i p. at_index (stk s) i = LLight p \<longrightarrow> l_touserdata A i s = p) \<and>
     (\<forall>n s'. n \<le> length (stk s) \<longrightarrow> (case l_xmove A n s s' of (u, u') \<Rightarrow>
        stk u = take (length (stk s) - n) (stk s) \<and> tab u = tab s \<and>
        stk u' = stk s' @ drop (length (stk s) - n) (stk s) \<and> tab u' = tab s')))"

text \<open>A new state is empty, and opening the libraries installs the package table with its search path.\<close>

definition opens_libs ::
  "'l lua_api \<Rightarrow> ('l \<Rightarrow> lua_value list) \<Rightarrow> ('l \<Rightarrow> nat \<Rightarrow> string \<Rightarrow> lua_value) \<Rightarrow> nat \<Rightarrow> string \<Rightarrow> bool" where
  "opens_libs A stk tab t path \<longleftrightarrow> 1 < t \<and> stk (l_newstate A) = [] \<and>
     (let s = l_openlibs A (l_newstate A)
      in stk s = [] \<and> tab s 0 ''package'' = LTable t \<and> tab s t ''path'' = LString path) \<and>
     (\<forall>s. stk (l_register A s) = stk s \<and> tab (l_register A s) 1 = tab s 1)"

end
