(* ===== verification/LuaProps.thy ===== *)
theory LuaProps
  imports Lua
begin

text \<open>
  The properties of the program around its Lua state: the search path of scripts, the context a
  script finds, the arguments of \<open>exec\<close>, coroutines, and main.
\<close>

section \<open>Lua's interface\<close>

lemma lua_simps:
  assumes "lua_documented A stk tab"
  shows "l_gettop A s = length (stk s)" "l_value A i s = at_index (stk s) i"
    "stk (l_pushstring A x s) = stk s @ [LString x]" "tab (l_pushstring A x s) = tab s"
    "stk (l_pushlightuserdata A p s) = stk s @ [LLight p]" "tab (l_pushlightuserdata A p s) = tab s"
    "stk (l_pushcfunction A f s) = stk s @ [LCFun f]" "tab (l_pushcfunction A f s) = tab s"
    "stk (l_pop A n s) = take (length (stk s) - n) (stk s)" "tab (l_pop A n s) = tab s"
    "stk (l_getglobal A x s) = stk s @ [tab s 0 x]" "tab (l_getglobal A x s) = tab s"
    "at_index (stk s) i = LTable t \<Longrightarrow> stk (l_getfield A i x s) = stk s @ [tab s t x]"
    "at_index (stk s) i = LTable t \<Longrightarrow> tab (l_getfield A i x s) = tab s"
    "stk s \<noteq> [] \<Longrightarrow> at_index (stk s) i = LTable t \<Longrightarrow> stk (l_setfield A i x s) = butlast (stk s)"
    "stk s \<noteq> [] \<Longrightarrow> at_index (stk s) i = LTable t \<Longrightarrow>
       tab (l_setfield A i x s) = (tab s)(t := (tab s t)(x := last (stk s)))"
    "stk s = st @ [LString x] \<Longrightarrow> stk (l_gettable A s) = st @ [tab s 1 x]"
    "stk s = st @ [LString x] \<Longrightarrow> tab (l_gettable A s) = tab s"
    "stk s = st @ [LString x, v] \<Longrightarrow> stk (l_settable A s) = st"
    "stk s = st @ [LString x, v] \<Longrightarrow> tab (l_settable A s) = (tab s)(1 := (tab s 1)(x := v))"
    "at_index (stk s) i = LString x \<Longrightarrow> l_tostring A i s = Some x"
    "at_index (stk s) i = LNil \<Longrightarrow> l_tostring A i s = None"
    "at_index (stk s) i = LLight p \<Longrightarrow> l_touserdata A i s = p"
  using assms by (simp_all add: lua_documented_def)

lemma xmove_stacks:
  assumes "lua_documented A stk tab" "l_xmove A n s s' = (u, u')" "n \<le> length (stk s)"
  shows "stk u = take (length (stk s) - n) (stk s)" "stk u' = stk s' @ drop (length (stk s) - n) (stk s)"
proof -
  have "\<forall>n s'. n \<le> length (stk s) \<longrightarrow> (case l_xmove A n s s' of (u, u') \<Rightarrow>
        stk u = take (length (stk s) - n) (stk s) \<and> tab u = tab s \<and>
        stk u' = stk s' @ drop (length (stk s) - n) (stk s) \<and> tab u' = tab s')"
    using assms(1) [unfolded lua_documented_def, THEN spec, of s] by (elim conjE)
  from this [rule_format, OF assms(3), of s'] assms(2) show "stk u = take (length (stk s) - n) (stk s)"
    "stk u' = stk s' @ drop (length (stk s) - n) (stk s)" by simp_all
qed

lemma at_top [simp]: "at_index (st @ [v]) (-1) = v"
  by (simp add: at_index_def nth_append)

lemma at_below [simp]: "at_index (st @ [u, v]) (-2) = u"
  by (simp add: at_index_def nth_append)

lemma at_bottom: "at_index (st @ [v]) 1 = (if st = [] then v else hd st)"
  by (cases st) (simp_all add: at_index_def)

text \<open>
  An interface that does what the manual says: a state is its stack and its tables.
\<close>

type_synonym plain = "lua_value list \<times> (nat \<Rightarrow> string \<Rightarrow> lua_value)"

definition plain_table :: "lua_value \<Rightarrow> nat" where
  "plain_table v = (case v of LTable t \<Rightarrow> t | _ \<Rightarrow> 0)"

definition plain_lua :: "plain lua_api" where
  "plain_lua =
     \<lparr>l_newstate = ([], \<lambda>t n. LNil),
      l_openlibs = (\<lambda>(st, tb). (st, tb(0 := (tb 0)(''package'' := LTable 2), 2 := (tb 2)(''path'' := LString ''./?.lua'')))),
      l_register = (\<lambda>s. s),
      l_gettop = (\<lambda>(st, tb). length st),
      l_getglobal = (\<lambda>n (st, tb). (st @ [tb 0 n], tb)),
      l_getfield = (\<lambda>i n (st, tb). (st @ [tb (plain_table (at_index st i)) n], tb)),
      l_setfield = (\<lambda>i n (st, tb). let t = plain_table (at_index st i)
                                    in (butlast st, tb(t := (tb t)(n := last st)))),
      l_gettable = (\<lambda>(st, tb). (butlast st @ [case last st of LString n \<Rightarrow> tb 1 n | _ \<Rightarrow> LNil], tb)),
      l_settable = (\<lambda>(st, tb). case at_index st (-2) of
          LString n \<Rightarrow> (take (length st - 2) st, tb(1 := (tb 1)(n := last st)))
        | _ \<Rightarrow> (take (length st - 2) st, tb)),
      l_pushstring = (\<lambda>x (st, tb). (st @ [LString x], tb)),
      l_pushlightuserdata = (\<lambda>p (st, tb). (st @ [LLight p], tb)),
      l_pushcfunction = (\<lambda>f (st, tb). (st @ [LCFun f], tb)),
      l_pop = (\<lambda>n (st, tb). (take (length st - n) st, tb)),
      l_tostring = (\<lambda>i (st, tb). case at_index st i of LString x \<Rightarrow> Some x | _ \<Rightarrow> None),
      l_touserdata = (\<lambda>i (st, tb). case at_index st i of LLight p \<Rightarrow> p | _ \<Rightarrow> 0),
      l_value = (\<lambda>i (st, tb). at_index st i),
      l_xmove = (\<lambda>n (st, tb) (st', tb'). ((take (length st - n) st, tb), (st' @ drop (length st - n) st, tb')))\<rparr>"

lemma plain_documented: "lua_documented plain_lua fst snd"
  by (auto simp: lua_documented_def plain_lua_def plain_table_def Let_def butlast_append split: prod.splits)

lemma plain_opens: "opens_libs plain_lua fst snd 2 ''./?.lua''"
  by (simp add: opens_libs_def plain_lua_def)

section \<open>The search path\<close>

lemma cstr_clean: "CHR 0x00 \<notin> set s \<Longrightarrow> cstr s = s"
  by (auto simp: cstr_def takeWhile_eq_all_conv)

lemma add_packagepath_exec:
  assumes "lua_documented A stk tab" "L \<noteq> 0" "luas w L = Some s" "tab s 0 ''package'' = LTable t"
    "tab s t ''path'' = LString p" "CHR 0x00 \<notin> set p" "CHR 0x00 \<notin> set path"
  shows "\<exists>s'. ixlu_add_packagepath A L path w = Inr (w\<lparr>hist := (Printf ''Adding package path %s'', 0) # hist w,
      luas := (luas w)(L \<mapsto> s')\<rparr>) \<and> stk s' = stk s \<and>
    tab s' = (tab s)(t := (tab s t)(''path'' := LString (p @ '';'' @ path @ ''/?.lua'')))"
proof -
  note l = lua_simps [OF assms(1)]
  let ?q = "p @ CHR '';'' # path @ ''/?.lua''"
  have q: "cstr ?q = ?q" "cstr p = p" using assms(6,7) by (simp_all add: cstr_clean)
  define s1 where "s1 = l_getglobal A ''package'' s"
  define s2 where "s2 = l_getfield A (-1) ''path'' s1"
  define s3 where "s3 = l_pop A 1 s2"
  define s4 where "s4 = l_pushstring A ?q s3"
  define s5 where "s5 = l_setfield A (-2) ''path'' s4"
  have s1: "stk s1 = stk s @ [LTable t]" "tab s1 = tab s" by (simp_all add: s1_def l(11,12) assms(4))
  then have s2: "stk s2 = stk s @ [LTable t, LString p]" "tab s2 = tab s"
    using l(13,14) [of s1 "-1" t "''path''"] by (simp_all add: s2_def assms(5))
  have top: "l_tostring A (-1) s2 = Some p"
    using l(21) [of s2 "-1" p] at_top [of "stk s @ [LTable t]" "LString p"] s2(1) by simp
  have s3: "stk s3 = stk s @ [LTable t]" "tab s3 = tab s" by (simp_all add: s3_def l(9,10) s2)
  have s4: "stk s4 = stk s @ [LTable t, LString ?q]" "tab s4 = tab s" by (simp_all add: s4_def l(3,4) s3)
  have s5: "stk s5 = stk s @ [LTable t]" "tab s5 = (tab s)(t := (tab s t)(''path'' := LString ?q))"
    using l(15,16) [of s4 "-2" t "''path''"] by (simp_all add: s5_def s4 butlast_append)
  have "stk (l_pop A 1 s5) = stk s" "tab (l_pop A 1 s5) = (tab s)(t := (tab s t)(''path'' := LString ?q))"
    by (simp_all add: l(9,10) s5)
  moreover have "ixlu_add_packagepath A L path w = Inr (w\<lparr>hist := (Printf ''Adding package path %s'', 0) # hist w,
      luas := (luas w)(L \<mapsto> l_pop A 1 s5)\<rparr>)"
    using assms(2,3) top
    by (simp add: ixlu_add_packagepath_def cstmt Let_def emit_def q s3_def s4_def s5_def flip: s1_def s2_def)
  ultimately show ?thesis by (intro exI [of _ "l_pop A 1 s5"]) simp
qed

text \<open>The path the code works with, whatever \<open>readlink\<close> said.\<close>

definition exe_path :: "env \<Rightarrow> event list \<Rightarrow> string" where
  "exe_path E h =
     (let c = Proc (SysReadlink ''/proc/self/exe'' 8191); r = answer E h c
      in if r = -1 then ''ixut_exepath: error in readlink.''
         else chars (takeWhile (\<lambda>b. b \<noteq> 0) (take (nat r) (input E h c))))"

lemma exe_path_no_NUL: "CHR 0x00 \<notin> set (exe_path E h)"
  using chars_no_NUL by (simp add: exe_path_def Let_def)

lemma execpath_result:
  fixes w :: "'a world_scheme"
  assumes "readlink_ok E" "c = Proc (SysReadlink ''/proc/self/exe'' 8191)"
  shows "ixut_execpath E w = Inr (exe_path E (hist w), w\<lparr>hist := (c, ask E c w) # hist w\<rparr>)"
  using execpath_exec [OF assms refl, of w] by (simp add: exe_path_def ask_def Let_def assms(2))

lemma initstate_exec:
  fixes w :: "('l, 'a) luaworld_scheme"
  assumes A: "lua_documented A stk tab" "opens_libs A stk tab t p" and p: "CHR 0x00 \<notin> set p"
    and E: "readlink_ok E" "alloc_ok E w"
    and h: "h = (Malloc, ask E Malloc w) # hist w" "c = Proc (SysReadlink ''/proc/self/exe'' 8191)"
    and dir: "dir = directory_name (exe_path E h) CHR ''/''"
  shows "\<exists>s. ixlu_initstate E A w = Inr (Suc (brk w), w\<lparr>brk := Suc (brk w),
        hist := (Printf ''Adding package path %s'', 0) # (Printf ''Adding package path %s'', 0) # (c, answer E h c) # h,
        luas := (luas w)(Suc (brk w) \<mapsto> s)\<rparr>) \<and>
      stk s = [] \<and> tab s 0 ''package'' = LTable t \<and>
      tab s t ''path'' = LString (p @ '';'' @ dir @ ''/?.lua;'' @ dir @ ''/lib/?.lua'')"
proof -
  let ?L = "Suc (brk w)"
  define s0 where "s0 = l_openlibs A (l_newstate A)"
  have s0: "stk s0 = []" "tab s0 0 ''package'' = LTable t" "tab s0 t ''path'' = LString p" "1 < t"
    using A(2) by (simp_all add: opens_libs_def Let_def s0_def)
  let ?w1 = "w\<lparr>brk := ?L, hist := h, luas := (luas w)(?L \<mapsto> s0)\<rparr>"
  define w2 where "w2 = ?w1\<lparr>hist := (c, answer E h c) # h\<rparr>"
  have NUL: "CHR 0x00 \<notin> set dir"
    using directory_name_subset [of "exe_path E h"] exe_path_no_NUL [of E h] dir by blast
  have NUL2: "CHR 0x00 \<notin> set (p @ '';'' @ dir @ ''/?.lua'')" using p NUL by simp
  have NUL3: "CHR 0x00 \<notin> set (dir @ ''/lib'')" using NUL by simp
  have path: "ixut_execpath E ?w1 = Inr (exe_path E h, w2)"
    using execpath_result [OF E(1) h(2), of ?w1] by (simp add: ask_def w2_def)
  have l2: "luas w2 ?L = Some s0" by (simp add: w2_def)
  obtain s1 where s1: "ixlu_add_packagepath A ?L dir w2 =
      Inr (w2\<lparr>hist := (Printf ''Adding package path %s'', 0) # hist w2, luas := (luas w2)(?L \<mapsto> s1)\<rparr>)"
    "stk s1 = stk s0" "tab s1 = (tab s0)(t := (tab s0 t)(''path'' := LString (p @ '';'' @ dir @ ''/?.lua'')))"
    using add_packagepath_exec [OF A(1), OF Suc_not_Zero l2 s0(2,3) p NUL] by blast
  define q where "q = p @ '';'' @ dir @ ''/?.lua''"
  define w3 where "w3 = w2\<lparr>hist := (Printf ''Adding package path %s'', 0) # hist w2, luas := (luas w2)(?L \<mapsto> s1)\<rparr>"
  have t: "tab s1 0 ''package'' = LTable t" "tab s1 t ''path'' = LString q" "luas w3 ?L = Some s1"
    using s0(2,4) by (simp_all add: s1(3) q_def w3_def)
  obtain s2 where s2: "ixlu_add_packagepath A ?L (dir @ ''/lib'') w3 =
      Inr (w3\<lparr>hist := (Printf ''Adding package path %s'', 0) # hist w3, luas := (luas w3)(?L \<mapsto> s2)\<rparr>)"
    "stk s2 = stk s1" "tab s2 = (tab s1)(t := (tab s1 t)(''path'' := LString (q @ '';'' @ (dir @ ''/lib'') @ ''/?.lua'')))"
    using add_packagepath_exec [OF A(1), OF Suc_not_Zero t(3,1,2) NUL2 [folded q_def] NUL3] by blast
  have cs: "cstr dir = dir" "cstr (dir @ ''/lib'') = dir @ ''/lib''"
    by (rule cstr_clean [OF NUL], rule cstr_clean [OF NUL3])
  have "ixlu_initstate E A w = Inr (?L, w3\<lparr>hist := (Printf ''Adding package path %s'', 0) # hist w3, luas := (luas w3)(?L \<mapsto> s2)\<rparr>)"
    using E(2)
    by (simp add: ixlu_initstate_def cstmt set_lua_def Let_def cs path s1(1) s2(1) flip: s0_def h(1) dir w3_def)
  with s2(2,3) s1(2) t(1) s0(1,4) show ?thesis by (intro exI [of _ s2]) (simp add: w3_def w2_def q_def)
qed

text \<open>
  C15: where scripts find modules.  A new Lua state has an empty stack, and the search path is the
  default one, then the directory of the executable, then its \<open>lib\<close> directory; only a refused
  allocation is a failed assertion.  The directory is whatever \<open>ixut_execpath\<close> returned: when
  \<open>readlink\<close> fails, its error message is taken for a directory.
\<close>

theorem package_path:
  fixes w :: "('l, 'a) luaworld_scheme"
  assumes "lua_documented A stk tab" "opens_libs A stk tab t p" "CHR 0x00 \<notin> set p" "readlink_ok E"
    and "h = (Malloc, ask E Malloc w) # hist w" "c = Proc (SysReadlink ''/proc/self/exe'' 8191)"
    and "dir = directory_name (exe_path E h) CHR ''/''"
  shows "if alloc_ok E w then
      \<exists>s. ixlu_initstate E A w = Inr (Suc (brk w), w\<lparr>brk := Suc (brk w),
          hist := (Printf ''Adding package path %s'', 0) # (Printf ''Adding package path %s'', 0) # (c, answer E h c) # h,
          luas := (luas w)(Suc (brk w) \<mapsto> s)\<rparr>) \<and>
        stk s = [] \<and> tab s 0 ''package'' = LTable t \<and>
        tab s t ''path'' = LString (p @ '';'' @ dir @ ''/?.lua;'' @ dir @ ''/lib/?.lua'')
    else ixlu_initstate E A w = Inl Assertion"
  using initstate_exec [OF assms(1-4) _ assms(5,6,7)]
  by (auto simp: ixlu_initstate_def cstmt)

definition start_world :: "plain luaworld" where
  "start_world = \<lparr>brk = 0, hist = [], contexts = (\<lambda>_. None), nodes = (\<lambda>_. None),
     socks = (\<lambda>_. None), ctxs = (\<lambda>_. None), wctxs = (\<lambda>_. None), cargs = (\<lambda>_. None), ios = (\<lambda>_. None), bufs = (\<lambda>_. None),
     timers = (\<lambda>_. None), evtimers = (\<lambda>_. None),
     childws = (\<lambda>_. None), evchilds = (\<lambda>_. None), termargs = (\<lambda>_. None),
     luarefs = (\<lambda>_. None), conndata = (\<lambda>_. None), sockdata = (\<lambda>_. None),
     rcptrs = (\<lambda>_. None), objs = (\<lambda>_. None), xforks = (\<lambda>_. None), xconns = (\<lambda>_. None), luas = (\<lambda>_. None)\<rparr>"

lemma start_world_simps [simp]: "brk start_world = 0" "hist start_world = []" "contexts start_world = (\<lambda>_. None)"
  by (simp_all add: start_world_def)

definition bin_env :: env where
  "bin_env = link_env\<lparr>answer := (\<lambda>h c. case c of Proc (SysReadlink p n) \<Rightarrow> if 4 \<le> n then 4 else -1 | _ \<Rightarrow> 1),
                      input := (\<lambda>h c. [47, 97, 47, 98])\<rparr>"

lemma bin_env_ok: "readlink_ok bin_env" "plentiful bin_env" "default_loop bin_env = 9"
  by (simp_all add: readlink_ok_def bin_env_def plentiful_def link_env_def calm_def)

lemma bin_env_path: "directory_name (exe_path bin_env h) CHR ''/'' = ''/a''"
proof -
  have "exe_path bin_env h = ''/a/b''"
    by (simp add: exe_path_def bin_env_def chars_def char_of_def bit_Suc_0_iff)
  then show ?thesis by (simp add: directory_name_def)
qed

theorem package_path_witness:
  "\<exists>s v. ixlu_initstate bin_env plain_lua start_world = Inr (1, v) \<and> luas v 1 = Some s \<and>
     snd s 2 ''path'' = LString ''./?.lua;/a/?.lua;/a/lib/?.lua''"
  using package_path [OF plain_documented, OF plain_opens _ bin_env_ok(1) refl refl refl, of start_world] bin_env_ok(2)
  by (auto simp: bin_env_path)

section \<open>The context\<close>

lemma set_lua_exec [cstmt]: "L \<noteq> 0 \<Longrightarrow> luas w L = Some s \<Longrightarrow> set_lua f L w = Inr (w\<lparr>luas := (luas w)(L \<mapsto> f s)\<rparr>)"
  by (simp add: set_lua_def cstmt)

lemma set_context_exec [cstmt]:
  "p \<noteq> 0 \<Longrightarrow> contexts w p = Some c \<Longrightarrow> set_context f p w = Inr (w\<lparr>contexts := (contexts w)(p \<mapsto> f c)\<rparr>)"
  by (simp add: set_context_def cstmt)

lemma luas_emit [simp]: "luas (emit c w) = luas w"
  by (simp add: emit_def)

lemma get_cur_ctx_exec:
  assumes "lua_documented A stk tab" "L \<noteq> 0" "luas w L = Some s" "tab s 1 ''_context'' = LLight ctx"
  shows "\<exists>s'. ixlb_get_cur_ctx A L w = Inr (ctx, w\<lparr>luas := (luas w)(L \<mapsto> s')\<rparr>) \<and>
    stk s' = stk s @ [LLight ctx] \<and> tab s' = tab s"
proof -
  note l = lua_simps [OF assms(1)]
  let ?s1 = "l_pushstring A ''_context'' s"
  let ?s2 = "l_gettable A ?s1"
  have s1: "stk ?s1 = stk s @ [LString ''_context'']" "tab ?s1 = tab s" by (simp_all add: l(3,4))
  then have s2: "stk ?s2 = stk s @ [LLight ctx]" "tab ?s2 = tab s"
    using l(17,18) [OF s1(1)] assms(4) by simp_all
  then have "l_touserdata A (-1) ?s2 = ctx" using l(23) [of ?s2 "-1" ctx] by simp
  with s2 assms(2,3) show ?thesis
    by (intro exI [of _ ?s2]) (simp add: ixlb_get_cur_ctx_def cstmt)
qed

lemma create_context_exec:
  fixes w :: "('l, 'a) luaworld_scheme"
  assumes A: "lua_documented A stk tab" "opens_libs A stk tab t p" "CHR 0x00 \<notin> set p"
    and E: "readlink_ok E" "plentiful E" and r: "r = Suc (brk w)"
  shows "\<exists>s h. ixc_create_context E A w = Inr (r, w\<lparr>brk := Suc r, hist := h,
      contexts := (contexts w)(r \<mapsto> \<lparr>state = Suc r, evl = default_loop E\<rparr>), luas := (luas w)(Suc r \<mapsto> s)\<rparr>) \<and>
    stk s = [] \<and> tab s 1 ''_context'' = LLight r"
proof -
  note l = lua_simps [OF A(1)]
  let ?h = "(Malloc, ask E Malloc w) # hist w"
  let ?c = "\<lparr>state = junk E ?h 0, evl = junk E ?h 1\<rparr>"
  let ?w1 = "w\<lparr>brk := r, hist := ?h, contexts := (contexts w)(r \<mapsto> ?c)\<rparr>"
  obtain s h where s: "ixlu_initstate E A ?w1 = Inr (Suc r, ?w1\<lparr>brk := Suc r, hist := h, luas := (luas w)(Suc r \<mapsto> s)\<rparr>)"
    "stk s = []"
    using initstate_exec [OF A E(1) _ refl refl refl, of ?w1] E(2) by auto
  define s1 where "s1 = l_register A s"
  define s2 where "s2 = l_pushlightuserdata A r (l_pushstring A ''_context'' s1)"
  have s1: "stk s1 = []" using A(2) s(2) by (simp add: opens_libs_def s1_def)
  then have s2: "stk s2 = [] @ [LString ''_context'', LLight r]"
    by (simp add: s2_def l(3,5))
  have s3: "stk (l_settable A s2) = []" "tab (l_settable A s2) 1 ''_context'' = LLight r"
    using l(19,20) [OF s2] by simp_all
  let ?v = "w\<lparr>brk := Suc r, hist := (Ev EvDefaultLoop, 0) # h,
      contexts := (contexts w)(r \<mapsto> \<lparr>state = Suc r, evl = default_loop E\<rparr>), luas := (luas w)(Suc r \<mapsto> l_settable A s2)\<rparr>"
  have "ixc_create_context E A w = Inr (r, ?v)"
    using E(2) r s(1) by (simp add: ixc_create_context_def cstmt emit_def Let_def s2_def s1_def)
  with s3 show ?thesis by blast
qed

text \<open>
  C14: the context a script finds.  \<open>ixc_create_context\<close> makes a context with a Lua state of its own and
  the default loop, and from then on, as long as the script leaves the registry alone,
  \<open>ixlb_get_cur_ctx\<close> finds that context from that state; but every such call leaves one more value on
  the stack.
\<close>

theorem context_roundtrip:
  fixes w :: "('l, 'a) luaworld_scheme"
  assumes "lua_documented A stk tab" "opens_libs A stk tab t p" "CHR 0x00 \<notin> set p"
    and "readlink_ok E" "plentiful E" "r = Suc (brk w)"
  shows "\<exists>s h. ixc_create_context E A w = Inr (r, w\<lparr>brk := Suc r, hist := h,
      contexts := (contexts w)(r \<mapsto> \<lparr>state = Suc r, evl = default_loop E\<rparr>), luas := (luas w)(Suc r \<mapsto> s)\<rparr>) \<and>
    stk s = [] \<and> tab s 1 ''_context'' = LLight r \<and>
    (\<forall>(u :: ('l, 'a) luaworld_scheme) s. luas u (Suc r) = Some s \<longrightarrow> tab s 1 ''_context'' = LLight r \<longrightarrow>
      (\<exists>s'. ixlb_get_cur_ctx A (Suc r) u = Inr (r, u\<lparr>luas := (luas u)(Suc r \<mapsto> s')\<rparr>) \<and>
        stk s' = stk s @ [LLight r] \<and> tab s' = tab s))"
proof -
  have "\<forall>(u :: ('l, 'a) luaworld_scheme) s. luas u (Suc r) = Some s \<longrightarrow> tab s 1 ''_context'' = LLight r \<longrightarrow>
      (\<exists>s'. ixlb_get_cur_ctx A (Suc r) u = Inr (r, u\<lparr>luas := (luas u)(Suc r \<mapsto> s')\<rparr>) \<and>
        stk s' = stk s @ [LLight r] \<and> tab s' = tab s)"
    by (intro allI impI) (rule get_cur_ctx_exec [OF assms(1), OF Suc_not_Zero])
  with create_context_exec [OF assms] show ?thesis by blast
qed

theorem context_roundtrip_witness:
  "\<exists>v u s. ixc_create_context bin_env plain_lua start_world = Inr (1, v) \<and> contexts v 1 = Some \<lparr>state = 2, evl = 9\<rparr> \<and>
     ixlb_get_cur_ctx plain_lua 2 v = Inr (1, u) \<and> luas u 2 = Some s \<and> fst s = [LLight 1]"
proof -
  have "CHR 0x00 \<notin> set ''./?.lua''" "1 = Suc (brk start_world)" by simp_all
  from context_roundtrip [OF plain_documented, OF plain_opens this(1) bin_env_ok(1,2) this(2)]
  obtain s h where v: "ixc_create_context bin_env plain_lua start_world = Inr (1, start_world\<lparr>brk := 2, hist := h,
      contexts := [1 \<mapsto> \<lparr>state = 2, evl = 9\<rparr>], luas := (luas start_world)(2 \<mapsto> s)\<rparr>)"
    "fst s = []" "snd s 1 ''_context'' = LLight 1"
    and u: "\<forall>u s. luas u 2 = Some s \<longrightarrow> snd s 1 ''_context'' = LLight 1 \<longrightarrow>
      (\<exists>s'. ixlb_get_cur_ctx plain_lua 2 u = Inr (1, (u :: plain luaworld)\<lparr>luas := (luas u)(2 \<mapsto> s')\<rparr>) \<and>
        fst s' = fst s @ [LLight 1] \<and> snd s' = snd s)"
    by (auto simp: bin_env_ok simp flip: One_nat_def numeral_2_eq_2)
  let ?v = "start_world\<lparr>brk := 2, hist := h,
      contexts := [1 \<mapsto> \<lparr>state = 2, evl = 9\<rparr>], luas := (luas start_world)(2 \<mapsto> s)\<rparr>"
  from u [rule_format, of ?v s] v(2,3) obtain s' where
    "ixlb_get_cur_ctx plain_lua 2 ?v = Inr (1, ?v\<lparr>luas := (luas ?v)(2 \<mapsto> s')\<rparr>)" "fst s' = [LLight 1]" by auto
  with v(1) show ?thesis
    by (intro exI [of _ ?v] exI [of _ "?v\<lparr>luas := (luas ?v)(2 \<mapsto> s')\<rparr>"] exI [of _ s']) simp
qed

section \<open>Main\<close>

text \<open>
  Code outside the model (the script, the loop, the finalisers of the script's objects) that returns,
  keeps the contexts and does not close the Lua state \<open>L\<close>.
\<close>

definition returns_keeping ::
  "addr \<Rightarrow> (('l, 'a) luaworld_scheme \<Rightarrow> ('l, 'a) luaworld_scheme res) \<Rightarrow> bool" where
  "returns_keeping L f \<longleftrightarrow>
     (\<forall>w. luas w L \<noteq> None \<longrightarrow> (\<exists>v. f w = Inr v \<and> contexts v = contexts w \<and> luas v L \<noteq> None))"

lemma returns_keepingD:
  "returns_keeping L f \<Longrightarrow> luas w L = Some s \<Longrightarrow> \<exists>v s'. f w = Inr v \<and> contexts v = contexts w \<and> luas v L = Some s'"
  by (fastforce simp: returns_keeping_def)

lemma destroy_context_exec:
  fixes w :: "('l, 'a) luaworld_scheme"
  assumes "r \<noteq> 0" "contexts w r = Some c" "state c \<noteq> 0" "evl c \<noteq> 0" "luas w (state c) = Some s"
    "returns_keeping (state c) (gc (state c))" "returns_keeping (state c) (close (state c))"
  shows "\<exists>v. ixc_destroy_context gc close r w = Inr v \<and> contexts v = (contexts w)(r := None) \<and>
    luas v (state c) = None \<and> hd (hist v) = (Ev (EvLoopDestroy (evl c)), 0)"
proof -
  from returns_keepingD [OF assms(6,5)] obtain u s1 where
    u: "gc (state c) w = Inr u" "contexts u = contexts w" "luas u (state c) = Some s1" by blast
  from returns_keepingD [OF assms(7) u(3)] obtain v s2 where
    v: "close (state c) u = Inr v" "contexts v = contexts w" "luas v (state c) = Some s2" using u(2) by auto
  show ?thesis
    using assms(1-4) u v by (simp add: ixc_destroy_context_def cstmt emit_def Let_def)
qed

text \<open>
  C16: main.  Without an argument it prints its usage, makes nothing and exits with 0.  Otherwise it makes the
  context, runs the file named by its first argument on the context's Lua state, prints a message if
  that failed, then runs the context's loop, whether the script failed or not, and destroys the
  context, each in the state the one before has left: the context and its Lua state are gone and the
  loop is destroyed last.  The exit code is 0 in every case, that of a script with an error included.
\<close>

theorem main_outcome:
  fixes w :: "('l, 'a) luaworld_scheme"
  assumes "lua_documented A stk tab" "opens_libs A stk tab t p" "CHR 0x00 \<notin> set p"
    and "readlink_ok E" "plentiful E" "default_loop E \<noteq> 0" "L = Suc (Suc (brk w))"
    and "\<And>x. returns_keeping L (\<lambda>w. bnd (script L x w) (\<lambda>(failed, w). Inr w))"
    and "\<And>l. returns_keeping L (run l)" "returns_keeping L (gc L)" "returns_keeping L (close L)"
  shows "\<exists>v. iojxd_main E A script run gc close argv w = Inr (0, v) \<and>
    (if length argv < 2 then v = w\<lparr>hist := (Printf ''Usage: iojxd <script file>'', 0) # hist w\<rparr>
     else \<exists>w1 failed w2 w3. ixc_create_context E A w = Inr (Suc (brk w), w1) \<and>
       contexts w1 (Suc (brk w)) = Some \<lparr>state = L, evl = default_loop E\<rparr> \<and>
       script L (argv ! 1) w1 = Inr (failed, w2) \<and>
       run (default_loop E) (emit (Ev (EvRun (default_loop E)))
         (if failed then emit (Printf ''error in script: %s'') w2 else w2)) = Inr w3 \<and>
       ixc_destroy_context gc close (Suc (brk w)) w3 = Inr v \<and>
       contexts v = (contexts w)(Suc (brk w) := None) \<and> luas v L = None \<and>
       hd (hist v) = (Ev (EvLoopDestroy (default_loop E)), 0))"
proof (cases "length argv < 2")
  case True
  then show ?thesis by (simp add: iojxd_main_def emit_def)
next
  case False
  let ?r = "Suc (brk w)"
  let ?c = "\<lparr>state = L, evl = default_loop E\<rparr>"
  obtain w1 s1 where w1: "ixc_create_context E A w = Inr (?r, w1)" "contexts w1 = (contexts w)(?r \<mapsto> ?c)" "luas w1 L = Some s1"
    using create_context_exec [OF assms(1), OF assms(2-5) refl, of w] assms(7) by auto
  obtain failed w2 s2 where w2: "script L (argv ! 1) w1 = Inr (failed, w2)" "contexts w2 = contexts w1" "luas w2 L = Some s2"
    using returns_keepingD [OF assms(8) w1(3), of "argv ! 1"] by (auto simp: bnd_eq_Inr)
  define w3 where "w3 = (if failed then emit (Printf ''error in script: %s'') w2 else w2)"
  have w3: "contexts w3 = contexts w1" "luas w3 L = Some s2" using w2 by (simp_all add: w3_def)
  obtain w4 s4 where w4: "run (default_loop E) (emit (Ev (EvRun (default_loop E))) w3) = Inr w4"
    "contexts w4 = contexts w1" "luas w4 L = Some s4"
    using returns_keepingD [OF assms(9), of "emit (Ev (EvRun (default_loop E))) w3" s2 "default_loop E"] w3 by auto
  obtain v where v: "ixc_destroy_context gc close ?r w4 = Inr v" "contexts v = (contexts w4)(?r := None)"
    "luas v L = None" "hd (hist v) = (Ev (EvLoopDestroy (default_loop E)), 0)"
    using destroy_context_exec [of ?r w4 ?c s4 gc close] w4(2,3) w1(2) assms(6,7,10,11) by auto
  have "iojxd_main E A script run gc close argv w = Inr (0, v)"
    using False w1(1,2) w2(1) w3(1) w4(1) v(1)
    by (simp add: iojxd_main_def ixlu_dofile_def cstmt flip: w3_def)
  moreover have "contexts v = (contexts w)(?r := None)" using v(2) w4(2) w1(2) by simp
  moreover have "contexts w1 ?r = Some ?c" using w1(2) by simp
  ultimately show ?thesis
    using w1(1) w2(1) w4(1) v(1,3,4) unfolding if_not_P [OF False] w3_def by blast
qed

lemma keeps_Inr: "returns_keeping L (\<lambda>w. Inr w)"
  by (simp add: returns_keeping_def)

text \<open>A script that prints its name and fails, and a loop that ends after one break.\<close>

theorem main_outcome_witness:
  "\<exists>v w1 w2. iojxd_main bin_env plain_lua (\<lambda>L x w. Inr (True, emit (Printf x) w)) (\<lambda>l w. Inr (emit (Ev (EvBreak l)) w))
         (\<lambda>L w. Inr w) (\<lambda>L w. Inr w) [''iojxd'', ''judge.lua''] start_world = Inr (0, v) \<and>
     contexts v 1 = None \<and> luas v 2 = None \<and> ixc_create_context bin_env plain_lua start_world = Inr (1, w1) \<and>
     w2 = emit (Ev (EvBreak 9)) (emit (Ev (EvRun 9)) (emit (Printf ''error in script: %s'') (emit (Printf ''judge.lua'') w1))) \<and>
     ixc_destroy_context (\<lambda>L w. Inr w) (\<lambda>L w. Inr w) 1 w2 = Inr v"
proof -
  have keep: "returns_keeping L (\<lambda>w. Inr (emit c w :: plain luaworld))" for L c
    by (simp add: returns_keeping_def emit_def)
  show ?thesis
    using main_outcome [OF plain_documented, OF plain_opens _ bin_env_ok(1,2) _ refl,
      where w = start_world and script = "\<lambda>L x w. Inr (True, emit (Printf x) w)"
        and run = "\<lambda>l w. Inr (emit (Ev (EvBreak l)) w)" and gc = "\<lambda>L w. Inr w"
        and close = "\<lambda>L w. Inr w" and argv = "[''iojxd'', ''judge.lua'']"]
    by (auto simp: bin_env_ok numeral_2_eq_2 keeps_Inr keep)
qed

section \<open>Programs and coroutines\<close>

lemma at_index_nth: "i < length st \<Longrightarrow> at_index st (int i + 1) = st ! i"
  by (simp add: at_index_def)

lemma exec_argv_exec:
  assumes "lua_documented A stk tab" "stk s = map LString xs @ rest" "rest = [] \<or> hd rest = LNil"
  shows "\<exists>ys. exec_argv A s = map Some xs @ None # ys \<and> length (exec_argv A s) = Suc (length (stk s)) \<and>
    last (exec_argv A s) = None"
proof -
  note l = lua_simps [OF assms(1)]
  let ?n = "length xs"
  have str: "l_tostring A (int i + 1) s = Some (xs ! i)" if "i < ?n" for i
    by (rule l(21)) (use that in \<open>simp add: at_index_nth assms(2) nth_append\<close>)
  have len: "exec_argv A s = map (\<lambda>i. l_tostring A (int i + 1) s) [0..<length (stk s)] @ [None]"
    by (simp add: exec_argv_def l(1))
  have front: "map (\<lambda>i. l_tostring A (int i + 1) s) [0..<?n] = map Some xs"
    by (rule nth_equalityI) (simp_all add: str)
  show ?thesis
  proof (cases rest)
    case Nil
    with len front show ?thesis by (simp add: assms(2))
  next
    case (Cons v vs)
    then have v: "v = LNil" using assms(3) by simp
    have "l_tostring A (int ?n + 1) s = None"
      by (rule l(22)) (simp add: at_index_nth assms(2) Cons v nth_append)
    moreover have "[0..<length (stk s)] = [0..<?n] @ ?n # [Suc ?n..<length (stk s)]"
      using upt_add_eq_append [of 0 ?n "Suc (length vs)"] upt_conv_Cons [of ?n "?n + Suc (length vs)"]
      by (simp add: assms(2) Cons del: upt_Suc)
    ultimately show ?thesis using len front by (simp add: assms(2) Cons del: upt_Suc)
  qed
qed

text \<open>
  \<open>exec\<close>.  The argument vector has one entry more than the script gave, NULL, and holds the
  arguments in order; a nil among them is a NULL too, so the program sees only the arguments
  before it.  The call never returns to the script: the process is replaced, or the
  assertion after \<open>execvp\<close> fails.
\<close>

theorem exec_arguments:
  fixes w :: "('l, 'a) luaworld_scheme"
  assumes "lua_documented A stk tab" "L \<noteq> 0" "luas w L = Some s" "stk s = map LString xs @ rest"
    and "rest = [] \<or> hd rest = LNil" "xs \<noteq> []" "alloc_ok E w"
  shows "(\<exists>ys. exec_argv A s = map Some xs @ None # ys) \<and> length (exec_argv A s) = Suc (length (stk s)) \<and>
    last (exec_argv A s) = None \<and>
    ixlb_exec E A L w = Inl (if ask E (Proc (SysExecvp (hd xs))) (snd (malloc E w)) = -1 then Assertion else Replaced)"
proof -
  from exec_argv_exec [OF assms(1), OF assms(4,5)] obtain ys where e: "exec_argv A s = map Some xs @ None # ys"
    "length (exec_argv A s) = Suc (length (stk s))" "last (exec_argv A s) = None" by blast
  then have "hd (exec_argv A s) = Some (hd xs)" using assms(6) by (cases xs) simp_all
  then have "ixlb_exec E A L w =
      Inl (if ask E (Proc (SysExecvp (hd xs))) (snd (malloc E w)) = -1 then Assertion else Replaced)"
    using assms(2,3,7) by (simp add: ixlb_exec_def cstmt ext_def ask_def Let_def)
  with e show ?thesis by blast
qed

theorem exec_arguments_witness:
  "\<exists>ys. exec_argv plain_lua ([LString ''ls'', LNil, LString ''-l''], \<lambda>t n. LNil) = Some ''ls'' # None # ys \<and>
     ixlb_exec calm plain_lua 1 (start_world\<lparr>luas := [1 \<mapsto> ([LString ''ls'', LNil, LString ''-l''], \<lambda>t n. LNil)]\<rparr>) = Inl Replaced"
  using exec_arguments [OF plain_documented, of 1
      "start_world\<lparr>luas := [1 \<mapsto> ([LString ''ls'', LNil, LString ''-l''], \<lambda>t n. LNil)]\<rparr>"
      "([LString ''ls'', LNil, LString ''-l''], \<lambda>t n. LNil)" "[''ls'']" "[LNil, LString ''-l'']" calm]
    plentiful_alloc [OF calm_plentiful, of "start_world\<lparr>luas := [1 \<mapsto> ([LString ''ls'', LNil, LString ''-l''], \<lambda>t n. LNil)]\<rparr>"]
  by (auto simp: ask_def) (simp add: calm_def)

text \<open>
  C35: a coroutine's callback.  When the child of \<open>iojx.co.spawn_process\<close> ends, what is called with the
  coroutine, the pid, the status and 0 is the value at the bottom of the main state's stack, after
  \<open>ixlu_resume\<close> has been pushed on its top.  So it is \<open>ixlu_resume\<close> exactly if the stack was empty
  or \<open>ixlu_resume\<close> was at its bottom before, as it is after a first callback on an empty stack: the
  callbacks of a script that leaves the main stack empty all go to \<open>ixlu_resume\<close>, and while something
  else lies at its bottom, such as the message of a script that failed, none does.  Each callback
  leaves one value on the stacks of both states.
\<close>

theorem coroutine_callback:
  fixes w :: "('l, 'a) luaworld_scheme"
  assumes "lua_documented A stk tab" "a \<noteq> 0" "termargs w a = Some x"
    and "Lco = ta_data x" "Lco \<noteq> 0" "luas w Lco = Some co" "tab co 1 ''_context'' = LLight ctx"
    and "ctx \<noteq> 0" "contexts w ctx = Some c" "L = state c" "L \<noteq> 0" "L \<noteq> Lco" "luas w L = Some s"
  shows "\<exists>co' s'. stk co' = stk co @ [LLight ctx] \<and> stk s' = stk s @ [LCFun FP_resume] \<and>
    (hd (stk s') = LCFun FP_resume \<longleftrightarrow> stk s = [] \<or> hd (stk s) = LCFun FP_resume) \<and>
    (stk s \<noteq> [] \<longrightarrow> hd (stk s') = hd (stk s)) \<and>
    spawn_co_fn A call a w =
      call (hd (stk s')) [int Lco, ta_pid x, sint (ta_status x), sint (ta_term_signal x)]
        (w\<lparr>luas := (luas w)(Lco \<mapsto> co', L \<mapsto> s')\<rparr>)"
proof -
  note l = lua_simps [OF assms(1)]
  from get_cur_ctx_exec [OF assms(1), OF assms(5,6,7)] obtain co' where
    co: "ixlb_get_cur_ctx A Lco w = Inr (ctx, w\<lparr>luas := (luas w)(Lco \<mapsto> co')\<rparr>)" "stk co' = stk co @ [LLight ctx]" by blast
  let ?s = "l_pushcfunction A FP_resume s"
  have s: "stk ?s = stk s @ [LCFun FP_resume]" by (simp add: l(7))
  then have "fst (fromCFunction A FP_resume s) = (if stk s = [] then LCFun FP_resume else hd (stk s))"
    by (simp add: fromCFunction_def l(2) at_bottom)
  then have "fromCFunction A FP_resume s = (if stk s = [] then LCFun FP_resume else hd (stk s), ?s)"
    by (simp add: fromCFunction_def Let_def)
  then have "spawn_co_fn A call a w =
      call (if stk s = [] then LCFun FP_resume else hd (stk s))
        [int Lco, ta_pid x, sint (ta_status x), sint (ta_term_signal x)]
        (w\<lparr>luas := (luas w)(Lco \<mapsto> co', L \<mapsto> ?s)\<rparr>)"
    using assms(2-4,8-13) co(1) by (simp add: spawn_co_fn_def get_targs_def cstmt)
  moreover have "hd (stk ?s) = (if stk s = [] then LCFun FP_resume else hd (stk s))"
    unfolding s by simp
  ultimately show ?thesis
    using co(2) s by (intro exI [of _ co'] exI [of _ ?s]) (simp split: if_splits)
qed

text \<open>A main state with an error message left on its stack, and a coroutine.\<close>

definition co_world :: "plain luaworld" where
  "co_world = start_world\<lparr>contexts := [1 \<mapsto> \<lparr>state = 2, evl = 9\<rparr>],
     termargs := [4 \<mapsto> \<lparr>ta_data = 3, ta_cb = FP_spawn_co, ta_pid = 77, ta_status = 0, ta_term_signal = 0\<rparr>],
     luas := [2 \<mapsto> ([LString ''failed''], \<lambda>t n. LNil), 3 \<mapsto> ([], (\<lambda>t n. LNil)(1 := (\<lambda>n. LLight 1)))]\<rparr>"

theorem coroutine_callback_witness:
  "spawn_co_fn plain_lua (\<lambda>f xs w. if f = LCFun FP_resume then Inr w else Inl NoReturn) 4 co_world = Inl NoReturn"
  using coroutine_callback [OF plain_documented, of 4 co_world _ 3 "([], (\<lambda>t n. LNil)(1 := (\<lambda>n. LLight 1)))" 1
      "\<lparr>state = 2, evl = 9\<rparr>" 2 "([LString ''failed''], \<lambda>t n. LNil)"
      "\<lambda>f xs w. if f = LCFun FP_resume then Inr w else Inl NoReturn"]
  by (auto simp: co_world_def)

text \<open>
  \<open>ixlu_resume\<close> hands all its arguments after the coroutine over to the coroutine, in order, and
  resumes it with their number; its own stack keeps the coroutine only.
\<close>

theorem resume_hands_over:
  fixes w :: "('l, 'a) luaworld_scheme"
  assumes "lua_documented A stk tab" "L \<noteq> 0" "luas w L = Some s" "stk s = LLight Lco # xs"
    and "Lco \<noteq> 0" "Lco \<noteq> L" "luas w Lco = Some co"
  shows "\<exists>s' co'. stk s' = [LLight Lco] \<and> stk co' = stk co @ xs \<and>
    ixlu_resume A resume L w =
      bnd (resume Lco (length xs) (w\<lparr>luas := (luas w)(L \<mapsto> s', Lco \<mapsto> co')\<rparr>)) (\<lambda>w. Inr (0, w))"
proof -
  note l = lua_simps [OF assms(1)]
  obtain s' co' where x: "l_xmove A (length xs) s co = (s', co')" by fastforce
  then have s: "stk s' = [LLight Lco]" "stk co' = stk co @ xs"
    using xmove_stacks [OF assms(1), of "length xs" s co s' co'] by (simp_all add: assms(4))
  have "at_index (stk s) 1 = LLight Lco" by (simp add: assms(4) at_index_def)
  then have "l_touserdata A 1 s = Lco" by (rule l(23))
  then have "ixlu_resume A resume L w =
      bnd (resume Lco (length xs) (w\<lparr>luas := (luas w)(L \<mapsto> s', Lco \<mapsto> co')\<rparr>)) (\<lambda>w. Inr (0, w))"
    using assms(2-7) x by (simp add: ixlu_resume_def cstmt l(1))
  with s show ?thesis by blast
qed

theorem resume_hands_over_witness:
  "\<exists>v. ixlu_resume plain_lua (\<lambda>L n w. Inr w) 2 (co_world\<lparr>luas := [2 \<mapsto> ([LLight 3, LString ''x''], \<lambda>t n. LNil), 3 \<mapsto> ([], \<lambda>t n. LNil)]\<rparr>) = Inr (0, v)"
  using resume_hands_over [OF plain_documented, of 2
      "co_world\<lparr>luas := [2 \<mapsto> ([LLight 3, LString ''x''], \<lambda>t n. LNil), 3 \<mapsto> ([], \<lambda>t n. LNil)]\<rparr>"
      "([LLight 3, LString ''x''], \<lambda>t n. LNil)" 3 "[LString ''x'']" "([], \<lambda>t n. LNil)" "\<lambda>L n w. Inr w"]
  by auto

end
