(* ===== verification/Registration.thy ===== *)
theory Registration
  imports Prelude
begin

text \<open>
  What scripts can call: the two registrations (luafound.cxx, luafoundx.cxx), as the sequence of the
  LuaBridge calls they chain, and the names these calls define.
\<close>

section \<open>The registrations\<close>

text \<open>
  The calls, with the name given to the script and the C++ entity behind it; the template
  arguments that only serve the conversion of parameters are left out.
\<close>

datatype reg =
    Begin_namespace string
  | End_namespace
  | Begin_class string string
  | End_class
  | Add_function string string
  | Add_cfunction string string
  | Add_data string string
  | Add_constructor

definition ixlb_reg_interface :: "reg list" where
  "ixlb_reg_interface =
     [Begin_namespace ''iojx'',
      Begin_class ''ixc_context'' ''ixc_context'',
      End_class,
      Add_function ''current_context'' ''ixlb_get_cur_ctx'',
      Add_function ''enable_termcb'' ''ixc_enable_termcb'',
      Add_function ''disable_termcb'' ''ixc_disable_termcb'',
      Add_function ''spawn_process'' ''ixlb_spawn_process'',
      Begin_namespace ''sock'',
      Begin_class ''ixfd_sock'' ''socket'',
      End_class,
      Begin_class ''ixfd_conn_ctx'' ''context'',
      Add_data ''fd'' ''ixfd_conn_ctx::fd'',
      End_class,
      Add_function ''create'' ''ixlb_sock_create'',
      Add_function ''free'' ''ixfd_commonsock_free'',
      Begin_namespace ''tcp'',
      Add_function ''bind_ip'' ''ixfd_commonsock_tcp_createnbind'',
      Add_function ''connect'' ''ixlb_sock_connect'',
      Add_function ''listen'' ''ixfd_commonsock_tcp_listen'',
      End_namespace,
      Add_function ''setreadbuflen'' ''ixfd_commonsock_set_bufread_len'',
      Add_function ''write'' ''ixlb_sock_write'',
      Add_function ''set_read_callback'' ''ixlb_sock_set_read_callback'',
      End_namespace,
      Begin_namespace ''timer'',
      Begin_class ''ixut_timer'' ''timer'',
      End_class,
      Add_function ''create'' ''ixut_timer_create'',
      Add_function ''free'' ''ixut_timer_free'',
      Add_function ''start'' ''ixlb_timer_start'',
      Add_function ''stop'' ''ixut_timer_stop'',
      Add_function ''again'' ''ixut_timer_again'',
      Add_function ''setimeout'' ''ixut_timer_setimeout'',
      Add_function ''tick'' ''ixut_timer_tick'',
      End_namespace,
      Begin_namespace ''util'',
      Begin_class ''FILE'' ''cFILE'',
      End_class,
      Add_function ''fork'' ''ixlb_fork'',
      Add_function ''getpid'' ''ixlb_getpid'',
      Add_function ''init_loop'' ''ixlb_init_loop'',
      Add_function ''run'' ''ixlb_run'',
      Add_function ''break_loop'' ''ixlb_break_loop'',
      Add_cfunction ''exec'' ''ixlb_exec'',
      Add_function ''freopen'' ''ixlb_freopen'',
      Add_function ''stdin'' ''ixlb_get_stdin'',
      Add_function ''stderr'' ''ixlb_get_stderr'',
      Add_function ''stdout'' ''ixlb_get_stdout'',
      Add_function ''fflush'' ''ixlb_fflush'',
      Add_function ''WEXITSTATUS'' ''ixlb_wexitstatus'',
      Add_function ''WTERMSIG'' ''ixlb_wtermsig'',
      Add_function ''WIFEXITED'' ''ixlb_wifexited'',
      Add_function ''WIFSIGNALED'' ''ixlb_wifsignaled'',
      Add_function ''WIFSTOPPED'' ''ixlb_wifstopped'',
      Add_function ''WSTOPSIG'' ''ixlb_wstopsig'',
      End_namespace,
      Begin_namespace ''child_process'',
      Begin_class ''ixut_child_watcher'' ''watcher'',
      End_class,
      Begin_class ''ixut_child_exitstatus'' ''status'',
      Add_data ''status_raw'' ''ixut_child_exitstatus::status_raw'',
      Add_data ''status'' ''ixut_child_exitstatus::status'',
      Add_data ''exit_cause'' ''ixut_child_exitstatus::exit_cause'',
      Add_data ''termsig'' ''ixut_child_exitstatus::term_sig'',
      End_class,
      Add_function ''create'' ''ixut_childw_create'',
      Add_function ''free'' ''ixut_childw_free'',
      Add_function ''start'' ''ixlb_childw_start'',
      Add_function ''getpid'' ''ixut_childw_getpid'',
      Add_function ''getstatus'' ''ixut_childw_getstatus'',
      End_namespace,
      Begin_namespace ''sandbox'',
      Add_function ''reslimit'' ''ixut_reslimit'',
      Add_function ''reslimit_d'' ''ixut_reslimit_d'',
      Add_function ''setuid'' ''ixut_setuid'',
      Add_function ''setgid'' ''ixut_setgid'',
      End_namespace,
      Begin_namespace ''platform'',
      Add_function ''execpath'' ''ixut_execpath'',
      Add_function ''syscall_name'' ''ixut_syscall_name'',
      End_namespace,
      Begin_namespace ''co'',
      Add_function ''spawn_process'' ''ixlb_spawn_process_co'',
      End_namespace,
      End_namespace]"

definition ixlbx_reg_interface :: "reg list" where
  "ixlbx_reg_interface =
     [Begin_namespace ''iojxx'',
      Begin_class ''ixlbx_ref_base'' ''base'',
      Add_constructor,
      End_class,
      Begin_class ''ixlbx_timer'' ''timer'',
      Add_constructor,
      Add_function ''start'' ''ixlbx_timer::start'',
      End_class,
      Begin_class ''ixlbx_fork'' ''fork'',
      Add_constructor,
      Add_data ''pid'' ''ixlbx_fork::pid'',
      End_class,
      Begin_class ''ixlbx_child_watcher'' ''child_watcher'',
      Add_constructor,
      Add_function ''start'' ''ixlbx_child_watcher::start'',
      Add_function ''get_status'' ''ixlbx_child_watcher::get_status'',
      End_class,
      Begin_class ''ixlbx_tcp_base'' ''ixlbx_tcp_base'',
      Add_constructor,
      Add_function ''start'' ''ixlbx_tcp_base::start'',
      Add_function ''on_read'' ''ixlbx_tcp_base::on_read'',
      Add_function ''on_accept'' ''ixlbx_tcp_base::on_accept'',
      Add_function ''on_close'' ''ixlbx_tcp_base::on_close'',
      Add_function ''close'' ''ixlbx_tcp_base::close'',
      End_class,
      Begin_class ''ixlbx_socket_context'' ''ixlbx_socket_context'',
      Add_function ''write'' ''ixlbx_socket_context::write'',
      Add_function ''close'' ''ixlbx_socket_context::close'',
      Add_function ''is_active'' ''ixlbx_socket_context::is_active'',
      Add_function ''sock'' ''ixlbx_socket_context::sock'',
      Add_data ''data'' ''ixlbx_socket_context::data'',
      End_class,
      End_namespace]"

section \<open>What they define\<close>

text \<open>
  LuaBridge documents that namespaces and classes nest, that data belongs to classes, that
  \<open>endNamespace\<close> and \<open>endClass\<close> close what was opened last, and that a class with a constructor is
  called by its own name.  \<open>names sc rs\<close> are the names defined by the rest \<open>rs\<close> of a chain inside
  the scopes \<open>sc\<close>, the innermost first, True for a class; None when a call does not fit.
\<close>

type_synonym scope = "(bool \<times> string) list"

definition path :: "scope \<Rightarrow> string list" where
  "path sc = rev (map snd sc)"

definition in_class :: "scope \<Rightarrow> bool" where
  "in_class sc = (case sc of [] \<Rightarrow> False | (b, _) # _ \<Rightarrow> b)"

fun names :: "scope \<Rightarrow> reg list \<Rightarrow> (string list \<times> string) list option" where
  "names sc [] = (if sc = [] then Some [] else None)"
| "names sc (Begin_namespace n # rs) = (if in_class sc then None else names ((False, n) # sc) rs)"
| "names sc (Begin_class t n # rs) = (if in_class sc \<or> sc = [] then None else names ((True, n) # sc) rs)"
| "names sc (End_namespace # rs) = (if in_class sc \<or> sc = [] then None else names (tl sc) rs)"
| "names sc (End_class # rs) = (if in_class sc then names (tl sc) rs else None)"
| "names sc (Add_function n f # rs) = (if sc = [] then None else map_option (Cons (path sc @ [n], f)) (names sc rs))"
| "names sc (Add_cfunction n f # rs) = (if sc = [] then None else map_option (Cons (path sc @ [n], f)) (names sc rs))"
| "names sc (Add_data n f # rs) = (if in_class sc then map_option (Cons (path sc @ [n], f)) (names sc rs) else None)"
| "names sc (Add_constructor # rs) = (if in_class sc then map_option (Cons (path sc, [])) (names sc rs) else None)"

section \<open>The names\<close>

text \<open>Both chains of calls are properly nested; together they define 72 names, none of them twice.\<close>

lemma registrations_nested:
  "case names [] (ixlb_reg_interface @ ixlbx_reg_interface) of
     None \<Rightarrow> False
   | Some t \<Rightarrow> distinct (map fst t) \<and> length t = 72"
  by code_simp

end
