(* ===== verification/Spec2Isabelle.thy ===== *)
theory Spec2Isabelle
  imports CycqueueTest TimerProps ChildprocessProps Syscallname SockWrite SockInv SockServer LuafoundxProps LuaProps
    Registration
begin

text \<open>
  Verification of iojxd, an event-driven daemon written in C++ that runs Lua scripts (an online judge) over
  libev.  The root theory only gathers the others; this text is their guide.

  The program.  main (iojxd.cxx) makes a context (context.cxx: a Lua state and libev's default loop), runs a
  script and then the loop.  The script reaches the C++ code through two interfaces, \<open>iojx\<close>
  (luafound.cxx, plain functions with a Lua callback each) and \<open>iojxx\<close> (luafoundx.cxx, classes held
  by LuaBridge's counted pointers).  Both rest on the same components: timers (timer.cxx), child processes
  (childprocess.cxx, child\_termcb.cxx), sockets (sock.cxx), a circular queue (util.cxx), names of system calls
  (losyscall.cxx), limits (sandbox.cxx) and the path of the executable (platformed.cxx).  Every component
  allocates structs with malloc, hands a watcher with a handler to libev, and calls a user's function pointer
  from the handler.

  How the code is modelled.  Theory Prelude has the results (a value, or a fault: failed assertion, access
  through NULL or to freed memory, bad free, access out of bounds, abort, exec, no return), their sequencing
  \<open>bnd\<close>, and typed heap cells: each struct type has its own partial map from addresses, addresses
  are never reused, so an access to freed memory is always seen.  Theory Machine has the calls that leave src/
  (kernel, libc, libev, function pointers, Lua functions, counted pointers): a call is recorded in the history
  of the process with its result, and what it returns is a parameter, the environment \<open>env\<close>, a
  function of the whole history; user callbacks and the functions of the script are parameters too, functions
  from a state to a result.  What a theorem needs to know of a callee is a named hypothesis:
  \<open>read_ok\<close>, \<open>write_ok\<close> and \<open>readlink_ok\<close> (results within their
  documented range), \<open>plentiful\<close> (malloc does not refuse), \<open>honest\<close> (libev's questions
  are answered according to the history), \<open>counts_refs\<close> (a counted pointer deletes its object when
  it is the last one), \<open>lua_documented\<close> and \<open>opens_libs\<close> (Lua's manual); what it needs
  of a callback or a script is one too: \<open>keeps\<close>, \<open>keeps_timers\<close> (it preserves the
  component's invariant), \<open>leaves_writes\<close>, \<open>script_quiet\<close> (it returns and leaves the
  process alone).  Each is satisfied by a concrete instance in a witness.  The state is one record, extended
  heap by heap: world, qworld (queue), sworld (sockets), tworld (timers), cworld (children), lworld (first
  interface), xworld (second interface), luaworld (Lua states), so that operations of different components act
  on the same process.  A loop that might run forever is a partial function whose value None is that it does; no
  fuel is used.  Function and field names are those of the source; a suffix or prefix avoids clashes
  (\<open>s_fd\<close>, \<open>c_fd\<close>); \<open>size_t\<close>, \<open>int\<close> results of read and
  status words are machine words.

  Theories by component:
  Cycqueue, CycqueueSpec, CycqueueTest: the queue of util.cxx as a ring of nodes, its operations, the FIFO
    contract as a locale with a simulation, instantiated by the code's operations; the unit test of
    test/test\_cycqueue.cxx.
  Timer, TimerSpec, TimerProps: timer.cxx, all operations and both handlers; which watchers are armed is read
    off the history, as libev documents it: one that expires is disarmed unless its repeat value is positive;
    reachable states and their invariant, for callers that keep to libev's rules on running watchers; a
    two-state abstract machine for one-shot timers; deadlines of timeouts.
  Childprocess, ChildprocessProps: childprocess.cxx and child\_termcb.cxx, fork and spawn, watchers, decoding of
    wait statuses.
  Syscallname: the switch of losyscall.cxx, the SYS\_ macros being a parameter.
  Sock, SockSpec, SockConn, SockWrite, SockRead, SockServer, SockInv: sock.cxx, all functions; live connections
    and pending writes; creation and destruction; the byte stream; the read handler and buffer; listening,
    accepting, disconnecting; the invariant of a connection under all its operations.
  Luafound, LuafoundProps: the wrappers of luafound.cxx with their lambdas; a connect from the script's call to
    its outcome; read callbacks.
  Luafoundx, LuafoundxProps: the classes of luafoundx.cxx, with references to themselves and dynamic dispatch of
    destructors; the lives of timer, child and connection objects.  A call that passes a counted pointer leaves
    one in a userdata of Lua; its collection is a release at any later time.
  Platform: platform.hxx as a function on macros, the executable's path, directory names, limits.
  Lua, LuaProps: search path, registry, context, main, exec, coroutines, over Lua's C interface as a parameter.
  Registration: both script interfaces as data and the names they define, which nest and are distinct.

  Lemma groups.  Lemmas in the collection \<open>cstmt\<close> execute one statement on a known heap;
  \<open>..._exec\<close> lemmas give the whole outcome of an operation; \<open>..._owns\<close>,
  \<open>..._inv\<close> and \<open>..._keeps\<close> lemmas say that it keeps an invariant.  Theorems are the
  properties, each with a witness, \<open>..._witness\<close>, that applies it to a concrete state.  The
  properties numbered C1 to C40 are the main ones; a few further theorems without a number record smaller facts
  and defects.

  What the properties show.  The queue refines a FIFO list and its freeing loop ends; timers keep every armed
  watcher attached to a live timer, and one-shot timers refine an abstract machine; connections stay well formed
  under every sequence of operations short of the write handler; partial writes lose no byte; handlers run
  callbacks exactly when and with what they should; objects of the second interface live exactly as long as the
  loop or the script needs them; setting up, running and tearing down the program is balanced.  Where the code
  fails its own purpose the property states the failure: timeouts lost at their deadline or firing on a watcher
  that goes on repeating, writes that report errors as success or overtake pending ones, the write handler that
  frees its connection, closing callbacks that free what is used next, objects that abort the process.

  Not modelled, because it is not part of the daemon's C++ logic: libev, LuaBridge and Lua (parameters, see
  above); the conversion of parameters between Lua and C++ (LuaBridge's Stack, one specialisation of which is in
  lbext.hxx); the headers that hold prototypes only; the stand-alone experiments test/looptest.cxx,
  test/test\_sort.cxx and test/test\_reslimit.cxx; the Lua scripts under oj and lib, which are not C++.
  Abstractions: freeing a watcher that libev still has started (\<open>ixfd_commonsock_freectx\<close>), or
  the object such a watcher points at (\<open>ixut_timer_free\<close>), is not a fault by itself; it shows as
  one when the next event of the watcher is delivered and its handler reads freed memory.  Floating-point time is real; wait statuses
  follow the Linux macros; an \<open>ev_tstamp\<close> is what \<open>ev_now\<close> reads at that point of the
  history; a format string stands for the line printf writes.
\<close>

end
